(* ===== verification/Prelude.thy ===== *)
theory Prelude
  imports Main "HOL-Library.AList"
begin

text \<open>
  Shared vocabulary of the development.

  \<^item> A JavaScript \<^verbatim>\<open>throw\<close> is a value of the left summand: an operation that may
    throw has type \<open>'err + 'a\<close>, \<open>Inl\<close> being the thrown error.
    \<open>ebind\<close> sequences two such operations, \<open>efold\<close> runs one over a list
    and stops at the first error, as a \<^verbatim>\<open>for\<close> loop whose body throws does.
  \<^item> An insertion-ordered \<^verbatim>\<open>Map\<close> is an association list updated with
    \<^const>\<open>AList.update\<close>, which keeps the position of an existing key and appends a
    new one.
  \<^item> The three projectors of the program (task state, Task Graph, task execution) and the
    event-log checker all are folds of a step over the session's event list.  The locales
    \<open>projector\<close> and \<open>projector_evolution\<close> state that shape once: an invariant that
    holds initially and is kept by every accepted event holds after every accepted log, an
    accepted log has only accepted prefixes, and what one event may do to the state is what a
    whole log may do to it.
\<close>

section \<open>Proof collections\<close>

named_theorems err_simps \<open>inversion rules for successful and failing operations\<close>
named_theorems step_defs \<open>definitions of the operations of a state machine\<close>

section \<open>Operations that may throw\<close>

definition ebind :: "'err + 'a \<Rightarrow> ('a \<Rightarrow> 'err + 'b) \<Rightarrow> 'err + 'b" where
  "ebind m f = (case m of Inl e \<Rightarrow> Inl e | Inr x \<Rightarrow> f x)"

lemma ebind_Inl [simp]: "ebind (Inl e) f = Inl e"
  by (simp add: ebind_def)

lemma ebind_Inr [simp]: "ebind (Inr x) f = f x"
  by (simp add: ebind_def)

lemma ebind_eq_Inr [err_simps]: "ebind m f = Inr y \<longleftrightarrow> (\<exists>x. m = Inr x \<and> f x = Inr y)"
  by (cases m) (auto simp: ebind_def)

lemma ebind_eq_Inl [err_simps]:
  "ebind m f = Inl e \<longleftrightarrow> m = Inl e \<or> (\<exists>x. m = Inr x \<and> f x = Inl e)"
  by (cases m) (auto simp: ebind_def)

lemma if_Inl_eq_Inr [err_simps]: "(if b then Inl e else m) = Inr y \<longleftrightarrow> \<not> b \<and> m = Inr y"
  by auto

text \<open>\<open>orelse_throw\<close> reads an optional value, throwing where the source finds \<^verbatim>\<open>undefined\<close>.\<close>

definition orelse_throw :: "'a option \<Rightarrow> 'err \<Rightarrow> 'err + 'a" where
  "orelse_throw x e = (case x of None \<Rightarrow> Inl e | Some v \<Rightarrow> Inr v)"

lemma orelse_throw_simps [simp]:
  "orelse_throw None e = Inl e" "orelse_throw (Some v) e = Inr v"
  by (simp_all add: orelse_throw_def)

lemma orelse_throw_eq_Inr [err_simps]: "orelse_throw x e = Inr v \<longleftrightarrow> x = Some v"
  by (cases x) auto

section \<open>Folding a throwing step over a list\<close>

fun efold :: "('s \<Rightarrow> 'e \<Rightarrow> 'err + 's) \<Rightarrow> 's \<Rightarrow> 'e list \<Rightarrow> 'err + 's" where
  "efold f s [] = Inr s"
| "efold f s (x # xs) = ebind (f s x) (\<lambda>s'. efold f s' xs)"

lemma efold_append: "efold f s (xs @ ys) = ebind (efold f s xs) (\<lambda>s'. efold f s' ys)"
  by (induction xs arbitrary: s) (auto simp: ebind_def split: sum.splits)

lemma efold_prefix:
  assumes "efold f s (xs @ ys) = Inr t"
  obtains u where "efold f s xs = Inr u" "efold f u ys = Inr t"
  using assms by (auto simp: efold_append err_simps)

lemma efold_inv:
  assumes "efold f s xs = Inr t" "P s"
    and "\<And>s x s'. P s \<Longrightarrow> x \<in> set xs \<Longrightarrow> f s x = Inr s' \<Longrightarrow> P s'"
  shows "P t"
  using assms
proof (induction xs arbitrary: s)
  case Nil
  then show ?case by simp
next
  case (Cons x xs)
  from Cons.prems(1) obtain s' where s': "f s x = Inr s'" "efold f s' xs = Inr t"
    by (auto simp: err_simps)
  have "P s'" by (rule Cons.prems(3) [OF Cons.prems(2) _ s'(1)]) simp
  with s'(2) show ?case by (rule Cons.IH) (rule Cons.prems(3), simp_all)
qed

section \<open>Projectors over an event log\<close>

text \<open>An invariant that relates the state to the events read so far.\<close>

locale log_projector =
  fixes step :: "'s \<Rightarrow> 'e \<Rightarrow> 'err + 's"
    and init :: 's
    and inv :: "'e list \<Rightarrow> 's \<Rightarrow> bool"
  assumes log_init: "inv [] init"
    and log_step: "inv es s \<Longrightarrow> step s e = Inr s' \<Longrightarrow> inv (es @ [e]) s'"
begin

lemma log_run: "efold step init es = Inr t \<Longrightarrow> inv es t"
  by (induction es arbitrary: t rule: rev_induct) (auto simp: efold_append err_simps log_init intro: log_step)

lemma log_prefix:
  assumes "efold step init (es @ fs) = Inr t"
  obtains u where "efold step init es = Inr u" "inv es u" "efold step u fs = Inr t"
  using assms by (elim efold_prefix) (auto dest: log_run)

end

locale projector =
  fixes step :: "'s \<Rightarrow> 'e \<Rightarrow> 'err + 's"
    and init :: 's
    and inv :: "'s \<Rightarrow> bool"
  assumes inv_init: "inv init"
    and inv_step: "inv s \<Longrightarrow> step s e = Inr s' \<Longrightarrow> inv s'"
begin

lemma inv_efold: "inv s \<Longrightarrow> efold step s es = Inr t \<Longrightarrow> inv t"
  by (rule efold_inv [of step s es t inv]) (auto intro: inv_step)

lemma inv_run: "efold step init es = Inr t \<Longrightarrow> inv t"
  using inv_init inv_efold by blast

lemma inv_prefix:
  "efold step init (es @ fs) = Inr t \<Longrightarrow> \<exists>u. efold step init es = Inr u \<and> inv u \<and> efold step u fs = Inr t"
  by (elim efold_prefix) (auto intro: inv_run)

end

sublocale projector \<subseteq> log: log_projector step init "\<lambda>_. inv"
  by unfold_locales (auto intro: inv_init inv_step)

locale projector_evolution = projector step init inv
  for step :: "'s \<Rightarrow> 'e \<Rightarrow> 'err + 's" and init :: 's and inv :: "'s \<Rightarrow> bool" +
  fixes evolves :: "'s \<Rightarrow> 's \<Rightarrow> bool"
  assumes evolves_refl: "evolves s s"
    and evolves_trans: "evolves s t \<Longrightarrow> evolves t u \<Longrightarrow> evolves s u"
    and evolves_step: "inv s \<Longrightarrow> step s e = Inr s' \<Longrightarrow> evolves s s'"
begin

lemma evolves_efold: "inv s \<Longrightarrow> efold step s es = Inr t \<Longrightarrow> evolves s t"
proof (induction es arbitrary: s)
  case Nil
  then show ?case by (simp add: evolves_refl)
next
  case (Cons e es)
  then obtain s' where s': "step s e = Inr s'" "efold step s' es = Inr t"
    by (auto simp: err_simps)
  with Cons.prems have "inv s'" by (blast intro: inv_step)
  with Cons s' show ?case by (blast intro: evolves_trans evolves_step)
qed

lemma evolves_prefix:
  assumes "efold step init (es @ fs) = Inr t"
  obtains u where "efold step init es = Inr u" "inv u" "evolves u t"
  using inv_prefix [OF assms] evolves_efold by blast

end

section \<open>Lists updated in place\<close>

lemma list_update_set: "x \<in> set (xs[i := v]) \<Longrightarrow> x = v \<or> x \<in> set xs"
  using set_update_subset_insert [of xs i v] by blast

lemma nth_list_update_cases:
  "i < length xs \<Longrightarrow> xs[j := v] ! i = (if i = j then v else xs ! i)"
  by (simp add: nth_list_update)

lemma find_eq_Some: "find P xs = Some x \<Longrightarrow> x \<in> set xs \<and> P x"
  by (auto simp: find_Some_iff)

lemma find_eq_None: "find P xs = None \<longleftrightarrow> (\<forall>x\<in>set xs. \<not> P x)"
  by (auto simp: find_None_iff)

lemma find_distinct_key:
  "distinct (map k xs) \<Longrightarrow> x \<in> set xs \<Longrightarrow> find (\<lambda>y. k y = k x) xs = Some x"
  by (induction xs) (auto simp: image_iff)

text \<open>\<open>findIndex\<close> is \<^verbatim>\<open>Array.prototype.findIndex\<close>, with \<open>None\<close> for \<^verbatim>\<open>-1\<close>.\<close>

fun findIndex :: "('a \<Rightarrow> bool) \<Rightarrow> 'a list \<Rightarrow> nat option" where
  "findIndex P [] = None"
| "findIndex P (x # xs) = (if P x then Some 0 else map_option Suc (findIndex P xs))"

lemma findIndex_Some: "findIndex P xs = Some k \<Longrightarrow> k < length xs \<and> P (xs ! k)"
  by (induction xs arbitrary: k) (auto split: if_splits)

lemma findIndex_None: "findIndex P xs = None \<longleftrightarrow> (\<forall>x\<in>set xs. \<not> P x)"
  by (induction xs) auto

text \<open>\<open>map_key k f\<close> updates the object with key \<open>k\<close> wherever the list holds it.\<close>

definition map_key :: "('a \<Rightarrow> 'k) \<Rightarrow> 'k \<Rightarrow> ('a \<Rightarrow> 'a) \<Rightarrow> 'a list \<Rightarrow> 'a list" where
  "map_key key k f xs = map (\<lambda>x. if key x = k then f x else x) xs"

lemma map_map_key: "(\<And>x. h (f x) = h x) \<Longrightarrow> map h (map_key key k f xs) = map h xs"
  by (induction xs) (auto simp: map_key_def)

lemma set_map_key: "set (map_key key k f xs) = (\<lambda>x. if key x = k then f x else x) ` set xs"
  by (simp add: map_key_def)

lemma find_map_key:
  assumes "\<And>x. key (f x) = key x"
  shows "find (\<lambda>x. key x = j) (map_key key k f xs) =
    map_option (\<lambda>x. if j = k then f x else x) (find (\<lambda>x. key x = j) xs)"
  by (induction xs) (auto simp: map_key_def assms)

lemma list_all2_ball:
  "list_all2 P xs ys \<Longrightarrow> (\<And>x y. P x y \<Longrightarrow> Q y \<longleftrightarrow> R x) \<Longrightarrow> (\<forall>y\<in>set ys. Q y) \<longleftrightarrow> (\<forall>x\<in>set xs. R x)"
  by (induction rule: list_all2_induct) auto

section \<open>Lists that only grow\<close>

text \<open>
  \<open>grows R xs ys\<close>: the objects of \<open>xs\<close> still stand at their positions in \<open>ys\<close>, each
  related by \<open>R\<close> to what it was; \<open>ys\<close> may hold more objects.
\<close>

definition grows :: "('a \<Rightarrow> 'a \<Rightarrow> bool) \<Rightarrow> 'a list \<Rightarrow> 'a list \<Rightarrow> bool" where
  "grows R xs ys \<longleftrightarrow> length xs \<le> length ys \<and> (\<forall>i<length xs. R (xs ! i) (ys ! i))"

lemma grows_refl: "(\<And>x. R x x) \<Longrightarrow> grows R xs xs"
  by (simp add: grows_def)

lemma grows_trans:
  "grows R xs ys \<Longrightarrow> grows R ys zs \<Longrightarrow> (\<And>x y z. R x y \<Longrightarrow> R y z \<Longrightarrow> R x z) \<Longrightarrow> grows R xs zs"
  by (auto simp: grows_def)

lemma grows_append: "grows R xs ys \<Longrightarrow> grows R xs (ys @ zs)"
  by (auto simp: grows_def nth_append)

lemma grows_map: "(\<And>x. x \<in> set xs \<Longrightarrow> R x (f x)) \<Longrightarrow> grows R xs (map f xs)"
  by (simp add: grows_def)

lemma grows_update: "(\<And>x. R x x) \<Longrightarrow> (i < length xs \<Longrightarrow> R (xs ! i) v) \<Longrightarrow> grows R xs (xs[i := v])"
  by (auto simp: grows_def nth_list_update_cases)

lemma grows_nth: "grows R xs ys \<Longrightarrow> i < length xs \<Longrightarrow> i < length ys \<and> R (xs ! i) (ys ! i)"
  by (auto simp: grows_def)

section \<open>Insertion-ordered maps\<close>

lemma map_of_update [simp]: "map_of (AList.update k v al) = (map_of al)(k \<mapsto> v)"
  by (simp add: update_conv')

lemma in_set_AList_update: "(k', w) \<in> set (AList.update k v al) \<Longrightarrow> (k', w) = (k, v) \<or> (k', w) \<in> set al"
  by (induction al) (auto split: if_splits)

lemma update_fresh: "k \<notin> fst ` set m \<Longrightarrow> AList.update k v m = m @ [(k, v)]"
  by (induction m) auto

section \<open>Insertion-ordered sets\<close>

text \<open>A JavaScript \<^verbatim>\<open>Set\<close> in insertion order.\<close>

definition setAdd :: "'a \<Rightarrow> 'a list \<Rightarrow> 'a list" where
  "setAdd x xs = (if x \<in> set xs then xs else xs @ [x])"

definition setDelete :: "'a \<Rightarrow> 'a list \<Rightarrow> 'a list" where
  "setDelete x xs = filter (\<lambda>y. y \<noteq> x) xs"

lemma set_ops: "set (setAdd x xs) = insert x (set xs)" "set (setDelete x xs) = set xs - {x}"
  by (auto simp: setAdd_def setDelete_def)

lemma distinct_ops: "distinct xs \<Longrightarrow> distinct (setAdd x xs)" "distinct xs \<Longrightarrow> distinct (setDelete x xs)"
  by (auto simp: setAdd_def setDelete_def)

end
