(* ===== verification/JsText.thy ===== *)
theory JsText
  imports Prelude "HOL-Library.Word" "HOL-Library.List_Lexorder"
begin

text \<open>
  JavaScript strings and the stored-text schema
  (\<^verbatim>\<open>src/src/coordination/task-text-schema.ts\<close>).

  A JavaScript string is a list of UTF-16 code units (\<open>jsstring\<close>).  The string
  iterator, \<^verbatim>\<open>Buffer.byteLength(_, "utf8")\<close> and \<^verbatim>\<open>String.prototype.trim\<close> are those of
  the language; \<open>js\<close> embeds the ASCII literals of the source.  The lemmas relate the
  code-unit view to the code-point view the schema bounds: a string accepted by the schema
  has no lone surrogate, its length in scalar values and in UTF-8 bytes are bounded as the
  options say, and the byte bound is never weaker than the code-unit length.
\<close>

section \<open>Strings\<close>

type_synonym code_unit = "16 word"
type_synonym jsstring = "code_unit list"

definition js :: "string \<Rightarrow> jsstring" where
  "js s = map (\<lambda>c. of_nat (of_char c)) s"

lemma js_Nil [simp]: "js [] = []" and js_Cons [simp]: "js (c # s) = of_nat (of_char c) # js s"
  by (simp_all add: js_def)

definition isHighSurrogate :: "code_unit \<Rightarrow> bool" where
  "isHighSurrogate u \<longleftrightarrow> 0xd800 \<le> u \<and> u \<le> 0xdbff"

definition isLowSurrogate :: "code_unit \<Rightarrow> bool" where
  "isLowSurrogate u \<longleftrightarrow> 0xdc00 \<le> u \<and> u \<le> 0xdfff"

text \<open>The string iterator: a high surrogate followed by a low one is one code point.\<close>

fun codePoints :: "jsstring \<Rightarrow> nat list" where
  "codePoints [] = []"
| "codePoints [u] = [unat u]"
| "codePoints (u # v # s) =
     (if isHighSurrogate u \<and> isLowSurrogate v
      then (0x10000 + (unat u - 0xd800) * 0x400 + (unat v - 0xdc00)) # codePoints s
      else unat u # codePoints (v # s))"

definition utf8Width :: "nat \<Rightarrow> nat" where
  "utf8Width cp = (if cp < 0x80 then 1 else if cp < 0x800 then 2 else if cp < 0x10000 then 3 else 4)"

definition byteLength :: "jsstring \<Rightarrow> nat" where
  "byteLength s = sum_list (map utf8Width (codePoints s))"

definition isJsSpace :: "code_unit \<Rightarrow> bool" where
  "isJsSpace u \<longleftrightarrow> (0x9 \<le> u \<and> u \<le> 0xd) \<or> u = 0x20 \<or> u = 0xa0 \<or> u = 0x1680 \<or>
     (0x2000 \<le> u \<and> u \<le> 0x200a) \<or> u = 0x2028 \<or> u = 0x2029 \<or> u = 0x202f \<or> u = 0x205f \<or>
     u = 0x3000 \<or> u = 0xfeff"

definition trim :: "jsstring \<Rightarrow> jsstring" where
  "trim s = rev (dropWhile isJsSpace (rev (dropWhile isJsSpace s)))"

section \<open>The stored-text schema\<close>

fun hasUnpairedSurrogate :: "jsstring \<Rightarrow> bool" where
  "hasUnpairedSurrogate [] = False"
| "hasUnpairedSurrogate [u] = (isHighSurrogate u \<or> isLowSurrogate u)"
| "hasUnpairedSurrogate (u # v # s) =
     (if isHighSurrogate u
      then (if \<not> isLowSurrogate v then True else hasUnpairedSurrogate s)
      else if isLowSurrogate u then True
      else hasUnpairedSurrogate (v # s))"

definition containsForbiddenControl :: "jsstring \<Rightarrow> bool" where
  "containsForbiddenControl s \<longleftrightarrow>
     (\<exists>cp \<in> set (codePoints s). cp \<le> 0x08 \<or> (0x0b \<le> cp \<and> cp \<le> 0x1f) \<or> (0x7f \<le> cp \<and> cp \<le> 0x9f))"

record text_options =
  maximumBytes :: nat
  maximumScalars :: "nat option"
  minimumScalars :: "nat option"
  nonblank :: bool

datatype text_issue =
    InvalidUnicode
  | NonCanonicalLineEnding
  | ForbiddenControl
  | TooFewScalars
  | TooManyScalars
  | TooManyBytes
  | Blank

definition canonicalStoredTextSchema :: "text_options \<Rightarrow> jsstring \<Rightarrow> text_issue list" where
  "canonicalStoredTextSchema opts value =
     (if hasUnpairedSurrogate value then [InvalidUnicode] else []) @
     (if 0xd \<in> set value then [NonCanonicalLineEnding] else []) @
     (if containsForbiddenControl value then [ForbiddenControl] else []) @
     (let scalarCount = length (codePoints value) in
      (case minimumScalars opts of None \<Rightarrow> [] | Some m \<Rightarrow> if scalarCount < m then [TooFewScalars] else []) @
      (case maximumScalars opts of None \<Rightarrow> [] | Some m \<Rightarrow> if scalarCount > m then [TooManyScalars] else [])) @
     (if byteLength value > maximumBytes opts then [TooManyBytes] else []) @
     (if nonblank opts \<and> trim value = [] then [Blank] else [])"

definition isNonblankCanonicalText :: "jsstring \<Rightarrow> bool" where
  "isNonblankCanonicalText value \<longleftrightarrow> trim value \<noteq> []"

section \<open>Lemmas\<close>

lemma length_codePoints_le: "length (codePoints s) \<le> length s"
  by (induction s rule: codePoints.induct) auto

lemma length_le_2_codePoints: "length s \<le> 2 * length (codePoints s)"
  by (induction s rule: codePoints.induct) auto

lemma utf8Width_bounds: "1 \<le> utf8Width cp" "utf8Width cp \<le> 4"
  by (simp_all add: utf8Width_def)

lemma byteLength_simps [simp]:
  "byteLength [] = 0"
  "byteLength [u] = utf8Width (unat u)"
  "byteLength (u # v # s) =
     (if isHighSurrogate u \<and> isLowSurrogate v then 4 + byteLength s
      else utf8Width (unat u) + byteLength (v # s))"
  by (auto simp: byteLength_def utf8Width_def)

lemma length_le_byteLength: "length s \<le> byteLength s"
proof (induction s rule: codePoints.induct)
  case (2 u)
  then show ?case using utf8Width_bounds by simp
next
  case (3 u v s)
  then show ?case using utf8Width_bounds(1) [of "unat u"] by (auto simp: Suc_le_eq)
qed simp

lemma unit_lt: "unat (u :: code_unit) < 65536"
  using unsigned_less [of u, where ?'a = nat] by simp

lemma byteLength_le: "byteLength s \<le> 3 * length s"
proof (induction s rule: codePoints.induct)
  case (2 u)
  have "unat u < 0x10000" using unit_lt [of u] by simp
  then show ?case by (simp add: utf8Width_def)
next
  case (3 u v s)
  have "unat u < 0x10000" using unit_lt [of u] by simp
  then have "utf8Width (unat u) \<le> 3" by (simp add: utf8Width_def)
  then show ?case using 3 by auto
qed simp

lemma dropWhile_rev_Nil: "rev (dropWhile P (rev (dropWhile P s))) = [] \<longleftrightarrow> (\<forall>x\<in>set s. P x)"
  by (metis dropWhile_eq_Nil_conv rev_is_Nil_conv set_dropWhileD set_rev hd_dropWhile hd_in_set)

lemma trim_eq_Nil: "trim s = [] \<longleftrightarrow> (\<forall>u\<in>set s. isJsSpace u)"
  unfolding trim_def by (rule dropWhile_rev_Nil)

text \<open>Without lone surrogates every code point is a Unicode scalar value.\<close>

definition isScalar :: "nat \<Rightarrow> bool" where
  "isScalar cp \<longleftrightarrow> cp < 0xd800 \<or> (0xdfff < cp \<and> cp \<le> 0x10ffff)"

lemma unat_le_iff: "unat (u :: code_unit) \<le> unat (v :: code_unit) \<longleftrightarrow> u \<le> v"
  by (simp add: word_le_nat_alt)

lemma surrogate_unat:
  "isHighSurrogate u \<longleftrightarrow> 0xd800 \<le> unat u \<and> unat u \<le> 0xdbff"
  "isLowSurrogate u \<longleftrightarrow> 0xdc00 \<le> unat u \<and> unat u \<le> 0xdfff"
  by (simp_all add: isHighSurrogate_def isLowSurrogate_def word_le_nat_alt)

lemma codePoints_scalar: "\<not> hasUnpairedSurrogate s \<Longrightarrow> cp \<in> set (codePoints s) \<Longrightarrow> isScalar cp"
proof (induction s rule: codePoints.induct)
  case (2 u)
  then show ?case using unit_lt [of u] by (auto simp: surrogate_unat isScalar_def)
next
  case (3 u v s)
  show ?case
  proof (cases "isHighSurrogate u \<and> isLowSurrogate v")
    case True
    then have "isScalar (0x10000 + (unat u - 0xd800) * 0x400 + (unat v - 0xdc00))"
      by (auto simp: surrogate_unat isScalar_def)
    with 3 True show ?thesis by auto
  next
    case False
    with 3 have "\<not> isHighSurrogate u" "\<not> isLowSurrogate u" "\<not> hasUnpairedSurrogate (v # s)"
      by (auto split: if_splits)
    moreover have "isScalar (unat u)"
      using calculation unit_lt [of u] by (auto simp: surrogate_unat isScalar_def)
    ultimately show ?thesis using 3 False by auto
  qed
qed simp

text \<open>What acceptance by the schema means.\<close>

lemma canonicalStoredText_accepts_iff:
  "canonicalStoredTextSchema opts value = [] \<longleftrightarrow>
     \<not> hasUnpairedSurrogate value \<and> 0xd \<notin> set value \<and> \<not> containsForbiddenControl value \<and>
     (\<forall>m. minimumScalars opts = Some m \<longrightarrow> m \<le> length (codePoints value)) \<and>
     (\<forall>m. maximumScalars opts = Some m \<longrightarrow> length (codePoints value) \<le> m) \<and>
     byteLength value \<le> maximumBytes opts \<and>
     (nonblank opts \<longrightarrow> isNonblankCanonicalText value)"
  by (auto simp: canonicalStoredTextSchema_def isNonblankCanonicalText_def Let_def split: option.splits)

end
