(* ===== verification/CanonicalJson.thy ===== *)
theory CanonicalJson
  imports JsText "HOL-Library.Multiset"
begin

text \<open>
  Canonical JSON (\<^verbatim>\<open>src/src/completion/canonical-json.ts\<close>), the byte form every content
  hash of the program is taken over.

  \<open>json\<close> is the type of the values the program hands to \<^verbatim>\<open>canonicalJson\<close>: objects are
  lists of own properties in insertion order, numbers are integers (every number the program
  canonicalises is a safe integer) or non-finite.  \<open>jsonQuote\<close> and \<open>showInt\<close> are the
  language's \<^verbatim>\<open>JSON.stringify\<close> on strings and integers.  SHA-256 itself
  (\<^verbatim>\<open>node:crypto\<close>) is not part of the sources: it is the parameter \<open>sha256\<close> of every
  definition that hashes.
\<close>

section \<open>Values\<close>

datatype json =
    JUndefined
  | JNull
  | JBool bool
  | JNumber int
  | JNonFinite
  | JString jsstring
  | JArray "json list"
  | JObject "(jsstring \<times> json) list"

datatype type_error = NonFiniteNumber | CannotEncode

section \<open>\<^verbatim>\<open>JSON.stringify\<close> on scalars\<close>

definition hexDigit :: "nat \<Rightarrow> code_unit" where
  "hexDigit n = of_nat (if n < 10 then 48 + n else 87 + n)"

definition unicodeEscape :: "code_unit \<Rightarrow> jsstring" where
  "unicodeEscape u = (let n = unat u in
     [0x5c, 0x75, hexDigit (n div 4096), hexDigit (n div 256 mod 16), hexDigit (n div 16 mod 16), hexDigit (n mod 16)])"

definition escapeUnit :: "code_unit \<Rightarrow> jsstring" where
  "escapeUnit u =
     (if u = 0x22 then [0x5c, 0x22] else if u = 0x5c then [0x5c, 0x5c]
      else if u = 0x08 then [0x5c, 0x62] else if u = 0x0c then [0x5c, 0x66]
      else if u = 0x0a then [0x5c, 0x6e] else if u = 0x0d then [0x5c, 0x72]
      else if u = 0x09 then [0x5c, 0x74]
      else if u < 0x20 \<or> isHighSurrogate u \<or> isLowSurrogate u then unicodeEscape u
      else [u])"

fun escapeUnits :: "jsstring \<Rightarrow> jsstring" where
  "escapeUnits [] = []"
| "escapeUnits [u] = escapeUnit u"
| "escapeUnits (u # v # s) =
     (if isHighSurrogate u \<and> isLowSurrogate v then u # v # escapeUnits s
      else escapeUnit u @ escapeUnits (v # s))"

definition jsonQuote :: "jsstring \<Rightarrow> jsstring" where
  "jsonQuote s = 0x22 # escapeUnits s @ [0x22]"

fun showNat :: "nat \<Rightarrow> jsstring" where
  "showNat n = (if n < 10 then [of_nat (48 + n)] else showNat (n div 10) @ [of_nat (48 + n mod 10)])"

declare showNat.simps [simp del]

definition showInt :: "int \<Rightarrow> jsstring" where
  "showInt i = (if i < 0 then 0x2d # showNat (nat (- i)) else showNat (nat i))"

section \<open>\<^verbatim>\<open>canonicalJson\<close>\<close>

text \<open>
  \<open>esequence\<close> forces a list of results from left to right; \<open>joinComma\<close> is
  \<^verbatim>\<open>join(",")\<close>.  The fields of an object are filtered, sorted by code units and only then
  encoded, so the first error is that of the first field in sorted order.
\<close>

fun esequence :: "('err + 'a) list \<Rightarrow> 'err + 'a list" where
  "esequence [] = Inr []"
| "esequence (m # ms) = ebind m (\<lambda>x. ebind (esequence ms) (\<lambda>xs. Inr (x # xs)))"

fun joinComma :: "jsstring list \<Rightarrow> jsstring" where
  "joinComma [] = []"
| "joinComma [s] = s"
| "joinComma (s # t # ss) = s @ 0x2c # joinComma (t # ss)"

definition encodeField :: "jsstring \<times> (type_error + jsstring) \<Rightarrow> type_error + jsstring" where
  "encodeField f = ebind (snd f) (\<lambda>s. Inr (jsonQuote (fst f) @ 0x3a # s))"

fun canonicalJson :: "json \<Rightarrow> type_error + jsstring" where
  "canonicalJson JUndefined = Inl CannotEncode"
| "canonicalJson JNull = Inr (js ''null'')"
| "canonicalJson (JBool b) = Inr (js (if b then ''true'' else ''false''))"
| "canonicalJson (JNumber i) = Inr (showInt i)"
| "canonicalJson JNonFinite = Inl NonFiniteNumber"
| "canonicalJson (JString s) = Inr (jsonQuote s)"
| "canonicalJson (JArray vs) =
     ebind (esequence (map canonicalJson vs)) (\<lambda>ss. Inr (0x5b # joinComma ss @ [0x5d]))"
| "canonicalJson (JObject fs) =
     ebind (esequence (map encodeField (sort_key fst
       (concat (map (\<lambda>(k, v). if v = JUndefined then [] else [(k, canonicalJson v)]) fs)))))
       (\<lambda>ss. Inr (0x7b # joinComma ss @ [0x7d]))"

definition sha256Canonical :: "(jsstring \<Rightarrow> string) \<Rightarrow> json \<Rightarrow> type_error + string" where
  "sha256Canonical sha256 v = ebind (canonicalJson v) (\<lambda>s. Inr (sha256 s))"

section \<open>The order of object properties does not matter\<close>

lemma esequence_Inr: "esequence ms = Inr xs \<longleftrightarrow> ms = map Inr xs"
  by (induction ms arbitrary: xs) (auto simp: err_simps map_eq_Cons_conv)

lemma esequence_map_Inr [simp]: "esequence (map Inr xs) = Inr xs"
  by (simp add: esequence_Inr)

definition definedFields :: "(jsstring \<times> json) list \<Rightarrow> (jsstring \<times> json) list" where
  "definedFields fs = filter (\<lambda>f. snd f \<noteq> JUndefined) fs"

lemma concat_defined:
  "concat (map (\<lambda>(k, v). if v = JUndefined then [] else [(k, g v)]) fs) =
   map (\<lambda>(k, v). (k, g v)) (definedFields fs)"
  by (induction fs) (auto simp: definedFields_def)

lemma sort_key_map_fst:
  "sort_key fst (map (\<lambda>(k, v). (k, g v)) fs) = map (\<lambda>(k, v). (k, g v)) (sort_key fst fs)"
proof -
  have insort: "insort_key fst (k, g v) (map (\<lambda>(k, v). (k, g v)) xs) =
    map (\<lambda>(k, v). (k, g v)) (insort_key fst (k, v) xs)" for k v xs
    by (induction xs) auto
  show ?thesis
    by (induction fs) (auto simp: insort)
qed

lemma canonicalJson_object:
  "canonicalJson (JObject fs) =
     ebind (esequence (map (\<lambda>(k, v). encodeField (k, canonicalJson v)) (sort_key fst (definedFields fs))))
       (\<lambda>ss. Inr (0x7b # joinComma ss @ [0x7d]))"
  unfolding canonicalJson.simps concat_defined sort_key_map_fst
  by (simp add: case_prod_unfold comp_def)

declare canonicalJson.simps(8) [simp del]

lemma sort_key_perm:
  assumes "set fs = set gs" "distinct (map fst fs)" "distinct (map fst gs)"
  shows "sort_key fst fs = sort_key fst gs"
proof (rule map_sorted_distinct_set_unique [where f = fst])
  have "inj_on fst (set gs)" using assms(3) by (simp add: distinct_map)
  then show "inj_on fst (set (sort_key fst fs) \<union> set (sort_key fst gs))"
    using assms(1) by simp
  have "mset (map fst (sort_key fst fs)) = mset (map fst fs)" "mset (map fst (sort_key fst gs)) = mset (map fst gs)"
    by simp_all
  then show "distinct (map fst (sort_key fst fs))" "distinct (map fst (sort_key fst gs))"
    using assms(2,3) by (metis mset_eq_imp_distinct_iff)+
qed (use assms(1) in auto)

text \<open>
  The canonical form of an object depends on its set of defined properties only, not on the
  order in which the program built it.
\<close>

lemma canonicalJson_object_perm:
  assumes "set (definedFields fs) = set (definedFields gs)"
    and "distinct (map fst fs)" "distinct (map fst gs)"
  shows "canonicalJson (JObject fs) = canonicalJson (JObject gs)"
proof -
  have "distinct (map fst (definedFields fs))" "distinct (map fst (definedFields gs))"
    using assms(2,3) by (simp_all add: definedFields_def distinct_map_filter)
  then show ?thesis
    using sort_key_perm [OF assms(1)] by (simp add: canonicalJson_object)
qed

section \<open>A bound on the canonical form\<close>

text \<open>
  An upper bound on the number of code units of the canonical form that needs no sorting and
  no escaping: an escape takes at most six units.
\<close>

fun jsonBound :: "json \<Rightarrow> nat" where
  "jsonBound (JNumber i) = length (showInt i)"
| "jsonBound (JString s) = 2 + 6 * length s"
| "jsonBound (JArray vs) = 2 + sum_list (map (\<lambda>v. jsonBound v + 1) vs)"
| "jsonBound (JObject fs) = 2 + sum_list (map (\<lambda>(k, v). 6 * length k + jsonBound v + 4) fs)"
| "jsonBound _ = 5"

lemma length_escapeUnit: "length (escapeUnit u) \<le> 6"
  by (simp add: escapeUnit_def unicodeEscape_def Let_def)

lemma length_escapeUnits: "length (escapeUnits s) \<le> 6 * length s"
proof (induction s rule: escapeUnits.induct)
  case (2 u)
  then show ?case using length_escapeUnit by simp
next
  case (3 u v s)
  then show ?case using length_escapeUnit [of u] by auto
qed simp

lemma length_joinComma: "length (joinComma ss) \<le> sum_list (map (\<lambda>s. length s + 1) ss)"
  by (induction ss rule: joinComma.induct) auto

lemma sum_list_sort_key: "sum_list (map f (sort_key k xs)) = sum_list (map (f :: 'a \<Rightarrow> nat) xs)"
  by (metis mset_map mset_sort sum_mset_sum_list)

lemma sum_list_filter_le: "sum_list (map f (filter P xs)) \<le> sum_list (map (f :: 'a \<Rightarrow> nat) xs)"
  by (induction xs) auto

lemma esequence_length:
  assumes "esequence (map f xs) = Inr ss" "\<And>x s. x \<in> set xs \<Longrightarrow> f x = Inr s \<Longrightarrow> length s + 1 \<le> g x"
  shows "sum_list (map (\<lambda>s. length s + 1) ss) \<le> sum_list (map g xs)"
  using assms
proof (induction xs arbitrary: ss)
  case (Cons x xs)
  then obtain s ss' where "f x = Inr s" "esequence (map f xs) = Inr ss'" "ss = s # ss'"
    by (auto simp: err_simps)
  with Cons.IH [of ss'] Cons.prems(2) [of x s] Cons.prems(2) show ?case by fastforce
qed simp

lemma canonicalJson_length: "canonicalJson v = Inr s \<Longrightarrow> length s \<le> jsonBound v"
proof (induction v arbitrary: s)
  case (JBool b)
  then show ?case by auto
next
  case (JString t)
  then show ?case using length_escapeUnits [of t] by (auto simp: jsonQuote_def)
next
  case (JArray vs)
  then obtain ss where ss: "esequence (map canonicalJson vs) = Inr ss" "s = 0x5b # joinComma ss @ [0x5d]"
    by (auto simp: err_simps)
  have "sum_list (map (\<lambda>s. length s + 1) ss) \<le> sum_list (map (\<lambda>v. jsonBound v + 1) vs)"
    using ss(1) by (rule esequence_length) (use JArray.IH in simp)
  with length_joinComma [of ss] ss(2) show ?case by simp
next
  case (JObject fs)
  let ?enc = "\<lambda>(k, v). encodeField (k, canonicalJson v)"
  let ?fs = "sort_key fst (definedFields fs)"
  from JObject.prems obtain ss where ss: "esequence (map ?enc ?fs) = Inr ss" "s = 0x7b # joinComma ss @ [0x7d]"
    by (auto simp: canonicalJson_object err_simps)
  have "length t + 1 \<le> (\<lambda>(k, v). 6 * length k + jsonBound v + 4) f" if f: "f \<in> set ?fs" "?enc f = Inr t" for f t
  proof -
    obtain k v where kv: "f = (k, v)" by (cases f)
    with f(2) obtain u where u: "canonicalJson v = Inr u" "t = jsonQuote k @ 0x3a # u"
      by (auto simp: encodeField_def err_simps)
    from f(1) kv have "(k, v) \<in> set fs" by (auto simp: definedFields_def)
    with JObject.IH [of "(k, v)" v u] u(1) have "length u \<le> jsonBound v" by simp
    with u(2) kv length_escapeUnits [of k] show ?thesis by (simp add: jsonQuote_def)
  qed
  with ss(1) have "sum_list (map (\<lambda>s. length s + 1) ss) \<le> sum_list (map (\<lambda>(k, v). 6 * length k + jsonBound v + 4) ?fs)"
    by (rule esequence_length)
  also have "\<dots> \<le> sum_list (map (\<lambda>(k, v). 6 * length k + jsonBound v + 4) fs)"
    unfolding sum_list_sort_key definedFields_def by (rule sum_list_filter_le)
  finally show ?case using length_joinComma [of ss] ss(2) by simp
qed auto

lemma canonicalJson_byteLength:
  "canonicalJson v = Inr s \<Longrightarrow> byteLength s \<le> 3 * jsonBound v"
  using canonicalJson_length [of v s] byteLength_le [of s] by linarith

section \<open>When the encoding succeeds\<close>

lemma ebind_total: "(\<exists>y. m = Inr y) \<Longrightarrow> (\<And>y. \<exists>z. f y = Inr z) \<Longrightarrow> \<exists>z. ebind m f = Inr z"
  by auto

lemma esequence_total: "\<forall>m\<in>set ms. \<exists>y. m = Inr y \<Longrightarrow> \<exists>ys. esequence ms = Inr ys"
  by (induction ms) auto

lemma canonicalJson_object_total:
  assumes "\<forall>f\<in>set fs. snd f \<noteq> JUndefined \<longrightarrow> (\<exists>s. canonicalJson (snd f) = Inr s)"
  shows "\<exists>s. canonicalJson (JObject fs) = Inr s"
proof -
  have "\<exists>y. encodeField (k, canonicalJson v) = Inr y" if "(k, v) \<in> set (definedFields fs)" for k v
    using assms that by (fastforce simp: definedFields_def encodeField_def)
  then show ?thesis
    unfolding canonicalJson_object by (intro ebind_total esequence_total) auto
qed

lemma canonicalJson_array_total:
  "\<forall>v\<in>set vs. \<exists>s. canonicalJson v = Inr s \<Longrightarrow> \<exists>s. canonicalJson (JArray vs) = Inr s"
  unfolding canonicalJson.simps by (intro ebind_total esequence_total) auto

end
