(* ===== verification/CapabilityId.thy ===== *)
theory CapabilityId
  imports Prelude
begin

text \<open>
  Qualified capability identities (\<^verbatim>\<open>src/src/capabilities/capability-id.ts\<close>):
  \<^verbatim>\<open>source:plugin@version/kind/component#sha256:hex\<close>.  The regular expression \<^verbatim>\<open>FULL_ID\<close> is
  read off segment by segment: none of its character classes holds the delimiter that ends
  the segment, so the match is the split at the first delimiter.  Formatting and parsing are
  inverse to each other.
\<close>

section \<open>Data\<close>

datatype capability_source_kind = Builtin | UserInstall | WorkspaceSource
datatype capability_kind = SkillKind | HookKind | McpServerKind

record qualified_capability =
  componentId :: string
  componentSha256 :: string
  cap_kind :: capability_kind
  pluginId :: string
  pluginVersion :: string
  cap_source :: capability_source_kind

fun sourceName :: "capability_source_kind \<Rightarrow> string" where
  "sourceName Builtin = ''builtin''"
| "sourceName UserInstall = ''user_install''"
| "sourceName WorkspaceSource = ''workspace''"

fun kindName :: "capability_kind \<Rightarrow> string" where
  "kindName SkillKind = ''skill''"
| "kindName HookKind = ''hook''"
| "kindName McpServerKind = ''mcp_server''"

definition sourceOfName :: "string \<Rightarrow> capability_source_kind option" where
  "sourceOfName s = find (\<lambda>k. sourceName k = s) [Builtin, UserInstall, WorkspaceSource]"

definition kindOfName :: "string \<Rightarrow> capability_kind option" where
  "kindOfName s = find (\<lambda>k. kindName k = s) [SkillKind, HookKind, McpServerKind]"

section \<open>The segments of the pattern\<close>

definition inRange :: "char \<Rightarrow> char \<Rightarrow> char \<Rightarrow> bool" where
  "inRange lo hi c \<longleftrightarrow> (of_char lo :: nat) \<le> of_char c \<and> of_char c \<le> (of_char hi :: nat)"

definition isDigit :: "char \<Rightarrow> bool" where "isDigit c \<longleftrightarrow> inRange CHR ''0'' CHR ''9'' c"
definition isLower :: "char \<Rightarrow> bool" where "isLower c \<longleftrightarrow> inRange CHR ''a'' CHR ''z'' c"
definition isUpper :: "char \<Rightarrow> bool" where "isUpper c \<longleftrightarrow> inRange CHR ''A'' CHR ''Z'' c"
definition isHex :: "char \<Rightarrow> bool" where "isHex c \<longleftrightarrow> isDigit c \<or> inRange CHR ''a'' CHR ''f'' c"

definition lowerAlnum :: "char \<Rightarrow> bool" where "lowerAlnum c \<longleftrightarrow> isLower c \<or> isDigit c"
definition anyAlnum :: "char \<Rightarrow> bool" where "anyAlnum c \<longleftrightarrow> isUpper c \<or> isLower c \<or> isDigit c"

lemmas char_class_defs = lowerAlnum_def anyAlnum_def isDigit_def isLower_def isUpper_def isHex_def inRange_def

definition isSeparator :: "char \<Rightarrow> bool" where
  "isSeparator c \<longleftrightarrow> c = CHR ''.'' \<or> c = CHR ''_'' \<or> c = CHR ''-''"

fun separatorsFollowed :: "(char \<Rightarrow> bool) \<Rightarrow> string \<Rightarrow> bool" where
  "separatorsFollowed alnum [] = True"
| "separatorsFollowed alnum [c] = alnum c"
| "separatorsFollowed alnum (c # d # s) =
     ((alnum c \<or> (isSeparator c \<and> alnum d)) \<and> separatorsFollowed alnum (d # s))"

text \<open>\<^verbatim>\<open>A(?:A|[._-](?=A)){0,n}\<close>\<close>

definition segmentOk :: "(char \<Rightarrow> bool) \<Rightarrow> nat \<Rightarrow> string \<Rightarrow> bool" where
  "segmentOk alnum n s \<longleftrightarrow>
     (case s of [] \<Rightarrow> False | c # _ \<Rightarrow> alnum c) \<and> separatorsFollowed alnum s \<and> length s \<le> Suc n"

definition splitAtChar :: "char \<Rightarrow> string \<Rightarrow> (string \<times> string) option" where
  "splitAtChar c s = (case dropWhile (\<lambda>d. d \<noteq> c) s of
     [] \<Rightarrow> None | _ # rest \<Rightarrow> Some (takeWhile (\<lambda>d. d \<noteq> c) s, rest))"

definition shaPrefix :: string where "shaPrefix = ''sha256:''"

section \<open>Format and parse\<close>

definition formatQualifiedCapabilityId :: "qualified_capability \<Rightarrow> string" where
  "formatQualifiedCapabilityId input =
     sourceName (cap_source input) @ '':'' @ pluginId input @ ''@'' @ pluginVersion input @ ''/'' @
     kindName (cap_kind input) @ ''/'' @ componentId input @ ''#sha256:'' @ componentSha256 input"

datatype capability_error = CapabilityPathInvalid

definition matchFullId :: "string \<Rightarrow> qualified_capability option" where
  "matchFullId v =
     Option.bind (splitAtChar CHR '':'' v) (\<lambda>(src, r1).
     Option.bind (sourceOfName src) (\<lambda>sk.
     Option.bind (splitAtChar CHR ''@'' r1) (\<lambda>(plugin, r2).
     Option.bind (splitAtChar CHR ''/'' r2) (\<lambda>(version, r3).
     Option.bind (splitAtChar CHR ''/'' r3) (\<lambda>(kd, r4).
     Option.bind (kindOfName kd) (\<lambda>kk.
     Option.bind (splitAtChar CHR ''#'' r4) (\<lambda>(comp, r5).
       let sha = drop (length shaPrefix) r5 in
       if segmentOk lowerAlnum 79 plugin \<and> segmentOk anyAlnum 63 version \<and> segmentOk lowerAlnum 79 comp \<and>
          take (length shaPrefix) r5 = shaPrefix \<and> length sha = 64 \<and> list_all isHex sha
       then Some \<lparr>componentId = comp, componentSha256 = sha, cap_kind = kk, pluginId = plugin,
                  pluginVersion = version, cap_source = sk\<rparr>
       else None)))))))"

definition parseQualifiedCapabilityId :: "string \<Rightarrow> capability_error + qualified_capability" where
  "parseQualifiedCapabilityId value = orelse_throw (matchFullId value) CapabilityPathInvalid"

definition capabilityFieldsOk :: "qualified_capability \<Rightarrow> bool" where
  "capabilityFieldsOk c \<longleftrightarrow>
     segmentOk lowerAlnum 79 (pluginId c) \<and> segmentOk anyAlnum 63 (pluginVersion c) \<and>
     segmentOk lowerAlnum 79 (componentId c) \<and> length (componentSha256 c) = 64 \<and>
     list_all isHex (componentSha256 c)"

section \<open>Round trips\<close>

lemma splitAtChar_Some: "splitAtChar c s = Some (a, b) \<Longrightarrow> s = a @ c # b \<and> c \<notin> set a"
proof -
  assume "splitAtChar c s = Some (a, b)"
  then obtain d where d: "dropWhile (\<lambda>d. d \<noteq> c) s = d # b" "a = takeWhile (\<lambda>d. d \<noteq> c) s"
    by (auto simp: splitAtChar_def split: list.splits)
  then have "d = c" using hd_dropWhile [of "\<lambda>d. d \<noteq> c" s] by simp
  with d show ?thesis
    using takeWhile_dropWhile_id [of "\<lambda>d. d \<noteq> c" s] by (auto dest: set_takeWhileD)
qed

lemma splitAtChar_append: "c \<notin> set a \<Longrightarrow> splitAtChar c (a @ c # b) = Some (a, b)"
  by (induction a) (auto simp: splitAtChar_def split: list.splits)

lemma separatorsFollowed_chars:
  "separatorsFollowed alnum s \<Longrightarrow> d \<in> set s \<Longrightarrow> alnum d \<or> isSeparator d"
  by (induction alnum s rule: separatorsFollowed.induct) auto

lemma segmentOk_chars: "segmentOk alnum n s \<Longrightarrow> d \<in> set s \<Longrightarrow> alnum d \<or> isSeparator d"
  by (auto simp: segmentOk_def dest: separatorsFollowed_chars)

lemma segment_delimiters:
  "segmentOk lowerAlnum n s \<Longrightarrow> CHR ''@'' \<notin> set s"
  "segmentOk lowerAlnum n s \<Longrightarrow> CHR ''#'' \<notin> set s"
  "segmentOk anyAlnum n s \<Longrightarrow> CHR ''/'' \<notin> set s"
  by (auto dest!: segmentOk_chars simp: isSeparator_def char_class_defs)

lemma sourceName_simps: "CHR '':'' \<notin> set (sourceName k)" "sourceOfName (sourceName k) = Some k"
  by (cases k; simp add: sourceOfName_def)+

lemma kindName_simps: "CHR ''/'' \<notin> set (kindName k)" "kindOfName (kindName k) = Some k"
  by (cases k; simp add: kindOfName_def)+

lemma sourceOfName_Some: "sourceOfName s = Some k \<Longrightarrow> sourceName k = s"
  by (auto simp: sourceOfName_def split: if_splits)

lemma kindOfName_Some: "kindOfName s = Some k \<Longrightarrow> kindName k = s"
  by (auto simp: kindOfName_def split: if_splits)

lemma format_unfold:
  "formatQualifiedCapabilityId c =
     sourceName (cap_source c) @ CHR '':'' # (pluginId c @ CHR ''@'' # (pluginVersion c @ CHR ''/'' #
     (kindName (cap_kind c) @ CHR ''/'' # (componentId c @ CHR ''#'' # (shaPrefix @ componentSha256 c)))))"
  by (simp add: formatQualifiedCapabilityId_def shaPrefix_def)

lemma matchFullId_format:
  assumes "capabilityFieldsOk c"
  shows "matchFullId (formatQualifiedCapabilityId c) = Some c"
proof -
  have "CHR ''@'' \<notin> set (pluginId c)" "CHR ''/'' \<notin> set (pluginVersion c)" "CHR ''#'' \<notin> set (componentId c)"
    using assms by (auto simp: capabilityFieldsOk_def dest: segment_delimiters)
  then show ?thesis
    using assms unfolding format_unfold matchFullId_def capabilityFieldsOk_def
    by (simp add: splitAtChar_append sourceName_simps kindName_simps Let_def)
qed

lemma matchFullId_Some:
  assumes "matchFullId v = Some c"
  shows "capabilityFieldsOk c \<and> formatQualifiedCapabilityId c = v"
  using assms unfolding matchFullId_def
  apply (clarsimp simp: bind_eq_Some_conv Let_def split: if_splits)
  apply (drule splitAtChar_Some sourceOfName_Some kindOfName_Some)+
  apply (clarsimp simp: capabilityFieldsOk_def format_unfold)
  apply (metis append_take_drop_id)
  done

text \<open>
  A string parses to an identity exactly when it is the rendering of that identity and the
  identity's fields are well formed.
\<close>

lemma parse_format_iff:
  "parseQualifiedCapabilityId v = Inr c \<longleftrightarrow> capabilityFieldsOk c \<and> formatQualifiedCapabilityId c = v"
  using matchFullId_Some matchFullId_format
  by (auto simp: parseQualifiedCapabilityId_def err_simps)

end
