(* ===== verification/TaskGraphSchema.thy ===== *)
theory TaskGraphSchema
  imports CanonicalJson CapabilityId
begin

text \<open>
  Task Graph revisions: data, schema, normalisation and content identity
  (\<^verbatim>\<open>src/src/task-graph/task-graph-schema.ts\<close>, \<^verbatim>\<open>task-graph-identity.ts\<close>,
  \<^verbatim>\<open>task-graph-errors.ts\<close>).

  What the sources take from elsewhere is the record \<open>platform\<close>: zod's UUID test, SHA-256,
  the collation order of \<^verbatim>\<open>localeCompare(_, "en")\<close> and the case folding of
  \<^verbatim>\<open>toLocaleLowerCase("en-US")\<close>.  A schema check is the list of the issues it reports; it
  accepts when the list is empty.  \<open>lineage\<close>, which the source calls on graphs it has not
  yet found acyclic, may recurse without end: it is a partial function, and \<open>None\<close> is the
  stack overflow.
\<close>

section \<open>Platform\<close>

record platform =
  isUuid :: "string \<Rightarrow> bool"
  sha256 :: "jsstring \<Rightarrow> string"
  sortEn :: "string list \<Rightarrow> string list"
  sortEnText :: "jsstring list \<Rightarrow> jsstring list"
  lowerEnUs :: "jsstring \<Rightarrow> jsstring"

section \<open>Errors\<close>

datatype task_graph_error_code =
    task_graph_agent_origin_invalid
  | task_graph_artifact_invalid
  | task_graph_binding_stale
  | task_graph_bounds_exceeded
  | task_graph_busy
  | task_graph_cycle
  | task_graph_decision_conflict
  | task_graph_invalid
  | task_graph_json_invalid
  | task_graph_not_approved
  | task_graph_not_found
  | task_graph_plan_item_unknown
  | task_graph_revision_conflict
  | task_graph_schema_invalid
  | task_graph_write_lineage_invalid
  | task_background_unavailable
  | task_budget_exhausted
  | task_effect_reconciliation_required
  | task_scheduler_busy
  | task_waiting_for_user
  | task_workspace_mode_unavailable

fun EXIT_CODES :: "task_graph_error_code \<Rightarrow> nat" where
  "EXIT_CODES task_graph_agent_origin_invalid = 1"
| "EXIT_CODES task_graph_artifact_invalid = 1"
| "EXIT_CODES task_graph_binding_stale = 8"
| "EXIT_CODES task_graph_bounds_exceeded = 2"
| "EXIT_CODES task_graph_busy = 8"
| "EXIT_CODES task_graph_cycle = 2"
| "EXIT_CODES task_graph_decision_conflict = 8"
| "EXIT_CODES task_graph_invalid = 2"
| "EXIT_CODES task_graph_json_invalid = 2"
| "EXIT_CODES task_graph_not_approved = 8"
| "EXIT_CODES task_graph_not_found = 8"
| "EXIT_CODES task_graph_plan_item_unknown = 2"
| "EXIT_CODES task_graph_revision_conflict = 8"
| "EXIT_CODES task_graph_schema_invalid = 2"
| "EXIT_CODES task_graph_write_lineage_invalid = 2"
| "EXIT_CODES task_background_unavailable = 8"
| "EXIT_CODES task_budget_exhausted = 7"
| "EXIT_CODES task_effect_reconciliation_required = 8"
| "EXIT_CODES task_scheduler_busy = 8"
| "EXIT_CODES task_waiting_for_user = 8"
| "EXIT_CODES task_workspace_mode_unavailable = 8"

section \<open>Data\<close>

abbreviation MAX_SAFE_INTEGER :: int where "MAX_SAFE_INTEGER \<equiv> 9007199254740991"

definition MAX_TASK_GRAPH_BYTES :: nat where "MAX_TASK_GRAPH_BYTES = 256 * 1024"
definition MAX_TASK_GRAPH_NODES :: nat where "MAX_TASK_GRAPH_NODES = 32"
definition MAX_TASK_GRAPH_EDGES :: nat where "MAX_TASK_GRAPH_EDGES = 128"
definition MAX_TASK_GRAPH_DEPTH :: nat where "MAX_TASK_GRAPH_DEPTH = 16"
definition MAX_TASK_GRAPH_ATTEMPTS_PER_NODE :: nat where "MAX_TASK_GRAPH_ATTEMPTS_PER_NODE = 3"

record task_graph_binding =
  b_sessionId :: string
  b_goalId :: string
  b_goalRevision :: nat
  b_planId :: string
  b_planRevision :: nat
  b_planSha256 :: string

record task_graph_budget =
  maxAttempts :: int
  maxDurationMs :: int
  maxModelSteps :: int
  maxCommandExecutions :: int
  maxCommandOutputBytes :: int
  maxChangedFiles :: int
  maxChangedBytes :: int
  maxArtifactBytes :: int
  maxReportedTokens :: "int option"

datatype budget_field =
  FAttempts | FDurationMs | FModelSteps | FCommandExecutions | FCommandOutputBytes |
  FChangedFiles | FChangedBytes | FArtifactBytes | FReportedTokens

definition budgetFields :: "budget_field list" where
  "budgetFields = [FAttempts, FDurationMs, FModelSteps, FCommandExecutions, FCommandOutputBytes,
     FChangedFiles, FChangedBytes, FArtifactBytes, FReportedTokens]"

fun budgetAt :: "task_graph_budget \<Rightarrow> budget_field \<Rightarrow> int option" where
  "budgetAt b FAttempts = Some (maxAttempts b)"
| "budgetAt b FDurationMs = Some (maxDurationMs b)"
| "budgetAt b FModelSteps = Some (maxModelSteps b)"
| "budgetAt b FCommandExecutions = Some (maxCommandExecutions b)"
| "budgetAt b FCommandOutputBytes = Some (maxCommandOutputBytes b)"
| "budgetAt b FChangedFiles = Some (maxChangedFiles b)"
| "budgetAt b FChangedBytes = Some (maxChangedBytes b)"
| "budgetAt b FArtifactBytes = Some (maxArtifactBytes b)"
| "budgetAt b FReportedTokens = maxReportedTokens b"

datatype workspace_mode = origin_read_only | managed_worktree | inherit_predecessor

record task_node_workspace =
  w_mode :: workspace_mode
  declaredPathPrefixes :: "jsstring list"

datatype retry_class = pre_effect_infrastructure_failure_class

record task_node_retry =
  r_maxAttempts :: nat
  automaticOn :: "retry_class list"

datatype agent_mode = plan_mode | build_mode
datatype task_profile = read_only_profile | coding_profile

datatype task_node_kind =
    AgentNode agent_mode task_profile
  | VerificationNode "jsstring list" jsstring jsstring \<comment> \<open>argv, cwd, purpose\<close>

record task_node_spec =
  nodeId :: string
  sequence :: nat
  n_title :: jsstring
  n_objective :: jsstring
  planItemIds :: "string list"
  dependsOn :: "string list"
  n_workspace :: task_node_workspace
  requiredCapabilities :: "string list"
  n_budget :: task_graph_budget
  n_retry :: task_node_retry
  n_kind :: task_node_kind

record task_graph_content =
  graphId :: string
  gc_binding :: task_graph_binding
  gc_title :: jsstring
  gc_nodes :: "task_node_spec list"
  graphBudget :: task_graph_budget

section \<open>Field checks\<close>

definition noDuplicates :: "'a list \<Rightarrow> bool" where
  "noDuplicates values \<longleftrightarrow> card (set values) = length values"

definition containsControlCharacter :: "jsstring \<Rightarrow> bool" where
  "containsControlCharacter value \<longleftrightarrow>
     list_ex (\<lambda>cp. cp \<le> 0x1f \<or> (0x7f \<le> cp \<and> cp \<le> 0x9f)) (codePoints value)"

fun splitUnits :: "code_unit \<Rightarrow> jsstring \<Rightarrow> jsstring list" where
  "splitUnits c [] = [[]]"
| "splitUnits c (u # s) = (if u = c then [] # splitUnits c s
     else case splitUnits c s of [] \<Rightarrow> [[u]] | t # ts \<Rightarrow> (u # t) # ts)"

definition startsWithDrive :: "jsstring \<Rightarrow> bool" where
  "startsWithDrive value = (case value of
     u # v # _ \<Rightarrow> ((0x41 \<le> u \<and> u \<le> 0x5a) \<or> (0x61 \<le> u \<and> u \<le> 0x7a)) \<and> v = 0x3a | _ \<Rightarrow> False)"

definition portableRelativePath :: "jsstring \<Rightarrow> bool \<Rightarrow> bool" where
  "portableRelativePath value allowRoot =
     (if allowRoot \<and> value = [0x2e] then True
      else if value = [] \<or> length value > 1024 \<or> 0x5c \<in> set value \<or> hd value = 0x2f \<or> startsWithDrive value
      then False
      else list_all (\<lambda>segment. segment \<noteq> [] \<and> segment \<noteq> [0x2e] \<and> segment \<noteq> [0x2e, 0x2e] \<and>
             \<not> containsControlCharacter segment) (splitUnits 0x2f value))"

definition nodeIdOk :: "string \<Rightarrow> bool" where
  "nodeIdOk s \<longleftrightarrow> (case s of [] \<Rightarrow> False | c # r \<Rightarrow>
     isLower c \<and> list_all (\<lambda>d. lowerAlnum d \<or> d = CHR ''-'') r \<and> length r \<le> 63)"

definition planItemIdOk :: "string \<Rightarrow> bool" where
  "planItemIdOk s \<longleftrightarrow> (case s of [] \<Rightarrow> False | c # r \<Rightarrow>
     lowerAlnum c \<and> list_all (\<lambda>d. lowerAlnum d \<or> d = CHR ''_'' \<or> d = CHR ''-'') r \<and> length r \<le> 63)"

definition sha256Ok :: "string \<Rightarrow> bool" where
  "sha256Ok s \<longleftrightarrow> length s = 64 \<and> list_all isHex s"

definition textOk :: "nat \<Rightarrow> jsstring \<Rightarrow> bool" where
  "textOk n v \<longleftrightarrow> canonicalStoredTextSchema
     \<lparr>maximumBytes = n, maximumScalars = Some n, minimumScalars = Some 1, nonblank = True\<rparr> v = []"

definition positiveSafeInteger :: "nat \<Rightarrow> bool" where
  "positiveSafeInteger n \<longleftrightarrow> 0 < n \<and> int n \<le> MAX_SAFE_INTEGER"

definition taskGraphBindingSchema :: "platform \<Rightarrow> task_graph_binding \<Rightarrow> bool" where
  "taskGraphBindingSchema p b \<longleftrightarrow>
     isUuid p (b_sessionId b) \<and> isUuid p (b_goalId b) \<and> positiveSafeInteger (b_goalRevision b) \<and>
     isUuid p (b_planId b) \<and> positiveSafeInteger (b_planRevision b) \<and> sha256Ok (b_planSha256 b)"

definition taskGraphBudgetSchema :: "task_graph_budget \<Rightarrow> bool" where
  "taskGraphBudgetSchema b \<longleftrightarrow>
     0 < maxAttempts b \<and> maxAttempts b \<le> int (MAX_TASK_GRAPH_NODES * MAX_TASK_GRAPH_ATTEMPTS_PER_NODE) \<and>
     0 < maxDurationMs b \<and> maxDurationMs b \<le> 24 * 60 * 60 * 1000 \<and>
     0 \<le> maxModelSteps b \<and> maxModelSteps b \<le> 100000 \<and>
     0 \<le> maxCommandExecutions b \<and> maxCommandExecutions b \<le> 10000 \<and>
     0 \<le> maxCommandOutputBytes b \<and> maxCommandOutputBytes b \<le> 1024 * 1024 * 1024 \<and>
     0 \<le> maxChangedFiles b \<and> maxChangedFiles b \<le> 25000 \<and>
     0 \<le> maxChangedBytes b \<and> maxChangedBytes b \<le> 1024 * 1024 * 1024 \<and>
     0 \<le> maxArtifactBytes b \<and> maxArtifactBytes b \<le> 1024 * 1024 * 1024 \<and>
     (case maxReportedTokens b of None \<Rightarrow> True | Some t \<Rightarrow> 0 \<le> t \<and> t \<le> 1000000000)"

definition taskNodeWorkspaceRequestSchema :: "platform \<Rightarrow> task_node_workspace \<Rightarrow> bool" where
  "taskNodeWorkspaceRequestSchema p w \<longleftrightarrow>
     length (declaredPathPrefixes w) \<le> 32 \<and>
     list_all (\<lambda>v. portableRelativePath v True) (declaredPathPrefixes w) \<and>
     distinct (map (lowerEnUs p) (declaredPathPrefixes w))"

definition taskNodeRetrySchema :: "task_node_retry \<Rightarrow> bool" where
  "taskNodeRetrySchema r \<longleftrightarrow>
     1 \<le> r_maxAttempts r \<and> r_maxAttempts r \<le> MAX_TASK_GRAPH_ATTEMPTS_PER_NODE \<and>
     length (automaticOn r) \<le> 1 \<and> noDuplicates (automaticOn r)"

definition qualifiedCapabilities :: "string list \<Rightarrow> bool" where
  "qualifiedCapabilities values \<longleftrightarrow>
     length values \<le> 16 \<and> list_all (\<lambda>v. length v \<le> 512) values \<and> noDuplicates values \<and>
     list_all (\<lambda>v. \<not> isl (parseQualifiedCapabilityId v)) values"

definition verificationArgOk :: "jsstring \<Rightarrow> bool" where
  "verificationArgOk v \<longleftrightarrow> length v \<le> 4096 \<and> 0 \<notin> set v \<and> 0xd \<notin> set v \<and> 0xa \<notin> set v"

definition argvBytes :: "jsstring list \<Rightarrow> nat" where
  "argvBytes argv = (case canonicalJson (JArray (map JString argv)) of Inl _ \<Rightarrow> 0 | Inr s \<Rightarrow> byteLength s)"

fun taskNodeKindOk :: "task_node_kind \<Rightarrow> bool" where
  "taskNodeKindOk (AgentNode plan_mode prof) = (prof = read_only_profile)"
| "taskNodeKindOk (AgentNode build_mode prof) = (prof = coding_profile)"
| "taskNodeKindOk (VerificationNode argv cwd purpose) =
     (1 \<le> length argv \<and> length argv \<le> 64 \<and> list_all verificationArgOk argv \<and> argvBytes argv \<le> 32 * 1024 \<and>
      length cwd \<le> 1024 \<and> portableRelativePath cwd True \<and> textOk 1024 purpose)"

definition taskNodeSpecSchema :: "platform \<Rightarrow> task_node_spec \<Rightarrow> bool" where
  "taskNodeSpecSchema p n \<longleftrightarrow>
     nodeIdOk (nodeId n) \<and> 1 \<le> sequence n \<and> sequence n \<le> MAX_TASK_GRAPH_NODES \<and>
     textOk 256 (n_title n) \<and> textOk (8 * 1024) (n_objective n) \<and>
     1 \<le> length (planItemIds n) \<and> length (planItemIds n) \<le> 16 \<and> list_all planItemIdOk (planItemIds n) \<and>
     noDuplicates (planItemIds n) \<and>
     length (dependsOn n) \<le> 16 \<and> list_all nodeIdOk (dependsOn n) \<and> noDuplicates (dependsOn n) \<and>
     taskNodeWorkspaceRequestSchema p (n_workspace n) \<and> qualifiedCapabilities (requiredCapabilities n) \<and>
     taskGraphBudgetSchema (n_budget n) \<and> taskNodeRetrySchema (n_retry n) \<and> taskNodeKindOk (n_kind n)"

definition taskGraphFieldsOk :: "platform \<Rightarrow> task_graph_content \<Rightarrow> bool" where
  "taskGraphFieldsOk p g \<longleftrightarrow>
     isUuid p (graphId g) \<and> taskGraphBindingSchema p (gc_binding g) \<and> textOk 256 (gc_title g) \<and>
     1 \<le> length (gc_nodes g) \<and> length (gc_nodes g) \<le> MAX_TASK_GRAPH_NODES \<and>
     list_all (taskNodeSpecSchema p) (gc_nodes g) \<and> taskGraphBudgetSchema (graphBudget g)"

section \<open>Topology\<close>

definition byId :: "task_node_spec list \<Rightarrow> string \<Rightarrow> task_node_spec option" where
  "byId nodes nid = map_of (rev (map (\<lambda>n. (nodeId n, n)) nodes)) nid"

lemma byId_Some: "byId nodes nid = Some n \<Longrightarrow> n \<in> set nodes \<and> nodeId n = nid"
  by (auto simp: byId_def dest!: map_of_SomeD)

text \<open>
  The local function \<^verbatim>\<open>visit\<close> of \<^verbatim>\<open>graphDepth\<close>.  Its variables \<^verbatim>\<open>memo\<close> and \<^verbatim>\<open>cycle\<close> are
  threaded through; \<^verbatim>\<open>visiting\<close> is handed down, because every call removes again what it
  added.  \<open>visitAll\<close> is \<^verbatim>\<open>dependsOn.map(visit)\<close>.
\<close>

type_synonym depth_memo = "(string \<rightharpoonup> nat) \<times> bool"

function visit :: "task_node_spec list \<Rightarrow> string set \<Rightarrow> depth_memo \<Rightarrow> string \<Rightarrow> nat \<times> depth_memo"
  and visitAll :: "task_node_spec list \<Rightarrow> string set \<Rightarrow> depth_memo \<Rightarrow> string list \<Rightarrow> nat list \<times> depth_memo"
where
  "visit nodes visiting st nid =
     (case fst st nid of
        Some known \<Rightarrow> (known, st)
      | None \<Rightarrow>
          if nid \<in> visiting then (MAX_TASK_GRAPH_DEPTH + 1, (fst st, True))
          else case byId nodes nid of
            None \<Rightarrow> (1, ((fst st)(nid \<mapsto> 1), snd st))
          | Some node \<Rightarrow>
              if dependsOn node = [] then (1, ((fst st)(nid \<mapsto> 1), snd st))
              else (let (ds, st') = visitAll nodes (insert nid visiting) st (dependsOn node);
                        depth = 1 + Max (set ds)
                    in (depth, ((fst st')(nid \<mapsto> depth), snd st'))))"
| "visitAll nodes visiting st [] = ([], st)"
| "visitAll nodes visiting st (nid # ids) =
     (let (d, st') = visit nodes visiting st nid; (ds, st'') = visitAll nodes visiting st' ids
      in (d # ds, st''))"
  by pat_completeness auto

termination
proof (relation "measures
    [\<lambda>x. case x of Inl (nodes, visiting, st, nid) \<Rightarrow> card (nodeId ` set nodes - visiting)
       | Inr (nodes, visiting, st, ids) \<Rightarrow> card (nodeId ` set nodes - visiting),
     \<lambda>x. case x of Inl _ \<Rightarrow> 0 | Inr (nodes, visiting, st, ids) \<Rightarrow> Suc (length ids)]")
  fix nodes visiting nid and st :: depth_memo and node
  assume "nid \<notin> visiting" "byId nodes nid = Some node"
  then have "card (nodeId ` set nodes - insert nid visiting) < card (nodeId ` set nodes - visiting)"
    by (intro psubset_card_mono) (auto dest!: byId_Some)
  then show "(Inr (nodes, insert nid visiting, st, dependsOn node), Inl (nodes, visiting, st, nid)) \<in> measures
    [\<lambda>x. case x of Inl (nodes, visiting, st, nid) \<Rightarrow> card (nodeId ` set nodes - visiting)
       | Inr (nodes, visiting, st, ids) \<Rightarrow> card (nodeId ` set nodes - visiting),
     \<lambda>x. case x of Inl _ \<Rightarrow> 0 | Inr (nodes, visiting, st, ids) \<Rightarrow> Suc (length ids)]"
    by simp
qed auto

declare visit.simps [simp del]

text \<open>
  The result object \<^verbatim>\<open>{ cycle, depth: ... }\<close> reads the variable \<^verbatim>\<open>cycle\<close> before the
  initialiser of \<^verbatim>\<open>depth\<close> runs the visits, so the flag returned is its initial value.
\<close>

definition graphDepth :: "task_node_spec list \<Rightarrow> bool \<times> nat" where
  "graphDepth nodes =
     (let cycle = False;
          depth = (if nodes = [] then 0
            else Max (set (fst (visitAll nodes {} (Map.empty, False) (map nodeId nodes)))))
      in (cycle, depth))"

text \<open>
  The managed worktree a node writes to.  The memo table of the source only caches the values
  of this function.
\<close>

partial_function (option) lineage :: "task_node_spec list \<Rightarrow> string \<Rightarrow> string option option" where
  "lineage nodes nid =
     (case byId nodes nid of
        None \<Rightarrow> Some None
      | Some node \<Rightarrow>
          (case w_mode (n_workspace node) of
             origin_read_only \<Rightarrow> Some None
           | managed_worktree \<Rightarrow> Some (Some (nodeId node))
           | inherit_predecessor \<Rightarrow>
               (case dependsOn node of [] \<Rightarrow> Some None | d # _ \<Rightarrow> lineage nodes d)))"

section \<open>The canonical value of a Graph\<close>

fun workspaceModeName :: "workspace_mode \<Rightarrow> string" where
  "workspaceModeName origin_read_only = ''origin_read_only''"
| "workspaceModeName managed_worktree = ''managed_worktree''"
| "workspaceModeName inherit_predecessor = ''inherit_predecessor''"

abbreviation JNat :: "nat \<Rightarrow> json" where "JNat n \<equiv> JNumber (int n)"
abbreviation JText :: "string \<Rightarrow> json" where "JText s \<equiv> JString (js s)"

definition bindingJson :: "task_graph_binding \<Rightarrow> json" where
  "bindingJson b = JObject
     [(js ''sessionId'', JText (b_sessionId b)), (js ''goalId'', JText (b_goalId b)),
      (js ''goalRevision'', JNat (b_goalRevision b)), (js ''planId'', JText (b_planId b)),
      (js ''planRevision'', JNat (b_planRevision b)), (js ''planSha256'', JText (b_planSha256 b))]"

definition budgetJson :: "task_graph_budget \<Rightarrow> json" where
  "budgetJson b = JObject
     [(js ''maxAttempts'', JNumber (maxAttempts b)), (js ''maxDurationMs'', JNumber (maxDurationMs b)),
      (js ''maxModelSteps'', JNumber (maxModelSteps b)),
      (js ''maxCommandExecutions'', JNumber (maxCommandExecutions b)),
      (js ''maxCommandOutputBytes'', JNumber (maxCommandOutputBytes b)),
      (js ''maxChangedFiles'', JNumber (maxChangedFiles b)), (js ''maxChangedBytes'', JNumber (maxChangedBytes b)),
      (js ''maxArtifactBytes'', JNumber (maxArtifactBytes b)),
      (js ''maxReportedTokens'', case maxReportedTokens b of None \<Rightarrow> JNull | Some t \<Rightarrow> JNumber t)]"

fun kindFields :: "task_node_kind \<Rightarrow> (jsstring \<times> json) list" where
  "kindFields (AgentNode mode prof) =
     [(js ''kind'', JText ''agent''),
      (js ''agent'', JObject
        [(js ''mode'', JText (if mode = plan_mode then ''plan'' else ''build'')),
         (js ''taskProfile'', JText (if prof = read_only_profile then ''read-only'' else ''coding''))])]"
| "kindFields (VerificationNode argv cwd purpose) =
     [(js ''kind'', JText ''verification''),
      (js ''verification'', JObject
        [(js ''argv'', JArray (map JString argv)), (js ''cwd'', JString cwd), (js ''purpose'', JString purpose)])]"

definition nodeJson :: "task_node_spec \<Rightarrow> json" where
  "nodeJson n = JObject
     ([(js ''nodeId'', JText (nodeId n)), (js ''sequence'', JNat (sequence n)), (js ''title'', JString (n_title n)),
       (js ''objective'', JString (n_objective n)), (js ''planItemIds'', JArray (map JText (planItemIds n))),
       (js ''dependsOn'', JArray (map JText (dependsOn n))),
       (js ''workspace'', JObject
         [(js ''mode'', JText (workspaceModeName (w_mode (n_workspace n)))),
          (js ''declaredPathPrefixes'', JArray (map JString (declaredPathPrefixes (n_workspace n))))]),
       (js ''requiredCapabilities'', JArray (map JText (requiredCapabilities n))),
       (js ''budget'', budgetJson (n_budget n)),
       (js ''retry'', JObject
         [(js ''maxAttempts'', JNat (r_maxAttempts (n_retry n))),
          (js ''automaticOn'',
            JArray (map (\<lambda>_. JText ''pre_effect_infrastructure_failure'') (automaticOn (n_retry n))))])] @
      kindFields (n_kind n))"

definition graphJson :: "task_graph_content \<Rightarrow> json" where
  "graphJson g = JObject
     [(js ''schemaVersion'', JNat 1), (js ''graphId'', JText (graphId g)), (js ''binding'', bindingJson (gc_binding g)),
      (js ''title'', JString (gc_title g)), (js ''nodes'', JArray (map nodeJson (gc_nodes g))),
      (js ''graphBudget'', budgetJson (graphBudget g))]"

definition graphBytes :: "task_graph_content \<Rightarrow> nat" where
  "graphBytes g = (case canonicalJson (graphJson g) of Inl _ \<Rightarrow> 0 | Inr s \<Rightarrow> byteLength s)"

section \<open>The refinement of the Graph schema\<close>

datatype graph_issue =
    FieldIssue
  | NodeIdDuplicate
  | SequenceDuplicate
  | SelfDependency
  | UnknownDependency
  | InheritNeedsOneDependency
  | OriginReadOnlyExclusive
  | VerificationNeedsWorktree
  | RetryExceedsNodeBudget
  | NodeCeilingExceedsGraph budget_field
  | InvalidNullableGraphCeiling budget_field
  | TooManyEdges
  | DependencyCycle
  | DepthExceeded
  | InheritNeedsManagedLineage
  | MergesLineages
  | CanonicalTooLarge

fun uniquenessIssues :: "string list \<Rightarrow> nat list \<Rightarrow> task_node_spec list \<Rightarrow> graph_issue list" where
  "uniquenessIssues ids sequences [] = []"
| "uniquenessIssues ids sequences (node # nodes) =
     (if nodeId node \<in> set ids then [NodeIdDuplicate] else []) @
     (if sequence node \<in> set sequences then [SequenceDuplicate] else []) @
     uniquenessIssues (nodeId node # ids) (sequence node # sequences) nodes"

definition dependencyIssues :: "string set \<Rightarrow> task_node_spec \<Rightarrow> graph_issue list" where
  "dependencyIssues ids node = concat (map (\<lambda>dependency.
     (if dependency = nodeId node then [SelfDependency] else []) @
     (if dependency \<notin> ids then [UnknownDependency] else [])) (dependsOn node))"

definition workspaceIssues :: "task_node_spec \<Rightarrow> graph_issue list" where
  "workspaceIssues node =
     (if w_mode (n_workspace node) = inherit_predecessor \<and> length (dependsOn node) \<noteq> 1
      then [InheritNeedsOneDependency] else []) @
     (case n_kind node of
        AgentNode mode prof \<Rightarrow>
          if (w_mode (n_workspace node) = origin_read_only) \<noteq> (mode = plan_mode \<and> prof = read_only_profile)
          then [OriginReadOnlyExclusive] else []
      | VerificationNode _ _ _ \<Rightarrow>
          if w_mode (n_workspace node) = origin_read_only then [VerificationNeedsWorktree] else [])"

definition budgetIssues :: "task_graph_budget \<Rightarrow> task_node_spec \<Rightarrow> graph_issue list" where
  "budgetIssues graph_budget node =
     (if int (r_maxAttempts (n_retry node)) > maxAttempts (n_budget node) then [RetryExceedsNodeBudget] else []) @
     concat (map (\<lambda>field.
       (case (budgetAt (n_budget node) field, budgetAt graph_budget field) of
          (Some nodeLimit, Some graphLimit) \<Rightarrow> if nodeLimit > graphLimit then [NodeCeilingExceedsGraph field] else []
        | (Some nodeLimit, None) \<Rightarrow> if field \<noteq> FReportedTokens then [InvalidNullableGraphCeiling field] else []
        | _ \<Rightarrow> [])) budgetFields)"

definition topologyIssues :: "task_node_spec list \<Rightarrow> graph_issue list" where
  "topologyIssues nodes =
     (if sum_list (map (\<lambda>n. length (dependsOn n)) nodes) > MAX_TASK_GRAPH_EDGES then [TooManyEdges] else []) @
     (let (cycle, depth) = graphDepth nodes in
      (if cycle then [DependencyCycle] else []) @
      (if depth > MAX_TASK_GRAPH_DEPTH then [DepthExceeded] else []))"

text \<open>\<open>osequence\<close> runs partial computations from left to right.\<close>

fun osequence :: "'a option list \<Rightarrow> 'a list option" where
  "osequence [] = Some []"
| "osequence (m # ms) = Option.bind m (\<lambda>x. Option.bind (osequence ms) (\<lambda>xs. Some (x # xs)))"

definition lineageIssues :: "task_node_spec list \<Rightarrow> task_node_spec \<Rightarrow> graph_issue list option" where
  "lineageIssues nodes node =
     Option.bind (osequence (map (lineage nodes) (dependsOn node))) (\<lambda>ls.
       let predecessorLineages = set (List.map_filter id ls) in
       Option.bind (if w_mode (n_workspace node) = inherit_predecessor
                    then map_option (\<lambda>l. l = None) (lineage nodes (nodeId node)) else Some False) (\<lambda>orphan.
         Some ((if orphan then [InheritNeedsManagedLineage] else []) @
               (if w_mode (n_workspace node) \<noteq> origin_read_only \<and> card predecessorLineages > 1
                then [MergesLineages] else []))))"

definition taskGraphRefinement :: "task_graph_content \<Rightarrow> graph_issue list option" where
  "taskGraphRefinement value =
     (let nodes = gc_nodes value; ids = nodeId ` set nodes in
      Option.bind (osequence (map (lineageIssues nodes) nodes)) (\<lambda>lineages.
        Some (uniquenessIssues [] [] nodes @
              concat (map (\<lambda>node. dependencyIssues ids node @ workspaceIssues node @
                budgetIssues (graphBudget value) node) nodes) @
              topologyIssues nodes @
              concat lineages @
              (if graphBytes value > MAX_TASK_GRAPH_BYTES then [CanonicalTooLarge] else []))))"

text \<open>
  The refinement runs once the fields have parsed.  \<open>None\<close> is the \<^verbatim>\<open>RangeError\<close> of a lineage
  that never ends.
\<close>

definition taskGraphRevisionContentSchema :: "platform \<Rightarrow> task_graph_content \<Rightarrow> graph_issue list option" where
  "taskGraphRevisionContentSchema p value =
     (if taskGraphFieldsOk p value then taskGraphRefinement value else Some [FieldIssue])"

section \<open>Normalisation and identity\<close>

definition normalizeNode :: "platform \<Rightarrow> task_node_spec \<Rightarrow> task_node_spec" where
  "normalizeNode p node = node
     \<lparr>dependsOn := sortEn p (dependsOn node), planItemIds := sortEn p (planItemIds node),
      requiredCapabilities := sortEn p (requiredCapabilities node),
      n_workspace := (n_workspace node)\<lparr>declaredPathPrefixes :=
        sortEnText p (declaredPathPrefixes (n_workspace node))\<rparr>\<rparr>"

datatype graph_parse_error = ZodIssues "graph_issue list" | StackOverflow

definition parseGraph :: "platform \<Rightarrow> task_graph_content \<Rightarrow> graph_parse_error + task_graph_content" where
  "parseGraph p value = (case taskGraphRevisionContentSchema p value of
     None \<Rightarrow> Inl StackOverflow
   | Some issues \<Rightarrow> if issues = [] then Inr value else Inl (ZodIssues issues))"

text \<open>
  The comparison of the nodes falls back to the node id when two sequences are equal, which
  the schema has excluded; the one retry class needs no sorting.
\<close>

definition normalizeTaskGraphRevision :: "platform \<Rightarrow> task_graph_content \<Rightarrow> graph_parse_error + task_graph_content" where
  "normalizeTaskGraphRevision p value =
     ebind (parseGraph p value) (\<lambda>parsed.
       let normalized = parsed\<lparr>gc_nodes := sort_key sequence (map (normalizeNode p) (gc_nodes parsed))\<rparr>
       in ebind (parseGraph p normalized) (\<lambda>_. Inr normalized))"

record task_graph_identity =
  gi_bytes :: jsstring
  gi_byteLength :: nat
  gi_content :: task_graph_content
  gi_graphSha256 :: string

definition canonicalTaskGraphIdentity :: "platform \<Rightarrow> task_graph_content \<Rightarrow> graph_parse_error + task_graph_identity" where
  "canonicalTaskGraphIdentity p value =
     ebind (normalizeTaskGraphRevision p value) (\<lambda>content.
       case canonicalJson (graphJson content) of
         Inl _ \<Rightarrow> Inl (ZodIssues [])
       | Inr bytes \<Rightarrow> Inr \<lparr>gi_bytes = bytes, gi_byteLength = byteLength bytes, gi_content = content,
                          gi_graphSha256 = sha256 p bytes\<rparr>)"

definition taskGraphApprovalIdentity ::
  "platform \<Rightarrow> string \<Rightarrow> string \<Rightarrow> nat \<Rightarrow> string \<Rightarrow> string \<Rightarrow> task_graph_binding \<Rightarrow> type_error + string" where
  "taskGraphApprovalIdentity p approvalRequestId graph_id graph_revision graph_sha256 session_id b =
     sha256Canonical (sha256 p) (JObject
       [(js ''approval_request_id'', JText approvalRequestId), (js ''goal_id'', JText (b_goalId b)),
        (js ''goal_revision'', JNat (b_goalRevision b)), (js ''graph_id'', JText graph_id),
        (js ''graph_revision'', JNat graph_revision), (js ''graph_sha256'', JText graph_sha256),
        (js ''plan_id'', JText (b_planId b)), (js ''plan_revision'', JNat (b_planRevision b)),
        (js ''plan_sha256'', JText (b_planSha256 b)), (js ''session_id'', JText session_id)])"

definition validateTaskGraphPlanItems :: "task_graph_content \<Rightarrow> string set \<Rightarrow> task_graph_error_code + unit" where
  "validateTaskGraphPlanItems graph currentPlanItemIds =
     (let unknown = filter (\<lambda>i. i \<notin> currentPlanItemIds) (remdups (concat (map planItemIds (gc_nodes graph))))
      in if unknown \<noteq> [] then Inl task_graph_plan_item_unknown else Inr ())"

section \<open>Classification of schema errors\<close>

fun budgetFieldName :: "budget_field \<Rightarrow> string" where
  "budgetFieldName FAttempts = ''maxAttempts''"
| "budgetFieldName FDurationMs = ''maxDurationMs''"
| "budgetFieldName FModelSteps = ''maxModelSteps''"
| "budgetFieldName FCommandExecutions = ''maxCommandExecutions''"
| "budgetFieldName FCommandOutputBytes = ''maxCommandOutputBytes''"
| "budgetFieldName FChangedFiles = ''maxChangedFiles''"
| "budgetFieldName FChangedBytes = ''maxChangedBytes''"
| "budgetFieldName FArtifactBytes = ''maxArtifactBytes''"
| "budgetFieldName FReportedTokens = ''maxReportedTokens''"

fun issueMessage :: "graph_issue \<Rightarrow> string" where
  "issueMessage FieldIssue = ''Graph schema is invalid''"
| "issueMessage NodeIdDuplicate = ''node ids must be unique''"
| "issueMessage SequenceDuplicate = ''node sequences must be unique''"
| "issueMessage SelfDependency = ''node cannot depend on itself''"
| "issueMessage UnknownDependency = ''dependency references an unknown node''"
| "issueMessage InheritNeedsOneDependency = ''inherit_predecessor requires exactly one dependency''"
| "issueMessage OriginReadOnlyExclusive = ''origin_read_only is exclusive to plan/read-only agent nodes''"
| "issueMessage VerificationNeedsWorktree = ''verification nodes require a managed worktree lineage''"
| "issueMessage RetryExceedsNodeBudget = ''retry maxAttempts cannot exceed the node budget''"
| "issueMessage (NodeCeilingExceedsGraph f) = budgetFieldName f @ '' node ceiling exceeds Graph ceiling''"
| "issueMessage (InvalidNullableGraphCeiling f) = budgetFieldName f @ '' has an invalid nullable Graph ceiling''"
| "issueMessage TooManyEdges = ''Graph has more than 128 edges''"
| "issueMessage DependencyCycle = ''Graph contains a dependency cycle''"
| "issueMessage DepthExceeded = ''Graph dependency depth exceeds 16''"
| "issueMessage InheritNeedsManagedLineage = ''inherit_predecessor requires a managed predecessor lineage''"
| "issueMessage MergesLineages = ''write node cannot merge multiple managed worktree lineages''"
| "issueMessage CanonicalTooLarge = ''canonical Graph exceeds 256 KiB''"

fun startsWith :: "string \<Rightarrow> string \<Rightarrow> bool" where
  "startsWith s [] = True"
| "startsWith [] (_ # _) = False"
| "startsWith (c # s) (d # t) = (c = d \<and> startsWith s t)"

fun strIncludes :: "string \<Rightarrow> string \<Rightarrow> bool" where
  "strIncludes [] t = (t = [])"
| "strIncludes (c # s) t = (startsWith (c # s) t \<or> strIncludes s t)"

definition classifyTaskGraphSchemaError :: "string \<Rightarrow> task_graph_error_code" where
  "classifyTaskGraphSchemaError message =
     (if strIncludes message ''cycle'' then task_graph_cycle
      else if strIncludes message ''exceeds'' \<or> strIncludes message ''more than'' \<or> strIncludes message ''Too big''
      then task_graph_bounds_exceeded
      else task_graph_schema_invalid)"

end
