(* ===== verification/StoredEvents.thy ===== *)
theory StoredEvents
  imports TaskGraphSchema
begin

text \<open>
  The session log: decoded stored events and the checks on a whole log
  (\<^verbatim>\<open>src/src/events/event-decoder-registry.ts\<close>, payloads of
  \<^verbatim>\<open>task-event-schema.ts\<close>, \<^verbatim>\<open>task-graph-event-schema.ts\<close>, \<^verbatim>\<open>stored-event-v2.ts\<close>).

  \<open>event_data\<close> has one constructor per event type that a projector reads, with the payload
  fields it reads; all other types are \<open>OtherEvent\<close> with their name.  The result of
  \<open>assertDecodedStoredEventInvariants\<close> on a log is the state of its loop; what it means for
  the log as a whole is proved at the end: positions number the events, one session, no
  repeated id, runs in consecutive blocks that start with \<^verbatim>\<open>run.started\<close>, count up by one
  and never go on after their terminal event.
\<close>

section \<open>Payloads\<close>

text \<open>A JSON value as the untyped inspection of \<^verbatim>\<open>run.started\<close> sees it.\<close>

datatype js_value = Absent | NullValue | StrValue string | IntValue int | OtherValue

record run_started_data =
  rs_agent_mode :: js_value
  rs_goal_id :: js_value
  rs_goal_revision :: js_value
  rs_plan_id :: js_value
  rs_plan_revision :: js_value
  rs_plan_sha256 :: js_value

datatype result_status = status_success | status_error
datatype command_termination =
  term_exit | term_signal | term_spawn_error | term_timeout | term_output_limit_exceeded |
  term_cancelled | term_cleanup_failed
datatype completion_effect = effect_accept | effect_reject | effect_error
datatype verification_status = verification_passed | verification_failed | verification_other

record agent_origin =
  ao_call_id :: string
  ao_mutation_id :: string
  ao_run_id :: string

datatype plan_origin = UserOrigin | AgentPlanOrigin agent_origin

record graph_ref =
  gr_graph_id :: string
  gr_graph_revision :: nat
  gr_graph_sha256 :: string

datatype progress_origin = AgentProgressOrigin agent_origin | TaskGraphOrigin graph_ref

record plan_item_content =
  pic_acceptance :: jsstring
  pic_id :: string
  pic_required :: bool
  pic_title :: jsstring

record plan_revision_content =
  prc_goalId :: string
  prc_goalRevision :: nat
  prc_items :: "plan_item_content list"
  prc_planId :: string
  prc_revision :: nat
  prc_title :: jsstring

datatype plan_item_status = item_pending | item_in_progress | item_completed | item_blocked | item_skipped

record goal_created_data =
  gcd_goal_id :: string
  gcd_objective :: jsstring
  gcd_parent_goal_id :: "string option"
  gcd_replaces_active_goal :: "(string \<times> nat) option"

record goal_revised_data =
  grd_base_revision :: nat
  grd_goal_id :: string
  grd_objective :: jsstring
  grd_revision :: nat

datatype goal_status_to = ToAbandoned | ToCompleted string string \<comment> \<open>completion event, finish_task call\<close>

record goal_status_data =
  gsd_goal_id :: string
  gsd_revision :: nat
  gsd_to :: goal_status_to

record plan_revised_data =
  prd_base_revision :: nat
  prd_base_sha256 :: string
  prd_content :: plan_revision_content
  prd_origin :: plan_origin
  prd_plan_sha256 :: string

record plan_target =
  pt_goal_id :: string
  pt_goal_revision :: nat
  pt_plan_id :: string
  pt_plan_sha256 :: string
  pt_revision :: nat

record plan_item_data =
  pid_evidence_event_ids :: "string list"
  pid_from :: plan_item_status
  pid_item_id :: string
  pid_note :: jsstring
  pid_origin :: progress_origin
  pid_target :: plan_target
  pid_to :: plan_item_status

record graph_artifact =
  ga_artifact_id :: string
  ga_bytes :: nat
  ga_object_ref :: string
  ga_sha256 :: string

record graph_proposed_data =
  gp_artifact :: graph_artifact
  gp_binding :: task_graph_binding
  gp_content :: task_graph_content
  gp_ref :: graph_ref

record graph_replaced_data =
  gx_artifact :: graph_artifact
  gx_base_revision :: nat
  gx_base_sha256 :: string
  gx_binding :: task_graph_binding
  gx_content :: task_graph_content
  gx_ref :: graph_ref

datatype graph_terminal_status =
  gt_completed | gt_blocked | gt_cancelled | gt_failed | gt_stale | gt_awaiting_integration
datatype requested_execution = exec_foreground | exec_background
datatype retry_origin = retry_initial | retry_automatic | retry_user
datatype attempt_terminal =
  at_succeeded | at_known_failed | at_cancelled_clean | at_blocked_unknown_effect |
  at_blocked_reconciliation | at_pre_effect_infrastructure_failure
datatype usage_completeness = usage_complete | usage_partial | usage_none
datatype wait_reason =
  approval_required | input_required | promotion_required | profile_required | reconciliation_required

record task_budget_counters =
  attempts :: int
  durationMs :: int
  modelSteps :: int
  commandExecutions :: int
  commandOutputBytes :: int
  changedFiles :: int
  changedBytes :: int
  artifactBytes :: int
  reportedTokens :: "int option"

record workspace_binding =
  wb_managed_path_sha256 :: string
  wb_repository_id :: string
  wb_source_snapshot_sha256 :: string
  wb_workspace_baseline_sha256 :: string
  wb_workspace_id :: string

record attempt_requested_data =
  ar_attempt_id :: string
  ar_attempt_number :: nat
  ar_node_id :: string
  ar_reservation :: task_budget_counters
  ar_retry_origin :: retry_origin
  ar_workspace_binding :: "workspace_binding option"

record attempt_terminal_data =
  atd_attempt_id :: string
  atd_budget :: task_budget_counters
  atd_node_id :: string
  atd_terminal :: attempt_terminal
  atd_usage_completeness :: usage_completeness

record retry_requested_data =
  rr_attempt_number :: nat
  rr_node_id :: string
  rr_previous_terminal :: "attempt_terminal option"
  rr_terminal_event_id :: string

record cancel_request_data =
  cr_operation_id :: string
  cr_target_owner_generation_sha256 :: string
  cr_target_run_id :: string

record cancel_binding =
  cb_request_event_id :: string
  cb_target_owner_generation_sha256 :: string

datatype (plugins only: code size) event_data =
    RunStarted run_started_data
  | ToolCallRequested string string \<comment> \<open>tool_name, call_id\<close>
  | ResumePendingCallAdopted string string
  | ToolCallCompleted string string result_status
  | ToolCallRecovered string string result_status string \<comment> \<open>and source_run_id\<close>
  | RunCancelRequested cancel_request_data
  | RunBudgetExceeded
  | RunCancelled "cancel_binding option"
  | RunCompleted
  | RunFailed
  | RunIncomplete
  | ArtifactStored string \<comment> \<open>origin_event_id\<close>
  | CommandCompleted bool "int option" command_termination
  | CompletionEvaluated completion_effect string
  | McpToolCallCompleted result_status
  | McpToolCallEffectUnknown
  | PatchApplyCompleted
  | VerificationCompleted verification_status bool
  | SideEffectReconciled bool string \<comment> \<open>observed = applied, source_run_id\<close>
  | GoalCreated goal_created_data
  | GoalRevised goal_revised_data
  | GoalStatusChanged goal_status_data
  | PlanProposed plan_revision_content plan_origin string
  | PlanRevised plan_revised_data
  | PlanApproved plan_target
  | PlanRejected plan_target
  | PlanItemStatusChanged plan_item_data
  | PlanCompleted plan_target string string \<comment> \<open>completion event, finish_task call\<close>
  | TaskGraphProposed graph_proposed_data
  | TaskGraphReplaced graph_replaced_data
  | TaskGraphApproved graph_ref string \<comment> \<open>revision_event_id\<close>
  | TaskGraphRejected graph_ref string
  | TaskGraphStale graph_ref
  | TaskGraphEnqueued graph_ref string requested_execution string
  | TaskGraphStarted graph_ref string \<comment> \<open>scheduler_lease_nonce_sha256\<close>
  | TaskGraphWaitingForUser graph_ref wait_reason
  | TaskGraphCancelRequested graph_ref
  | TaskGraphTerminal graph_ref graph_terminal_status "string option"
  | TaskSchedulerLeaseAcquired graph_ref string
  | TaskSchedulerLeaseRecovered graph_ref string
  | TaskNodeAttemptRequested graph_ref attempt_requested_data
  | TaskNodeAttemptStarted graph_ref string string string string \<comment> \<open>attempt, node, run, lease\<close>
  | TaskNodeAttemptWaiting graph_ref string string
  | TaskNodeAttemptTerminal graph_ref attempt_terminal_data
  | TaskNodeRetryRequested graph_ref retry_requested_data
  | TaskNodeSkipped graph_ref string "string list"
  | TaskBudgetExhausted graph_ref budget_field "string option"
  | OtherEvent string

section \<open>Events\<close>

datatype event_scope = SessionScope | RunScope string nat \<comment> \<open>runId, runSeq\<close>

record stored_event =
  eventId :: string
  sessionId :: string
  sessionSeq :: nat
  sourceSchemaVersion :: nat
  scope :: event_scope
  edata :: event_data

fun isTerminalType :: "event_data \<Rightarrow> bool" where
  "isTerminalType RunBudgetExceeded = True"
| "isTerminalType (RunCancelled _) = True"
| "isTerminalType RunCompleted = True"
| "isTerminalType RunFailed = True"
| "isTerminalType RunIncomplete = True"
| "isTerminalType _ = False"

definition isDecodedTerminalRunEvent :: "stored_event \<Rightarrow> bool" where
  "isDecodedTerminalRunEvent event \<longleftrightarrow> scope event \<noteq> SessionScope \<and> isTerminalType (edata event)"

section \<open>The log checker\<close>

datatype decode_error_code =
    v1_after_v2 | session_sequence | session_mismatch | duplicate_event_id | run_started_required |
    run_sequence | run_reopened | event_after_terminal | invalid_event

record run_invariant_state =
  cancelRequest :: "(string \<times> cancel_request_data) option" \<comment> \<open>event id and payload\<close>
  nextRunSeq :: nat
  ris_terminal :: bool

record log_state =
  ls_index :: nat
  ls_eventIds :: "string set"
  ls_runs :: "string \<rightharpoonup> run_invariant_state"
  ls_sessionId :: "string option"
  ls_currentRunId :: "string option"
  ls_sawV2 :: bool

definition log_init :: log_state where
  "log_init = \<lparr>ls_index = 0, ls_eventIds = {}, ls_runs = Map.empty, ls_sessionId = None,
     ls_currentRunId = None, ls_sawV2 = False\<rparr>"

text \<open>The checks on \<^verbatim>\<open>run.cancel.requested\<close> and \<^verbatim>\<open>run.cancelled\<close>.\<close>

definition checkCancel :: "stored_event \<Rightarrow> string \<Rightarrow> run_invariant_state \<Rightarrow> decode_error_code + run_invariant_state" where
  "checkCancel event runId state = (case edata event of
     RunCancelRequested d \<Rightarrow>
       if cr_target_run_id d \<noteq> runId \<or> cr_operation_id d \<noteq> eventId event \<or> cancelRequest state \<noteq> None
       then Inl invalid_event
       else Inr (state\<lparr>cancelRequest := Some (eventId event, d)\<rparr>)
   | RunCancelled binding \<Rightarrow>
       (case (binding, cancelRequest state) of
          (None, None) \<Rightarrow> Inr state
        | (Some b, Some (requestEventId, d)) \<Rightarrow>
            if cb_request_event_id b \<noteq> requestEventId \<or>
               cb_target_owner_generation_sha256 b \<noteq> cr_target_owner_generation_sha256 d
            then Inl invalid_event else Inr state
        | _ \<Rightarrow> Inl invalid_event)
   | _ \<Rightarrow> Inr state)"

definition checkRunEvent :: "log_state \<Rightarrow> stored_event \<Rightarrow> string \<Rightarrow> nat \<Rightarrow> decode_error_code + log_state" where
  "checkRunEvent s event runId runSeq = (case ls_runs s runId of
     None \<Rightarrow>
       (case edata event of
          RunStarted _ \<Rightarrow>
            if runSeq \<noteq> 1 then Inl run_sequence
            else Inr (s\<lparr>ls_runs := (ls_runs s)(runId \<mapsto> \<lparr>cancelRequest = None, nextRunSeq = 2,
                          ris_terminal = isTerminalType (edata event)\<rparr>),
                        ls_currentRunId := Some runId\<rparr>)
        | _ \<Rightarrow> Inl run_started_required)
   | Some state \<Rightarrow>
       if ls_currentRunId s \<noteq> Some runId then Inl run_reopened
       else if ris_terminal state then Inl event_after_terminal
       else if runSeq \<noteq> nextRunSeq state then Inl run_sequence
       else ebind (checkCancel event runId state) (\<lambda>state'.
         Inr (s\<lparr>ls_runs := (ls_runs s)(runId \<mapsto> state'
           \<lparr>nextRunSeq := nextRunSeq state' + 1, ris_terminal := isTerminalType (edata event)\<rparr>)\<rparr>)))"

definition checkEvent :: "log_state \<Rightarrow> stored_event \<Rightarrow> decode_error_code + log_state" where
  "checkEvent s event =
     (let eventNumber = ls_index s + 1 in
      if sourceSchemaVersion event = 1 \<and> ls_sawV2 s then Inl v1_after_v2
      else if sessionSeq event \<noteq> eventNumber then Inl session_sequence
      else if (case ls_sessionId s of None \<Rightarrow> False | Some sid \<Rightarrow> sessionId event \<noteq> sid) then Inl session_mismatch
      else if eventId event \<in> ls_eventIds s then Inl duplicate_event_id
      else
        let s' = s\<lparr>ls_index := eventNumber, ls_sawV2 := (ls_sawV2 s \<or> sourceSchemaVersion event = 2),
                   ls_sessionId := Some (case ls_sessionId s of None \<Rightarrow> sessionId event | Some sid \<Rightarrow> sid),
                   ls_eventIds := insert (eventId event) (ls_eventIds s)\<rparr>
        in (case scope event of
              SessionScope \<Rightarrow> Inr s'
            | RunScope runId runSeq \<Rightarrow> checkRunEvent s' event runId runSeq))"

definition assertDecodedStoredEventInvariants :: "stored_event list \<Rightarrow> decode_error_code + log_state" where
  "assertDecodedStoredEventInvariants events = efold checkEvent log_init events"

section \<open>What an accepted log looks like\<close>

definition runIdOf :: "stored_event \<Rightarrow> string option" where
  "runIdOf e = (case scope e of SessionScope \<Rightarrow> None | RunScope r _ \<Rightarrow> Some r)"

definition runSeqOf :: "stored_event \<Rightarrow> nat" where
  "runSeqOf e = (case scope e of SessionScope \<Rightarrow> 0 | RunScope _ q \<Rightarrow> q)"

definition runEvents :: "string \<Rightarrow> stored_event list \<Rightarrow> stored_event list" where
  "runEvents r es = filter (\<lambda>e. runIdOf e = Some r) es"

definition runOrder :: "stored_event list \<Rightarrow> string list" where
  "runOrder es = List.map_filter runIdOf es"

fun isRunStart :: "event_data \<Rightarrow> bool" where
  "isRunStart (RunStarted _) = True"
| "isRunStart _ = False"

text \<open>
  A well-formed run: it starts with \<^verbatim>\<open>run.started\<close>, its own sequence counts from one, and
  only its last event may be terminal.
\<close>

definition runWf :: "stored_event list \<Rightarrow> bool" where
  "runWf rs \<longleftrightarrow> rs \<noteq> [] \<and> isRunStart (edata (hd rs)) \<and> map runSeqOf rs = [1..<Suc (length rs)] \<and>
     (\<forall>e\<in>set (butlast rs). \<not> isTerminalType (edata e))"

text \<open>
  A well-formed log: session positions are \<open>1, 2, \<dots>\<close>, event ids are distinct, one
  session, no version 1 event after a version 2 event, the runs follow each other without
  interleaving, and each is well-formed.
\<close>

definition logWf :: "stored_event list \<Rightarrow> bool" where
  "logWf es \<longleftrightarrow> map sessionSeq es = [1..<Suc (length es)] \<and> distinct (map eventId es) \<and>
     (\<forall>e\<in>set es. sessionId e = sessionId (hd es)) \<and>
     (\<forall>j<length es. \<forall>i<j. sourceSchemaVersion (es ! i) = 2 \<longrightarrow> sourceSchemaVersion (es ! j) \<noteq> 1) \<and>
     distinct (remdups_adj (runOrder es)) \<and>
     (\<forall>r\<in>set (runOrder es). runWf (runEvents r es))"

definition logInv :: "stored_event list \<Rightarrow> log_state \<Rightarrow> bool" where
  "logInv es s \<longleftrightarrow> logWf es \<and> ls_index s = length es \<and> ls_eventIds s = eventId ` set es \<and>
     ls_sawV2 s = (\<exists>e\<in>set es. sourceSchemaVersion e = 2) \<and>
     ls_sessionId s = (if es = [] then None else Some (sessionId (hd es))) \<and>
     ls_currentRunId s = (if runOrder es = [] then None else Some (last (runOrder es))) \<and>
     dom (ls_runs s) = set (runOrder es) \<and>
     (\<forall>r st. ls_runs s r = Some st \<longrightarrow> nextRunSeq st = Suc (length (runEvents r es)) \<and>
        ris_terminal st = isTerminalType (edata (last (runEvents r es))))"

lemma runOrder_snoc:
  "runOrder (es @ [e]) = runOrder es @ (case runIdOf e of None \<Rightarrow> [] | Some r \<Rightarrow> [r])"
  by (simp add: runOrder_def map_filter_def split: option.splits)

lemma runEvents_snoc:
  "runEvents r (es @ [e]) = runEvents r es @ (if runIdOf e = Some r then [e] else [])"
  by (simp add: runEvents_def)

lemma runEvents_Nil_iff: "runEvents r es = [] \<longleftrightarrow> r \<notin> set (runOrder es)"
  by (induction es) (auto simp: runEvents_def runOrder_def map_filter_def)

lemma remdups_adj_snoc:
  "remdups_adj (xs @ [x]) = (if xs \<noteq> [] \<and> last xs = x then remdups_adj xs else remdups_adj xs @ [x])"
  by (induction xs rule: remdups_adj.induct) (auto split: if_splits)

lemma runWf_single: "isRunStart (edata e) \<Longrightarrow> runSeqOf e = 1 \<Longrightarrow> runWf [e]"
  by (simp add: runWf_def)

lemma runWf_snoc:
  "runWf rs \<Longrightarrow> \<not> isTerminalType (edata (last rs)) \<Longrightarrow> runSeqOf e = Suc (length rs) \<Longrightarrow> runWf (rs @ [e])"
  by (cases rs rule: rev_cases) (auto simp: runWf_def butlast_append hd_append)

lemma checkCancel_keeps:
  "checkCancel e r st = Inr st' \<Longrightarrow> nextRunSeq st' = nextRunSeq st \<and> ris_terminal st' = ris_terminal st"
  by (auto simp: checkCancel_def split: event_data.splits option.splits if_splits prod.splits)

text \<open>The checks of one event, all passed.\<close>

lemma checkEvent_Inr:
  assumes "checkEvent s e = Inr s'"
  shows "sessionSeq e = Suc (ls_index s)" "eventId e \<notin> ls_eventIds s"
    "ls_sessionId s = None \<or> ls_sessionId s = Some (sessionId e)"
    "ls_index s' = Suc (ls_index s)" "ls_eventIds s' = insert (eventId e) (ls_eventIds s)"
    "ls_sessionId s' = Some (sessionId e)" "\<not> (sourceSchemaVersion e = 1 \<and> ls_sawV2 s)"
    "ls_sawV2 s' = (ls_sawV2 s \<or> sourceSchemaVersion e = 2)"
  using assms
  by (auto simp: checkEvent_def checkRunEvent_def Let_def err_simps
      split: if_splits option.splits event_scope.splits event_data.splits)

lemma checkEvent_session:
  assumes "checkEvent s e = Inr s'" "runIdOf e = None"
  shows "ls_runs s' = ls_runs s" "ls_currentRunId s' = ls_currentRunId s"
  using assms by (auto simp: checkEvent_def runIdOf_def Let_def split: if_splits event_scope.splits)

lemma checkEvent_newRun:
  assumes "checkEvent s e = Inr s'" "runIdOf e = Some r" "ls_runs s r = None"
  shows "isRunStart (edata e)" "runSeqOf e = 1" "ls_currentRunId s' = Some r"
    "\<exists>st. ls_runs s' = (ls_runs s)(r \<mapsto> st) \<and> nextRunSeq st = 2 \<and> ris_terminal st = isTerminalType (edata e)"
  using assms
  by (auto simp: checkEvent_def checkRunEvent_def runIdOf_def runSeqOf_def Let_def
      split: if_splits event_scope.splits event_data.splits)

lemma checkEvent_sameRun:
  assumes "checkEvent s e = Inr s'" "runIdOf e = Some r" "ls_runs s r = Some st"
  shows "ls_currentRunId s = Some r" "\<not> ris_terminal st" "runSeqOf e = nextRunSeq st"
    "ls_currentRunId s' = Some r"
    "\<exists>st'. ls_runs s' = (ls_runs s)(r \<mapsto> st') \<and> nextRunSeq st' = Suc (nextRunSeq st) \<and>
       ris_terminal st' = isTerminalType (edata e)"
  using assms
  by (auto simp: checkEvent_def checkRunEvent_def runIdOf_def runSeqOf_def Let_def err_simps
      split: if_splits event_scope.splits dest!: checkCancel_keeps)

lemma logInv_runs:
  assumes inv: "logInv es s" and step: "checkEvent s e = Inr s'"
  shows "distinct (remdups_adj (runOrder (es @ [e])))"
    "\<forall>r\<in>set (runOrder (es @ [e])). runWf (runEvents r (es @ [e]))"
    "ls_currentRunId s' = (if runOrder (es @ [e]) = [] then None else Some (last (runOrder (es @ [e]))))"
    "dom (ls_runs s') = set (runOrder (es @ [e]))"
    "\<forall>r st. ls_runs s' r = Some st \<longrightarrow> nextRunSeq st = Suc (length (runEvents r (es @ [e]))) \<and>
        ris_terminal st = isTerminalType (edata (last (runEvents r (es @ [e]))))"
proof -
  have goal: "distinct (remdups_adj (runOrder (es @ [e]))) \<and>
    (\<forall>r\<in>set (runOrder (es @ [e])). runWf (runEvents r (es @ [e]))) \<and>
    ls_currentRunId s' = (if runOrder (es @ [e]) = [] then None else Some (last (runOrder (es @ [e])))) \<and>
    dom (ls_runs s') = set (runOrder (es @ [e])) \<and>
    (\<forall>r st. ls_runs s' r = Some st \<longrightarrow> nextRunSeq st = Suc (length (runEvents r (es @ [e]))) \<and>
        ris_terminal st = isTerminalType (edata (last (runEvents r (es @ [e])))))"
  proof (cases "runIdOf e")
    case None
    with inv checkEvent_session [OF step] show ?thesis
      by (simp add: logInv_def logWf_def runOrder_snoc runEvents_snoc)
  next
    case (Some r)
    show ?thesis
    proof (cases "ls_runs s r")
      case None
      with inv have new: "r \<notin> set (runOrder es)" by (auto simp: logInv_def)
      then have nil: "runEvents r es = []" by (simp add: runEvents_Nil_iff)
      from new have last: "runOrder es \<noteq> [] \<Longrightarrow> last (runOrder es) \<noteq> r" by (metis last_in_set)
      note new_run = checkEvent_newRun [OF step Some None]
      from new_run(4) obtain st where st: "ls_runs s' = (ls_runs s)(r \<mapsto> st)" "nextRunSeq st = 2"
        "ris_terminal st = isTerminalType (edata e)" by blast
      from inv new last nil Some st new_run(3) runWf_single [OF new_run(1,2)] show ?thesis
        by (auto simp: logInv_def logWf_def runOrder_snoc runEvents_snoc remdups_adj_snoc)
    next
      case old: (Some st)
      note same = checkEvent_sameRun [OF step Some old]
      from same(5) obtain st' where st': "ls_runs s' = (ls_runs s)(r \<mapsto> st')"
        "nextRunSeq st' = Suc (nextRunSeq st)" "ris_terminal st' = isTerminalType (edata e)" by blast
      from inv old have mem: "r \<in> set (runOrder es)" by (auto simp: logInv_def)
      with inv same(1) have last: "runOrder es \<noteq> []" "last (runOrder es) = r"
        by (auto simp: logInv_def split: if_splits)
      from inv old have st: "nextRunSeq st = Suc (length (runEvents r es))"
        "ris_terminal st = isTerminalType (edata (last (runEvents r es)))" by (auto simp: logInv_def)
      have "runWf (runEvents r es @ [e])"
        by (rule runWf_snoc) (use inv mem same(2,3) st in \<open>auto simp: logInv_def logWf_def\<close>)
      with inv mem last Some st st' same(4) show ?thesis
        by (auto simp: logInv_def logWf_def runOrder_snoc runEvents_snoc remdups_adj_snoc insert_absorb)
    qed
  qed
  show "distinct (remdups_adj (runOrder (es @ [e])))"
    "\<forall>r\<in>set (runOrder (es @ [e])). runWf (runEvents r (es @ [e]))"
    "ls_currentRunId s' = (if runOrder (es @ [e]) = [] then None else Some (last (runOrder (es @ [e]))))"
    "dom (ls_runs s') = set (runOrder (es @ [e]))"
    "\<forall>r st. ls_runs s' r = Some st \<longrightarrow> nextRunSeq st = Suc (length (runEvents r (es @ [e]))) \<and>
        ris_terminal st = isTerminalType (edata (last (runEvents r (es @ [e]))))"
    using goal by blast+
qed

lemma logInv_step:
  assumes inv: "logInv es s" and step: "checkEvent s e = Inr s'"
  shows "logInv (es @ [e]) s'"
proof -
  note c = checkEvent_Inr [OF step] and r = logInv_runs [OF inv step]
  have sid: "ls_sessionId s' = (if es @ [e] = [] then None else Some (sessionId (hd (es @ [e]))))"
    using inv c by (cases es) (auto simp: logInv_def)
  have one: "\<forall>x\<in>set (es @ [e]). sessionId x = sessionId (hd (es @ [e]))"
    using inv c by (cases es) (auto simp: logInv_def logWf_def)
  have seqs: "map sessionSeq (es @ [e]) = [1..<Suc (length (es @ [e]))]"
    using inv c by (simp add: logInv_def logWf_def)
  have ids: "distinct (map eventId (es @ [e]))" "ls_eventIds s' = eventId ` set (es @ [e])"
    "ls_index s' = length (es @ [e])"
    using inv c by (auto simp: logInv_def logWf_def)
  have versions: "\<forall>j<length (es @ [e]). \<forall>i<j. sourceSchemaVersion ((es @ [e]) ! i) = 2 \<longrightarrow>
      sourceSchemaVersion ((es @ [e]) ! j) \<noteq> 1"
    using inv c(7) by (auto simp: logInv_def logWf_def nth_append less_Suc_eq)
  have v2: "ls_sawV2 s' = (\<exists>x\<in>set (es @ [e]). sourceSchemaVersion x = 2)"
    using inv c(8) by (auto simp: logInv_def)
  show ?thesis
    unfolding logInv_def logWf_def by (intro conjI) (fact seqs ids one versions r v2 sid)+
qed

lemma logInv_init: "logInv [] log_init"
  by (simp add: logInv_def logWf_def log_init_def runOrder_def map_filter_def)

interpretation log_check: log_projector checkEvent log_init logInv
  by unfold_locales (rule logInv_init, rule logInv_step)

lemma accepted_logWf: "assertDecodedStoredEventInvariants es = Inr s \<Longrightarrow> logWf es"
  using log_check.log_run [of es s] by (simp add: assertDecodedStoredEventInvariants_def logInv_def)

end
