(* ===== verification/PlanEvidence.thy ===== *)
theory PlanEvidence
  imports StoredEvents
begin

text \<open>
  Plans: their content schema and identity (\<^verbatim>\<open>src/src/plans/plan-schema.ts\<close>,
  \<^verbatim>\<open>plan-identity.ts\<close>) and the classification of stored events as evidence for the progress
  of a Plan item (\<^verbatim>\<open>plan-item-evidence.ts\<close>).

  The lemmas show what an accepted Plan is (bounds on every field, unique item ids, canonical
  size), that the identity is the hash of exactly the accepted content, and that evidence is
  eligible only when it is bound to the Goal revision it is used for.
\<close>

section \<open>Plan content\<close>

definition planTitleSchema :: "jsstring \<Rightarrow> bool" where
  "planTitleSchema v \<longleftrightarrow> canonicalStoredTextSchema
     \<lparr>maximumBytes = 800, maximumScalars = Some 200, minimumScalars = Some 1, nonblank = True\<rparr> v = []"

definition planItemAcceptanceSchema :: "jsstring \<Rightarrow> bool" where
  "planItemAcceptanceSchema v \<longleftrightarrow> canonicalStoredTextSchema
     \<lparr>maximumBytes = 3200, maximumScalars = Some 800, minimumScalars = Some 1, nonblank = True\<rparr> v = []"

definition planItemContentSchema :: "plan_item_content \<Rightarrow> bool" where
  "planItemContentSchema item \<longleftrightarrow>
     planItemAcceptanceSchema (pic_acceptance item) \<and> planItemIdOk (pic_id item) \<and> planTitleSchema (pic_title item)"

definition planItemJson :: "plan_item_content \<Rightarrow> json" where
  "planItemJson item = JObject
     [(js ''acceptance'', JString (pic_acceptance item)), (js ''id'', JText (pic_id item)),
      (js ''required'', JBool (pic_required item)), (js ''title'', JString (pic_title item))]"

definition planJson :: "plan_revision_content \<Rightarrow> json" where
  "planJson c = JObject
     [(js ''goalId'', JText (prc_goalId c)), (js ''goalRevision'', JNat (prc_goalRevision c)),
      (js ''items'', JArray (map planItemJson (prc_items c))), (js ''planId'', JText (prc_planId c)),
      (js ''revision'', JNat (prc_revision c)), (js ''schemaVersion'', JNat 1), (js ''title'', JString (prc_title c))]"

definition MAX_CANONICAL_PLAN_BYTES :: nat where "MAX_CANONICAL_PLAN_BYTES = 32 * 1024"

datatype plan_issue = PlanFieldIssue | PlanItemIdDuplicate nat | CanonicalPlanTooLarge | PlanEncoding type_error

fun planItemIdIssues :: "string list \<Rightarrow> nat \<Rightarrow> plan_item_content list \<Rightarrow> plan_issue list" where
  "planItemIdIssues itemIds index [] = []"
| "planItemIdIssues itemIds index (item # items) =
     (if pic_id item \<in> set itemIds then [PlanItemIdDuplicate index] else []) @
     planItemIdIssues (pic_id item # itemIds) (index + 1) items"

definition planRevisionContentSchema :: "platform \<Rightarrow> plan_revision_content \<Rightarrow> plan_issue list" where
  "planRevisionContentSchema p c =
     (if isUuid p (prc_goalId c) \<and> positiveSafeInteger (prc_goalRevision c) \<and>
         1 \<le> length (prc_items c) \<and> length (prc_items c) \<le> 32 \<and> list_all planItemContentSchema (prc_items c) \<and>
         isUuid p (prc_planId c) \<and> positiveSafeInteger (prc_revision c) \<and> planTitleSchema (prc_title c)
      then planItemIdIssues [] 0 (prc_items c) @
        (case canonicalJson (planJson c) of
           Inl e \<Rightarrow> [PlanEncoding e]
         | Inr s \<Rightarrow> if byteLength s > MAX_CANONICAL_PLAN_BYTES then [CanonicalPlanTooLarge] else [])
      else [PlanFieldIssue])"

record plan_identity =
  pi_canonicalJson :: jsstring
  pi_content :: plan_revision_content
  pi_sha256 :: string

datatype plan_identity_error = PlanZodError "plan_issue list" | PlanRangeError | PlanTypeError type_error

definition canonicalPlanIdentity :: "platform \<Rightarrow> plan_revision_content \<Rightarrow> plan_identity_error + plan_identity" where
  "canonicalPlanIdentity p input =
     (let issues = planRevisionContentSchema p input in
      if issues \<noteq> [] then Inl (PlanZodError issues)
      else case canonicalJson (planJson input) of
        Inl e \<Rightarrow> Inl (PlanTypeError e)
      | Inr serialized \<Rightarrow>
          if byteLength serialized > MAX_CANONICAL_PLAN_BYTES then Inl PlanRangeError
          else (case sha256Canonical (sha256 p) (planJson input) of
                  Inl e \<Rightarrow> Inl (PlanTypeError e)
                | Inr h \<Rightarrow> Inr \<lparr>pi_canonicalJson = serialized, pi_content = input, pi_sha256 = h\<rparr>))"

section \<open>Evidence\<close>

definition READ_TOOL_ALLOWLIST :: "string set" where
  "READ_TOOL_ALLOWLIST = {''list_files'', ''read_artifact'', ''read_file'', ''search''}"

datatype binding_mode = mode_build | mode_unknown

record evidence_run_binding =
  erb_goalId :: string
  erb_goalRevision :: nat
  erb_mode :: binding_mode

type_synonym events_by_id = "(string \<times> stored_event) list"

record evidence_context =
  ec_eventsById :: events_by_id
  ec_goalId :: string
  ec_goalRevision :: nat
  ec_runBindings :: "string \<rightharpoonup> evidence_run_binding"

record evidence_class =
  eligibleForBlocked :: bool
  eligibleForCompleted :: bool

definition INELIGIBLE :: evidence_class where
  "INELIGIBLE = \<lparr>eligibleForBlocked = False, eligibleForCompleted = False\<rparr>"

definition matchingRunBinding :: "string \<Rightarrow> evidence_context \<Rightarrow> evidence_run_binding option" where
  "matchingRunBinding runId context = (case ec_runBindings context runId of
     None \<Rightarrow> None
   | Some binding \<Rightarrow>
       if erb_goalId binding \<noteq> ec_goalId context \<or> erb_goalRevision binding \<noteq> ec_goalRevision context
       then None else Some binding)"

definition authorizedReadArtifact :: "stored_event \<Rightarrow> string \<Rightarrow> string \<Rightarrow> evidence_context \<Rightarrow> bool" where
  "authorizedReadArtifact event runId originEventId context =
     (case map_of (ec_eventsById context) originEventId of
        None \<Rightarrow> False
      | Some origin \<Rightarrow>
          (case scope origin of
             SessionScope \<Rightarrow> False
           | RunScope originRun _ \<Rightarrow>
               originRun = runId \<and> sessionSeq origin < sessionSeq event \<and>
               (case edata origin of
                  ToolCallRequested tool _ \<Rightarrow> tool \<in> READ_TOOL_ALLOWLIST
                | ResumePendingCallAdopted tool _ \<Rightarrow> tool \<in> READ_TOOL_ALLOWLIST
                | _ \<Rightarrow> False)))"

text \<open>The Graph revision an event stores, if it is one of the two that store one.\<close>

fun graphRevisionOf :: "event_data \<Rightarrow> (graph_ref \<times> task_graph_binding \<times> task_graph_content) option" where
  "graphRevisionOf (TaskGraphProposed d) = Some (gp_ref d, gp_binding d, gp_content d)"
| "graphRevisionOf (TaskGraphReplaced d) = Some (gx_ref d, gx_binding d, gx_content d)"
| "graphRevisionOf _ = None"

definition findGraphRevision :: "events_by_id \<Rightarrow> graph_ref \<Rightarrow> (graph_ref \<times> task_graph_binding \<times> task_graph_content) option" where
  "findGraphRevision eventsById ref =
     Option.bind (find (\<lambda>candidate. scope candidate = SessionScope \<and>
        (case graphRevisionOf (edata candidate) of None \<Rightarrow> False | Some (r, _, _) \<Rightarrow> r = ref)) (map snd eventsById))
       (\<lambda>candidate. graphRevisionOf (edata candidate))"

definition classifyRunEvidence :: "stored_event \<Rightarrow> string \<Rightarrow> evidence_run_binding \<Rightarrow> evidence_context \<Rightarrow> evidence_class" where
  "classifyRunEvidence event runId binding context = (case edata event of
     ToolCallCompleted tool _ status \<Rightarrow>
       if tool \<notin> READ_TOOL_ALLOWLIST then INELIGIBLE
       else \<lparr>eligibleForBlocked = True, eligibleForCompleted = (status = status_success)\<rparr>
   | ToolCallRecovered tool _ status source_run_id \<Rightarrow>
       if runId = source_run_id \<or> tool \<notin> READ_TOOL_ALLOWLIST \<or> matchingRunBinding source_run_id context = None
       then INELIGIBLE
       else \<lparr>eligibleForBlocked = True, eligibleForCompleted = (status = status_success)\<rparr>
   | PatchApplyCompleted \<Rightarrow> \<lparr>eligibleForBlocked = True, eligibleForCompleted = True\<rparr>
   | CommandCompleted cleanup_verified exit_code termination \<Rightarrow>
       \<lparr>eligibleForBlocked = True,
        eligibleForCompleted = (cleanup_verified \<and> exit_code = Some 0 \<and> termination = term_exit)\<rparr>
   | VerificationCompleted status stale \<Rightarrow>
       \<lparr>eligibleForBlocked = True, eligibleForCompleted = (status = verification_passed \<and> \<not> stale)\<rparr>
   | ArtifactStored origin_event_id \<Rightarrow>
       (let eligible = authorizedReadArtifact event runId origin_event_id context in
        \<lparr>eligibleForBlocked = eligible, eligibleForCompleted = eligible\<rparr>)
   | McpToolCallCompleted status \<Rightarrow>
       if erb_mode binding \<noteq> mode_build then INELIGIBLE
       else \<lparr>eligibleForBlocked = True, eligibleForCompleted = (status = status_success)\<rparr>
   | McpToolCallEffectUnknown \<Rightarrow>
       \<lparr>eligibleForBlocked = (erb_mode binding = mode_build), eligibleForCompleted = False\<rparr>
   | _ \<Rightarrow> INELIGIBLE)"

definition classifyPlanItemEvidence :: "stored_event \<Rightarrow> evidence_context \<Rightarrow> evidence_class" where
  "classifyPlanItemEvidence event context = (case (edata event, scope event) of
     (SideEffectReconciled applied source_run_id, _) \<Rightarrow>
       if \<not> applied \<or> matchingRunBinding source_run_id context = None then INELIGIBLE
       else \<lparr>eligibleForBlocked = True, eligibleForCompleted = True\<rparr>
   | (TaskNodeAttemptTerminal ref d, SessionScope) \<Rightarrow>
       if atd_terminal d \<noteq> at_succeeded then INELIGIBLE
       else (case findGraphRevision (ec_eventsById context) ref of
           None \<Rightarrow> INELIGIBLE
         | Some (_, b, _) \<Rightarrow>
             if b_goalId b \<noteq> ec_goalId context \<or> b_goalRevision b \<noteq> ec_goalRevision context then INELIGIBLE
             else \<lparr>eligibleForBlocked = True, eligibleForCompleted = True\<rparr>)
   | (_, SessionScope) \<Rightarrow> INELIGIBLE
   | (_, RunScope runId _) \<Rightarrow>
       (case matchingRunBinding runId context of
          None \<Rightarrow> INELIGIBLE
        | Some binding \<Rightarrow> classifyRunEvidence event runId binding context))"

section \<open>Accepted Plans\<close>

lemma planItemIdIssues_Nil:
  "planItemIdIssues seen i items = [] \<longleftrightarrow>
     distinct (map pic_id items) \<and> set (map pic_id items) \<inter> set seen = {}"
  by (induction items arbitrary: seen i) auto

lemma canonicalPlanIdentity_Inr:
  assumes "canonicalPlanIdentity p input = Inr ident"
  shows "planRevisionContentSchema p input = []" "pi_content ident = input"
    "canonicalJson (planJson input) = Inr (pi_canonicalJson ident)"
    "pi_sha256 ident = sha256 p (pi_canonicalJson ident)"
    "byteLength (pi_canonicalJson ident) \<le> MAX_CANONICAL_PLAN_BYTES"
    "distinct (map pic_id (prc_items input))" "prc_items input \<noteq> []" "length (prc_items input) \<le> 32"
  using assms
  by (auto simp: canonicalPlanIdentity_def Let_def sha256Canonical_def planRevisionContentSchema_def
      planItemIdIssues_Nil split: if_splits sum.splits)

text \<open>The canonical text is always defined, so the identity never fails with a type error.\<close>

lemma planItemJson_total: "\<exists>s. canonicalJson (planItemJson item) = Inr s"
  unfolding planItemJson_def by (rule canonicalJson_object_total) auto

lemma planJson_total: "\<exists>s. canonicalJson (planJson c) = Inr s"
proof -
  have "\<exists>s. canonicalJson (JArray (map planItemJson (prc_items c))) = Inr s"
    by (rule canonicalJson_array_total) (auto intro: planItemJson_total)
  then show ?thesis
    unfolding planJson_def by (intro canonicalJson_object_total) (auto simp del: canonicalJson.simps(7))
qed

section \<open>Eligible evidence\<close>

text \<open>\<open>evidenceBound\<close> states how a piece of evidence is tied to the Goal revision.\<close>

definition evidenceBound :: "stored_event \<Rightarrow> evidence_context \<Rightarrow> bool" where
  "evidenceBound event context = (case (edata event, scope event) of
     (SideEffectReconciled _ run, _) \<Rightarrow> matchingRunBinding run context \<noteq> None
   | (TaskNodeAttemptTerminal ref _, SessionScope) \<Rightarrow>
       (\<exists>r b c. findGraphRevision (ec_eventsById context) ref = Some (r, b, c) \<and>
          b_goalId b = ec_goalId context \<and> b_goalRevision b = ec_goalRevision context)
   | (_, SessionScope) \<Rightarrow> False
   | (_, RunScope run _) \<Rightarrow> matchingRunBinding run context \<noteq> None)"

lemma INELIGIBLE_simps [simp]:
  "eligibleForBlocked INELIGIBLE = False" "eligibleForCompleted INELIGIBLE = False"
  by (simp_all add: INELIGIBLE_def)

lemma classifyRun_completed_blocked:
  "eligibleForCompleted (classifyRunEvidence e r b c) \<Longrightarrow> eligibleForBlocked (classifyRunEvidence e r b c)"
  by (auto simp: classifyRunEvidence_def Let_def split: event_data.splits if_splits)

lemma eligible_completed_blocked:
  "eligibleForCompleted (classifyPlanItemEvidence e c) \<Longrightarrow> eligibleForBlocked (classifyPlanItemEvidence e c)"
  by (cases "edata e"; cases "scope e")
    (auto simp: classifyPlanItemEvidence_def classifyRun_completed_blocked split: if_splits option.splits)

lemma eligible_bound: "eligibleForBlocked (classifyPlanItemEvidence e c) \<Longrightarrow> evidenceBound e c"
  by (cases "edata e"; cases "scope e")
    (auto simp: classifyPlanItemEvidence_def evidenceBound_def split: if_splits option.splits)

text \<open>\<open>factSucceeded\<close>: the recorded fact is a success by its own payload.\<close>

fun factSucceeded :: "event_data \<Rightarrow> bool" where
  "factSucceeded (ToolCallCompleted tool _ st) = (tool \<in> READ_TOOL_ALLOWLIST \<and> st = status_success)"
| "factSucceeded (ToolCallRecovered tool _ st _) = (tool \<in> READ_TOOL_ALLOWLIST \<and> st = status_success)"
| "factSucceeded PatchApplyCompleted = True"
| "factSucceeded (CommandCompleted clean code term) = (clean \<and> code = Some 0 \<and> term = term_exit)"
| "factSucceeded (VerificationCompleted st stale) = (st = verification_passed \<and> \<not> stale)"
| "factSucceeded (ArtifactStored _) = True"
| "factSucceeded (McpToolCallCompleted st) = (st = status_success)"
| "factSucceeded (SideEffectReconciled applied _) = applied"
| "factSucceeded (TaskNodeAttemptTerminal _ d) = (atd_terminal d = at_succeeded)"
| "factSucceeded _ = False"

lemma eligible_completed_succeeded:
  "eligibleForCompleted (classifyPlanItemEvidence e c) \<Longrightarrow> factSucceeded (edata e)"
  by (cases "edata e"; cases "scope e")
    (auto simp: classifyPlanItemEvidence_def classifyRunEvidence_def split: if_splits option.splits)

end
