(* ===== verification/TaskStateMachine.thy ===== *)
theory TaskStateMachine
  imports PlanEvidence
begin

text \<open>
  Goals and Plans as a projection of the session log
  (\<^verbatim>\<open>src/src/coordination/task-state-machine.ts\<close>).

  The private fields of the class \<^verbatim>\<open>TaskProjector\<close> are the record \<open>task_projector\<close>; one
  definition per method.  The program keeps references to mutable Plan objects in
  \<^verbatim>\<open>pendingDraft\<close> and \<^verbatim>\<open>currentApprovedPlan\<close>: they are indexes into the list \<open>plans\<close>, so
  that an update through one reference is seen through every other one.  \<^verbatim>\<open>goalsById\<close> holds
  exactly the Goals of \<^verbatim>\<open>goals\<close> and is the search by id.  A thrown
  \<^verbatim>\<open>TaskStateProjectionError\<close> carries its code, the event id and the session position.
\<close>

section \<open>State\<close>

datatype task_state_error_code =
    active_goal_conflict
  | goal_binding_mismatch
  | goal_revision_invalid
  | goal_terminal_mutation
  | plan_binding_mismatch
  | plan_hash_mismatch
  | plan_revision_invalid
  | plan_draft_conflict
  | plan_decision_stale
  | plan_item_transition_invalid
  | plan_multiple_in_progress
  | plan_required_item_skipped
  | plan_completion_invalid
  | evidence_reference_invalid
  | origin_invalid

datatype task_state_failure =
    ProjectionError task_state_error_code string nat
  | PlanIdentityFailure plan_identity_error
  | LogFailure decode_error_code

datatype goal_status = goal_active | goal_completed | goal_abandoned
datatype plan_status = plan_draft | plan_active | plan_completed | plan_rejected | plan_superseded
datatype tracking_mode = legacy_untracked | phase16

record goal_content =
  gl_goalId :: string
  gl_objective :: jsstring
  gl_parentGoalId :: "string option"
  gl_revision :: nat

record mutable_goal =
  mg_content :: goal_content
  mg_createdEventId :: string
  mg_lastStatusEventId :: "string option"
  mg_status :: goal_status

record item_transition =
  it_eventId :: string
  it_evidenceEventIds :: "string list"
  it_from :: plan_item_status
  it_note :: jsstring
  it_to :: plan_item_status

record mutable_plan_item =
  mi_carriedFromRevision :: "nat option"
  mi_content :: plan_item_content
  mi_evidenceEventIds :: "string list"
  mi_lastTransitionEventId :: "string option"
  mi_note :: jsstring
  mi_status :: plan_item_status
  mi_transitions :: "item_transition list"

record plan_completion =
  pc_completionEvaluatedEventId :: string
  pc_eventId :: string
  pc_finishTaskCallId :: string

record plan_status_transition =
  st_eventId :: string
  st_from :: plan_status
  st_to :: plan_status

record mutable_plan =
  mp_completed :: "plan_completion option"
  mp_content :: plan_revision_content
  mp_createdEventId :: string
  mp_decisionEventId :: "string option"
  mp_items :: "mutable_plan_item list"
  mp_planSha256 :: string
  mp_status :: plan_status
  mp_statusTransitions :: "plan_status_transition list"

record plan_chain_binding =
  cb_goalId :: string
  cb_goalRevision :: nat
  cb_latestRevision :: nat

record open_request =
  oq_sessionId :: string
  oq_sessionSeq :: nat
  oq_used :: bool

record task_projector =
  activeGoalId :: "string option"
  currentApprovedPlan :: "nat option"
  eventsById :: events_by_id
  goals :: "mutable_goal list"
  openUpdatePlanRequests :: "string \<rightharpoonup> open_request"
  planBindings :: "string \<rightharpoonup> plan_chain_binding"
  plans :: "mutable_plan list"
  plansByRef :: "string \<times> nat \<rightharpoonup> nat"
  pendingDraft :: "nat option"
  runBindings :: "string \<rightharpoonup> evidence_run_binding"
  terminalRuns :: "string set"
  trackingMode :: tracking_mode
  usedMutationIds :: "string set"

definition task_projector_init :: task_projector where
  "task_projector_init = \<lparr>activeGoalId = None, currentApprovedPlan = None, eventsById = [], goals = [],
     openUpdatePlanRequests = Map.empty, planBindings = Map.empty, plans = [], plansByRef = Map.empty,
     pendingDraft = None, runBindings = Map.empty, terminalRuns = {}, trackingMode = legacy_untracked,
     usedMutationIds = {}\<rparr>"

type_synonym task_result = "task_state_failure + task_projector"

definition requestKey :: "string \<Rightarrow> string \<Rightarrow> string" where
  "requestKey runId callId = runId @ CHR 0x00 # callId"

definition samePlanItemContent :: "plan_item_content \<Rightarrow> plan_item_content \<Rightarrow> bool" where
  "samePlanItemContent left right \<longleftrightarrow> pic_id left = pic_id right \<and> pic_title left = pic_title right \<and>
     pic_acceptance left = pic_acceptance right \<and> pic_required left = pic_required right"

definition fail :: "stored_event \<Rightarrow> task_state_error_code \<Rightarrow> task_state_failure + 'a" where
  "fail event code = Inl (ProjectionError code (eventId event) (sessionSeq event))"

definition goalsById :: "task_projector \<Rightarrow> string \<Rightarrow> mutable_goal option" where
  "goalsById s gid = find (\<lambda>g. gl_goalId (mg_content g) = gid) (goals s)"

definition updateGoal :: "string \<Rightarrow> (mutable_goal \<Rightarrow> mutable_goal) \<Rightarrow> task_projector \<Rightarrow> task_projector" where
  "updateGoal gid f s = s\<lparr>goals := map_key (\<lambda>g. gl_goalId (mg_content g)) gid f (goals s)\<rparr>"

definition planAt :: "task_projector \<Rightarrow> nat option \<Rightarrow> (nat \<times> mutable_plan) option" where
  "planAt s ref = (case ref of None \<Rightarrow> None
     | Some i \<Rightarrow> if i < length (plans s) then Some (i, plans s ! i) else None)"

definition updatePlan :: "nat \<Rightarrow> (mutable_plan \<Rightarrow> mutable_plan) \<Rightarrow> task_projector \<Rightarrow> task_projector" where
  "updatePlan i f s = s\<lparr>plans := (plans s)[i := f (plans s ! i)]\<rparr>"

section \<open>Run events\<close>

definition bindRun :: "stored_event \<Rightarrow> string \<Rightarrow> string \<Rightarrow> nat \<Rightarrow> binding_mode \<Rightarrow> task_projector \<Rightarrow> task_result" where
  "bindRun event runId goalId goalRevision mode s =
     (let bound = \<lparr>erb_goalId = goalId, erb_goalRevision = goalRevision, erb_mode = mode\<rparr> in
      case runBindings s runId of
        None \<Rightarrow> Inr (s\<lparr>runBindings := (runBindings s)(runId \<mapsto> bound)\<rparr>)
      | Some existing \<Rightarrow>
          if erb_goalId existing \<noteq> goalId \<or> erb_goalRevision existing \<noteq> goalRevision
          then fail event goal_binding_mismatch
          else if mode = mode_build \<and> erb_mode existing \<noteq> mode_build
          then Inr (s\<lparr>runBindings := (runBindings s)(runId \<mapsto> bound)\<rparr>)
          else Inr s)"

definition planBindingMatches :: "task_projector \<Rightarrow> run_started_data \<Rightarrow> bool" where
  "planBindingMatches s d = (case planAt s (currentApprovedPlan s) of
     None \<Rightarrow> rs_plan_id d = NullValue \<and> rs_plan_revision d = NullValue \<and> rs_plan_sha256 d = NullValue
   | Some (_, current) \<Rightarrow>
       rs_plan_id d = StrValue (prc_planId (mp_content current)) \<and>
       rs_plan_revision d = IntValue (int (prc_revision (mp_content current))) \<and>
       rs_plan_sha256 d = StrValue (mp_planSha256 current))"

definition bindFuturePhase16RunStart :: "stored_event \<Rightarrow> string \<Rightarrow> run_started_data \<Rightarrow> task_projector \<Rightarrow> task_result" where
  "bindFuturePhase16RunStart event runId d s =
     (if rs_agent_mode d = Absent then Inr s
      else case (rs_goal_id d, rs_goal_revision d) of
        (StrValue goal_id, IntValue goal_revision) \<Rightarrow>
          if rs_agent_mode d \<noteq> StrValue ''plan'' \<and> rs_agent_mode d \<noteq> StrValue ''build''
          then fail event goal_binding_mismatch
          else (case goalsById s goal_id of
              None \<Rightarrow> fail event goal_binding_mismatch
            | Some goal \<Rightarrow>
                if mg_status goal \<noteq> goal_active \<or> activeGoalId s \<noteq> Some goal_id \<or>
                   int (gl_revision (mg_content goal)) \<noteq> goal_revision
                then fail event goal_binding_mismatch
                else if \<not> planBindingMatches s d then fail event plan_binding_mismatch
                else bindRun event runId goal_id (gl_revision (mg_content goal))
                  (if rs_agent_mode d = StrValue ''build'' then mode_build else mode_unknown) s)
      | _ \<Rightarrow> fail event goal_binding_mismatch)"

definition openRequest :: "stored_event \<Rightarrow> string \<Rightarrow> string \<Rightarrow> task_projector \<Rightarrow> task_result" where
  "openRequest event runId call_id s =
     (let key = requestKey runId call_id in
      if openUpdatePlanRequests s key \<noteq> None then fail event origin_invalid
      else Inr (s\<lparr>openUpdatePlanRequests := (openUpdatePlanRequests s)(key \<mapsto>
             \<lparr>oq_sessionId = sessionId event, oq_sessionSeq = sessionSeq event, oq_used = False\<rparr>)\<rparr>))"

definition closeRequest :: "string \<Rightarrow> string \<Rightarrow> task_projector \<Rightarrow> task_projector" where
  "closeRequest runId call_id s =
     s\<lparr>openUpdatePlanRequests := (openUpdatePlanRequests s)(requestKey runId call_id := None)\<rparr>"

definition processRunEvent :: "stored_event \<Rightarrow> string \<Rightarrow> task_projector \<Rightarrow> task_result" where
  "processRunEvent event runId s = (case edata event of
     RunStarted d \<Rightarrow> bindFuturePhase16RunStart event runId d s
   | ToolCallRequested tool call_id \<Rightarrow> if tool = ''update_plan'' then openRequest event runId call_id s else Inr s
   | ResumePendingCallAdopted tool call_id \<Rightarrow>
       if tool = ''update_plan'' then openRequest event runId call_id s else Inr s
   | ToolCallCompleted tool call_id _ \<Rightarrow> Inr (if tool = ''update_plan'' then closeRequest runId call_id s else s)
   | ToolCallRecovered tool call_id _ _ \<Rightarrow> Inr (if tool = ''update_plan'' then closeRequest runId call_id s else s)
   | _ \<Rightarrow> Inr (if isTerminalType (edata event) then s\<lparr>terminalRuns := insert runId (terminalRuns s)\<rparr> else s))"

definition assertAgentOrigin ::
  "stored_event \<Rightarrow> agent_origin \<Rightarrow> string \<Rightarrow> nat \<Rightarrow> binding_mode \<Rightarrow> task_projector \<Rightarrow> task_result" where
  "assertAgentOrigin event origin goalId goalRevision mode s =
     (let key = requestKey (ao_run_id origin) (ao_call_id origin) in
      case openUpdatePlanRequests s key of
        None \<Rightarrow> fail event origin_invalid
      | Some request \<Rightarrow>
          if oq_used request \<or> oq_sessionId request \<noteq> sessionId event \<or> sessionSeq event \<le> oq_sessionSeq request \<or>
             ao_run_id origin \<in> terminalRuns s
          then fail event origin_invalid
          else if ao_mutation_id origin \<in> usedMutationIds s then fail event origin_invalid
          else ebind (bindRun event (ao_run_id origin) goalId goalRevision mode s) (\<lambda>s'.
            Inr (s'\<lparr>openUpdatePlanRequests := (openUpdatePlanRequests s')(key \<mapsto> request\<lparr>oq_used := True\<rparr>),
                    usedMutationIds := insert (ao_mutation_id origin) (usedMutationIds s')\<rparr>)))"

section \<open>Plan objects\<close>

definition transitionPlanStatus :: "plan_status \<Rightarrow> string \<Rightarrow> mutable_plan \<Rightarrow> mutable_plan" where
  "transitionPlanStatus to eid plan = plan\<lparr>mp_status := to,
     mp_statusTransitions := mp_statusTransitions plan @ [\<lparr>st_eventId = eid, st_from = mp_status plan, st_to = to\<rparr>]\<rparr>"

definition supersede1 :: "string \<Rightarrow> nat \<Rightarrow> string \<Rightarrow> mutable_plan \<Rightarrow> mutable_plan" where
  "supersede1 goalId goalRevision eid plan =
     (if prc_goalId (mp_content plan) = goalId \<and> prc_goalRevision (mp_content plan) = goalRevision \<and>
         (mp_status plan = plan_draft \<or> mp_status plan = plan_active)
      then transitionPlanStatus plan_superseded eid plan else plan)"

definition refBoundTo :: "task_projector \<Rightarrow> nat option \<Rightarrow> string \<Rightarrow> nat \<Rightarrow> bool" where
  "refBoundTo s ref goalId goalRevision = (case planAt s ref of None \<Rightarrow> False
     | Some (_, plan) \<Rightarrow> prc_goalId (mp_content plan) = goalId \<and> prc_goalRevision (mp_content plan) = goalRevision)"

definition supersedeGoalPlans :: "string \<Rightarrow> nat \<Rightarrow> string \<Rightarrow> task_projector \<Rightarrow> task_projector" where
  "supersedeGoalPlans goalId goalRevision eid s = s
     \<lparr>plans := map (supersede1 goalId goalRevision eid) (plans s),
      pendingDraft := (if refBoundTo s (pendingDraft s) goalId goalRevision then None else pendingDraft s),
      currentApprovedPlan :=
        (if refBoundTo s (currentApprovedPlan s) goalId goalRevision then None else currentApprovedPlan s)\<rparr>"

definition planReady :: "mutable_plan \<Rightarrow> bool" where
  "planReady plan = list_all (\<lambda>item. if pic_required (mi_content item) then mi_status item = item_completed
     else mi_status item = item_completed \<or> mi_status item = item_skipped) (mp_items plan)"

definition freshItem :: "plan_item_content \<Rightarrow> mutable_plan_item" where
  "freshItem item = \<lparr>mi_carriedFromRevision = None, mi_content = item, mi_evidenceEventIds = [],
     mi_lastTransitionEventId = None, mi_note = [], mi_status = item_pending, mi_transitions = []\<rparr>"

definition newPlan :: "stored_event \<Rightarrow> plan_revision_content \<Rightarrow> string \<Rightarrow> task_projector \<Rightarrow> nat \<times> task_projector" where
  "newPlan event content planSha256 s =
     (let plan = \<lparr>mp_completed = None, mp_content = content, mp_createdEventId = eventId event,
            mp_decisionEventId = None, mp_items = map freshItem (prc_items content), mp_planSha256 = planSha256,
            mp_status = plan_draft, mp_statusTransitions = []\<rparr>;
          i = length (plans s)
      in (i, s\<lparr>plans := plans s @ [plan],
               plansByRef := (plansByRef s)((prc_planId content, prc_revision content) \<mapsto> i)\<rparr>))"

definition carryItem :: "mutable_plan \<Rightarrow> mutable_plan_item \<Rightarrow> mutable_plan_item" where
  "carryItem previous item =
     (case find (\<lambda>candidate. samePlanItemContent (mi_content candidate) (mi_content item)) (mp_items previous) of
        None \<Rightarrow> item
      | Some prior \<Rightarrow>
          if mi_status prior \<noteq> item_completed \<and> mi_status prior \<noteq> item_skipped then item
          else item\<lparr>mi_status := mi_status prior, mi_note := mi_note prior,
                    mi_evidenceEventIds := mi_evidenceEventIds prior,
                    mi_lastTransitionEventId := mi_lastTransitionEventId prior,
                    mi_carriedFromRevision := Some (prc_revision (mp_content previous))\<rparr>)"

definition carryTerminalItems :: "mutable_plan \<Rightarrow> mutable_plan \<Rightarrow> mutable_plan" where
  "carryTerminalItems previous next = next\<lparr>mp_items := map (carryItem previous) (mp_items next)\<rparr>"

section \<open>Goals\<close>

definition createGoal :: "stored_event \<Rightarrow> goal_created_data \<Rightarrow> task_projector \<Rightarrow> task_result" where
  "createGoal event d s =
     (let parent = Option.bind (gcd_parent_goal_id d) (goalsById s);
          active = Option.bind (activeGoalId s) (goalsById s);
          goal = \<lparr>mg_content = \<lparr>gl_goalId = gcd_goal_id d, gl_objective = gcd_objective d,
                    gl_parentGoalId = gcd_parent_goal_id d, gl_revision = 1\<rparr>,
                  mg_createdEventId = eventId event, mg_lastStatusEventId = None, mg_status = goal_active\<rparr>;
          add = (\<lambda>s. s\<lparr>goals := goals s @ [goal], activeGoalId := Some (gcd_goal_id d)\<rparr>)
      in
      if goalsById s (gcd_goal_id d) \<noteq> None then fail event goal_binding_mismatch
      else if gcd_parent_goal_id d \<noteq> None \<and> parent = None then fail event goal_binding_mismatch
      else case active of
        None \<Rightarrow>
          if gcd_replaces_active_goal d \<noteq> None then fail event active_goal_conflict
          else if (case parent of None \<Rightarrow> False | Some p \<Rightarrow> mg_status p = goal_active)
          then fail event active_goal_conflict
          else Inr (add s)
      | Some a \<Rightarrow>
          if gcd_replaces_active_goal d \<noteq> Some (gl_goalId (mg_content a), gl_revision (mg_content a))
          then fail event active_goal_conflict
          else Inr (add (updateGoal (gl_goalId (mg_content a))
                (\<lambda>g. g\<lparr>mg_status := goal_abandoned, mg_lastStatusEventId := Some (eventId event)\<rparr>)
                (supersedeGoalPlans (gl_goalId (mg_content a)) (gl_revision (mg_content a)) (eventId event) s))))"

definition reviseGoal :: "stored_event \<Rightarrow> goal_revised_data \<Rightarrow> task_projector \<Rightarrow> task_result" where
  "reviseGoal event d s = (case goalsById s (grd_goal_id d) of
     None \<Rightarrow> fail event goal_binding_mismatch
   | Some goal \<Rightarrow>
       if mg_status goal \<noteq> goal_active then fail event goal_terminal_mutation
       else if activeGoalId s \<noteq> Some (grd_goal_id d) then fail event goal_binding_mismatch
       else if grd_base_revision d \<noteq> gl_revision (mg_content goal) \<or>
               grd_revision d \<noteq> gl_revision (mg_content goal) + 1
       then fail event goal_revision_invalid
       else Inr (updateGoal (grd_goal_id d)
              (\<lambda>g. g\<lparr>mg_content := (mg_content g)\<lparr>gl_objective := grd_objective d, gl_revision := grd_revision d\<rparr>\<rparr>)
              (supersedeGoalPlans (gl_goalId (mg_content goal)) (gl_revision (mg_content goal)) (eventId event) s)))"

definition assertAcceptedCompletion ::
  "stored_event \<Rightarrow> string \<Rightarrow> string \<Rightarrow> string \<Rightarrow> nat \<Rightarrow> task_projector \<Rightarrow> task_state_failure + unit" where
  "assertAcceptedCompletion event completionEventId finishTaskCallId goalId goalRevision s =
     (case map_of (eventsById s) completionEventId of
        None \<Rightarrow> fail event plan_completion_invalid
      | Some completion \<Rightarrow>
          (case (scope completion, edata completion) of
             (RunScope runId _, CompletionEvaluated effect call_id) \<Rightarrow>
               if effect \<noteq> effect_accept \<or> call_id \<noteq> finishTaskCallId \<or> sessionSeq event \<le> sessionSeq completion
               then fail event plan_completion_invalid
               else (case runBindings s runId of
                   None \<Rightarrow> Inr ()
                 | Some binding \<Rightarrow>
                     if erb_goalId binding \<noteq> goalId \<or> erb_goalRevision binding \<noteq> goalRevision
                     then fail event goal_binding_mismatch else Inr ())
           | _ \<Rightarrow> fail event plan_completion_invalid))"

definition completionMatchesPlan :: "stored_event \<Rightarrow> string \<Rightarrow> string \<Rightarrow> task_projector \<Rightarrow> task_state_failure + unit" where
  "completionMatchesPlan event completionEventId finishTaskCallId s =
     (case planAt s (currentApprovedPlan s) of
        Some (_, current) \<Rightarrow>
          (case mp_completed current of
             None \<Rightarrow> fail event plan_completion_invalid
           | Some completion \<Rightarrow>
               if mp_status current \<noteq> plan_completed \<or>
                  pc_completionEvaluatedEventId completion \<noteq> completionEventId \<or>
                  pc_finishTaskCallId completion \<noteq> finishTaskCallId
               then fail event plan_completion_invalid else Inr ())
      | None \<Rightarrow> if pendingDraft s \<noteq> None then fail event plan_completion_invalid else Inr ())"

definition changeGoalStatus :: "stored_event \<Rightarrow> goal_status_data \<Rightarrow> task_projector \<Rightarrow> task_result" where
  "changeGoalStatus event d s = (case goalsById s (gsd_goal_id d) of
     None \<Rightarrow> fail event goal_binding_mismatch
   | Some goal \<Rightarrow>
       if mg_status goal \<noteq> goal_active then fail event goal_terminal_mutation
       else if activeGoalId s \<noteq> Some (gsd_goal_id d) then fail event goal_binding_mismatch
       else if gsd_revision d \<noteq> gl_revision (mg_content goal) then fail event goal_revision_invalid
       else ebind (case gsd_to d of
            ToAbandoned \<Rightarrow> Inr ()
          | ToCompleted completionEventId finishTaskCallId \<Rightarrow>
              ebind (assertAcceptedCompletion event completionEventId finishTaskCallId
                  (gl_goalId (mg_content goal)) (gl_revision (mg_content goal)) s)
                (\<lambda>_. completionMatchesPlan event completionEventId finishTaskCallId s))
         (\<lambda>_. Inr ((updateGoal (gsd_goal_id d)
              (\<lambda>g. g\<lparr>mg_status := (case gsd_to d of ToAbandoned \<Rightarrow> goal_abandoned | ToCompleted _ _ \<Rightarrow> goal_completed),
                     mg_lastStatusEventId := Some (eventId event)\<rparr>)
              (supersedeGoalPlans (gl_goalId (mg_content goal)) (gl_revision (mg_content goal)) (eventId event) s))
            \<lparr>activeGoalId := None\<rparr>)))"

section \<open>Plans\<close>

definition activeGoalForPlan :: "stored_event \<Rightarrow> plan_revision_content \<Rightarrow> task_projector \<Rightarrow> task_state_failure + unit" where
  "activeGoalForPlan event content s = (case goalsById s (prc_goalId content) of
     None \<Rightarrow> fail event plan_binding_mismatch
   | Some goal \<Rightarrow>
       if mg_status goal \<noteq> goal_active \<or> activeGoalId s \<noteq> Some (prc_goalId content) \<or>
          gl_revision (mg_content goal) \<noteq> prc_goalRevision content
       then fail event plan_binding_mismatch else Inr ())"

definition assertPlanHash :: "platform \<Rightarrow> stored_event \<Rightarrow> plan_revision_content \<Rightarrow> string \<Rightarrow> task_state_failure + unit" where
  "assertPlanHash p event content expected = (case canonicalPlanIdentity p content of
     Inl e \<Rightarrow> Inl (PlanIdentityFailure e)
   | Inr ident \<Rightarrow> if pi_sha256 ident \<noteq> expected then fail event plan_hash_mismatch else Inr ())"

definition assertPlanOrigin :: "stored_event \<Rightarrow> plan_origin \<Rightarrow> plan_revision_content \<Rightarrow> task_projector \<Rightarrow> task_result" where
  "assertPlanOrigin event origin content s = (case origin of
     UserOrigin \<Rightarrow> Inr s
   | AgentPlanOrigin ao \<Rightarrow>
       assertAgentOrigin event ao (prc_goalId content) (prc_goalRevision content) mode_unknown s)"

definition proposePlan ::
  "platform \<Rightarrow> stored_event \<Rightarrow> plan_revision_content \<Rightarrow> plan_origin \<Rightarrow> string \<Rightarrow> task_projector \<Rightarrow> task_result" where
  "proposePlan p event content origin planSha256 s =
     ebind (activeGoalForPlan event content s) (\<lambda>_.
     ebind (assertPlanHash p event content planSha256) (\<lambda>_.
       if prc_revision content \<noteq> 1 then fail event plan_revision_invalid
       else if planBindings s (prc_planId content) \<noteq> None then fail event plan_binding_mismatch
       else if pendingDraft s \<noteq> None \<or> currentApprovedPlan s \<noteq> None then fail event plan_draft_conflict
       else ebind (assertPlanOrigin event origin content s) (\<lambda>s.
         let (i, s) = newPlan event content planSha256
           (s\<lparr>planBindings := (planBindings s)(prc_planId content \<mapsto>
               \<lparr>cb_goalId = prc_goalId content, cb_goalRevision = prc_goalRevision content, cb_latestRevision = 1\<rparr>)\<rparr>)
         in Inr (s\<lparr>pendingDraft := Some i\<rparr>))))"

definition revisePlan :: "platform \<Rightarrow> stored_event \<Rightarrow> plan_revised_data \<Rightarrow> task_projector \<Rightarrow> task_result" where
  "revisePlan p event d s =
     (let content = prd_content d in
      ebind (activeGoalForPlan event content s) (\<lambda>_.
      ebind (assertPlanHash p event content (prd_plan_sha256 d)) (\<lambda>_.
        case planAt s (case pendingDraft s of None \<Rightarrow> currentApprovedPlan s | Some i \<Rightarrow> Some i) of
          None \<Rightarrow> fail event plan_draft_conflict
        | Some (_, base) \<Rightarrow>
            if prc_planId (mp_content base) \<noteq> prc_planId content \<or>
               prc_revision (mp_content base) \<noteq> prd_base_revision d \<or> mp_planSha256 base \<noteq> prd_base_sha256 d
            then fail event plan_decision_stale
            else (case planBindings s (prc_planId content) of
                None \<Rightarrow> fail event plan_binding_mismatch
              | Some binding \<Rightarrow>
                  if cb_goalId binding \<noteq> prc_goalId content \<or> cb_goalRevision binding \<noteq> prc_goalRevision content
                  then fail event plan_binding_mismatch
                  else if prc_revision content \<noteq> cb_latestRevision binding + 1 then fail event plan_revision_invalid
                  else ebind (assertPlanOrigin event (prd_origin d) content s) (\<lambda>s.
                    let s = (case pendingDraft s of None \<Rightarrow> s
                              | Some i \<Rightarrow> updatePlan i (transitionPlanStatus plan_superseded (eventId event)) s);
                        (i, s) = newPlan event content (prd_plan_sha256 d) s
                    in Inr (s\<lparr>planBindings := (planBindings s)(prc_planId content \<mapsto>
                                 binding\<lparr>cb_latestRevision := prc_revision content\<rparr>),
                              pendingDraft := Some i\<rparr>))))))"

definition matchesTarget :: "mutable_plan \<Rightarrow> plan_target \<Rightarrow> bool" where
  "matchesTarget plan t \<longleftrightarrow> prc_goalId (mp_content plan) = pt_goal_id t \<and>
     prc_goalRevision (mp_content plan) = pt_goal_revision t \<and> prc_planId (mp_content plan) = pt_plan_id t \<and>
     prc_revision (mp_content plan) = pt_revision t \<and> mp_planSha256 plan = pt_plan_sha256 t"

definition exactPendingDecision :: "stored_event \<Rightarrow> plan_target \<Rightarrow> task_projector \<Rightarrow> task_state_failure + nat" where
  "exactPendingDecision event t s = (case planAt s (pendingDraft s) of
     None \<Rightarrow> fail event plan_decision_stale
   | Some (i, draft) \<Rightarrow>
       if mp_status draft \<noteq> plan_draft \<or> \<not> matchesTarget draft t then fail event plan_decision_stale
       else (case goalsById s (pt_goal_id t) of
           None \<Rightarrow> fail event plan_binding_mismatch
         | Some goal \<Rightarrow>
             if mg_status goal \<noteq> goal_active \<or> activeGoalId s \<noteq> Some (pt_goal_id t) \<or>
                gl_revision (mg_content goal) \<noteq> pt_goal_revision t
             then fail event plan_binding_mismatch else Inr i))"

definition approvePlan :: "stored_event \<Rightarrow> plan_target \<Rightarrow> task_projector \<Rightarrow> task_result" where
  "approvePlan event t s =
     ebind (exactPendingDecision event t s) (\<lambda>draft.
       let s = (case planAt s (currentApprovedPlan s) of
           None \<Rightarrow> s
         | Some (i, previous) \<Rightarrow>
             let s = updatePlan draft (carryTerminalItems previous) s in
             if mp_status previous = plan_active
             then updatePlan i (transitionPlanStatus plan_superseded (eventId event)) s else s)
       in Inr ((updatePlan draft (\<lambda>plan. (transitionPlanStatus plan_active (eventId event) plan)
                  \<lparr>mp_decisionEventId := Some (eventId event)\<rparr>) s)
                \<lparr>pendingDraft := None, currentApprovedPlan := Some draft\<rparr>))"

definition rejectPlan :: "stored_event \<Rightarrow> plan_target \<Rightarrow> task_projector \<Rightarrow> task_result" where
  "rejectPlan event t s =
     ebind (exactPendingDecision event t s) (\<lambda>draft.
       Inr ((updatePlan draft (\<lambda>plan. (transitionPlanStatus plan_rejected (eventId event) plan)
               \<lparr>mp_decisionEventId := Some (eventId event)\<rparr>) s)\<lparr>pendingDraft := None\<rparr>))"

definition exactCurrentPlan :: "stored_event \<Rightarrow> plan_target \<Rightarrow> task_projector \<Rightarrow> task_state_failure + nat \<times> mutable_plan" where
  "exactCurrentPlan event t s = (case planAt s (currentApprovedPlan s) of
     None \<Rightarrow> fail event plan_binding_mismatch
   | Some (i, current) \<Rightarrow> if \<not> matchesTarget current t then fail event plan_binding_mismatch else Inr (i, current))"

section \<open>Plan items\<close>

fun isAllowedItemTransition :: "plan_item_status \<Rightarrow> plan_item_status \<Rightarrow> bool" where
  "isAllowedItemTransition item_pending to = (to = item_in_progress \<or> to = item_blocked \<or> to = item_skipped)"
| "isAllowedItemTransition item_in_progress to = (to = item_completed \<or> to = item_blocked \<or> to = item_skipped)"
| "isAllowedItemTransition item_blocked to = (to = item_in_progress \<or> to = item_skipped)"
| "isAllowedItemTransition item_completed to = False"
| "isAllowedItemTransition item_skipped to = False"

type_synonym graph_revision = "graph_ref \<times> task_graph_binding \<times> task_graph_content"

definition graphMatchesItem :: "graph_revision \<Rightarrow> plan_item_data \<Rightarrow> bool" where
  "graphMatchesItem revision d = (case revision of (_, b, content) \<Rightarrow>
     b_goalId b = pt_goal_id (pid_target d) \<and> b_goalRevision b = pt_goal_revision (pid_target d) \<and>
     b_planId b = pt_plan_id (pid_target d) \<and> b_planRevision b = pt_revision (pid_target d) \<and>
     b_planSha256 b = pt_plan_sha256 (pid_target d) \<and>
     list_ex (\<lambda>node. pid_item_id d \<in> set (planItemIds node)) (gc_nodes content))"

text \<open>The origin of a progress event: the new state and the Graph revision it names, if any.\<close>

definition progressOriginCheck ::
  "stored_event \<Rightarrow> plan_item_data \<Rightarrow> task_projector \<Rightarrow> task_state_failure + (task_projector \<times> graph_revision option)" where
  "progressOriginCheck event d s = (case pid_origin d of
     AgentProgressOrigin ao \<Rightarrow>
       ebind (assertAgentOrigin event ao (pt_goal_id (pid_target d)) (pt_goal_revision (pid_target d)) mode_build s)
         (\<lambda>s. Inr (s, None))
   | TaskGraphOrigin ref \<Rightarrow>
       (case findGraphRevision (eventsById s) ref of
          None \<Rightarrow> fail event plan_binding_mismatch
        | Some revision \<Rightarrow>
            if \<not> graphMatchesItem revision d then fail event plan_binding_mismatch else Inr (s, Some revision)))"

definition graphEvidenceMapped :: "plan_item_data \<Rightarrow> graph_revision option \<Rightarrow> stored_event \<Rightarrow> bool" where
  "graphEvidenceMapped d graphRevision evidence =
     (case (pid_origin d, scope evidence, edata evidence) of
        (TaskGraphOrigin origin, SessionScope, TaskNodeAttemptTerminal ref t) \<Rightarrow>
          ref = origin \<and>
          (case graphRevision of None \<Rightarrow> False
           | Some (_, _, content) \<Rightarrow>
               (case find (\<lambda>candidate. nodeId candidate = atd_node_id t) (gc_nodes content) of
                  None \<Rightarrow> False
                | Some node \<Rightarrow> pid_item_id d \<in> set (planItemIds node)))
      | _ \<Rightarrow> True)"

definition checkEvidence ::
  "stored_event \<Rightarrow> plan_item_data \<Rightarrow> graph_revision option \<Rightarrow> task_projector \<Rightarrow> string \<Rightarrow> task_state_failure + unit" where
  "checkEvidence event d graphRevision s evidenceId = (case map_of (eventsById s) evidenceId of
     None \<Rightarrow> fail event evidence_reference_invalid
   | Some evidence \<Rightarrow>
       if sessionId evidence \<noteq> sessionId event \<or> sessionSeq event \<le> sessionSeq evidence
       then fail event evidence_reference_invalid
       else if \<not> graphEvidenceMapped d graphRevision evidence then fail event evidence_reference_invalid
       else
         let c = classifyPlanItemEvidence evidence
           \<lparr>ec_eventsById = eventsById s, ec_goalId = pt_goal_id (pid_target d),
            ec_goalRevision = pt_goal_revision (pid_target d), ec_runBindings = runBindings s\<rparr>
         in if (pid_to d = item_completed \<and> \<not> eligibleForCompleted c) \<or>
               (pid_to d = item_blocked \<and> \<not> eligibleForBlocked c)
            then fail event evidence_reference_invalid else Inr ())"

definition applyItem :: "stored_event \<Rightarrow> plan_item_data \<Rightarrow> mutable_plan_item \<Rightarrow> mutable_plan_item" where
  "applyItem event d item = item\<lparr>mi_status := pid_to d, mi_note := pid_note d,
     mi_evidenceEventIds := pid_evidence_event_ids d, mi_lastTransitionEventId := Some (eventId event),
     mi_carriedFromRevision := None,
     mi_transitions := mi_transitions item @ [\<lparr>it_eventId = eventId event,
       it_evidenceEventIds = pid_evidence_event_ids d, it_from = pid_from d, it_note = pid_note d, it_to = pid_to d\<rparr>]\<rparr>"

definition itemTransitionCheck :: "stored_event \<Rightarrow> plan_item_data \<Rightarrow> mutable_plan \<Rightarrow> task_state_failure + nat" where
  "itemTransitionCheck event d plan =
     (case findIndex (\<lambda>candidate. pic_id (mi_content candidate) = pid_item_id d) (mp_items plan) of
        None \<Rightarrow> fail event plan_item_transition_invalid
      | Some k \<Rightarrow>
          let item = mp_items plan ! k in
          if mi_status item \<noteq> pid_from d then fail event plan_item_transition_invalid
          else if \<not> isAllowedItemTransition (pid_from d) (pid_to d) then fail event plan_item_transition_invalid
          else if pid_to d = item_skipped \<and> pic_required (mi_content item) then fail event plan_required_item_skipped
          else if pid_to d = item_in_progress \<and>
               list_ex (\<lambda>j. j \<noteq> k \<and> mi_status (mp_items plan ! j) = item_in_progress) [0..<length (mp_items plan)]
          then fail event plan_multiple_in_progress
          else if (pid_to d = item_in_progress \<or> pid_to d = item_skipped) \<and> pid_evidence_event_ids d \<noteq> []
          then fail event evidence_reference_invalid
          else if pid_to d = item_completed \<and> pid_evidence_event_ids d = [] then fail event evidence_reference_invalid
          else if (pid_to d = item_completed \<or> pid_to d = item_blocked \<or> pid_to d = item_skipped) \<and>
               \<not> isNonblankCanonicalText (pid_note d)
          then fail event plan_item_transition_invalid
          else Inr k)"

definition changePlanItemStatus :: "stored_event \<Rightarrow> plan_item_data \<Rightarrow> task_projector \<Rightarrow> task_result" where
  "changePlanItemStatus event d s =
     ebind (exactCurrentPlan event (pid_target d) s) (\<lambda>(i, plan).
       if mp_status plan \<noteq> plan_active then fail event plan_item_transition_invalid
       else ebind (progressOriginCheck event d s) (\<lambda>(s, graphRevision).
         ebind (itemTransitionCheck event d plan) (\<lambda>k.
           ebind (efold (\<lambda>_. checkEvidence event d graphRevision s) () (pid_evidence_event_ids d)) (\<lambda>_.
             Inr (updatePlan i (\<lambda>plan. plan\<lparr>mp_items := (mp_items plan)[k := applyItem event d (mp_items plan ! k)]\<rparr>) s)))))"

definition completePlan :: "stored_event \<Rightarrow> plan_target \<Rightarrow> string \<Rightarrow> string \<Rightarrow> task_projector \<Rightarrow> task_result" where
  "completePlan event t completionEventId finishTaskCallId s =
     ebind (exactCurrentPlan event t s) (\<lambda>(i, plan).
       if mp_status plan \<noteq> plan_active \<or> \<not> planReady plan then fail event plan_completion_invalid
       else ebind (assertAcceptedCompletion event completionEventId finishTaskCallId
              (pt_goal_id t) (pt_goal_revision t) s) (\<lambda>_.
         Inr (updatePlan i (\<lambda>plan. (transitionPlanStatus plan_completed (eventId event) plan)
           \<lparr>mp_completed := Some \<lparr>pc_completionEvaluatedEventId = completionEventId, pc_eventId = eventId event,
              pc_finishTaskCallId = finishTaskCallId\<rparr>\<rparr>) s)))"

section \<open>The projection\<close>

fun isPhase16Type :: "event_data \<Rightarrow> bool" where
  "isPhase16Type (GoalCreated _) = True"
| "isPhase16Type (GoalRevised _) = True"
| "isPhase16Type (GoalStatusChanged _) = True"
| "isPhase16Type (PlanApproved _) = True"
| "isPhase16Type (PlanCompleted _ _ _) = True"
| "isPhase16Type (PlanItemStatusChanged _) = True"
| "isPhase16Type (PlanProposed _ _ _) = True"
| "isPhase16Type (PlanRejected _) = True"
| "isPhase16Type (PlanRevised _) = True"
| "isPhase16Type _ = False"

definition processSessionEvent :: "platform \<Rightarrow> stored_event \<Rightarrow> task_projector \<Rightarrow> task_result" where
  "processSessionEvent p event s =
     (if \<not> isPhase16Type (edata event) then Inr s
      else let s = s\<lparr>trackingMode := phase16\<rparr> in
        case edata event of
          GoalCreated d \<Rightarrow> createGoal event d s
        | GoalRevised d \<Rightarrow> reviseGoal event d s
        | GoalStatusChanged d \<Rightarrow> changeGoalStatus event d s
        | PlanProposed content origin h \<Rightarrow> proposePlan p event content origin h s
        | PlanRevised d \<Rightarrow> revisePlan p event d s
        | PlanApproved t \<Rightarrow> approvePlan event t s
        | PlanRejected t \<Rightarrow> rejectPlan event t s
        | PlanItemStatusChanged d \<Rightarrow> changePlanItemStatus event d s
        | PlanCompleted t completionEventId finishTaskCallId \<Rightarrow> completePlan event t completionEventId finishTaskCallId s
        | _ \<Rightarrow> Inr s)"

fun shouldIndexReferenceTarget :: "event_data \<Rightarrow> bool" where
  "shouldIndexReferenceTarget (ArtifactStored _) = True"
| "shouldIndexReferenceTarget (CommandCompleted _ _ _) = True"
| "shouldIndexReferenceTarget (CompletionEvaluated _ _) = True"
| "shouldIndexReferenceTarget (McpToolCallCompleted _) = True"
| "shouldIndexReferenceTarget McpToolCallEffectUnknown = True"
| "shouldIndexReferenceTarget PatchApplyCompleted = True"
| "shouldIndexReferenceTarget (ResumePendingCallAdopted _ _) = True"
| "shouldIndexReferenceTarget (SideEffectReconciled _ _) = True"
| "shouldIndexReferenceTarget (TaskGraphProposed _) = True"
| "shouldIndexReferenceTarget (TaskGraphReplaced _) = True"
| "shouldIndexReferenceTarget (TaskNodeAttemptTerminal _ _) = True"
| "shouldIndexReferenceTarget (ToolCallCompleted _ _ _) = True"
| "shouldIndexReferenceTarget (ToolCallRecovered _ _ _ _) = True"
| "shouldIndexReferenceTarget (ToolCallRequested _ _) = True"
| "shouldIndexReferenceTarget (VerificationCompleted _ _) = True"
| "shouldIndexReferenceTarget _ = False"

definition indexEvent :: "stored_event \<Rightarrow> task_projector \<Rightarrow> task_projector" where
  "indexEvent event s = (if shouldIndexReferenceTarget (edata event)
     then s\<lparr>eventsById := AList.update (eventId event) event (eventsById s)\<rparr> else s)"

definition taskStep :: "platform \<Rightarrow> task_projector \<Rightarrow> stored_event \<Rightarrow> task_result" where
  "taskStep p s event =
     ebind (case scope event of
        RunScope runId _ \<Rightarrow> processRunEvent event runId s
      | SessionScope \<Rightarrow> processSessionEvent p event s) (\<lambda>s. Inr (indexEvent event s))"

record plan_revision_ref =
  ref_goalId :: string
  ref_goalRevision :: nat
  ref_planId :: string
  ref_planSha256 :: string
  ref_revision :: nat

definition planRef :: "task_projector \<Rightarrow> nat option \<Rightarrow> plan_revision_ref option" where
  "planRef s ref = map_option (\<lambda>(_, plan).
     \<lparr>ref_goalId = prc_goalId (mp_content plan), ref_goalRevision = prc_goalRevision (mp_content plan),
      ref_planId = prc_planId (mp_content plan), ref_planSha256 = mp_planSha256 plan,
      ref_revision = prc_revision (mp_content plan)\<rparr>) (planAt s ref)"

record plan_projection =
  pp_plan :: mutable_plan
  pp_itemStatuses :: "string \<rightharpoonup> plan_item_status"

definition planProjection :: "mutable_plan \<Rightarrow> plan_projection" where
  "planProjection plan = \<lparr>pp_plan = plan,
     pp_itemStatuses = map_of (rev (map (\<lambda>item. (pic_id (mi_content item), mi_status item)) (mp_items plan)))\<rparr>"

record plan_blocker =
  bl_evidenceEventIds :: "string list"
  bl_itemId :: string
  bl_note :: jsstring
  bl_plan :: "plan_revision_ref option"

definition blockers :: "task_projector \<Rightarrow> plan_blocker list" where
  "blockers s = (case planAt s (currentApprovedPlan s) of
     None \<Rightarrow> []
   | Some (_, current) \<Rightarrow> map (\<lambda>item. \<lparr>bl_evidenceEventIds = mi_evidenceEventIds item,
         bl_itemId = pic_id (mi_content item), bl_note = mi_note item, bl_plan = planRef s (currentApprovedPlan s)\<rparr>)
       (filter (\<lambda>item. mi_status item = item_blocked) (mp_items current)))"

record task_state_projection =
  ts_activeGoalId :: "string option"
  ts_blockers :: "plan_blocker list"
  ts_currentApprovedPlan :: "plan_revision_ref option"
  ts_goals :: "mutable_goal list"
  ts_lastSessionSeq :: nat
  ts_pendingDraft :: "plan_revision_ref option"
  ts_plans :: "plan_projection list"
  ts_readyForCompletion :: bool
  ts_trackingMode :: tracking_mode

definition snapshot :: "nat \<Rightarrow> task_projector \<Rightarrow> task_state_projection" where
  "snapshot lastSessionSeq s =
     \<lparr>ts_activeGoalId = activeGoalId s, ts_blockers = blockers s,
      ts_currentApprovedPlan = planRef s (currentApprovedPlan s), ts_goals = goals s,
      ts_lastSessionSeq = lastSessionSeq, ts_pendingDraft = planRef s (pendingDraft s),
      ts_plans = map planProjection (plans s),
      ts_readyForCompletion = (case planAt s (currentApprovedPlan s) of None \<Rightarrow> False
        | Some (_, current) \<Rightarrow> (mp_status current = plan_active \<or> mp_status current = plan_completed) \<and> planReady current),
      ts_trackingMode = trackingMode s\<rparr>"

definition taskProject :: "platform \<Rightarrow> stored_event list \<Rightarrow> task_state_failure + task_state_projection" where
  "taskProject p events = ebind (efold (taskStep p) task_projector_init events) (\<lambda>s.
     Inr (snapshot (if events = [] then 0 else sessionSeq (last events)) s))"

text \<open>\<^verbatim>\<open>TaskStateMachine.project\<close>.\<close>

definition projectTaskState :: "platform \<Rightarrow> stored_event list \<Rightarrow> task_state_failure + task_state_projection" where
  "projectTaskState p events = (case assertDecodedStoredEventInvariants events of
     Inl e \<Rightarrow> Inl (LogFailure e)
   | Inr _ \<Rightarrow> taskProject p events)"

end
