(* ===== verification/TaskStateInvariants.thy ===== *)
theory TaskStateInvariants
  imports TaskStateMachine "HOL-Library.Sublist"
begin

text \<open>
  The invariants of the Goal and Plan projection and how its state may evolve.

  \<open>taskInv\<close> is the invariant of \<^verbatim>\<open>TaskProjector\<close>: unique Goals of which exactly the one
  named by \<^verbatim>\<open>activeGoalId\<close> is active; \<^verbatim>\<open>pendingDraft\<close> refers to the only draft and
  \<^verbatim>\<open>currentApprovedPlan\<close> to the only active Plan, both bound to the active Goal at its
  current revision; every Plan has the hash of its content and lawful items and histories;
  Plan revisions are numbered without repetition inside their chain.  \<open>taskEvolves\<close> states
  what later events can never undo.  Both are established once for the locales of the prelude.
\<close>

section \<open>Items and Plans\<close>

fun itemPath :: "plan_item_status \<Rightarrow> item_transition list \<Rightarrow> plan_item_status \<Rightarrow> bool" where
  "itemPath a [] b = (a = b)"
| "itemPath a (t # ts) b = (it_from t = a \<and> isAllowedItemTransition a (it_to t) \<and> itemPath (it_to t) ts b)"

definition itemWf :: "mutable_plan_item \<Rightarrow> bool" where
  "itemWf item \<longleftrightarrow>
     (pic_required (mi_content item) \<longrightarrow> mi_status item \<noteq> item_skipped) \<and>
     (mi_status item = item_completed \<longrightarrow> mi_evidenceEventIds item \<noteq> []) \<and>
     (mi_status item \<in> {item_completed, item_blocked, item_skipped} \<longrightarrow> isNonblankCanonicalText (mi_note item)) \<and>
     (case mi_carriedFromRevision item of
        None \<Rightarrow> itemPath item_pending (mi_transitions item) (mi_status item)
      | Some _ \<Rightarrow> mi_transitions item = [] \<and> mi_status item \<in> {item_completed, item_skipped})"

fun planMove :: "plan_status \<Rightarrow> plan_status \<Rightarrow> bool" where
  "planMove plan_draft to = (to = plan_active \<or> to = plan_rejected \<or> to = plan_superseded)"
| "planMove plan_active to = (to = plan_completed \<or> to = plan_superseded)"
| "planMove _ _ = False"

fun statusPath :: "plan_status \<Rightarrow> plan_status_transition list \<Rightarrow> plan_status \<Rightarrow> bool" where
  "statusPath a [] b = (a = b)"
| "statusPath a (t # ts) b = (st_from t = a \<and> planMove a (st_to t) \<and> statusPath (st_to t) ts b)"

definition atMostOneInProgress :: "mutable_plan \<Rightarrow> bool" where
  "atMostOneInProgress plan \<longleftrightarrow>
     (\<forall>j<length (mp_items plan). \<forall>k<length (mp_items plan).
        mi_status (mp_items plan ! j) = item_in_progress \<and> mi_status (mp_items plan ! k) = item_in_progress \<longrightarrow> j = k)"

definition planWf :: "platform \<Rightarrow> mutable_plan \<Rightarrow> bool" where
  "planWf p plan \<longleftrightarrow>
     (\<exists>ident. canonicalPlanIdentity p (mp_content plan) = Inr ident \<and> pi_sha256 ident = mp_planSha256 plan) \<and>
     map mi_content (mp_items plan) = prc_items (mp_content plan) \<and>
     list_all itemWf (mp_items plan) \<and> atMostOneInProgress plan \<and>
     (mp_status plan = plan_draft \<longrightarrow> mp_items plan = map freshItem (prc_items (mp_content plan))) \<and>
     (mp_status plan = plan_completed \<longleftrightarrow> mp_completed plan \<noteq> None) \<and>
     (mp_status plan = plan_completed \<longrightarrow> planReady plan) \<and>
     statusPath plan_draft (mp_statusTransitions plan) (mp_status plan)"

lemma itemPath_snoc:
  "itemPath a (ts @ [t]) b \<longleftrightarrow> itemPath a ts (it_from t) \<and> isAllowedItemTransition (it_from t) (it_to t) \<and> b = it_to t"
  by (induction ts arbitrary: a) auto

lemma statusPath_snoc:
  "statusPath a (ts @ [t]) b \<longleftrightarrow> statusPath a ts (st_from t) \<and> planMove (st_from t) (st_to t) \<and> b = st_to t"
  by (induction ts arbitrary: a) auto

lemma freshItem_simps [simp]:
  "mi_content (freshItem c) = c" "mi_status (freshItem c) = item_pending" "itemWf (freshItem c)"
  "mi_carriedFromRevision (freshItem c) = None" "mi_transitions (freshItem c) = []"
  by (simp_all add: freshItem_def itemWf_def)

lemma transitionPlanStatus_simps [simp]:
  "mp_status (transitionPlanStatus to e plan) = to" "mp_content (transitionPlanStatus to e plan) = mp_content plan"
  "mp_items (transitionPlanStatus to e plan) = mp_items plan"
  "mp_completed (transitionPlanStatus to e plan) = mp_completed plan"
  "mp_planSha256 (transitionPlanStatus to e plan) = mp_planSha256 plan"
  "mp_createdEventId (transitionPlanStatus to e plan) = mp_createdEventId plan"
  "mp_statusTransitions (transitionPlanStatus to e plan) =
     mp_statusTransitions plan @ [\<lparr>st_eventId = e, st_from = mp_status plan, st_to = to\<rparr>]"
  by (simp_all add: transitionPlanStatus_def)

text \<open>A status transition other than completion keeps a Plan lawful.\<close>

lemma planWf_transition:
  assumes "planWf p plan" "planMove (mp_status plan) to" "to \<noteq> plan_completed"
  shows "planWf p (transitionPlanStatus to e plan)"
proof -
  have "to \<noteq> plan_draft" "mp_status plan \<noteq> plan_completed"
    using assms(2) by (cases "mp_status plan"; auto)+
  then show ?thesis
    using assms by (auto simp: planWf_def statusPath_snoc atMostOneInProgress_def)
qed

lemma planWf_complete:
  assumes "planWf p plan" "mp_status plan = plan_active" "planReady plan"
  shows "planWf p ((transitionPlanStatus plan_completed e plan)\<lparr>mp_completed := Some c\<rparr>)"
  using assms by (auto simp: planWf_def statusPath_snoc atMostOneInProgress_def planReady_def)

lemma planWf_decision [simp]: "planWf p (plan\<lparr>mp_decisionEventId := d\<rparr>) = planWf p plan"
  by (simp add: planWf_def atMostOneInProgress_def planReady_def)

lemma samePlanItemContent_eq: "samePlanItemContent a b \<longleftrightarrow> a = b"
  by (cases a; cases b) (auto simp: samePlanItemContent_def)

lemma carryItem_content [simp]: "mi_content (carryItem previous item) = mi_content item"
  by (simp add: carryItem_def split: option.splits)

lemma itemWf_carryItem:
  assumes "list_all itemWf (mp_items previous)" "itemWf item" "mi_transitions item = []"
  shows "itemWf (carryItem previous item)"
proof (cases "find (\<lambda>c. samePlanItemContent (mi_content c) (mi_content item)) (mp_items previous)")
  case None
  then show ?thesis using assms(2) by (simp add: carryItem_def)
next
  case (Some prior)
  then have "prior \<in> set (mp_items previous)" "mi_content prior = mi_content item"
    by (auto dest!: find_eq_Some simp: samePlanItemContent_eq)
  with assms Some show ?thesis
    by (auto simp: carryItem_def itemWf_def list_all_iff)
qed

lemma carryItem_in_progress: "mi_status (carryItem previous (freshItem c)) \<noteq> item_in_progress"
  by (auto simp: carryItem_def split: option.splits)

lemma planWf_approve:
  assumes "planWf p plan" "mp_status plan = plan_draft" "planWf p previous"
  shows "planWf p (transitionPlanStatus plan_active e (carryTerminalItems previous plan))"
proof -
  have "mp_items plan = map freshItem (prc_items (mp_content plan))"
    using assms by (simp add: planWf_def)
  moreover have "list_all itemWf (mp_items previous)"
    using assms(3) by (simp add: planWf_def)
  ultimately show ?thesis
    using assms(1,2)
    by (auto simp: planWf_def carryTerminalItems_def statusPath_snoc atMostOneInProgress_def list_all_iff
        comp_def carryItem_in_progress intro: itemWf_carryItem)
qed

lemma itemTransitionCheck_Inr:
  assumes "itemTransitionCheck event d plan = Inr k"
  shows "k < length (mp_items plan)" "pic_id (mi_content (mp_items plan ! k)) = pid_item_id d"
    "mi_status (mp_items plan ! k) = pid_from d" "isAllowedItemTransition (pid_from d) (pid_to d)"
    "pid_to d = item_skipped \<Longrightarrow> \<not> pic_required (mi_content (mp_items plan ! k))"
    "pid_to d = item_in_progress \<Longrightarrow> j < length (mp_items plan) \<Longrightarrow> j \<noteq> k \<Longrightarrow>
       mi_status (mp_items plan ! j) \<noteq> item_in_progress"
    "pid_to d = item_completed \<Longrightarrow> pid_evidence_event_ids d \<noteq> []"
    "pid_to d \<in> {item_completed, item_blocked, item_skipped} \<Longrightarrow> isNonblankCanonicalText (pid_note d)"
  using assms
  by (auto simp: itemTransitionCheck_def fail_def Let_def list_ex_iff split: option.splits if_splits
      dest: findIndex_Some)

lemma itemWf_applyItem:
  assumes "itemTransitionCheck event d plan = Inr k" "itemWf (mp_items plan ! k)"
  shows "itemWf (applyItem event d (mp_items plan ! k))"
proof -
  note c = itemTransitionCheck_Inr [OF assms(1)]
  have "pid_from d \<noteq> item_completed" "pid_from d \<noteq> item_skipped" using c(4) by auto
  then have "mi_carriedFromRevision (mp_items plan ! k) = None"
    using assms(2) c(3) by (auto simp: itemWf_def split: option.splits)
  then show ?thesis
    using assms(2) c by (auto simp: itemWf_def applyItem_def itemPath_snoc)
qed

lemma planWf_item:
  assumes wf: "planWf p plan" and chk: "itemTransitionCheck event d plan = Inr k" and act: "mp_status plan = plan_active"
  shows "planWf p (plan\<lparr>mp_items := (mp_items plan)[k := applyItem event d (mp_items plan ! k)]\<rparr>)"
proof -
  note c = itemTransitionCheck_Inr [OF chk]
  let ?items = "(mp_items plan)[k := applyItem event d (mp_items plan ! k)]"
  have same: "map mi_content ?items = map mi_content (mp_items plan)"
    using c(1) by (simp add: map_update applyItem_def list_update_same_conv)
  have items: "list_all itemWf ?items"
    using wf itemWf_applyItem [OF chk] c(1) by (auto simp: planWf_def list_all_iff dest!: list_update_set)
  have status: "mi_status (?items ! j) = (if j = k then pid_to d else mi_status (mp_items plan ! j))"
    if "j < length (mp_items plan)" for j
    using that by (simp add: nth_list_update_cases applyItem_def)
  have "atMostOneInProgress plan" using wf by (simp add: planWf_def)
  then have one: "atMostOneInProgress (plan\<lparr>mp_items := ?items\<rparr>)"
    unfolding atMostOneInProgress_def using c(6) status by (simp split: if_splits) metis
  from wf act same items one show ?thesis by (simp add: planWf_def)
qed

section \<open>The invariant\<close>

abbreviation goalKey :: "mutable_goal \<Rightarrow> string" where "goalKey g \<equiv> gl_goalId (mg_content g)"

definition contents :: "task_projector \<Rightarrow> plan_revision_content list" where "contents s = map mp_content (plans s)"
definition statuses :: "task_projector \<Rightarrow> plan_status list" where "statuses s = map mp_status (plans s)"

definition lineage_of :: "mutable_goal list \<Rightarrow> (string \<times> string option) list" where
  "lineage_of gs = map (\<lambda>g. (goalKey g, gl_parentGoalId (mg_content g))) gs"

text \<open>Every parent is an earlier Goal, so the ancestry of Goals has no cycle.\<close>

definition parentsEarlier :: "(string \<times> string option) list \<Rightarrow> bool" where
  "parentsEarlier ls \<longleftrightarrow> (\<forall>i<length ls. \<forall>parent. snd (ls ! i) = Some parent \<longrightarrow> parent \<in> fst ` set (take i ls))"

definition goalsWf :: "task_projector \<Rightarrow> bool" where
  "goalsWf s \<longleftrightarrow> distinct (map goalKey (goals s)) \<and>
     (\<forall>g\<in>set (goals s). mg_status g = goal_active \<longleftrightarrow> activeGoalId s = Some (goalKey g)) \<and>
     (\<forall>a. activeGoalId s = Some a \<longrightarrow> a \<in> goalKey ` set (goals s)) \<and>
     parentsEarlier (lineage_of (goals s))"

definition contentBound :: "task_projector \<Rightarrow> plan_revision_content \<Rightarrow> bool" where
  "contentBound s c \<longleftrightarrow> (\<exists>g\<in>set (goals s). mg_status g = goal_active \<and> goalKey g = prc_goalId c \<and>
     gl_revision (mg_content g) = prc_goalRevision c)"

definition refsWf :: "task_projector \<Rightarrow> bool" where
  "refsWf s \<longleftrightarrow>
     (\<forall>i. pendingDraft s = Some i \<longleftrightarrow> i < length (plans s) \<and> statuses s ! i = plan_draft) \<and>
     (\<forall>i<length (plans s). statuses s ! i = plan_active \<longrightarrow> currentApprovedPlan s = Some i) \<and>
     (\<forall>i. currentApprovedPlan s = Some i \<longrightarrow>
        i < length (plans s) \<and> statuses s ! i \<in> {plan_active, plan_completed}) \<and>
     (\<forall>i. pendingDraft s = Some i \<or> currentApprovedPlan s = Some i \<longrightarrow> contentBound s (contents s ! i))"

definition chainWf :: "task_projector \<Rightarrow> bool" where
  "chainWf s \<longleftrightarrow> distinct (map (\<lambda>c. (prc_planId c, prc_revision c)) (contents s)) \<and>
     (\<forall>c\<in>set (contents s). \<exists>b. planBindings s (prc_planId c) = Some b \<and> cb_goalId b = prc_goalId c \<and>
        cb_goalRevision b = prc_goalRevision c \<and> prc_revision c \<le> cb_latestRevision b) \<and>
     (\<forall>i j. pendingDraft s = Some i \<and> currentApprovedPlan s = Some j \<longrightarrow>
        prc_planId (contents s ! i) = prc_planId (contents s ! j) \<and>
        prc_revision (contents s ! j) < prc_revision (contents s ! i))"

definition taskInv :: "platform \<Rightarrow> task_projector \<Rightarrow> bool" where
  "taskInv p s \<longleftrightarrow> goalsWf s \<and> refsWf s \<and> list_all (planWf p) (plans s) \<and> chainWf s"

text \<open>The fields the invariant speaks about; most operations leave them alone.\<close>

definition core where
  "core s = (activeGoalId s, currentApprovedPlan s, goals s, planBindings s, plans s, pendingDraft s)"

lemma taskInv_core: "core s' = core s \<Longrightarrow> taskInv p s' = taskInv p s"
  by (simp add: core_def taskInv_def goalsWf_def refsWf_def chainWf_def contentBound_def contents_def statuses_def)

lemma bindRun_core: "bindRun e r g n m s = Inr s' \<Longrightarrow> core s' = core s"
  by (auto simp: bindRun_def fail_def core_def Let_def split: option.splits if_splits)

lemma openRequest_core: "openRequest e r c s = Inr s' \<Longrightarrow> core s' = core s"
  by (auto simp: openRequest_def fail_def core_def Let_def split: if_splits)

lemma closeRequest_core [simp]: "core (closeRequest r c s) = core s"
  by (simp add: closeRequest_def core_def)

lemma core_frame [simp]:
  "core (s\<lparr>openUpdatePlanRequests := a\<rparr>) = core s" "core (s\<lparr>usedMutationIds := b\<rparr>) = core s"
  "core (s\<lparr>terminalRuns := b\<rparr>) = core s" "core (s\<lparr>eventsById := c\<rparr>) = core s"
  "core (s\<lparr>trackingMode := d\<rparr>) = core s"
  by (simp_all add: core_def)

lemma assertAgentOrigin_core: "assertAgentOrigin e ao g n m s = Inr s' \<Longrightarrow> core s' = core s"
  by (auto simp: assertAgentOrigin_def fail_def Let_def err_simps split: option.splits if_splits dest: bindRun_core)

lemma assertPlanOrigin_core: "assertPlanOrigin e po c s = Inr s' \<Longrightarrow> core s' = core s"
  by (auto simp: assertPlanOrigin_def split: plan_origin.splits dest: assertAgentOrigin_core)

lemma progressOriginCheck_core: "progressOriginCheck e d s = Inr (s', gr) \<Longrightarrow> core s' = core s"
  by (auto simp: progressOriginCheck_def fail_def err_simps split: progress_origin.splits option.splits if_splits
      dest: assertAgentOrigin_core)

lemma bindFuture_core: "bindFuturePhase16RunStart e r d s = Inr s' \<Longrightarrow> core s' = core s"
  by (auto simp: bindFuturePhase16RunStart_def fail_def split: js_value.splits option.splits if_splits
      dest: bindRun_core)

lemma processRunEvent_core: "processRunEvent e r s = Inr s' \<Longrightarrow> core s' = core s"
  by (cases "edata e")
    (auto simp: processRunEvent_def split: if_splits dest: bindFuture_core openRequest_core)

lemma indexEvent_core [simp]: "core (indexEvent e s) = core s"
  by (simp add: indexEvent_def)

section \<open>References\<close>

lemma planAt_Some: "planAt s ref = Some (i, plan) \<longleftrightarrow> ref = Some i \<and> i < length (plans s) \<and> plan = plans s ! i"
  by (auto simp: planAt_def split: option.splits if_splits)

lemma refsWf_draft:
  assumes "refsWf s"
  shows "pendingDraft s = Some i \<longleftrightarrow> i < length (plans s) \<and> mp_status (plans s ! i) = plan_draft"
proof -
  have "pendingDraft s = Some i \<longleftrightarrow> i < length (plans s) \<and> statuses s ! i = plan_draft"
    using assms unfolding refsWf_def by blast
  then show ?thesis by (cases "i < length (plans s)") (simp_all add: statuses_def)
qed

lemma refsWf_active:
  assumes "refsWf s" "i < length (plans s)" "mp_status (plans s ! i) = plan_active"
  shows "currentApprovedPlan s = Some i"
proof -
  have "statuses s ! i = plan_active" using assms(2,3) by (simp add: statuses_def)
  with assms(1,2) show ?thesis unfolding refsWf_def by blast
qed

lemma refsWf_current:
  assumes "refsWf s" "currentApprovedPlan s = Some i"
  shows "i < length (plans s)" "mp_status (plans s ! i) = plan_active \<or> mp_status (plans s ! i) = plan_completed"
proof -
  have *: "i < length (plans s) \<and> statuses s ! i \<in> {plan_active, plan_completed}"
    using assms unfolding refsWf_def by blast
  then show "i < length (plans s)" by simp
  with * show "mp_status (plans s ! i) = plan_active \<or> mp_status (plans s ! i) = plan_completed"
    by (simp add: statuses_def)
qed

lemma refsWf_bound:
  assumes "refsWf s" "pendingDraft s = Some i \<or> currentApprovedPlan s = Some i"
  shows "i < length (plans s)" "contentBound s (mp_content (plans s ! i))"
proof -
  show "i < length (plans s)" using assms refsWf_draft refsWf_current(1) by blast
  moreover have "contentBound s (contents s ! i)" using assms unfolding refsWf_def by blast
  ultimately show "contentBound s (mp_content (plans s ! i))" by (simp add: contents_def)
qed

lemma refsWf_planAt:
  assumes "refsWf s"
  shows "planAt s (pendingDraft s) = map_option (\<lambda>i. (i, plans s ! i)) (pendingDraft s)"
    "planAt s (currentApprovedPlan s) = map_option (\<lambda>i. (i, plans s ! i)) (currentApprovedPlan s)"
  using refsWf_bound(1) [OF assms] by (auto simp: planAt_def split: option.splits)

lemma goalsById_Some: "goalsById s a = Some g \<Longrightarrow> g \<in> set (goals s) \<and> goalKey g = a"
  by (auto simp: goalsById_def dest: find_eq_Some)

lemma goalsById_None: "goalsById s a = None \<longleftrightarrow> a \<notin> goalKey ` set (goals s)"
  by (auto simp: goalsById_def find_eq_None)

lemma goalsWf_unique:
  assumes "goalsWf s" "g \<in> set (goals s)" "h \<in> set (goals s)" "goalKey g = goalKey h"
  shows "g = h"
  using assms by (auto simp: goalsWf_def distinct_map inj_on_def)

lemma goalsWf_active_unique:
  assumes "goalsWf s" "g \<in> set (goals s)" "h \<in> set (goals s)" "mg_status g = goal_active" "mg_status h = goal_active"
  shows "g = h"
  using assms by (intro goalsWf_unique [OF assms(1-3)]) (auto simp: goalsWf_def)

definition settled :: "task_projector \<Rightarrow> bool" where
  "settled s \<longleftrightarrow> pendingDraft s = None \<and> currentApprovedPlan s = None \<and>
     (\<forall>plan\<in>set (plans s). mp_status plan \<notin> {plan_draft, plan_active})"

lemma settled_refsWf: "settled s \<Longrightarrow> refsWf s"
  by (auto simp: settled_def refsWf_def statuses_def)

lemma settled_no_active:
  assumes "goalsWf s" "refsWf s" "activeGoalId s = None"
  shows "settled s"
proof -
  have none: "\<not> contentBound s c" for c
    using assms(1,3) by (auto simp: contentBound_def goalsWf_def)
  then have refs: "pendingDraft s = None" "currentApprovedPlan s = None"
    using refsWf_bound(2) [OF assms(2)] by (metis not_None_eq)+
  have "mp_status (plans s ! i) \<notin> {plan_draft, plan_active}" if "i < length (plans s)" for i
    using refsWf_draft [OF assms(2), of i] refsWf_active [OF assms(2) that] refs that by auto
  with refs show ?thesis by (auto simp: settled_def in_set_conv_nth)
qed

section \<open>Superseding the Plans of a Goal\<close>

lemma supersede1_simps [simp]:
  "mp_content (supersede1 g n e plan) = mp_content plan"
  by (simp add: supersede1_def)

lemma planWf_supersede1: "planWf p plan \<Longrightarrow> planWf p (supersede1 g n e plan)"
  by (auto simp: supersede1_def intro!: planWf_transition)

lemma supersede_settled:
  assumes goals: "goalsWf s" and refs: "refsWf s" and g: "g \<in> set (goals s)" "mg_status g = goal_active"
  shows "settled (supersedeGoalPlans (goalKey g) (gl_revision (mg_content g)) e s)"
proof -
  have bound: "prc_goalId c = goalKey g \<and> prc_goalRevision c = gl_revision (mg_content g)" if "contentBound s c" for c
    using that goalsWf_active_unique [OF goals _ g(1) _ g(2)] by (auto simp: contentBound_def)
  have at: "prc_goalId (mp_content (plans s ! i)) = goalKey g \<and>
      prc_goalRevision (mp_content (plans s ! i)) = gl_revision (mg_content g)"
    if "pendingDraft s = Some i \<or> currentApprovedPlan s = Some i" for i
    using bound refsWf_bound(2) [OF refs that] .
  have "mp_status (supersede1 (goalKey g) (gl_revision (mg_content g)) e (plans s ! i)) \<notin> {plan_draft, plan_active}"
    if i: "i < length (plans s)" for i
  proof (cases "mp_status (plans s ! i) \<in> {plan_draft, plan_active}")
    case True
    then have "pendingDraft s = Some i \<or> currentApprovedPlan s = Some i"
      using refsWf_draft [OF refs, of i] refsWf_active [OF refs i] i by auto
    with at [of i] True show ?thesis by (auto simp: supersede1_def)
  next
    case False
    then show ?thesis by (auto simp: supersede1_def)
  qed
  then have "\<forall>plan\<in>set (map (supersede1 (goalKey g) (gl_revision (mg_content g)) e) (plans s)).
      mp_status plan \<notin> {plan_draft, plan_active}"
    by (auto simp: in_set_conv_nth)
  moreover have "refBoundTo s (pendingDraft s) (goalKey g) (gl_revision (mg_content g))" if "pendingDraft s \<noteq> None"
    using that at by (auto simp: refBoundTo_def refsWf_planAt [OF refs])
  moreover have "refBoundTo s (currentApprovedPlan s) (goalKey g) (gl_revision (mg_content g))"
    if "currentApprovedPlan s \<noteq> None"
    using that at by (auto simp: refBoundTo_def refsWf_planAt [OF refs])
  ultimately show ?thesis
    by (cases "pendingDraft s"; cases "currentApprovedPlan s") (simp_all add: settled_def supersedeGoalPlans_def)
qed

lemma supersede_frame [simp]:
  "goals (supersedeGoalPlans g n e s) = goals s" "activeGoalId (supersedeGoalPlans g n e s) = activeGoalId s"
  "planBindings (supersedeGoalPlans g n e s) = planBindings s" "contents (supersedeGoalPlans g n e s) = contents s"
  by (simp_all add: supersedeGoalPlans_def contents_def)

text \<open>After an operation that settles all Plans only the Goals remain to be checked.\<close>

lemma supersede_planWf:
  "list_all (planWf p) (plans s) \<Longrightarrow> list_all (planWf p) (plans (supersedeGoalPlans g n e s))"
  using planWf_supersede1 by (auto simp: supersedeGoalPlans_def list_all_iff)

lemma contents_eq: "plans s' = plans s \<Longrightarrow> contents s' = contents s"
  by (simp add: contents_def)

lemma taskInv_settled:
  assumes "taskInv p s" "settled s'" "goalsWf s'" "planBindings s' = planBindings s"
    "plans s' = plans s \<or> plans s' = plans (supersedeGoalPlans g n e s)"
  shows "taskInv p s'"
proof -
  have "contents s' = contents s" using assms(5) by (metis contents_eq supersede_frame(4))
  then have "chainWf s'" using assms(1,2,4) by (auto simp: taskInv_def chainWf_def settled_def)
  moreover have "list_all (planWf p) (plans s')"
    using assms(1,5) supersede_planWf by (metis taskInv_def)
  ultimately show ?thesis
    using assms(2,3) settled_refsWf by (simp add: taskInv_def)
qed

section \<open>Goal operations\<close>

lemma updateGoal_frame [simp]:
  "plans (updateGoal a f s) = plans s" "planBindings (updateGoal a f s) = planBindings s"
  "activeGoalId (updateGoal a f s) = activeGoalId s" "pendingDraft (updateGoal a f s) = pendingDraft s"
  "currentApprovedPlan (updateGoal a f s) = currentApprovedPlan s"
  "goals (updateGoal a f s) = map_key goalKey a f (goals s)"
  by (simp_all add: updateGoal_def)

lemma settled_updateGoal [simp]: "settled (updateGoal a f s) = settled s"
  by (simp add: settled_def)

lemma parentsEarlier_snoc:
  "parentsEarlier (ls @ [l]) \<longleftrightarrow> parentsEarlier ls \<and> (\<forall>parent. snd l = Some parent \<longrightarrow> parent \<in> fst ` set ls)"
  by (auto simp: parentsEarlier_def nth_append less_Suc_eq)

lemma goalsWf_snoc:
  assumes "distinct (map goalKey gs)" "\<forall>g\<in>set gs. mg_status g \<noteq> goal_active" "parentsEarlier (lineage_of gs)"
    "goalKey g \<notin> goalKey ` set gs" "mg_status g = goal_active"
    "\<And>parent. gl_parentGoalId (mg_content g) = Some parent \<Longrightarrow> parent \<in> goalKey ` set gs"
    "goals s = gs @ [g]" "activeGoalId s = Some (goalKey g)"
  shows "goalsWf s"
proof -
  have "parentsEarlier (lineage_of (gs @ [g]))"
    using assms(3,6) by (simp add: lineage_of_def parentsEarlier_snoc image_image)
  moreover have "\<forall>h\<in>set gs. goalKey g \<noteq> goalKey h" using assms(4) by auto
  ultimately show ?thesis
    using assms by (auto simp: goalsWf_def)
qed

lemma goalsWf_cong:
  assumes "goalsWf s" "map (\<lambda>g. (goalKey g, mg_status g)) (goals s') = map (\<lambda>g. (goalKey g, mg_status g)) (goals s)"
    "lineage_of (goals s') = lineage_of (goals s)" "activeGoalId s' = activeGoalId s"
  shows "goalsWf s'"
proof -
  let ?k = "\<lambda>g. (goalKey g, mg_status g)"
  have imp: "(\<forall>g\<in>set gs. mg_status g = goal_active \<longleftrightarrow> activeGoalId s = Some (goalKey g)) \<longleftrightarrow>
      (\<forall>x\<in>set (map ?k gs). snd x = goal_active \<longleftrightarrow> activeGoalId s = Some (fst x))"
    "goalKey ` set gs = fst ` set (map ?k gs)" "map goalKey gs = map fst (map ?k gs)" for gs
    by (auto simp: image_image comp_def)
  show ?thesis
    using assms(1) unfolding goalsWf_def imp assms(2,3,4) .
qed

lemma no_active_after:
  assumes "goalsWf s" "g \<in> set (goals s)" "mg_status g = goal_active" "\<And>h. mg_status (f h) \<noteq> goal_active"
  shows "\<forall>h\<in>set (map_key goalKey (goalKey g) f (goals s)). mg_status h \<noteq> goal_active"
proof -
  have "mg_status h \<noteq> goal_active" if "h \<in> set (goals s)" "goalKey h \<noteq> goalKey g" for h
    using goalsWf_active_unique [OF assms(1) that(1) assms(2) _ assms(3)] that(2) by blast
  with assms(4) show ?thesis by (auto simp: set_map_key)
qed

lemma createGoal_inv:
  assumes inv: "taskInv p s" and step: "createGoal event d s = Inr s'"
  shows "taskInv p s'"
proof -
  let ?g = "\<lparr>mg_content = \<lparr>gl_goalId = gcd_goal_id d, gl_objective = gcd_objective d,
                    gl_parentGoalId = gcd_parent_goal_id d, gl_revision = 1\<rparr>,
                  mg_createdEventId = eventId event, mg_lastStatusEventId = None, mg_status = goal_active\<rparr>"
  have goals: "goalsWf s" "refsWf s" using inv by (simp_all add: taskInv_def)
  have new: "gcd_goal_id d \<notin> goalKey ` set (goals s)"
    using step by (auto simp: createGoal_def fail_def Let_def goalsById_None split: if_splits)
  have parent: "parent \<in> goalKey ` set (goals s)" if "gcd_parent_goal_id d = Some parent" for parent
    using step that by (auto simp: createGoal_def fail_def Let_def goalsById_None split: if_splits)
  show ?thesis
  proof (cases "Option.bind (activeGoalId s) (goalsById s)")
    case None
    then have none: "activeGoalId s = None"
      using goals(1) by (cases "activeGoalId s") (auto simp: goalsWf_def goalsById_None)
    from None step have s': "s' = s\<lparr>goals := goals s @ [?g], activeGoalId := Some (gcd_goal_id d)\<rparr>"
      by (auto simp: createGoal_def fail_def Let_def split: if_splits)
    show ?thesis
    proof (rule taskInv_settled [OF inv])
      show "settled s'" using settled_no_active [OF goals none] s' by (simp add: settled_def)
      show "goalsWf s'"
        by (rule goalsWf_snoc [where gs = "goals s" and g = ?g])
          (use goals(1) none new parent s' in \<open>auto simp: goalsWf_def\<close>)
    qed (rule disjI1 | simp add: s')+
  next
    case (Some a)
    then have a: "a \<in> set (goals s)" "mg_status a = goal_active"
      using goals(1) by (auto simp: goalsWf_def bind_eq_Some_conv dest!: goalsById_Some)
    let ?f = "\<lambda>g. g\<lparr>mg_status := goal_abandoned, mg_lastStatusEventId := Some (eventId event)\<rparr>"
    let ?t = "updateGoal (goalKey a) ?f (supersedeGoalPlans (goalKey a) (gl_revision (mg_content a)) (eventId event) s)"
    from Some step have s': "s' = ?t\<lparr>goals := goals ?t @ [?g], activeGoalId := Some (gcd_goal_id d)\<rparr>"
      by (auto simp: createGoal_def fail_def Let_def split: if_splits)
    have keys: "map goalKey (goals ?t) = map goalKey (goals s)" "lineage_of (goals ?t) = lineage_of (goals s)"
      by (simp_all add: map_map_key lineage_of_def)
    have keyset: "goalKey ` set (goals ?t) = goalKey ` set (goals s)" by (metis keys(1) set_map)
    show ?thesis
    proof (rule taskInv_settled [OF inv])
      show "settled s'" using supersede_settled [OF goals a] s' by (simp add: settled_def)
      show "goalsWf s'"
      proof (rule goalsWf_snoc [where gs = "goals ?t" and g = ?g])
        show "distinct (map goalKey (goals ?t))" using goals(1) keys(1) by (simp add: goalsWf_def)
        show "parentsEarlier (lineage_of (goals ?t))" using goals(1) keys(2) by (simp add: goalsWf_def)
        show "\<forall>g\<in>set (goals ?t). mg_status g \<noteq> goal_active"
          using no_active_after [OF goals(1) a, of ?f] by simp
      qed (use keyset new parent s' in simp_all)
    qed (rule disjI2 | simp add: s')+
  qed
qed

lemma reviseGoal_inv:
  assumes inv: "taskInv p s" and step: "reviseGoal event d s = Inr s'"
  shows "taskInv p s'"
proof -
  have goals: "goalsWf s" "refsWf s" using inv by (simp_all add: taskInv_def)
  obtain g where g: "goalsById s (grd_goal_id d) = Some g" "mg_status g = goal_active"
    and s': "s' = updateGoal (grd_goal_id d)
      (\<lambda>g. g\<lparr>mg_content := (mg_content g)\<lparr>gl_objective := grd_objective d, gl_revision := grd_revision d\<rparr>\<rparr>)
      (supersedeGoalPlans (goalKey g) (gl_revision (mg_content g)) (eventId event) s)"
    using step by (auto simp: reviseGoal_def fail_def split: option.splits if_splits)
  have key: "map (\<lambda>g. (goalKey g, mg_status g)) (goals s') = map (\<lambda>g. (goalKey g, mg_status g)) (goals s)"
    "lineage_of (goals s') = lineage_of (goals s)"
    by (simp_all add: s' map_map_key lineage_of_def)
  have "goalsWf s'"
    by (rule goalsWf_cong [OF goals(1) key(1,2)]) (simp add: s')
  moreover have "settled s'"
    using supersede_settled [OF goals _ g(2)] goalsById_Some [OF g(1)] by (simp add: s')
  ultimately show ?thesis
    by (intro taskInv_settled [OF inv, where g = "goalKey g" and n = "gl_revision (mg_content g)" and e = "eventId event"]) (simp_all add: s')
qed

lemma changeGoalStatus_Inr:
  assumes "changeGoalStatus event d s = Inr s'"
  obtains g where "goalsById s (gsd_goal_id d) = Some g" "mg_status g = goal_active"
    "activeGoalId s = Some (gsd_goal_id d)" "gsd_revision d = gl_revision (mg_content g)"
    "s' = (updateGoal (gsd_goal_id d)
              (\<lambda>g. g\<lparr>mg_status := (case gsd_to d of ToAbandoned \<Rightarrow> goal_abandoned | ToCompleted _ _ \<Rightarrow> goal_completed),
                     mg_lastStatusEventId := Some (eventId event)\<rparr>)
              (supersedeGoalPlans (goalKey g) (gl_revision (mg_content g)) (eventId event) s))\<lparr>activeGoalId := None\<rparr>"
    "\<And>ce call. gsd_to d = ToCompleted ce call \<Longrightarrow>
       assertAcceptedCompletion event ce call (goalKey g) (gl_revision (mg_content g)) s = Inr () \<and>
       completionMatchesPlan event ce call s = Inr ()"
  using assms by (auto simp: changeGoalStatus_def fail_def err_simps split: option.splits if_splits goal_status_to.splits)

lemma changeGoalStatus_inv:
  assumes inv: "taskInv p s" and step: "changeGoalStatus event d s = Inr s'"
  shows "taskInv p s'"
proof -
  have goals: "goalsWf s" "refsWf s" using inv by (simp_all add: taskInv_def)
  from step obtain g where g: "goalsById s (gsd_goal_id d) = Some g" "mg_status g = goal_active"
    and s': "s' = (updateGoal (gsd_goal_id d)
              (\<lambda>g. g\<lparr>mg_status := (case gsd_to d of ToAbandoned \<Rightarrow> goal_abandoned | ToCompleted _ _ \<Rightarrow> goal_completed),
                     mg_lastStatusEventId := Some (eventId event)\<rparr>)
              (supersedeGoalPlans (goalKey g) (gl_revision (mg_content g)) (eventId event) s))\<lparr>activeGoalId := None\<rparr>"
    by (elim changeGoalStatus_Inr)
  have mem: "g \<in> set (goals s)" "goalKey g = gsd_goal_id d" using goalsById_Some [OF g(1)] by auto
  have key: "map goalKey (goals s') = map goalKey (goals s)" "lineage_of (goals s') = lineage_of (goals s)"
    by (simp_all add: s' map_map_key lineage_of_def)
  have "\<forall>h\<in>set (goals s'). mg_status h \<noteq> goal_active"
    using no_active_after [OF goals(1) mem(1) g(2), where f = "\<lambda>g. g\<lparr>mg_status := (case gsd_to d of
      ToAbandoned \<Rightarrow> goal_abandoned | ToCompleted _ _ \<Rightarrow> goal_completed), mg_lastStatusEventId := Some (eventId event)\<rparr>"]
    by (simp add: s' mem(2) split: goal_status_to.splits)
  then have "goalsWf s'" using goals(1) key by (simp add: goalsWf_def) (simp add: s')
  moreover have "settled s'"
    using supersede_settled [OF goals mem(1) g(2)] by (simp add: s' settled_def)
  ultimately show ?thesis
    by (intro taskInv_settled [OF inv, where g = "goalKey g" and n = "gl_revision (mg_content g)" and e = "eventId event"]) (simp_all add: s')
qed

section \<open>Plan operations\<close>

lemma updatePlan_frame [simp]:
  "goals (updatePlan i f s) = goals s" "activeGoalId (updatePlan i f s) = activeGoalId s"
  "planBindings (updatePlan i f s) = planBindings s" "pendingDraft (updatePlan i f s) = pendingDraft s"
  "currentApprovedPlan (updatePlan i f s) = currentApprovedPlan s"
  "plans (updatePlan i f s) = (plans s)[i := f (plans s ! i)]"
  by (simp_all add: updatePlan_def)

lemma contents_updatePlan:
  "(\<And>plan. mp_content (f plan) = mp_content plan) \<Longrightarrow> contents (updatePlan i f s) = contents s"
  by (cases "i < length (plans s)") (simp_all add: contents_def map_update list_update_same_conv list_update_beyond)

lemma statuses_updatePlan: "statuses (updatePlan i f s) = (statuses s)[i := mp_status (f (plans s ! i))]"
  by (simp add: statuses_def map_update)

lemma map_update_same [simp]: "i < length xs \<Longrightarrow> (map f xs)[i := f (xs ! i)] = map f xs"
  by (simp add: list_update_same_conv)

lemma length_statuses [simp]: "length (statuses s) = length (plans s)" "length (contents s) = length (plans s)"
  by (simp_all add: statuses_def contents_def)

lemma list_all_update: "list_all P xs \<Longrightarrow> (i < length xs \<Longrightarrow> P v) \<Longrightarrow> list_all P (xs[i := v])"
  by (cases "i < length xs") (auto simp: list_all_iff list_update_beyond dest!: list_update_set)

lemma taskInv_planWf: "taskInv p s \<Longrightarrow> i < length (plans s) \<Longrightarrow> planWf p (plans s ! i)"
  by (simp add: taskInv_def list_all_length)

text \<open>Goals and chains do not change when Plans change in place and references are dropped or moved.\<close>

lemma taskInv_inPlace:
  assumes inv: "taskInv p s" and "contents s' = contents s" "goals s' = goals s" "activeGoalId s' = activeGoalId s"
    "planBindings s' = planBindings s" "list_all (planWf p) (plans s')"
    and refs: "pendingDraft s' = pendingDraft s \<and> currentApprovedPlan s' = currentApprovedPlan s \<or> pendingDraft s' = None"
    and draft: "\<And>i. pendingDraft s' = Some i \<longleftrightarrow> i < length (plans s') \<and> statuses s' ! i = plan_draft"
    and active: "\<And>i. i < length (plans s') \<Longrightarrow> statuses s' ! i = plan_active \<Longrightarrow> currentApprovedPlan s' = Some i"
    and current: "\<And>i. currentApprovedPlan s' = Some i \<Longrightarrow>
      i < length (plans s') \<and> statuses s' ! i \<in> {plan_active, plan_completed} \<and>
      (currentApprovedPlan s = Some i \<or> pendingDraft s = Some i)"
  shows "taskInv p s'"
proof -
  have bound: "contentBound s' = contentBound s" using assms(3) by (simp add: contentBound_def fun_eq_iff)
  have "goalsWf s'" using inv assms(3,4) by (simp add: taskInv_def goalsWf_def)
  moreover have "chainWf s'"
    using inv refs assms(2,5) by (auto simp: taskInv_def chainWf_def)
  moreover have "refsWf s'"
  proof -
    have "contentBound s' (contents s' ! i)" if "pendingDraft s' = Some i \<or> currentApprovedPlan s' = Some i" for i
    proof -
      have "pendingDraft s = Some i \<or> currentApprovedPlan s = Some i"
        using that refs current [of i] by auto
      then have "contentBound s (contents s ! i)" using inv unfolding taskInv_def refsWf_def by blast
      then show ?thesis using bound assms(2) by simp
    qed
    then show ?thesis unfolding refsWf_def using draft active current by blast
  qed
  ultimately show ?thesis using assms(6) by (simp add: taskInv_def)
qed

lemma exactPendingDecision_Inr:
  assumes "exactPendingDecision event t s = Inr i"
  shows "pendingDraft s = Some i" "i < length (plans s)" "mp_status (plans s ! i) = plan_draft"
    "matchesTarget (plans s ! i) t"
  using assms
  by (auto simp: exactPendingDecision_def fail_def planAt_Some split: option.splits if_splits)

lemma exactCurrentPlan_Inr:
  assumes "exactCurrentPlan event t s = Inr (i, plan)"
  shows "currentApprovedPlan s = Some i" "i < length (plans s)" "plan = plans s ! i" "matchesTarget plan t"
  using assms by (auto simp: exactCurrentPlan_def fail_def planAt_Some split: option.splits if_splits)

lemma refs_facts:
  assumes "taskInv p s"
  shows "pendingDraft s = Some i \<longleftrightarrow> i < length (plans s) \<and> statuses s ! i = plan_draft"
    "i < length (plans s) \<Longrightarrow> statuses s ! i = plan_active \<Longrightarrow> currentApprovedPlan s = Some i"
    "currentApprovedPlan s = Some i \<Longrightarrow> i < length (plans s) \<and> statuses s ! i \<in> {plan_active, plan_completed}"
  using assms unfolding taskInv_def refsWf_def by blast+

text \<open>A draft leaves its place rejected or superseded.\<close>

lemma taskInv_dropDraft:
  assumes inv: "taskInv p s" and i: "pendingDraft s = Some i"
    and content: "mp_content plan = mp_content (plans s ! i)" and wf: "planWf p plan"
    and status: "mp_status plan \<in> {plan_rejected, plan_superseded}"
    and s': "core s' = core ((updatePlan i (\<lambda>_. plan) s)\<lparr>pendingDraft := None\<rparr>)"
  shows "taskInv p s'"
proof -
  note r = refs_facts [OF inv]
  have lt: "i < length (plans s)" and draft: "statuses s ! i = plan_draft" using r(1) [of i] i by simp_all
  let ?t = "(updatePlan i (\<lambda>_. plan) s)\<lparr>pendingDraft := None\<rparr>"
  have st: "statuses ?t = (statuses s)[i := mp_status plan]" "contents ?t = contents s"
    using lt content by (simp_all add: statuses_def contents_def map_update)
  have fs: "length (plans ?t) = length (plans s)" "pendingDraft ?t = None"
    "currentApprovedPlan ?t = currentApprovedPlan s" by simp_all
  have "taskInv p ?t"
  proof (rule taskInv_inPlace [OF inv st(2)])
    show "list_all (planWf p) (plans ?t)" using inv wf by (simp add: taskInv_def list_all_update)
    show "(pendingDraft ?t = Some j) = (j < length (plans ?t) \<and> statuses ?t ! j = plan_draft)" for j
      unfolding st fs using r(1) [of j] i status by (auto simp: nth_list_update_cases split: if_splits)
    show "currentApprovedPlan ?t = Some j" if "j < length (plans ?t)" "statuses ?t ! j = plan_active" for j
      using r(2) [of j] that status unfolding st fs by (auto simp: nth_list_update_cases split: if_splits)
    show "j < length (plans ?t) \<and> statuses ?t ! j \<in> {plan_active, plan_completed} \<and>
        (currentApprovedPlan s = Some j \<or> pendingDraft s = Some j)" if "currentApprovedPlan ?t = Some j" for j
      using r(3) [of j] that draft unfolding st fs by (auto simp: nth_list_update_cases)
  qed simp_all
  with taskInv_core [OF s'] show ?thesis by simp
qed

lemma rejectPlan_inv:
  assumes inv: "taskInv p s" and step: "rejectPlan event t s = Inr s'"
  shows "taskInv p s'"
proof -
  let ?f = "\<lambda>plan. (transitionPlanStatus plan_rejected (eventId event) plan)\<lparr>mp_decisionEventId := Some (eventId event)\<rparr>"
  obtain i where ex: "exactPendingDecision event t s = Inr i"
    and s': "s' = (updatePlan i ?f s)\<lparr>pendingDraft := None\<rparr>"
    using step by (auto simp: rejectPlan_def err_simps)
  note i = exactPendingDecision_Inr [OF ex]
  have wf: "planWf p (?f (plans s ! i))"
    using planWf_transition [OF taskInv_planWf [OF inv i(2)]] i(3) by simp
  show ?thesis
    by (rule taskInv_dropDraft [OF inv i(1) _ wf]) (simp_all add: s' core_def)
qed

text \<open>
  Approval: the previous Plan, when still active, is superseded before the draft takes its
  place; the draft inherits its terminal items.
\<close>

definition approved :: "string \<Rightarrow> mutable_plan \<Rightarrow> mutable_plan" where
  "approved e plan = (transitionPlanStatus plan_active e plan)\<lparr>mp_decisionEventId := Some e\<rparr>"

lemma approvePlan_Inr:
  assumes inv: "taskInv p s" and step: "approvePlan event t s = Inr s'"
  obtains i where "exactPendingDecision event t s = Inr i" "pendingDraft s' = None" "currentApprovedPlan s' = Some i"
    "goals s' = goals s" "activeGoalId s' = activeGoalId s" "planBindings s' = planBindings s"
    "currentApprovedPlan s = None \<Longrightarrow> plans s' = (plans s)[i := approved (eventId event) (plans s ! i)]"
    "\<And>j. currentApprovedPlan s = Some j \<Longrightarrow> j \<noteq> i \<and> j < length (plans s) \<and>
       plans s' = (plans s)[j := (if mp_status (plans s ! j) = plan_active
            then transitionPlanStatus plan_superseded (eventId event) (plans s ! j) else plans s ! j),
          i := approved (eventId event) (carryTerminalItems (plans s ! j) (plans s ! i))]"
proof -
  have refs: "refsWf s" using inv by (simp add: taskInv_def)
  from step obtain i where ex: "exactPendingDecision event t s = Inr i"
    by (auto simp: approvePlan_def err_simps)
  note i = exactPendingDecision_Inr [OF ex]
  show thesis
  proof (cases "currentApprovedPlan s")
    case None
    with step ex refsWf_planAt [OF refs] show thesis
      by (intro that [OF ex]) (auto simp: approvePlan_def Let_def approved_def)
  next
    case (Some j)
    with refsWf_current [OF refs] i(3) have j: "j \<noteq> i" "j < length (plans s)" by auto
    show thesis
    proof (cases "mp_status (plans s ! j) = plan_active")
      case True
      with j step ex Some refsWf_planAt [OF refs] i(2) show thesis
        by (intro that [OF ex]) (auto simp: approvePlan_def Let_def approved_def list_update_swap [of j i])
    next
      case False
      with j step ex Some refsWf_planAt [OF refs] i(2) show thesis
        by (intro that [OF ex]) (auto simp: approvePlan_def Let_def approved_def)
    qed
  qed
qed

lemma planWf_approved: "planWf p plan \<Longrightarrow> mp_status plan = plan_draft \<Longrightarrow> planWf p (approved e plan)"
  by (auto simp: approved_def intro: planWf_transition)

lemma planWf_approved_carry:
  "planWf p plan \<Longrightarrow> mp_status plan = plan_draft \<Longrightarrow> planWf p previous \<Longrightarrow>
   planWf p (approved e (carryTerminalItems previous plan))"
  by (auto simp: approved_def intro: planWf_approve)

lemma approved_simps [simp]:
  "mp_status (approved e plan) = plan_active" "mp_content (approved e plan) = mp_content plan"
  "mp_content (carryTerminalItems previous plan) = mp_content plan"
  by (simp_all add: approved_def carryTerminalItems_def)

lemma approvePlan_plans:
  assumes inv: "taskInv p s" and ex: "exactPendingDecision event t s = Inr i"
    and none: "currentApprovedPlan s = None \<Longrightarrow> plans s' = (plans s)[i := approved (eventId event) (plans s ! i)]"
    and some: "\<And>j. currentApprovedPlan s = Some j \<Longrightarrow> j \<noteq> i \<and> j < length (plans s) \<and>
       plans s' = (plans s)[j := (if mp_status (plans s ! j) = plan_active
            then transitionPlanStatus plan_superseded (eventId event) (plans s ! j) else plans s ! j),
          i := approved (eventId event) (carryTerminalItems (plans s ! j) (plans s ! i))]"
  shows "contents s' = contents s" "list_all (planWf p) (plans s')" "length (plans s') = length (plans s)"
    "k < length (plans s) \<Longrightarrow> statuses s' ! k =
      (if k = i then plan_active else if statuses s ! k = plan_active then plan_superseded else statuses s ! k)"
proof -
  note i = exactPendingDecision_Inr [OF ex] and r = refs_facts [OF inv]
  have wf: "list_all (planWf p) (plans s)" "\<And>j. j < length (plans s) \<Longrightarrow> planWf p (plans s ! j)"
    using inv taskInv_planWf by (auto simp: taskInv_def)
  have "contents s' = contents s \<and> list_all (planWf p) (plans s') \<and> length (plans s') = length (plans s) \<and>
    (\<forall>k<length (plans s). statuses s' ! k =
      (if k = i then plan_active else if statuses s ! k = plan_active then plan_superseded else statuses s ! k))"
  proof (cases "currentApprovedPlan s")
    case None
    then have noact: "mp_status (plans s ! k) \<noteq> plan_active" if "k < length (plans s)" for k
      using r(2) [of k] that by (auto simp: statuses_def)
    from none [OF None] i(2,3) wf noact show ?thesis
      by (auto simp: contents_def statuses_def map_update list_update_same_conv nth_list_update_cases
          intro!: list_all_update planWf_approved)
  next
    case (Some j)
    then have noact: "mp_status (plans s ! k) \<noteq> plan_active" if "k < length (plans s)" "k \<noteq> j" for k
      using r(2) [of k] that by (auto simp: statuses_def)
    have sup: "planWf p (transitionPlanStatus plan_superseded (eventId event) (plans s ! j))"
      if "mp_status (plans s ! j) = plan_active"
      using planWf_transition [OF wf(2)] that some [OF Some] by simp
    from some [OF Some] i(2,3) wf noact sup show ?thesis
      by (auto simp: contents_def statuses_def map_update list_update_same_conv nth_list_update_cases
          intro!: list_all_update planWf_approved_carry)
  qed
  then show "contents s' = contents s" "list_all (planWf p) (plans s')" "length (plans s') = length (plans s)"
    "k < length (plans s) \<Longrightarrow> statuses s' ! k =
      (if k = i then plan_active else if statuses s ! k = plan_active then plan_superseded else statuses s ! k)"
    by auto
qed

lemma approvePlan_inv:
  assumes inv: "taskInv p s" and step: "approvePlan event t s = Inr s'"
  shows "taskInv p s'"
proof -
  from approvePlan_Inr [OF inv step] obtain i where ex: "exactPendingDecision event t s = Inr i"
    and fs: "pendingDraft s' = None" "currentApprovedPlan s' = Some i" "goals s' = goals s"
      "activeGoalId s' = activeGoalId s" "planBindings s' = planBindings s"
    and none: "currentApprovedPlan s = None \<Longrightarrow> plans s' = (plans s)[i := approved (eventId event) (plans s ! i)]"
    and some: "\<And>j. currentApprovedPlan s = Some j \<Longrightarrow> j \<noteq> i \<and> j < length (plans s) \<and>
       plans s' = (plans s)[j := (if mp_status (plans s ! j) = plan_active
            then transitionPlanStatus plan_superseded (eventId event) (plans s ! j) else plans s ! j),
          i := approved (eventId event) (carryTerminalItems (plans s ! j) (plans s ! i))]"
    by blast
  note ps = approvePlan_plans [OF inv ex none some]
  note i = exactPendingDecision_Inr [OF ex] and r = refs_facts [OF inv]
  show ?thesis
  proof (rule taskInv_inPlace [OF inv ps(1) fs(3,4,5) ps(2)])
    show "(pendingDraft s' = Some j) = (j < length (plans s') \<and> statuses s' ! j = plan_draft)" for j
      using r(1) [of j] i(1) ps(4) [of j] by (auto simp: fs ps(3))
    show "currentApprovedPlan s' = Some j" if "j < length (plans s')" "statuses s' ! j = plan_active" for j
      using that ps(4) [of j] by (auto simp: fs ps(3) split: if_splits)
    show "j < length (plans s') \<and> statuses s' ! j \<in> {plan_active, plan_completed} \<and>
        (currentApprovedPlan s = Some j \<or> pendingDraft s = Some j)" if "currentApprovedPlan s' = Some j" for j
      using that i ps(3) ps(4) [of i] by (simp add: fs)
  qed (simp_all add: fs(1))
qed

text \<open>Progress and completion change the current Plan only.\<close>

lemma taskInv_current:
  assumes inv: "taskInv p s" and i: "currentApprovedPlan s = Some i" "mp_status (plans s ! i) = plan_active"
    and content: "mp_content plan = mp_content (plans s ! i)" and wf: "planWf p plan"
    and status: "mp_status plan \<in> {plan_active, plan_completed}"
    and s': "core s' = core (updatePlan i (\<lambda>_. plan) s)"
  shows "taskInv p s'"
proof -
  note r = refs_facts [OF inv]
  have lt: "i < length (plans s)" using r(3) [OF i(1)] by simp
  let ?t = "updatePlan i (\<lambda>_. plan) s"
  have st: "statuses ?t = (statuses s)[i := mp_status plan]" "contents ?t = contents s"
    using lt content by (simp_all add: statuses_updatePlan contents_def map_update)
  have active: "statuses s ! i = plan_active" using i(2) lt by (simp add: statuses_def)
  have "taskInv p ?t"
  proof (rule taskInv_inPlace [OF inv st(2)])
    show "list_all (planWf p) (plans ?t)" using inv wf by (simp add: taskInv_def list_all_update)
    show "(pendingDraft ?t = Some j) = (j < length (plans ?t) \<and> statuses ?t ! j = plan_draft)" for j
      using r(1) [of j] status active by (auto simp: st nth_list_update_cases split: if_splits)
    show "currentApprovedPlan ?t = Some j" if "j < length (plans ?t)" "statuses ?t ! j = plan_active" for j
      using r(2) [of j] that i(1) by (auto simp: st nth_list_update_cases split: if_splits)
    show "j < length (plans ?t) \<and> statuses ?t ! j \<in> {plan_active, plan_completed} \<and>
        (currentApprovedPlan s = Some j \<or> pendingDraft s = Some j)" if "currentApprovedPlan ?t = Some j" for j
      using r(3) [of j] that i(1) status lt by (simp add: statuses_updatePlan)
  qed simp_all
  with taskInv_core [OF s'] show ?thesis by simp
qed

lemma updatePlan_core: "core s = core t \<Longrightarrow> core (updatePlan i f s) = core (updatePlan i f t)"
  by (simp add: core_def)

lemma changePlanItemStatus_Inr:
  assumes "changePlanItemStatus event d s = Inr s'"
  obtains i k t gr where "currentApprovedPlan s = Some i" "i < length (plans s)"
    "mp_status (plans s ! i) = plan_active" "matchesTarget (plans s ! i) (pid_target d)"
    "progressOriginCheck event d s = Inr (t, gr)" "itemTransitionCheck event d (plans s ! i) = Inr k"
    "efold (\<lambda>_. checkEvidence event d gr t) () (pid_evidence_event_ids d) = Inr ()"
    "s' = updatePlan i (\<lambda>plan. plan\<lparr>mp_items := (mp_items plan)[k := applyItem event d (mp_items plan ! k)]\<rparr>) t"
proof -
  from assms obtain i plan where ex: "exactCurrentPlan event (pid_target d) s = Inr (i, plan)"
    by (auto simp: changePlanItemStatus_def err_simps)
  note c = exactCurrentPlan_Inr [OF ex]
  from assms ex c(3) show thesis
    by (auto simp: changePlanItemStatus_def fail_def err_simps split: if_splits intro!: that [OF c(1,2)])
      (use c(4) in simp)
qed

lemma changePlanItemStatus_inv:
  assumes inv: "taskInv p s" and step: "changePlanItemStatus event d s = Inr s'"
  shows "taskInv p s'"
proof -
  from step obtain i k t gr where i: "currentApprovedPlan s = Some i" "i < length (plans s)"
      "mp_status (plans s ! i) = plan_active"
    and t: "progressOriginCheck event d s = Inr (t, gr)" and k: "itemTransitionCheck event d (plans s ! i) = Inr k"
    and s': "s' = updatePlan i (\<lambda>plan. plan\<lparr>mp_items := (mp_items plan)[k := applyItem event d (mp_items plan ! k)]\<rparr>) t"
    by (elim changePlanItemStatus_Inr)
  from progressOriginCheck_core [OF t] have plans: "plans t = plans s" by (simp add: core_def)
  let ?plan = "(plans s ! i)\<lparr>mp_items := (mp_items (plans s ! i))[k := applyItem event d (mp_items (plans s ! i) ! k)]\<rparr>"
  have core: "core s' = core (updatePlan i (\<lambda>_. ?plan) s)"
    using progressOriginCheck_core [OF t] by (simp add: s' core_def)
  show ?thesis
    by (rule taskInv_current [OF inv i(1,3) _ planWf_item [OF taskInv_planWf [OF inv i(2)] k i(3)] _ core])
      (simp_all add: i)
qed

lemma completePlan_Inr:
  assumes "completePlan event t ce call s = Inr s'"
  obtains i where "currentApprovedPlan s = Some i" "i < length (plans s)" "mp_status (plans s ! i) = plan_active"
    "matchesTarget (plans s ! i) t" "planReady (plans s ! i)"
    "assertAcceptedCompletion event ce call (pt_goal_id t) (pt_goal_revision t) s = Inr ()"
    "s' = updatePlan i (\<lambda>plan. (transitionPlanStatus plan_completed (eventId event) plan)
       \<lparr>mp_completed := Some \<lparr>pc_completionEvaluatedEventId = ce, pc_eventId = eventId event,
          pc_finishTaskCallId = call\<rparr>\<rparr>) s"
proof -
  from assms obtain i plan where ex: "exactCurrentPlan event t s = Inr (i, plan)"
    by (auto simp: completePlan_def err_simps)
  note c = exactCurrentPlan_Inr [OF ex]
  from assms ex c(3) show thesis
    by (auto simp: completePlan_def fail_def err_simps split: if_splits intro!: that [OF c(1,2)])
      (use c(4) in simp)
qed

lemma completePlan_inv:
  assumes inv: "taskInv p s" and step: "completePlan event t ce call s = Inr s'"
  shows "taskInv p s'"
proof -
  from step obtain i where i: "currentApprovedPlan s = Some i" "i < length (plans s)"
      "mp_status (plans s ! i) = plan_active" and ready: "planReady (plans s ! i)"
    and s': "s' = updatePlan i (\<lambda>plan. (transitionPlanStatus plan_completed (eventId event) plan)
       \<lparr>mp_completed := Some \<lparr>pc_completionEvaluatedEventId = ce, pc_eventId = eventId event,
          pc_finishTaskCallId = call\<rparr>\<rparr>) s"
    by (elim completePlan_Inr)
  show ?thesis
    by (rule taskInv_current [OF inv i(1,3) _ planWf_complete [OF taskInv_planWf [OF inv i(2)] i(3) ready]])
      (simp_all add: s' core_def)
qed

section \<open>New drafts\<close>

lemma taskInv_newDraft:
  assumes inv: "taskInv p s" and none: "pendingDraft s = None" and bound: "contentBound s content"
    and ident: "canonicalPlanIdentity p content = Inr ident" "pi_sha256 ident = h"
    and b: "cb_goalId b = prc_goalId content" "cb_goalRevision b = prc_goalRevision content"
      "cb_latestRevision b = prc_revision content"
    and chain: "\<And>c. c \<in> set (contents s) \<Longrightarrow> prc_planId c = prc_planId content \<Longrightarrow>
      prc_revision c < prc_revision content \<and> prc_goalId c = prc_goalId content \<and> prc_goalRevision c = prc_goalRevision content"
    and current: "\<And>j. currentApprovedPlan s = Some j \<Longrightarrow> prc_planId (contents s ! j) = prc_planId content"
    and plan: "mp_completed plan = None" "mp_content plan = content" "mp_items plan = map freshItem (prc_items content)"
      "mp_planSha256 plan = h" "mp_status plan = plan_draft" "mp_statusTransitions plan = []"
    and s': "goals s' = goals s" "activeGoalId s' = activeGoalId s" "plans s' = plans s @ [plan]"
      "currentApprovedPlan s' = currentApprovedPlan s" "pendingDraft s' = Some (length (plans s))"
      "planBindings s' = (planBindings s)(prc_planId content \<mapsto> b)"
  shows "taskInv p s'"
proof -
  note r = refs_facts [OF inv]
  have cs: "contents s' = contents s @ [content]" "statuses s' = statuses s @ [plan_draft]"
    using plan s' by (simp_all add: contents_def statuses_def)
  have nodraft: "statuses s ! j \<noteq> plan_draft" if "j < length (plans s)" for j
    using r(1) [of j] none that by simp
  have "goalsWf s'" using inv s' by (simp add: taskInv_def goalsWf_def)
  moreover have "list_all (planWf p) (plans s')"
  proof -
    have "planWf p plan"
      using plan ident by (auto simp: planWf_def atMostOneInProgress_def list_all_iff comp_def)
    then show ?thesis using inv s' by (simp add: taskInv_def)
  qed
  moreover have "chainWf s'"
  proof -
    have old: "chainWf s" using inv by (simp add: taskInv_def)
    have mem: "j < length (plans s) \<Longrightarrow> contents s ! j \<in> set (contents s)" for j by simp
    have "\<exists>b'. ((planBindings s)(prc_planId content \<mapsto> b)) (prc_planId c) = Some b' \<and> cb_goalId b' = prc_goalId c \<and>
        cb_goalRevision b' = prc_goalRevision c \<and> prc_revision c \<le> cb_latestRevision b'"
      if "c \<in> set (contents s @ [content])" for c
      using that chain [of c] b old by (auto simp: chainWf_def)
    moreover have "prc_planId (contents s ! j) = prc_planId content \<and> prc_revision (contents s ! j) < prc_revision content \<and>
        j < length (plans s)" if "currentApprovedPlan s = Some j" for j
      using current [OF that] chain [OF mem] r(3) [OF that] by auto
    moreover have "distinct (map (\<lambda>c. (prc_planId c, prc_revision c)) (contents s @ [content]))"
      using old chain by (fastforce simp: chainWf_def)
    ultimately show ?thesis
      unfolding chainWf_def cs s' by (auto simp: nth_append)
  qed
  moreover have "refsWf s'"
  proof -
    have bound': "contentBound s' = contentBound s" using s'(1) by (simp add: contentBound_def fun_eq_iff)
    have "contentBound s (contents s ! j)" if "currentApprovedPlan s = Some j" for j
      using inv that unfolding taskInv_def refsWf_def by blast
    moreover have "(Some (length (plans s)) = Some j) = (j < length (plans s @ [plan]) \<and> (statuses s @ [plan_draft]) ! j = plan_draft)" for j
      using nodraft by (auto simp: nth_append less_Suc_eq)
    moreover have "currentApprovedPlan s = Some j"
      if "j < length (plans s @ [plan])" "(statuses s @ [plan_draft]) ! j = plan_active" for j
      using r(2) [of j] that by (auto simp: nth_append less_Suc_eq)
    moreover have "j < length (plans s @ [plan]) \<and> (statuses s @ [plan_draft]) ! j \<in> {plan_active, plan_completed} \<and>
        contentBound s ((contents s @ [content]) ! j)" if "currentApprovedPlan s = Some j" for j
      using r(3) [OF that] calculation(1) [OF that] by (simp add: nth_append)
    moreover have "contentBound s ((contents s @ [content]) ! length (plans s))"
      using bound by (simp add: nth_append)
    ultimately show ?thesis
      unfolding refsWf_def cs s' bound' by blast
  qed
  ultimately show ?thesis by (simp add: taskInv_def)
qed

lemma activeGoalForPlan_Inr: "activeGoalForPlan event content s = Inr u \<Longrightarrow> contentBound s content"
  by (auto simp: activeGoalForPlan_def fail_def contentBound_def split: option.splits if_splits dest!: goalsById_Some)

lemma assertPlanHash_Inr:
  assumes "assertPlanHash p event content h = Inr u"
  obtains ident where "canonicalPlanIdentity p content = Inr ident" "pi_sha256 ident = h"
  using assms by (auto simp: assertPlanHash_def fail_def split: sum.splits if_splits)

lemma contentBound_core: "core s' = core s \<Longrightarrow> contentBound s' c = contentBound s c"
  by (simp add: core_def contentBound_def)

lemma proposePlan_Inr:
  assumes "proposePlan p event content origin h s = Inr s'"
  obtains t where "contentBound s content" "assertPlanHash p event content h = Inr ()" "prc_revision content = 1"
    "planBindings s (prc_planId content) = None" "pendingDraft s = None" "currentApprovedPlan s = None"
    "assertPlanOrigin event origin content s = Inr t"
    "s' = (snd (newPlan event content h (t\<lparr>planBindings := (planBindings t)(prc_planId content \<mapsto>
        \<lparr>cb_goalId = prc_goalId content, cb_goalRevision = prc_goalRevision content, cb_latestRevision = 1\<rparr>)\<rparr>)))
       \<lparr>pendingDraft := Some (length (plans t))\<rparr>"
  using assms
  by (auto simp: proposePlan_def fail_def err_simps newPlan_def Let_def split: if_splits dest!: activeGoalForPlan_Inr)

lemma proposePlan_inv:
  assumes inv: "taskInv p s" and step: "proposePlan p event content origin h s = Inr s'"
  shows "taskInv p s'"
proof -
  from step obtain t where bound: "contentBound s content" and hash: "assertPlanHash p event content h = Inr ()"
    and rev1: "prc_revision content = 1" and nob: "planBindings s (prc_planId content) = None"
    and none: "pendingDraft s = None" "currentApprovedPlan s = None"
    and t: "assertPlanOrigin event origin content s = Inr t"
    and s': "s' = (snd (newPlan event content h (t\<lparr>planBindings := (planBindings t)(prc_planId content \<mapsto>
        \<lparr>cb_goalId = prc_goalId content, cb_goalRevision = prc_goalRevision content, cb_latestRevision = 1\<rparr>)\<rparr>)))
       \<lparr>pendingDraft := Some (length (plans t))\<rparr>"
    by (elim proposePlan_Inr)
  note core = assertPlanOrigin_core [OF t]
  have inv_t: "taskInv p t" using taskInv_core [OF core] inv by simp
  have f: "pendingDraft t = None" "currentApprovedPlan t = None" "planBindings t (prc_planId content) = None"
    using core none nob by (simp_all add: core_def)
  from hash obtain ident where ident: "canonicalPlanIdentity p content = Inr ident" "pi_sha256 ident = h"
    by (elim assertPlanHash_Inr)
  have fresh: "prc_planId c \<noteq> prc_planId content" if "c \<in> set (contents t)" for c
    using inv_t f(3) that by (fastforce simp: taskInv_def chainWf_def)
  show ?thesis
    by (rule taskInv_newDraft [OF inv_t f(1) _ ident, where
        b = "\<lparr>cb_goalId = prc_goalId content, cb_goalRevision = prc_goalRevision content, cb_latestRevision = 1\<rparr>"])
      (use bound contentBound_core [OF core] rev1 f(2) fresh in \<open>auto simp: s' newPlan_def Let_def\<close>)
qed

lemma revisePlan_Inr:
  assumes "revisePlan p event d s = Inr s'"
  obtains t base b i where "contentBound s (prd_content d)"
    "assertPlanHash p event (prd_content d) (prd_plan_sha256 d) = Inr ()"
    "planAt s (case pendingDraft s of None \<Rightarrow> currentApprovedPlan s | Some i \<Rightarrow> Some i) = Some (i, base)"
    "prc_planId (mp_content base) = prc_planId (prd_content d)"
    "planBindings s (prc_planId (prd_content d)) = Some b" "cb_goalId b = prc_goalId (prd_content d)"
    "cb_goalRevision b = prc_goalRevision (prd_content d)" "prc_revision (prd_content d) = cb_latestRevision b + 1"
    "assertPlanOrigin event (prd_origin d) (prd_content d) s = Inr t"
    "s' = (let u = (case pendingDraft t of None \<Rightarrow> t
              | Some i \<Rightarrow> updatePlan i (transitionPlanStatus plan_superseded (eventId event)) t);
             v = snd (newPlan event (prd_content d) (prd_plan_sha256 d) u)
           in v\<lparr>planBindings := (planBindings v)(prc_planId (prd_content d) \<mapsto> b\<lparr>cb_latestRevision := prc_revision (prd_content d)\<rparr>),
               pendingDraft := Some (length (plans t))\<rparr>)"
  using assms
  by (auto simp: revisePlan_def fail_def err_simps newPlan_def Let_def split: if_splits option.splits
      dest!: activeGoalForPlan_Inr)

lemma revisePlan_inv:
  assumes inv: "taskInv p s" and step: "revisePlan p event d s = Inr s'"
  shows "taskInv p s'"
proof -
  let ?c = "prd_content d"
  from step obtain t base b i where bound: "contentBound s ?c"
    and hash: "assertPlanHash p event ?c (prd_plan_sha256 d) = Inr ()"
    and base: "planAt s (case pendingDraft s of None \<Rightarrow> currentApprovedPlan s | Some i \<Rightarrow> Some i) = Some (i, base)"
      "prc_planId (mp_content base) = prc_planId ?c"
    and b: "planBindings s (prc_planId ?c) = Some b" "cb_goalId b = prc_goalId ?c"
      "cb_goalRevision b = prc_goalRevision ?c" "prc_revision ?c = cb_latestRevision b + 1"
    and t: "assertPlanOrigin event (prd_origin d) ?c s = Inr t"
    and s': "s' = (let u = (case pendingDraft t of None \<Rightarrow> t
              | Some i \<Rightarrow> updatePlan i (transitionPlanStatus plan_superseded (eventId event)) t);
             v = snd (newPlan event ?c (prd_plan_sha256 d) u)
           in v\<lparr>planBindings := (planBindings v)(prc_planId ?c \<mapsto> b\<lparr>cb_latestRevision := prc_revision ?c\<rparr>),
               pendingDraft := Some (length (plans t))\<rparr>)"
    by (elim revisePlan_Inr)
  note core = assertPlanOrigin_core [OF t]
  have inv_t: "taskInv p t" using taskInv_core [OF core] inv by simp
  have ft: "planBindings t = planBindings s" "plans t = plans s" "pendingDraft t = pendingDraft s"
    "currentApprovedPlan t = currentApprovedPlan s" "goals t = goals s" "activeGoalId t = activeGoalId s"
    using core by (simp_all add: core_def)
  from hash obtain ident where ident: "canonicalPlanIdentity p ?c = Inr ident" "pi_sha256 ident = prd_plan_sha256 d"
    by (elim assertPlanHash_Inr)
  define u where "u = (case pendingDraft t of None \<Rightarrow> t
      | Some i \<Rightarrow> (updatePlan i (transitionPlanStatus plan_superseded (eventId event)) t)\<lparr>pendingDraft := None\<rparr>)"
  have inv_u: "taskInv p u"
  proof (cases "pendingDraft t")
    case None
    then show ?thesis using inv_t by (simp add: u_def)
  next
    case (Some j)
    then have j: "j < length (plans t)" "mp_status (plans t ! j) = plan_draft"
      using refs_facts(1) [OF inv_t, of j] by (auto simp: statuses_def)
    show ?thesis
      by (rule taskInv_dropDraft [OF inv_t Some _ planWf_transition [OF taskInv_planWf [OF inv_t j(1)],
            where to = plan_superseded and e = "eventId event"]])
        (simp_all add: j u_def Some core_def)
  qed
  have fu: "pendingDraft u = None" "contents u = contents s" "goals u = goals s" "planBindings u = planBindings s"
    "currentApprovedPlan u = currentApprovedPlan s" "length (plans u) = length (plans t)"
    using ft contents_updatePlan [of "transitionPlanStatus plan_superseded (eventId event)"]
    by (auto simp: u_def contents_def split: option.splits)
  have chain: "prc_revision c < prc_revision ?c \<and> prc_goalId c = prc_goalId ?c \<and> prc_goalRevision c = prc_goalRevision ?c"
    if "c \<in> set (contents u)" "prc_planId c = prc_planId ?c" for c
    using inv that b unfolding fu by (fastforce simp: taskInv_def chainWf_def)
  have current: "prc_planId (contents u ! j) = prc_planId ?c" if "currentApprovedPlan u = Some j" for j
  proof (cases "pendingDraft s")
    case None
    then have "base = plans s ! j" "j < length (plans s)" using base(1) that fu by (auto simp: planAt_Some)
    then show ?thesis using base(2) fu by (simp add: contents_def)
  next
    case (Some k)
    then have "base = plans s ! k" "k < length (plans s)" using base(1) by (auto simp: planAt_Some)
    moreover have "prc_planId (contents s ! k) = prc_planId (contents s ! j)"
      using inv Some that fu unfolding taskInv_def chainWf_def by auto
    ultimately show ?thesis using base(2) fu by (simp add: contents_def)
  qed
  show ?thesis
    by (rule taskInv_newDraft [OF inv_u fu(1) _ ident _ _ _ chain current, where
        b = "b\<lparr>cb_latestRevision := prc_revision ?c\<rparr>"])
      (use bound b fu ft in \<open>auto simp: s' u_def contentBound_def newPlan_def Let_def split: option.splits\<close>)
qed

section \<open>The projector keeps its invariant\<close>

lemma processSessionEvent_inv:
  assumes inv: "taskInv p s" and step: "processSessionEvent p event s = Inr s'"
  shows "taskInv p s'"
proof -
  have inv': "taskInv p (s\<lparr>trackingMode := phase16\<rparr>)"
    using inv taskInv_core [of "s\<lparr>trackingMode := phase16\<rparr>" s p] by simp
  from step inv show ?thesis
    by (cases "edata event")
      (auto simp: processSessionEvent_def intro: createGoal_inv [OF inv'] reviseGoal_inv [OF inv']
        changeGoalStatus_inv [OF inv'] proposePlan_inv [OF inv'] revisePlan_inv [OF inv'] approvePlan_inv [OF inv']
        rejectPlan_inv [OF inv'] changePlanItemStatus_inv [OF inv'] completePlan_inv [OF inv'])
qed

lemma taskStep_inv:
  assumes "taskInv p s" "taskStep p s event = Inr s'"
  shows "taskInv p s'"
proof -
  from assms(2) obtain t where t: "(case scope event of RunScope runId _ \<Rightarrow> processRunEvent event runId s
      | SessionScope \<Rightarrow> processSessionEvent p event s) = Inr t" "s' = indexEvent event t"
    by (auto simp: taskStep_def err_simps)
  then have "taskInv p t"
    using assms(1) processSessionEvent_inv taskInv_core [OF processRunEvent_core]
    by (auto split: event_scope.splits)
  with t(2) taskInv_core [OF indexEvent_core] show ?thesis by simp
qed

lemma taskInv_init: "taskInv p task_projector_init"
  by (simp add: taskInv_def goalsWf_def refsWf_def chainWf_def task_projector_init_def lineage_of_def
      parentsEarlier_def contents_def)

section \<open>What later events cannot undo\<close>

definition goalStep :: "mutable_goal \<Rightarrow> mutable_goal \<Rightarrow> bool" where
  "goalStep g h \<longleftrightarrow> goalKey h = goalKey g \<and> gl_parentGoalId (mg_content h) = gl_parentGoalId (mg_content g) \<and>
     mg_createdEventId h = mg_createdEventId g \<and> gl_revision (mg_content g) \<le> gl_revision (mg_content h) \<and>
     (mg_status g \<noteq> goal_active \<longrightarrow> h = g)"

definition itemStep :: "mutable_plan_item \<Rightarrow> mutable_plan_item \<Rightarrow> bool" where
  "itemStep i j \<longleftrightarrow> mi_content j = mi_content i \<and> prefix (mi_transitions i) (mi_transitions j) \<and>
     (mi_status i \<in> {item_completed, item_skipped} \<longrightarrow> j = i)"

definition planStep :: "mutable_plan \<Rightarrow> mutable_plan \<Rightarrow> bool" where
  "planStep a b \<longleftrightarrow> mp_content b = mp_content a \<and> mp_planSha256 b = mp_planSha256 a \<and>
     mp_createdEventId b = mp_createdEventId a \<and> prefix (mp_statusTransitions a) (mp_statusTransitions b) \<and>
     length (mp_items b) = length (mp_items a) \<and> grows itemStep (mp_items a) (mp_items b) \<and>
     (mp_status a \<notin> {plan_draft, plan_active} \<longrightarrow> b = a)"

definition bindingKept :: "task_projector \<Rightarrow> task_projector \<Rightarrow> bool" where
  "bindingKept s t \<longleftrightarrow> (\<forall>run b. runBindings s run = Some b \<longrightarrow> (\<exists>b'. runBindings t run = Some b' \<and>
     erb_goalId b' = erb_goalId b \<and> erb_goalRevision b' = erb_goalRevision b \<and>
     (erb_mode b = mode_build \<longrightarrow> erb_mode b' = mode_build)))"

definition taskEvolves :: "task_projector \<Rightarrow> task_projector \<Rightarrow> bool" where
  "taskEvolves s t \<longleftrightarrow> grows goalStep (goals s) (goals t) \<and> grows planStep (plans s) (plans t) \<and>
     usedMutationIds s \<subseteq> usedMutationIds t \<and> terminalRuns s \<subseteq> terminalRuns t \<and> bindingKept s t \<and>
     (trackingMode s = phase16 \<longrightarrow> trackingMode t = phase16)"

lemma goalStep_refl [simp]: "goalStep g g" by (simp add: goalStep_def)
lemma itemStep_refl [simp]: "itemStep i i" by (simp add: itemStep_def)
lemma planStep_refl [simp]: "planStep a a" by (simp add: planStep_def grows_refl)

lemma goalStep_trans: "goalStep a b \<Longrightarrow> goalStep b c \<Longrightarrow> goalStep a c"
  by (auto simp: goalStep_def)

lemma itemStep_trans: "itemStep a b \<Longrightarrow> itemStep b c \<Longrightarrow> itemStep a c"
  by (auto simp: itemStep_def intro: prefix_order.trans)

lemma planStep_trans: "planStep a b \<Longrightarrow> planStep b c \<Longrightarrow> planStep a c"
  by (auto simp: planStep_def intro: prefix_order.trans grows_trans [OF _ _ itemStep_trans])

lemma bindingKept_refl [simp]: "bindingKept s s"
  by (simp add: bindingKept_def)

lemma bindingKept_trans: "bindingKept s t \<Longrightarrow> bindingKept t u \<Longrightarrow> bindingKept s u"
  unfolding bindingKept_def by metis

lemma taskEvolves_refl: "taskEvolves s s"
  by (simp add: taskEvolves_def grows_refl)

lemma goals_trans: "grows goalStep a b \<Longrightarrow> grows goalStep b c \<Longrightarrow> grows goalStep a c"
  by (erule (1) grows_trans) (rule goalStep_trans)

lemma plans_trans: "grows planStep a b \<Longrightarrow> grows planStep b c \<Longrightarrow> grows planStep a c"
  by (erule (1) grows_trans) (rule planStep_trans)

lemma taskEvolves_trans: "taskEvolves s t \<Longrightarrow> taskEvolves t u \<Longrightarrow> taskEvolves s u"
  unfolding taskEvolves_def by (blast intro: goals_trans plans_trans bindingKept_trans)

lemma planStep_transition:
  "mp_status plan \<in> {plan_draft, plan_active} \<Longrightarrow> planStep plan (transitionPlanStatus to e plan)"
  by (simp add: planStep_def grows_refl)

lemma planStep_supersede1: "planStep plan (supersede1 g n e plan)"
  by (simp add: supersede1_def planStep_transition)

lemma planStep_fields:
  "mp_status plan \<in> {plan_draft, plan_active} \<Longrightarrow> planStep plan ((transitionPlanStatus to e plan)\<lparr>mp_decisionEventId := x\<rparr>)"
  "mp_status plan \<in> {plan_draft, plan_active} \<Longrightarrow> planStep plan ((transitionPlanStatus to e plan)\<lparr>mp_completed := y\<rparr>)"
  by (simp_all add: planStep_def grows_refl)

lemma itemStep_carry: "mi_status item = item_pending \<Longrightarrow> itemStep item (carryItem previous item)"
  by (auto simp: itemStep_def carryItem_def split: option.splits)

lemma planStep_approve_carry:
  assumes "mp_status plan = plan_draft" "\<forall>item\<in>set (mp_items plan). mi_status item = item_pending"
  shows "planStep plan (approved e (carryTerminalItems previous plan))"
  using assms by (auto simp: planStep_def approved_def carryTerminalItems_def intro!: grows_map itemStep_carry)

lemma planStep_item:
  assumes "itemTransitionCheck event d plan = Inr k" "mp_status plan = plan_active"
  shows "planStep plan (plan\<lparr>mp_items := (mp_items plan)[k := applyItem event d (mp_items plan ! k)]\<rparr>)"
proof -
  have "mi_status (mp_items plan ! k) \<notin> {item_completed, item_skipped}"
    using itemTransitionCheck_Inr(3,4) [OF assms(1)] by auto
  then have "itemStep (mp_items plan ! k) (applyItem event d (mp_items plan ! k))"
    by (simp add: itemStep_def applyItem_def)
  then show ?thesis using assms(2) by (auto simp: planStep_def intro: grows_update)
qed

text \<open>Operations on Goals and Plans leave runs, mutation ids and the tracking mode alone.\<close>

definition aux where "aux s = (usedMutationIds s, terminalRuns s, runBindings s, trackingMode s)"

lemma aux_frame [simp]:
  "aux (updateGoal a f s) = aux s" "aux (updatePlan i g s) = aux s" "aux (supersedeGoalPlans a n e s) = aux s"
  "aux (snd (newPlan event c h s)) = aux s" "aux (s\<lparr>goals := x1\<rparr>) = aux s" "aux (s\<lparr>activeGoalId := x2\<rparr>) = aux s"
  "aux (s\<lparr>pendingDraft := x3\<rparr>) = aux s" "aux (s\<lparr>currentApprovedPlan := x3\<rparr>) = aux s"
  "aux (s\<lparr>planBindings := x4\<rparr>) = aux s" "aux (s\<lparr>eventsById := x5\<rparr>) = aux s"
  by (simp_all add: aux_def updateGoal_def updatePlan_def supersedeGoalPlans_def newPlan_def Let_def)

lemma taskEvolves_aux:
  assumes "aux t = aux s" "grows goalStep (goals s) (goals t)" "grows planStep (plans s) (plans t)"
  shows "taskEvolves s t"
  using assms by (auto simp: taskEvolves_def aux_def bindingKept_def)

lemma bindRun_evolves:
  assumes "bindRun e r g n m s = Inr s'"
  shows "bindingKept s s'" "usedMutationIds s' = usedMutationIds s" "terminalRuns s' = terminalRuns s"
    "trackingMode s' = trackingMode s"
  using assms
  by (auto simp: bindRun_def bindingKept_def fail_def Let_def split: option.splits if_splits)

lemma taskEvolves_core:
  assumes "core t = core s" "usedMutationIds s \<subseteq> usedMutationIds t" "terminalRuns s \<subseteq> terminalRuns t"
    "bindingKept s t" "trackingMode s = phase16 \<longrightarrow> trackingMode t = phase16"
  shows "taskEvolves s t"
  using assms by (simp add: taskEvolves_def core_def grows_refl)

lemma bindRun_taskEvolves: "bindRun e r g n m s = Inr s' \<Longrightarrow> taskEvolves s s'"
  by (rule taskEvolves_core) (simp_all add: bindRun_core bindRun_evolves)

lemma assertAgentOrigin_evolves:
  assumes "assertAgentOrigin e ao g n m s = Inr s'"
  shows "taskEvolves s s'"
proof (rule taskEvolves_core [OF assertAgentOrigin_core [OF assms]])
  obtain t where t: "bindRun e (ao_run_id ao) g n m s = Inr t"
    and s': "usedMutationIds s' = insert (ao_mutation_id ao) (usedMutationIds t)" "terminalRuns s' = terminalRuns t"
      "runBindings s' = runBindings t" "trackingMode s' = trackingMode t"
    using assms by (auto simp: assertAgentOrigin_def fail_def Let_def err_simps split: option.splits if_splits)
  note b = bindRun_evolves [OF t]
  show "usedMutationIds s \<subseteq> usedMutationIds s'" "terminalRuns s \<subseteq> terminalRuns s'"
    "trackingMode s = phase16 \<longrightarrow> trackingMode s' = phase16"
    using b s' by auto
  show "bindingKept s s'" using b(1) s'(3) by (simp add: bindingKept_def)
qed

lemma assertPlanOrigin_evolves: "assertPlanOrigin e po c s = Inr s' \<Longrightarrow> taskEvolves s s'"
  by (auto simp: assertPlanOrigin_def taskEvolves_refl split: plan_origin.splits dest: assertAgentOrigin_evolves)

lemma progressOriginCheck_evolves: "progressOriginCheck e d s = Inr (s', gr) \<Longrightarrow> taskEvolves s s'"
  by (auto simp: progressOriginCheck_def fail_def err_simps taskEvolves_refl split: progress_origin.splits
      option.splits if_splits dest: assertAgentOrigin_evolves)

lemma runFields_evolve:
  "taskEvolves s (s\<lparr>openUpdatePlanRequests := a\<rparr>)" "taskEvolves s (s\<lparr>terminalRuns := insert r (terminalRuns s)\<rparr>)"
  "taskEvolves s (s\<lparr>eventsById := c\<rparr>)" "taskEvolves s (s\<lparr>trackingMode := phase16\<rparr>)"
  by (rule taskEvolves_core; auto simp: bindingKept_def)+

lemma processRunEvent_evolves: "processRunEvent e r s = Inr s' \<Longrightarrow> taskEvolves s s'"
  by (cases "edata e")
    (auto simp: processRunEvent_def openRequest_def closeRequest_def bindFuturePhase16RunStart_def fail_def Let_def
      taskEvolves_refl runFields_evolve split: if_splits js_value.splits option.splits dest: bindRun_taskEvolves)

lemma grows_map_key:
  "(\<And>g. g \<in> set gs \<Longrightarrow> key g = k \<Longrightarrow> R g (f g)) \<Longrightarrow> (\<And>g. R g g) \<Longrightarrow> grows R gs (map_key key k f gs)"
  unfolding map_key_def by (rule grows_map) auto

lemma supersede_plans: "grows planStep (plans s) (plans (supersedeGoalPlans a n e s))"
  by (simp add: supersedeGoalPlans_def grows_map planStep_supersede1)

text \<open>Only the active Goal may be changed.\<close>

lemma grows_updateGoal:
  assumes "goalsWf s" "goalsById s a = Some g" "mg_status g = goal_active"
    "\<And>h. mg_status h = goal_active \<Longrightarrow> gl_revision (mg_content h) = gl_revision (mg_content g) \<Longrightarrow> goalStep h (f h)"
  shows "grows goalStep (goals s) (map_key goalKey a f (goals s))"
proof (rule grows_map_key)
  fix h assume h: "h \<in> set (goals s)" "goalKey h = a"
  with goalsById_Some [OF assms(2)] have "h = g" by (intro goalsWf_unique [OF assms(1)]) auto
  then show "goalStep h (f h)" using assms(3,4) by simp
qed simp

lemma createGoal_evolves:
  assumes inv: "taskInv p s" and step: "createGoal event d s = Inr s'"
  shows "taskEvolves s s'"
proof (cases "Option.bind (activeGoalId s) (goalsById s)")
  case None
  with step show ?thesis
    by (auto simp: createGoal_def fail_def Let_def split: if_splits
        intro!: taskEvolves_aux grows_append grows_refl)
next
  case (Some a)
  then obtain b where b: "activeGoalId s = Some b" "goalsById s b = Some a" by (auto simp: bind_eq_Some_conv)
  from goalsById_Some [OF b(2)] b inv have a: "goalsById s (goalKey a) = Some a" "mg_status a = goal_active"
    by (auto simp: taskInv_def goalsWf_def)
  show ?thesis
    by (rule taskEvolves_aux)
      (use step Some a inv in \<open>auto simp: createGoal_def fail_def Let_def taskInv_def supersede_plans goalStep_def
        split: if_splits intro!: grows_append grows_updateGoal\<close>)
qed

lemma reviseGoal_evolves:
  assumes inv: "taskInv p s" and step: "reviseGoal event d s = Inr s'"
  shows "taskEvolves s s'"
proof (rule taskEvolves_aux)
  show "aux s' = aux s" "grows planStep (plans s) (plans s')"
    using step by (auto simp: reviseGoal_def fail_def supersede_plans split: option.splits if_splits)
  show "grows goalStep (goals s) (goals s')"
    using step inv by (auto simp: reviseGoal_def fail_def taskInv_def goalStep_def split: option.splits if_splits
        intro!: grows_updateGoal)
qed

lemma changeGoalStatus_evolves:
  assumes inv: "taskInv p s" and step: "changeGoalStatus event d s = Inr s'"
  shows "taskEvolves s s'"
proof -
  from step obtain g where g: "goalsById s (gsd_goal_id d) = Some g" "mg_status g = goal_active"
    and s': "s' = (updateGoal (gsd_goal_id d)
              (\<lambda>g. g\<lparr>mg_status := (case gsd_to d of ToAbandoned \<Rightarrow> goal_abandoned | ToCompleted _ _ \<Rightarrow> goal_completed),
                     mg_lastStatusEventId := Some (eventId event)\<rparr>)
              (supersedeGoalPlans (goalKey g) (gl_revision (mg_content g)) (eventId event) s))\<lparr>activeGoalId := None\<rparr>"
    by (elim changeGoalStatus_Inr)
  have "goalsWf s" using inv by (simp add: taskInv_def)
  with g show ?thesis
    by (intro taskEvolves_aux) (auto simp: s' supersede_plans goalStep_def intro!: grows_updateGoal)
qed

lemma grows_updatePlan:
  "(i < length (plans s) \<Longrightarrow> planStep (plans s ! i) (f (plans s ! i))) \<Longrightarrow> grows planStep (plans s) (plans (updatePlan i f s))"
  by (simp add: grows_update)

lemma proposePlan_evolves:
  assumes "proposePlan p event content origin h s = Inr s'"
  shows "taskEvolves s s'"
proof -
  from assms obtain t where t: "assertPlanOrigin event origin content s = Inr t"
    and s': "s' = (snd (newPlan event content h (t\<lparr>planBindings := (planBindings t)(prc_planId content \<mapsto>
        \<lparr>cb_goalId = prc_goalId content, cb_goalRevision = prc_goalRevision content, cb_latestRevision = 1\<rparr>)\<rparr>)))
       \<lparr>pendingDraft := Some (length (plans t))\<rparr>"
    by (elim proposePlan_Inr)
  have "taskEvolves t s'"
    by (rule taskEvolves_aux) (simp_all add: s', simp_all add: newPlan_def Let_def grows_append grows_refl)
  with assertPlanOrigin_evolves [OF t] show ?thesis by (rule taskEvolves_trans)
qed

lemma revisePlan_evolves:
  assumes inv: "taskInv p s" and step: "revisePlan p event d s = Inr s'"
  shows "taskEvolves s s'"
proof -
  from step obtain t b where t: "assertPlanOrigin event (prd_origin d) (prd_content d) s = Inr t"
    and s': "s' = (let u = (case pendingDraft t of None \<Rightarrow> t
              | Some i \<Rightarrow> updatePlan i (transitionPlanStatus plan_superseded (eventId event)) t);
             v = snd (newPlan event (prd_content d) (prd_plan_sha256 d) u)
           in v\<lparr>planBindings := (planBindings v)(prc_planId (prd_content d) \<mapsto> b\<lparr>cb_latestRevision := prc_revision (prd_content d)\<rparr>),
               pendingDraft := Some (length (plans t))\<rparr>)"
    by (elim revisePlan_Inr)
  have inv_t: "taskInv p t" using taskInv_core [OF assertPlanOrigin_core [OF t]] inv by simp
  define u where "u = (case pendingDraft t of None \<Rightarrow> t
      | Some i \<Rightarrow> updatePlan i (transitionPlanStatus plan_superseded (eventId event)) t)"
  have u: "aux u = aux t" "goals u = goals t" "grows planStep (plans t) (plans u)"
  proof -
    show "aux u = aux t" "goals u = goals t" by (simp_all add: u_def split: option.splits)
    show "grows planStep (plans t) (plans u)"
    proof (cases "pendingDraft t")
      case None
      then show ?thesis by (simp add: u_def grows_refl)
    next
      case (Some i)
      then have "i < length (plans t)" "mp_status (plans t ! i) = plan_draft"
        using refs_facts(1) [OF inv_t, of i] by (auto simp: statuses_def)
      then have "planStep (plans t ! i) (transitionPlanStatus plan_superseded (eventId event) (plans t ! i))"
        by (simp add: planStep_transition)
      with Some show ?thesis by (simp add: u_def grows_update)
    qed
  qed
  have s'u: "aux s' = aux u" "goals s' = goals u" "\<exists>plan. plans s' = plans u @ [plan]"
    by (simp_all add: s' u_def Let_def, simp_all add: newPlan_def Let_def)
  have "taskEvolves t s'"
    by (rule taskEvolves_aux) (use u s'u in \<open>auto intro: grows_append grows_refl\<close>)
  with assertPlanOrigin_evolves [OF t] show ?thesis by (rule taskEvolves_trans)
qed

lemma rejectPlan_evolves:
  assumes "rejectPlan event t s = Inr s'"
  shows "taskEvolves s s'"
  using assms
  by (auto simp: rejectPlan_def err_simps grows_refl dest!: exactPendingDecision_Inr(3)
      intro!: taskEvolves_aux grows_update planStep_fields)

lemma planStep_approved: "mp_status plan = plan_draft \<Longrightarrow> planStep plan (approved e plan)"
  by (simp add: approved_def planStep_fields)

lemma approvePlan_evolves:
  assumes inv: "taskInv p s" and step: "approvePlan event t s = Inr s'"
  shows "taskEvolves s s'"
proof -
  from approvePlan_Inr [OF inv step] obtain i where ex: "exactPendingDecision event t s = Inr i"
    and fs: "pendingDraft s' = None" "currentApprovedPlan s' = Some i" "goals s' = goals s"
      "activeGoalId s' = activeGoalId s" "planBindings s' = planBindings s"
    and none: "currentApprovedPlan s = None \<Longrightarrow> plans s' = (plans s)[i := approved (eventId event) (plans s ! i)]"
    and some: "\<And>j. currentApprovedPlan s = Some j \<Longrightarrow> j \<noteq> i \<and> j < length (plans s) \<and>
       plans s' = (plans s)[j := (if mp_status (plans s ! j) = plan_active
            then transitionPlanStatus plan_superseded (eventId event) (plans s ! j) else plans s ! j),
          i := approved (eventId event) (carryTerminalItems (plans s ! j) (plans s ! i))]"
    by blast
  note i = exactPendingDecision_Inr [OF ex]
  have fresh: "\<forall>item\<in>set (mp_items (plans s ! i)). mi_status item = item_pending"
    using taskInv_planWf [OF inv i(2)] i(3) by (auto simp: planWf_def)
  have "grows planStep (plans s) (plans s')"
  proof (cases "currentApprovedPlan s")
    case None
    then show ?thesis using none i(3) by (simp add: grows_update planStep_approved)
  next
    case (Some j)
    let ?ps = "(plans s)[j := (if mp_status (plans s ! j) = plan_active
            then transitionPlanStatus plan_superseded (eventId event) (plans s ! j) else plans s ! j)]"
    have "grows planStep (plans s) ?ps" by (auto intro!: grows_update grows_refl planStep_transition)
    moreover have "grows planStep ?ps (?ps[i := approved (eventId event) (carryTerminalItems (plans s ! j) (plans s ! i))])"
      using some [OF Some] i(3) fresh by (intro grows_update) (simp_all add: planStep_approve_carry)
    ultimately have "grows planStep (plans s) (?ps[i := approved (eventId event) (carryTerminalItems (plans s ! j) (plans s ! i))])"
      by (rule plans_trans)
    then show ?thesis using some [OF Some] by simp
  qed
  moreover have "aux s' = aux s"
    using step ex by (cases "planAt s (currentApprovedPlan s)") (auto simp: approvePlan_def Let_def)
  ultimately show ?thesis by (intro taskEvolves_aux) (simp_all add: fs grows_refl)
qed

lemma changePlanItemStatus_evolves:
  assumes "changePlanItemStatus event d s = Inr s'"
  shows "taskEvolves s s'"
proof -
  from assms obtain i k t gr where i: "mp_status (plans s ! i) = plan_active"
    and t: "progressOriginCheck event d s = Inr (t, gr)" and k: "itemTransitionCheck event d (plans s ! i) = Inr k"
    and s': "s' = updatePlan i (\<lambda>plan. plan\<lparr>mp_items := (mp_items plan)[k := applyItem event d (mp_items plan ! k)]\<rparr>) t"
    by (elim changePlanItemStatus_Inr)
  have plans: "plans t = plans s" using progressOriginCheck_core [OF t] by (simp add: core_def)
  have "taskEvolves t s'"
    by (rule taskEvolves_aux) (simp_all add: s' grows_refl grows_update plans planStep_item [OF k i])
  with progressOriginCheck_evolves [OF t] show ?thesis by (rule taskEvolves_trans)
qed

lemma completePlan_evolves:
  assumes "completePlan event t ce call s = Inr s'"
  shows "taskEvolves s s'"
proof -
  from assms obtain i where i: "mp_status (plans s ! i) = plan_active"
    and s': "s' = updatePlan i (\<lambda>plan. (transitionPlanStatus plan_completed (eventId event) plan)
       \<lparr>mp_completed := Some \<lparr>pc_completionEvaluatedEventId = ce, pc_eventId = eventId event,
          pc_finishTaskCallId = call\<rparr>\<rparr>) s"
    by (elim completePlan_Inr)
  show ?thesis
    by (rule taskEvolves_aux) (simp_all add: s' grows_refl grows_update planStep_fields i)
qed

lemma processSessionEvent_evolves:
  assumes inv: "taskInv p s" and step: "processSessionEvent p event s = Inr s'"
  shows "taskEvolves s s'"
proof (cases "isPhase16Type (edata event)")
  case False
  then show ?thesis using step by (simp add: processSessionEvent_def taskEvolves_refl)
next
  case True
  let ?t = "s\<lparr>trackingMode := phase16\<rparr>"
  have inv': "taskInv p ?t" using inv taskInv_core [of ?t s p] by simp
  from step True have "taskEvolves ?t s'"
    by (cases "edata event")
      (auto simp: processSessionEvent_def intro: createGoal_evolves [OF inv'] reviseGoal_evolves [OF inv']
        changeGoalStatus_evolves [OF inv'] proposePlan_evolves revisePlan_evolves [OF inv'] approvePlan_evolves [OF inv']
        rejectPlan_evolves changePlanItemStatus_evolves completePlan_evolves)
  with runFields_evolve(4) [of s] show ?thesis by (rule taskEvolves_trans)
qed

lemma indexEvent_evolves: "taskEvolves s (indexEvent e s)"
  by (simp add: indexEvent_def taskEvolves_refl runFields_evolve)

lemma taskStep_evolves:
  assumes "taskInv p s" "taskStep p s event = Inr s'"
  shows "taskEvolves s s'"
proof -
  from assms(2) obtain t where t: "(case scope event of RunScope runId _ \<Rightarrow> processRunEvent event runId s
      | SessionScope \<Rightarrow> processSessionEvent p event s) = Inr t" "s' = indexEvent event t"
    by (auto simp: taskStep_def err_simps)
  then have "taskEvolves s t"
    using processSessionEvent_evolves [OF assms(1)] processRunEvent_evolves by (auto split: event_scope.splits)
  with t(2) indexEvent_evolves show ?thesis by (blast intro: taskEvolves_trans)
qed

interpretation task_state: projector_evolution "taskStep p" task_projector_init "taskInv p" taskEvolves
  by unfold_locales (rule taskInv_init, erule (1) taskStep_inv, rule taskEvolves_refl,
    erule (1) taskEvolves_trans, erule (1) taskStep_evolves)

end
