(* ===== verification/TaskStateEvidence.thy ===== *)
theory TaskStateEvidence
  imports TaskStateInvariants
begin

text \<open>
  No progress without a record of it: every completion the projection shows goes back to
  events of the log.  \<open>auditInv\<close> relates the state to the events read so far; it is an
  instance of the prelude's \<open>log_projector\<close>.
\<close>

section \<open>The audit invariant\<close>

definition acceptedIn :: "stored_event list \<Rightarrow> string \<Rightarrow> string \<Rightarrow> bool" where
  "acceptedIn es completionEventId finishTaskCallId \<longleftrightarrow> (\<exists>e\<in>set es. eventId e = completionEventId \<and>
     scope e \<noteq> SessionScope \<and> edata e = CompletionEvaluated effect_accept finishTaskCallId)"

definition succeededIn :: "stored_event list \<Rightarrow> string \<Rightarrow> bool" where
  "succeededIn es i \<longleftrightarrow> (\<exists>e\<in>set es. eventId e = i \<and> factSucceeded (edata e))"

definition planAudited :: "stored_event list \<Rightarrow> mutable_plan \<Rightarrow> bool" where
  "planAudited es plan \<longleftrightarrow>
     (\<forall>c. mp_completed plan = Some c \<longrightarrow> acceptedIn es (pc_completionEvaluatedEventId c) (pc_finishTaskCallId c)) \<and>
     (\<forall>item\<in>set (mp_items plan). mi_status item = item_completed \<longrightarrow>
        (\<forall>i\<in>set (mi_evidenceEventIds item). succeededIn es i))"

definition goalAudited :: "stored_event list \<Rightarrow> mutable_goal \<Rightarrow> bool" where
  "goalAudited es g \<longleftrightarrow> (mg_status g = goal_completed \<longrightarrow> (\<exists>ce call. acceptedIn es ce call \<and>
     (\<exists>e\<in>set es. \<exists>d. mg_lastStatusEventId g = Some (eventId e) \<and> edata e = GoalStatusChanged d \<and>
        gsd_goal_id d = goalKey g \<and> gsd_to d = ToCompleted ce call)))"

definition indexed :: "stored_event list \<Rightarrow> task_projector \<Rightarrow> bool" where
  "indexed es s \<longleftrightarrow> (\<forall>k e. (k, e) \<in> set (eventsById s) \<longrightarrow> eventId e = k \<and> e \<in> set es)"

definition auditInv :: "platform \<Rightarrow> stored_event list \<Rightarrow> task_projector \<Rightarrow> bool" where
  "auditInv p es s \<longleftrightarrow> taskInv p s \<and> indexed es s \<and> list_all (planAudited es) (plans s) \<and> list_all (goalAudited es) (goals s)"

lemma acceptedIn_mono: "acceptedIn es a b \<Longrightarrow> set es \<subseteq> set fs \<Longrightarrow> acceptedIn fs a b"
  by (auto simp: acceptedIn_def)

lemma succeededIn_mono: "succeededIn es a \<Longrightarrow> set es \<subseteq> set fs \<Longrightarrow> succeededIn fs a"
  by (auto simp: succeededIn_def)

lemma planAudited_mono: "planAudited es plan \<Longrightarrow> set es \<subseteq> set fs \<Longrightarrow> planAudited fs plan"
  unfolding planAudited_def using acceptedIn_mono succeededIn_mono by blast

lemma goalAudited_mono: "goalAudited es g \<Longrightarrow> set es \<subseteq> set fs \<Longrightarrow> goalAudited fs g"
  unfolding goalAudited_def by (blast intro: acceptedIn_mono)

section \<open>Plans\<close>

lemma planAudited_transition [simp]:
  "planAudited es (transitionPlanStatus to e plan) = planAudited es plan"
  "planAudited es (plan\<lparr>mp_decisionEventId := x\<rparr>) = planAudited es plan"
  by (simp_all add: planAudited_def)

lemma planAudited_approved [simp]: "planAudited es (approved e plan) = planAudited es plan"
  by (simp add: approved_def)

lemma planAudited_supersede1 [simp]: "planAudited es (supersede1 g n e plan) = planAudited es plan"
  by (simp add: supersede1_def)

lemma carryItem_completed:
  assumes "mi_status (carryItem previous item) = item_completed"
  shows "mi_status item = item_completed \<and> mi_evidenceEventIds (carryItem previous item) = mi_evidenceEventIds item \<or>
    (\<exists>prior\<in>set (mp_items previous). mi_status prior = item_completed \<and>
       mi_evidenceEventIds (carryItem previous item) = mi_evidenceEventIds prior)"
  using assms by (auto simp: carryItem_def split: option.splits if_splits dest!: find_eq_Some)

lemma planAudited_carry:
  assumes "planAudited es previous" "planAudited es plan"
  shows "planAudited es (carryTerminalItems previous plan)"
proof -
  have "\<forall>i\<in>set (mi_evidenceEventIds (carryItem previous item)). succeededIn es i"
    if "item \<in> set (mp_items plan)" "mi_status (carryItem previous item) = item_completed" for item
    using carryItem_completed [OF that(2)] that(1) assms by (auto simp: planAudited_def)
  with assms(2) show ?thesis by (auto simp: planAudited_def carryTerminalItems_def)
qed

section \<open>Evidence and completion\<close>

lemma efold_unit: "efold (\<lambda>_. f) () xs = Inr () \<longleftrightarrow> (\<forall>x\<in>set xs. f x = Inr ())"
  by (induction xs) (auto simp: err_simps)

lemma indexed_lookup: "indexed es s \<Longrightarrow> map_of (eventsById s) i = Some e \<Longrightarrow> eventId e = i \<and> e \<in> set es"
  by (auto simp: indexed_def dest: map_of_SomeD)

lemma checkEvidence_Inr:
  assumes "checkEvidence event d gr s i = Inr ()"
  obtains e where "map_of (eventsById s) i = Some e" "sessionId e = sessionId event" "sessionSeq e < sessionSeq event"
    "graphEvidenceMapped d gr e"
    "pid_to d = item_completed \<Longrightarrow> eligibleForCompleted (classifyPlanItemEvidence e
       \<lparr>ec_eventsById = eventsById s, ec_goalId = pt_goal_id (pid_target d),
        ec_goalRevision = pt_goal_revision (pid_target d), ec_runBindings = runBindings s\<rparr>)"
    "pid_to d = item_blocked \<Longrightarrow> eligibleForBlocked (classifyPlanItemEvidence e
       \<lparr>ec_eventsById = eventsById s, ec_goalId = pt_goal_id (pid_target d),
        ec_goalRevision = pt_goal_revision (pid_target d), ec_runBindings = runBindings s\<rparr>)"
  using assms by (auto simp: checkEvidence_def fail_def Let_def split: option.splits if_splits)

lemma assertAcceptedCompletion_Inr:
  assumes "assertAcceptedCompletion event ce call g n s = Inr ()"
  obtains e run q where "map_of (eventsById s) ce = Some e" "scope e = RunScope run q"
    "edata e = CompletionEvaluated effect_accept call" "sessionSeq e < sessionSeq event"
    "\<And>b. runBindings s run = Some b \<Longrightarrow> erb_goalId b = g \<and> erb_goalRevision b = n"
proof -
  have "\<exists>e run q. map_of (eventsById s) ce = Some e \<and> scope e = RunScope run q \<and>
      edata e = CompletionEvaluated effect_accept call \<and> sessionSeq e < sessionSeq event \<and>
      (\<forall>b. runBindings s run = Some b \<longrightarrow> erb_goalId b = g \<and> erb_goalRevision b = n)"
    using assms
    by (auto simp: assertAcceptedCompletion_def fail_def not_le split: option.splits if_splits event_scope.splits
        event_data.splits)
  with that show thesis by blast
qed

lemma acceptedIn_completion:
  "indexed es s \<Longrightarrow> assertAcceptedCompletion event ce call g n s = Inr () \<Longrightarrow> acceptedIn es ce call"
  by (elim assertAcceptedCompletion_Inr) (auto simp: acceptedIn_def dest!: indexed_lookup)

lemma succeededIn_evidence:
  assumes "indexed es s" "checkEvidence event d gr s i = Inr ()" "pid_to d = item_completed"
  shows "succeededIn es i"
  using assms(2)
proof (elim checkEvidence_Inr)
  fix e assume e: "map_of (eventsById s) i = Some e"
    and c: "pid_to d = item_completed \<Longrightarrow> eligibleForCompleted (classifyPlanItemEvidence e
       \<lparr>ec_eventsById = eventsById s, ec_goalId = pt_goal_id (pid_target d),
        ec_goalRevision = pt_goal_revision (pid_target d), ec_runBindings = runBindings s\<rparr>)"
  from eligible_completed_succeeded [OF c [OF assms(3)]] indexed_lookup [OF assms(1) e] show ?thesis
    by (auto simp: succeededIn_def)
qed

section \<open>Every event keeps the audit invariant\<close>

lemma bindRun_events: "bindRun e r g n m s = Inr s' \<Longrightarrow> eventsById s' = eventsById s"
  by (auto simp: bindRun_def fail_def Let_def split: option.splits if_splits)

lemma assertAgentOrigin_events: "assertAgentOrigin e ao g n m s = Inr s' \<Longrightarrow> eventsById s' = eventsById s"
  by (auto simp: assertAgentOrigin_def fail_def Let_def err_simps split: option.splits if_splits dest: bindRun_events)

lemma assertPlanOrigin_events: "assertPlanOrigin e po c s = Inr s' \<Longrightarrow> eventsById s' = eventsById s"
  by (auto simp: assertPlanOrigin_def split: plan_origin.splits dest: assertAgentOrigin_events)

lemma progressOriginCheck_events: "progressOriginCheck e d s = Inr (s', gr) \<Longrightarrow> eventsById s' = eventsById s"
  by (auto simp: progressOriginCheck_def fail_def err_simps split: progress_origin.splits option.splits if_splits
      dest: assertAgentOrigin_events)

lemma frame_events [simp]:
  "eventsById (updateGoal a f s) = eventsById s" "eventsById (updatePlan i g s) = eventsById s"
  "eventsById (supersedeGoalPlans a n e s) = eventsById s" "eventsById (snd (newPlan event c h s)) = eventsById s"
  "goals (snd (newPlan event c h s)) = goals s"
  by (simp_all add: updateGoal_def updatePlan_def supersedeGoalPlans_def newPlan_def Let_def)

lemma processRunEvent_events: "processRunEvent e r s = Inr s' \<Longrightarrow> eventsById s' = eventsById s"
  by (cases "edata e")
    (auto simp: processRunEvent_def openRequest_def closeRequest_def bindFuturePhase16RunStart_def fail_def Let_def
      split: if_splits js_value.splits option.splits dest: bindRun_events)

text \<open>The part of the audit invariant an operation has to establish.\<close>

definition audited :: "stored_event list \<Rightarrow> task_projector \<Rightarrow> task_projector \<Rightarrow> bool" where
  "audited es s s' \<longleftrightarrow> eventsById s' = eventsById s \<and> list_all (planAudited es) (plans s') \<and>
     list_all (goalAudited es) (goals s')"

lemma audited_supersede:
  "list_all (planAudited es) (plans s) \<Longrightarrow> list_all (planAudited es) (plans (supersedeGoalPlans a n e s))"
  by (simp add: supersedeGoalPlans_def list_all_iff)

lemma list_all_map_key:
  "list_all P gs \<Longrightarrow> (\<And>g. g \<in> set gs \<Longrightarrow> key g = k \<Longrightarrow> P (f g)) \<Longrightarrow> list_all P (map_key key k f gs)"
  by (auto simp: list_all_iff set_map_key)

lemma createGoal_audited:
  assumes "list_all (planAudited es) (plans s)" "list_all (goalAudited es) (goals s)" "createGoal event d s = Inr s'"
  shows "audited es s s'"
  using assms audited_supersede
  by (auto simp: createGoal_def fail_def Let_def audited_def goalAudited_def split: if_splits option.splits
      intro!: list_all_map_key)

lemma goalKey_content [simp]:
  "goalAudited es (g\<lparr>mg_content := (mg_content g)\<lparr>gl_objective := a, gl_revision := b\<rparr>\<rparr>) = goalAudited es g"
  by (simp add: goalAudited_def)

lemma reviseGoal_audited:
  assumes "list_all (planAudited es) (plans s)" "list_all (goalAudited es) (goals s)" "reviseGoal event d s = Inr s'"
  shows "audited es s s'"
  using assms audited_supersede
  by (auto simp: reviseGoal_def fail_def audited_def split: if_splits option.splits
      intro!: list_all_map_key) (simp add: list_all_iff)

lemma changeGoalStatus_audited:
  assumes idx: "indexed es s" and "list_all (planAudited es) (plans s)" "list_all (goalAudited es) (goals s)"
    and step: "changeGoalStatus event d s = Inr s'" and ev: "event \<in> set es" "edata event = GoalStatusChanged d"
  shows "audited es s s'"
proof -
  from step obtain g where g: "goalsById s (gsd_goal_id d) = Some g"
    and s': "s' = (updateGoal (gsd_goal_id d)
              (\<lambda>g. g\<lparr>mg_status := (case gsd_to d of ToAbandoned \<Rightarrow> goal_abandoned | ToCompleted _ _ \<Rightarrow> goal_completed),
                     mg_lastStatusEventId := Some (eventId event)\<rparr>)
              (supersedeGoalPlans (goalKey g) (gl_revision (mg_content g)) (eventId event) s))\<lparr>activeGoalId := None\<rparr>"
    and c: "\<And>ce call. gsd_to d = ToCompleted ce call \<Longrightarrow>
       assertAcceptedCompletion event ce call (goalKey g) (gl_revision (mg_content g)) s = Inr () \<and>
       completionMatchesPlan event ce call s = Inr ()"
    using changeGoalStatus_Inr by blast
  have "goalAudited es (h\<lparr>mg_status := (case gsd_to d of ToAbandoned \<Rightarrow> goal_abandoned | ToCompleted _ _ \<Rightarrow> goal_completed),
      mg_lastStatusEventId := Some (eventId event)\<rparr>)" if "goalKey h = gsd_goal_id d" for h
  proof (cases "gsd_to d")
    case ToAbandoned
    then show ?thesis by (simp add: goalAudited_def)
  next
    case (ToCompleted ce call)
    then have "acceptedIn es ce call" using c acceptedIn_completion [OF idx] by blast
    with ToCompleted ev that show ?thesis by (auto simp: goalAudited_def)
  qed
  with assms(2,3) audited_supersede show ?thesis
    by (auto simp: audited_def s' intro!: list_all_map_key)
qed

lemma newPlan_audited:
  "list_all (planAudited es) (plans s) \<Longrightarrow> list_all (planAudited es) (plans (snd (newPlan event c h s)))"
  by (simp add: newPlan_def Let_def planAudited_def freshItem_def)

lemma core_fields:
  assumes "core t = core s"
  shows "plans t = plans s" "goals t = goals s" "pendingDraft t = pendingDraft s"
  using assms by (simp_all add: core_def)

lemma proposePlan_audited:
  assumes "list_all (planAudited es) (plans s)" "list_all (goalAudited es) (goals s)"
    and step: "proposePlan p event content origin h s = Inr s'"
  shows "audited es s s'"
proof -
  from step obtain t where t: "assertPlanOrigin event origin content s = Inr t"
    and s': "s' = (snd (newPlan event content h (t\<lparr>planBindings := (planBindings t)(prc_planId content \<mapsto>
        \<lparr>cb_goalId = prc_goalId content, cb_goalRevision = prc_goalRevision content, cb_latestRevision = 1\<rparr>)\<rparr>)))
       \<lparr>pendingDraft := Some (length (plans t))\<rparr>"
    by (elim proposePlan_Inr)
  note f = core_fields [OF assertPlanOrigin_core [OF t]]
  from assms(1,2) assertPlanOrigin_events [OF t] f show ?thesis
    by (simp add: audited_def s' newPlan_audited)
qed

lemma list_all_updatePlan:
  "list_all P (plans s) \<Longrightarrow> (i < length (plans s) \<Longrightarrow> P (f (plans s ! i))) \<Longrightarrow> list_all P (plans (updatePlan i f s))"
  by (simp add: list_all_update)

lemma revisePlan_audited:
  assumes "list_all (planAudited es) (plans s)" "list_all (goalAudited es) (goals s)"
    and step: "revisePlan p event d s = Inr s'"
  shows "audited es s s'"
proof -
  from step obtain t b where t: "assertPlanOrigin event (prd_origin d) (prd_content d) s = Inr t"
    and s': "s' = (let u = (case pendingDraft t of None \<Rightarrow> t
              | Some i \<Rightarrow> updatePlan i (transitionPlanStatus plan_superseded (eventId event)) t);
             v = snd (newPlan event (prd_content d) (prd_plan_sha256 d) u)
           in v\<lparr>planBindings := (planBindings v)(prc_planId (prd_content d) \<mapsto> b\<lparr>cb_latestRevision := prc_revision (prd_content d)\<rparr>),
               pendingDraft := Some (length (plans t))\<rparr>)"
    by (elim revisePlan_Inr)
  note f = core_fields [OF assertPlanOrigin_core [OF t]]
  define u where "u = (case pendingDraft t of None \<Rightarrow> t
      | Some i \<Rightarrow> updatePlan i (transitionPlanStatus plan_superseded (eventId event)) t)"
  have "list_all (planAudited es) (plans u)" "goals u = goals s" "eventsById u = eventsById s"
    using assms(1) f assertPlanOrigin_events [OF t]
    by (auto simp: u_def list_all_length nth_list_update_cases split: option.splits)
  then show ?thesis
    using assms(2) by (simp add: audited_def s' Let_def newPlan_audited flip: u_def)
qed

lemma rejectPlan_audited:
  assumes "list_all (planAudited es) (plans s)" "list_all (goalAudited es) (goals s)" "rejectPlan event t s = Inr s'"
  shows "audited es s s'"
  using assms by (auto simp: rejectPlan_def err_simps audited_def list_all_length nth_list_update_cases)

lemma approvePlan_events: "approvePlan event t s = Inr s' \<Longrightarrow> eventsById s' = eventsById s"
  by (cases "planAt s (currentApprovedPlan s)") (auto simp: approvePlan_def Let_def err_simps)

lemma approvePlan_audited:
  assumes inv: "taskInv p s" and pa: "list_all (planAudited es) (plans s)" and "list_all (goalAudited es) (goals s)"
    and step: "approvePlan event t s = Inr s'"
  shows "audited es s s'"
proof -
  from approvePlan_Inr [OF inv step] obtain i where ex: "exactPendingDecision event t s = Inr i"
    and fs: "pendingDraft s' = None" "currentApprovedPlan s' = Some i" "goals s' = goals s"
      "activeGoalId s' = activeGoalId s" "planBindings s' = planBindings s"
    and none: "currentApprovedPlan s = None \<Longrightarrow> plans s' = (plans s)[i := approved (eventId event) (plans s ! i)]"
    and some: "\<And>j. currentApprovedPlan s = Some j \<Longrightarrow> j \<noteq> i \<and> j < length (plans s) \<and>
       plans s' = (plans s)[j := (if mp_status (plans s ! j) = plan_active
            then transitionPlanStatus plan_superseded (eventId event) (plans s ! j) else plans s ! j),
          i := approved (eventId event) (carryTerminalItems (plans s ! j) (plans s ! i))]"
    by blast
  note i = exactPendingDecision_Inr [OF ex]
  have at: "\<And>k. k < length (plans s) \<Longrightarrow> planAudited es (plans s ! k)" using pa by (simp add: list_all_length)
  have "list_all (planAudited es) (plans s')"
  proof (cases "currentApprovedPlan s")
    case None
    with none pa at i(2) show ?thesis by (simp add: list_all_update)
  next
    case (Some j)
    with some at i(2) have "planAudited es (approved (eventId event) (carryTerminalItems (plans s ! j) (plans s ! i)))"
      by (simp add: planAudited_carry)
    with some [OF Some] pa at show ?thesis by (simp add: list_all_update)
  qed
  with assms(3) fs approvePlan_events [OF step] show ?thesis by (simp add: audited_def)
qed

lemma changePlanItemStatus_audited:
  assumes idx: "indexed es s" and pa: "list_all (planAudited es) (plans s)" and "list_all (goalAudited es) (goals s)"
    and step: "changePlanItemStatus event d s = Inr s'"
  shows "audited es s s'"
proof -
  from step obtain i k t gr where i: "i < length (plans s)"
    and t: "progressOriginCheck event d s = Inr (t, gr)"
    and ev: "efold (\<lambda>_. checkEvidence event d gr t) () (pid_evidence_event_ids d) = Inr ()"
    and s': "s' = updatePlan i (\<lambda>plan. plan\<lparr>mp_items := (mp_items plan)[k := applyItem event d (mp_items plan ! k)]\<rparr>) t"
    by (elim changePlanItemStatus_Inr)
  note f = core_fields [OF progressOriginCheck_core [OF t]] and e = progressOriginCheck_events [OF t]
  have "indexed es t" using idx e by (simp add: indexed_def)
  then have good: "\<forall>x\<in>set (pid_evidence_event_ids d). succeededIn es x" if "pid_to d = item_completed"
    using succeededIn_evidence ev that unfolding efold_unit by blast
  let ?plan = "plans s ! i"
  have old: "planAudited es ?plan" using pa i by (simp add: list_all_length)
  have "planAudited es (?plan\<lparr>mp_items := (mp_items ?plan)[k := applyItem event d (mp_items ?plan ! k)]\<rparr>)"
    using old good unfolding planAudited_def by (auto simp: applyItem_def dest!: list_update_set)
  with pa assms(3) f e show ?thesis by (simp add: audited_def s' list_all_update)
qed

lemma completePlan_audited:
  assumes idx: "indexed es s" and pa: "list_all (planAudited es) (plans s)" and "list_all (goalAudited es) (goals s)"
    and step: "completePlan event t ce call s = Inr s'"
  shows "audited es s s'"
proof -
  from step obtain i where i: "i < length (plans s)"
    and acc: "assertAcceptedCompletion event ce call (pt_goal_id t) (pt_goal_revision t) s = Inr ()"
    and s': "s' = updatePlan i (\<lambda>plan. (transitionPlanStatus plan_completed (eventId event) plan)
       \<lparr>mp_completed := Some \<lparr>pc_completionEvaluatedEventId = ce, pc_eventId = eventId event,
          pc_finishTaskCallId = call\<rparr>\<rparr>) s"
    by (elim completePlan_Inr)
  have "planAudited es (plans s ! i)" using pa i by (simp add: list_all_length)
  with acceptedIn_completion [OF idx acc] pa assms(3) show ?thesis
    by (auto simp: audited_def s' planAudited_def intro!: list_all_update)
qed

lemma processSessionEvent_audited:
  assumes inv: "auditInv p es s" and ev: "event \<in> set es" and step: "processSessionEvent p event s = Inr s'"
  shows "audited es s s'"
proof (cases "isPhase16Type (edata event)")
  case False
  then show ?thesis using step inv by (simp add: processSessionEvent_def audited_def auditInv_def)
next
  case True
  let ?t = "s\<lparr>trackingMode := phase16\<rparr>"
  have inv': "taskInv p ?t" "indexed es ?t" "list_all (planAudited es) (plans ?t)" "list_all (goalAudited es) (goals ?t)"
    using inv taskInv_core [of ?t s p] by (simp_all add: auditInv_def indexed_def)
  from step True ev have "audited es ?t s'"
    by (cases "edata event")
      (auto simp: processSessionEvent_def intro: createGoal_audited [OF inv'(3,4)] reviseGoal_audited [OF inv'(3,4)]
        changeGoalStatus_audited [OF inv'(2,3,4)] proposePlan_audited [OF inv'(3,4)] revisePlan_audited [OF inv'(3,4)]
        approvePlan_audited [OF inv'(1,3,4)] rejectPlan_audited [OF inv'(3,4)]
        changePlanItemStatus_audited [OF inv'(2,3,4)] completePlan_audited [OF inv'(2,3,4)])
  then show ?thesis by (simp add: audited_def)
qed

lemma auditInv_mono: "auditInv p es s \<Longrightarrow> set es \<subseteq> set fs \<Longrightarrow> auditInv p fs s"
  unfolding auditInv_def indexed_def list_all_iff using planAudited_mono goalAudited_mono by blast

lemma auditInv_step:
  assumes "auditInv p es s" "taskStep p s event = Inr s'"
  shows "auditInv p (es @ [event]) s'"
proof -
  let ?fs = "es @ [event]"
  have inv: "auditInv p ?fs s" by (rule auditInv_mono [OF assms(1)]) auto
  from assms(2) obtain t where t: "(case scope event of RunScope runId _ \<Rightarrow> processRunEvent event runId s
      | SessionScope \<Rightarrow> processSessionEvent p event s) = Inr t" and s': "s' = indexEvent event t"
    by (auto simp: taskStep_def err_simps)
  have "audited ?fs s t"
  proof (cases "scope event")
    case SessionScope
    with t have "processSessionEvent p event s = Inr t" by simp
    then show ?thesis by (rule processSessionEvent_audited [OF inv, rotated]) simp
  next
    case (RunScope r q)
    with t have r: "processRunEvent event r s = Inr t" by simp
    from core_fields [OF processRunEvent_core [OF r]] processRunEvent_events [OF r] inv show ?thesis
      by (simp add: audited_def auditInv_def)
  qed
  then have "list_all (planAudited ?fs) (plans s')" "list_all (goalAudited ?fs) (goals s')" "indexed ?fs s'"
    using inv by (auto simp: s' indexEvent_def audited_def auditInv_def indexed_def dest!: in_set_AList_update)
  moreover have "taskInv p s'" using assms(1) taskStep_inv [OF _ assms(2)] by (simp add: auditInv_def)
  ultimately show ?thesis by (simp add: auditInv_def)
qed

interpretation audit: log_projector "taskStep p" task_projector_init "auditInv p"
  by unfold_locales
    (simp add: auditInv_def taskInv_init, simp add: task_projector_init_def indexed_def, erule (1) auditInv_step)

end
