(* ===== verification/DemoSession.thy ===== *)
theory DemoSession
  imports TaskStateMachine
begin

text \<open>
  A short concrete session: a Goal, a run in build mode, a Plan proposed by the user and
  approved, one item worked on by the agent and completed with a file read as evidence, the
  completion of the Plan and of the Goal.  The platform of the session accepts every id and
  hashes everything to one constant.  The theorems about the projections are applied to this
  session, which shows that their hypotheses can be met.
\<close>

definition demoPlatform :: platform where
  "demoPlatform = \<lparr>isUuid = (\<lambda>_. True), sha256 = (\<lambda>_. ''h''), sortEn = (\<lambda>xs. xs), sortEnText = (\<lambda>xs. xs),
     lowerEnUs = (\<lambda>s. s)\<rparr>"

definition demoPlan :: plan_revision_content where
  "demoPlan = \<lparr>prc_goalId = ''g'', prc_goalRevision = 1,
     prc_items = [\<lparr>pic_acceptance = js ''a'', pic_id = ''i'', pic_required = True, pic_title = js ''t''\<rparr>],
     prc_planId = ''p'', prc_revision = 1, prc_title = js ''t''\<rparr>"

definition demoTarget :: plan_target where
  "demoTarget = \<lparr>pt_goal_id = ''g'', pt_goal_revision = 1, pt_plan_id = ''p'', pt_plan_sha256 = ''h'', pt_revision = 1\<rparr>"

definition demoEvent :: "nat \<Rightarrow> string \<Rightarrow> event_scope \<Rightarrow> event_data \<Rightarrow> stored_event" where
  "demoEvent n i sc d = \<lparr>eventId = i, sessionId = ''s'', sessionSeq = n, sourceSchemaVersion = 2, scope = sc, edata = d\<rparr>"

definition demoItem :: "string \<Rightarrow> string \<Rightarrow> plan_item_status \<Rightarrow> plan_item_status \<Rightarrow> string list \<Rightarrow> event_data" where
  "demoItem call mutation from to evidence = PlanItemStatusChanged
     \<lparr>pid_evidence_event_ids = evidence, pid_from = from, pid_item_id = ''i'', pid_note = js ''n'',
      pid_origin = AgentProgressOrigin \<lparr>ao_call_id = call, ao_mutation_id = mutation, ao_run_id = ''r''\<rparr>,
      pid_target = demoTarget, pid_to = to\<rparr>"

definition demoLog :: "stored_event list" where
  "demoLog =
    [demoEvent 1 ''e1'' SessionScope (GoalCreated \<lparr>gcd_goal_id = ''g'', gcd_objective = js ''o'',
        gcd_parent_goal_id = None, gcd_replaces_active_goal = None\<rparr>),
     demoEvent 2 ''e2'' SessionScope (PlanProposed demoPlan UserOrigin ''h''),
     demoEvent 3 ''e3'' SessionScope (PlanApproved demoTarget),
     demoEvent 4 ''e4'' (RunScope ''r'' 1) (RunStarted \<lparr>rs_agent_mode = StrValue ''build'', rs_goal_id = StrValue ''g'',
        rs_goal_revision = IntValue 1, rs_plan_id = StrValue ''p'', rs_plan_revision = IntValue 1,
        rs_plan_sha256 = StrValue ''h''\<rparr>),
     demoEvent 5 ''e5'' (RunScope ''r'' 2) (ToolCallRequested ''update_plan'' ''c1''),
     demoEvent 6 ''e6'' SessionScope (demoItem ''c1'' ''m1'' item_pending item_in_progress []),
     demoEvent 7 ''e7'' (RunScope ''r'' 3) (ToolCallCompleted ''update_plan'' ''c1'' status_success),
     demoEvent 8 ''e8'' (RunScope ''r'' 4) (ToolCallCompleted ''read_file'' ''c2'' status_success),
     demoEvent 9 ''e9'' (RunScope ''r'' 5) (ToolCallRequested ''update_plan'' ''c3''),
     demoEvent 10 ''e10'' SessionScope (demoItem ''c3'' ''m2'' item_in_progress item_completed [''e8'']),
     demoEvent 11 ''e11'' (RunScope ''r'' 6) (CompletionEvaluated effect_accept ''f''),
     demoEvent 12 ''e12'' SessionScope (PlanCompleted demoTarget ''e11'' ''f''),
     demoEvent 13 ''e13'' SessionScope (GoalStatusChanged \<lparr>gsd_goal_id = ''g'', gsd_revision = 1,
        gsd_to = ToCompleted ''e11'' ''f''\<rparr>),
     demoEvent 14 ''e14'' (RunScope ''r'' 7) RunCompleted]"

section \<open>The session is accepted\<close>

lemma demo_log_accepted: "\<not> isl (assertDecodedStoredEventInvariants demoLog)"
  by code_simp

lemmas text_eval = canonicalStoredTextSchema_def isHighSurrogate_def isLowSurrogate_def containsForbiddenControl_def
  byteLength_def utf8Width_def trim_def isJsSpace_def
lemmas json_eval = canonicalJson.simps encodeField_def jsonQuote_def escapeUnit_def isHighSurrogate_def isLowSurrogate_def
  showInt_def showNat.simps

lemma demoPlan_simps [simp]:
  "prc_goalId demoPlan = ''g''" "prc_goalRevision demoPlan = 1" "prc_planId demoPlan = ''p''"
  "prc_revision demoPlan = 1"
  "prc_items demoPlan = [\<lparr>pic_acceptance = js ''a'', pic_id = ''i'', pic_required = True, pic_title = js ''t''\<rparr>]"
  "prc_title demoPlan = js ''t''"
  by (simp_all add: demoPlan_def)

lemma demo_bytes: "\<exists>s. canonicalJson (planJson demoPlan) = Inr s \<and> byteLength s \<le> MAX_CANONICAL_PLAN_BYTES"
  by (simp add: planJson_def planItemJson_def json_eval byteLength_def utf8Width_def MAX_CANONICAL_PLAN_BYTES_def)

lemma demo_schema: "planRevisionContentSchema demoPlatform demoPlan = []"
proof -
  have id: "planItemIdOk ''i''" by (simp add: planItemIdOk_def lowerAlnum_def isLower_def inRange_def)
  show ?thesis
    using demo_bytes id
    by (auto simp: planRevisionContentSchema_def demoPlatform_def positiveSafeInteger_def planTitleSchema_def
        text_eval planItemContentSchema_def planItemAcceptanceSchema_def)
qed

lemma demo_hash [simp]: "assertPlanHash demoPlatform event demoPlan ''h'' = Inr ()"
  using demo_bytes demo_schema
  by (auto simp: assertPlanHash_def canonicalPlanIdentity_def sha256Canonical_def demoPlatform_def)

lemma demo_note [simp]: "isNonblankCanonicalText [110]"
  by (simp add: isNonblankCanonicalText_def trim_def isJsSpace_def)

lemmas plan_eval = taskStep_def processSessionEvent_def processRunEvent_def indexEvent_def createGoal_def
  reviseGoal_def changeGoalStatus_def proposePlan_def revisePlan_def approvePlan_def rejectPlan_def
  changePlanItemStatus_def completePlan_def goalsById_def updateGoal_def planAt_def updatePlan_def bindRun_def
  planBindingMatches_def bindFuturePhase16RunStart_def openRequest_def closeRequest_def assertAgentOrigin_def
  transitionPlanStatus_def supersede1_def refBoundTo_def supersedeGoalPlans_def planReady_def freshItem_def newPlan_def
  assertAcceptedCompletion_def completionMatchesPlan_def activeGoalForPlan_def assertPlanOrigin_def
  matchesTarget_def exactPendingDecision_def exactCurrentPlan_def progressOriginCheck_def graphEvidenceMapped_def
  checkEvidence_def applyItem_def itemTransitionCheck_def requestKey_def map_key_def task_projector_init_def
  classifyPlanItemEvidence_def classifyRunEvidence_def matchingRunBinding_def READ_TOOL_ALLOWLIST_def
lemma demo_projects: "\<exists>s. efold (taskStep demoPlatform) task_projector_init demoLog = Inr s"
  by (simp add: demoLog_def demoEvent_def demoItem_def demoTarget_def plan_eval)
end
