(* ===== verification/TaskStateProperties.thy ===== *)
theory TaskStateProperties
  imports TaskStateEvidence DemoSession
begin

text \<open>
  What the Goal and Plan projection guarantees, stated of the result of
  \<^verbatim>\<open>TaskStateMachine.project\<close> and of single events.
\<close>

section \<open>From the projection to the projector\<close>

lemma projectTaskState_Inr:
  assumes "projectTaskState p es = Inr st"
  obtains s where "efold (taskStep p) task_projector_init es = Inr s" "taskInv p s" "logWf es"
    "st = snapshot (if es = [] then 0 else sessionSeq (last es)) s"
proof -
  from assms obtain l where l: "assertDecodedStoredEventInvariants es = Inr l" and "taskProject p es = Inr st"
    by (auto simp: projectTaskState_def split: sum.splits)
  then obtain s where s: "efold (taskStep p) task_projector_init es = Inr s"
    "st = snapshot (if es = [] then 0 else sessionSeq (last es)) s"
    by (auto simp: taskProject_def err_simps)
  from that [OF s(1) task_state.inv_run [OF s(1)] accepted_logWf [OF l] s(2)] show thesis .
qed

lemma demo_projection: "\<exists>st. projectTaskState demoPlatform demoLog = Inr st"
  using demo_log_accepted demo_projects
  by (auto simp: projectTaskState_def taskProject_def split: sum.splits)

lemma demo_active:
  "\<exists>st. projectTaskState demoPlatform (take 3 demoLog) = Inr st \<and>
     (\<exists>pp\<in>set (ts_plans st). mp_status (pp_plan pp) = plan_active)"
proof -
  have "\<not> isl (assertDecodedStoredEventInvariants (take 3 demoLog))" by code_simp
  moreover have "\<exists>s. efold (taskStep demoPlatform) task_projector_init (take 3 demoLog) = Inr s \<and>
      (\<exists>plan\<in>set (plans s). mp_status plan = plan_active)"
    by (simp add: demoLog_def demoEvent_def demoItem_def demoTarget_def plan_eval)
  ultimately show ?thesis
    by (auto simp: projectTaskState_def taskProject_def snapshot_def planProjection_def split: sum.splits)
qed

lemma demo_completed:
  "\<exists>st. projectTaskState demoPlatform demoLog = Inr st \<and>
     (\<exists>pp\<in>set (ts_plans st). mp_status (pp_plan pp) = plan_completed) \<and>
     (\<exists>g\<in>set (ts_goals st). mg_status g = goal_completed)"
proof -
  have "\<exists>s. efold (taskStep demoPlatform) task_projector_init demoLog = Inr s \<and>
      (\<exists>plan\<in>set (plans s). mp_status plan = plan_completed) \<and> (\<exists>g\<in>set (goals s). mg_status g = goal_completed)"
    by (simp add: demoLog_def demoEvent_def demoItem_def demoTarget_def plan_eval)
  with demo_log_accepted show ?thesis
    by (auto simp: projectTaskState_def taskProject_def snapshot_def planProjection_def split: sum.splits)
qed

lemma snapshot_simps [simp]:
  "ts_goals (snapshot n s) = goals s" "ts_activeGoalId (snapshot n s) = activeGoalId s"
  "ts_plans (snapshot n s) = map planProjection (plans s)" "ts_pendingDraft (snapshot n s) = planRef s (pendingDraft s)"
  "ts_currentApprovedPlan (snapshot n s) = planRef s (currentApprovedPlan s)"
  "ts_lastSessionSeq (snapshot n s) = n" "ts_trackingMode (snapshot n s) = trackingMode s"
  by (simp_all add: snapshot_def)

lemma planProjection_plan [simp]: "pp_plan (planProjection plan) = plan"
  by (simp add: planProjection_def)

definition refTo :: "mutable_plan \<Rightarrow> plan_revision_ref" where
  "refTo plan = \<lparr>ref_goalId = prc_goalId (mp_content plan), ref_goalRevision = prc_goalRevision (mp_content plan),
      ref_planId = prc_planId (mp_content plan), ref_planSha256 = mp_planSha256 plan,
      ref_revision = prc_revision (mp_content plan)\<rparr>"

lemma planRef_refTo: "planRef s ref = map_option (\<lambda>(_, plan). refTo plan) (planAt s ref)"
  by (simp add: planRef_def refTo_def)

lemma plan_contents_distinct:
  assumes "taskInv p s" "i < length (plans s)" "j < length (plans s)" "refTo (plans s ! i) = refTo (plans s ! j)"
  shows "i = j"
proof -
  have "distinct (map (\<lambda>c. (prc_planId c, prc_revision c)) (contents s))"
    using assms(1) by (simp add: taskInv_def chainWf_def)
  moreover have "map (\<lambda>c. (prc_planId c, prc_revision c)) (contents s) ! i =
      map (\<lambda>c. (prc_planId c, prc_revision c)) (contents s) ! j"
    using assms(2-4) by (simp add: contents_def refTo_def)
  ultimately show ?thesis
    using assms(2,3) nth_eq_iff_index_eq [of "map (\<lambda>c. (prc_planId c, prc_revision c)) (contents s)" i j] by simp
qed

lemma ready_items:
  assumes "planWf p plan" "planAudited es plan" "planReady plan"
  shows "\<forall>item\<in>set (mp_items plan).
     (mi_status item = item_completed \<and> mi_evidenceEventIds item \<noteq> [] \<and>
        (\<forall>i\<in>set (mi_evidenceEventIds item). succeededIn es i)) \<or>
     (\<not> pic_required (mi_content item) \<and> mi_status item = item_skipped)"
proof
  fix item assume item: "item \<in> set (mp_items plan)"
  with assms(1) have "itemWf item" by (simp add: planWf_def list_all_iff)
  with assms(2,3) item show "(mi_status item = item_completed \<and> mi_evidenceEventIds item \<noteq> [] \<and>
        (\<forall>i\<in>set (mi_evidenceEventIds item). succeededIn es i)) \<or>
     (\<not> pic_required (mi_content item) \<and> mi_status item = item_skipped)"
    by (auto simp: planReady_def list_all_iff itemWf_def planAudited_def split: if_splits)
qed

section \<open>Invariants of the projection\<close>

text \<open>
  C1: In every accepted session the Goal ids are distinct, a Goal is active exactly when it is
  the one named by \<^verbatim>\<open>activeGoalId\<close>, that id always names a Goal, and every parent Goal was
  created before its child.
\<close>

theorem active_goal_unique:
  assumes "projectTaskState p es = Inr st"
  shows "distinct (map goalKey (ts_goals st)) \<and>
    (\<forall>g\<in>set (ts_goals st). mg_status g = goal_active \<longleftrightarrow> ts_activeGoalId st = Some (goalKey g)) \<and>
    (\<forall>a. ts_activeGoalId st = Some a \<longrightarrow> a \<in> goalKey ` set (ts_goals st)) \<and>
    parentsEarlier (lineage_of (ts_goals st))"
proof -
  from assms obtain s where "taskInv p s" "st = snapshot (if es = [] then 0 else sessionSeq (last es)) s"
    by (elim projectTaskState_Inr)
  then show ?thesis by (simp add: taskInv_def goalsWf_def)
qed

theorem active_goal_unique_witness:
  "\<exists>st. projectTaskState demoPlatform demoLog = Inr st \<and> distinct (map goalKey (ts_goals st))"
  using demo_projection active_goal_unique by blast

text \<open>
  C31: The open Plans of an accepted session are pinned down: a draft is the one
  \<^verbatim>\<open>pendingDraft\<close> refers to, an active Plan is the current approved one, and both belong to
  the active Goal at its current revision.
\<close>

theorem open_plans_of_active_goal:
  assumes "projectTaskState p es = Inr st" "pp \<in> set (ts_plans st)"
  shows "(mp_status (pp_plan pp) = plan_draft \<longrightarrow> ts_pendingDraft st = Some (refTo (pp_plan pp))) \<and>
    (mp_status (pp_plan pp) = plan_active \<longrightarrow> ts_currentApprovedPlan st = Some (refTo (pp_plan pp))) \<and>
    (mp_status (pp_plan pp) \<in> {plan_draft, plan_active} \<longrightarrow>
      (\<exists>g\<in>set (ts_goals st). ts_activeGoalId st = Some (goalKey g) \<and> mg_status g = goal_active \<and>
        prc_goalId (mp_content (pp_plan pp)) = goalKey g \<and>
        prc_goalRevision (mp_content (pp_plan pp)) = gl_revision (mg_content g)))"
proof -
  from assms(1) obtain s where inv: "taskInv p s" and st: "st = snapshot (if es = [] then 0 else sessionSeq (last es)) s"
    by (elim projectTaskState_Inr)
  have refs: "refsWf s" using inv by (simp add: taskInv_def)
  from assms(2) st obtain i where i: "i < length (plans s)" "pp_plan pp = plans s ! i"
    by (auto simp: in_set_conv_nth)
  have draft: "mp_status (pp_plan pp) = plan_draft \<Longrightarrow> pendingDraft s = Some i"
    using refsWf_draft [OF refs, of i] i by simp
  have active: "mp_status (pp_plan pp) = plan_active \<Longrightarrow> currentApprovedPlan s = Some i"
    using refsWf_active [OF refs i(1)] i(2) by simp
  have at: "planAt s (Some i) = Some (i, plans s ! i)" using i(1) by (simp add: planAt_def)
  have "\<exists>g\<in>set (goals s). activeGoalId s = Some (goalKey g) \<and> mg_status g = goal_active \<and>
      prc_goalId (mp_content (pp_plan pp)) = goalKey g \<and>
      prc_goalRevision (mp_content (pp_plan pp)) = gl_revision (mg_content g)"
    if "mp_status (pp_plan pp) \<in> {plan_draft, plan_active}"
  proof -
    have "contentBound s (mp_content (plans s ! i))"
      using refsWf_bound(2) [OF refs] draft active that by auto
    then obtain g where "g \<in> set (goals s)" "mg_status g = goal_active" "goalKey g = prc_goalId (mp_content (plans s ! i))"
      "gl_revision (mg_content g) = prc_goalRevision (mp_content (plans s ! i))"
      by (auto simp: contentBound_def)
    then show ?thesis using inv i(2) by (intro bexI [of _ g]) (simp_all add: taskInv_def goalsWf_def)
  qed
  moreover have "planRef s (pendingDraft s) = Some (refTo (pp_plan pp))" if "mp_status (pp_plan pp) = plan_draft"
    using draft [OF that] at i(2) by (simp add: planRef_refTo)
  moreover have "planRef s (currentApprovedPlan s) = Some (refTo (pp_plan pp))" if "mp_status (pp_plan pp) = plan_active"
    using active [OF that] at i(2) by (simp add: planRef_refTo)
  ultimately show ?thesis unfolding st snapshot_simps by blast
qed

theorem open_plans_of_active_goal_witness:
  "\<exists>st pp. projectTaskState demoPlatform (take 3 demoLog) = Inr st \<and> pp \<in> set (ts_plans st) \<and>
     mp_status (pp_plan pp) = plan_active \<and> ts_currentApprovedPlan st = Some (refTo (pp_plan pp))"
proof -
  from demo_active obtain st pp where "projectTaskState demoPlatform (take 3 demoLog) = Inr st" "pp \<in> set (ts_plans st)"
    "mp_status (pp_plan pp) = plan_active" by blast
  with open_plans_of_active_goal [OF this(1,2)] show ?thesis by blast
qed

text \<open>
  Every Plan of an accepted session carries the hash of its own accepted content, its items
  are exactly those of its content with distinct ids, at most one of them is in progress, a
  required item is never skipped, a completed item has evidence, a completed, blocked or
  skipped item has a note, and the recorded transitions lead lawfully to the current statuses.
\<close>

lemma plans_lawful:
  assumes "projectTaskState p es = Inr st" "pp \<in> set (ts_plans st)"
  shows "planWf p (pp_plan pp) \<and> distinct (map (\<lambda>item. pic_id (mi_content item)) (mp_items (pp_plan pp))) \<and>
    mp_planSha256 (pp_plan pp) = sha256 p (projr (canonicalJson (planJson (mp_content (pp_plan pp)))))"
proof -
  from assms(1) obtain s where inv: "taskInv p s" and st: "st = snapshot (if es = [] then 0 else sessionSeq (last es)) s"
    by (elim projectTaskState_Inr)
  with assms(2) have wf: "planWf p (pp_plan pp)" by (auto simp: taskInv_def list_all_iff)
  then obtain ident where ident: "canonicalPlanIdentity p (mp_content (pp_plan pp)) = Inr ident"
    "pi_sha256 ident = mp_planSha256 (pp_plan pp)" and items: "map mi_content (mp_items (pp_plan pp)) = prc_items (mp_content (pp_plan pp))"
    by (auto simp: planWf_def)
  have "map (\<lambda>item. pic_id (mi_content item)) (mp_items (pp_plan pp)) = map pic_id (prc_items (mp_content (pp_plan pp)))"
    by (simp flip: items)
  with wf canonicalPlanIdentity_Inr(3,4,6) [OF ident(1)] ident(2) show ?thesis by simp
qed

lemma plans_lawful_example:
  "\<exists>st pp. projectTaskState demoPlatform (take 3 demoLog) = Inr st \<and> pp \<in> set (ts_plans st) \<and>
     planWf demoPlatform (pp_plan pp)"
  using demo_active plans_lawful by blast

section \<open>Completion\<close>

text \<open>
  C2: A Plan shown as completed has every required item completed and every other item completed
  or skipped, and goes back to an accepted \<^verbatim>\<open>completion.evaluated\<close> event of the session with
  the recorded \<^verbatim>\<open>finish_task\<close> call; every piece of evidence of a completed item is an event
  of the session that records a success.
\<close>

theorem completed_plan_justified:
  assumes "projectTaskState p es = Inr st" "pp \<in> set (ts_plans st)" "mp_status (pp_plan pp) = plan_completed"
  shows "\<exists>c. mp_completed (pp_plan pp) = Some c \<and>
    acceptedIn es (pc_completionEvaluatedEventId c) (pc_finishTaskCallId c) \<and>
    (\<forall>item\<in>set (mp_items (pp_plan pp)).
       (mi_status item = item_completed \<and> mi_evidenceEventIds item \<noteq> [] \<and>
          (\<forall>i\<in>set (mi_evidenceEventIds item). succeededIn es i)) \<or>
       (\<not> pic_required (mi_content item) \<and> mi_status item = item_skipped))"
proof -
  from assms(1) obtain s where s: "efold (taskStep p) task_projector_init es = Inr s" and inv: "taskInv p s"
    and st: "st = snapshot (if es = [] then 0 else sessionSeq (last es)) s"
    by (elim projectTaskState_Inr)
  from assms(2) st have mem: "pp_plan pp \<in> set (plans s)" by auto
  have wf: "planWf p (pp_plan pp)" using inv mem by (simp add: taskInv_def list_all_iff)
  have aud: "planAudited es (pp_plan pp)" using audit.log_run [OF s] mem by (simp add: auditInv_def list_all_iff)
  from wf assms(3) obtain c where c: "mp_completed (pp_plan pp) = Some c" and ready: "planReady (pp_plan pp)"
    by (auto simp: planWf_def)
  with aud ready_items [OF wf aud ready] show ?thesis by (auto simp: planAudited_def)
qed

theorem completed_plan_justified_witness:
  "\<exists>st pp c. projectTaskState demoPlatform demoLog = Inr st \<and> pp \<in> set (ts_plans st) \<and>
     mp_completed (pp_plan pp) = Some c \<and> acceptedIn demoLog (pc_completionEvaluatedEventId c) (pc_finishTaskCallId c)"
proof -
  from demo_completed obtain st pp where "projectTaskState demoPlatform demoLog = Inr st" "pp \<in> set (ts_plans st)"
    "mp_status (pp_plan pp) = plan_completed" by blast
  with completed_plan_justified [OF this] show ?thesis by blast
qed

text \<open>
  C32: A Goal shown as completed was completed by a \<^verbatim>\<open>goal.status.changed\<close> event of the session
  that names an accepted \<^verbatim>\<open>completion.evaluated\<close> event of a run; no other event completes a Goal.
\<close>

theorem completed_goal_justified:
  assumes "projectTaskState p es = Inr st" "g \<in> set (ts_goals st)" "mg_status g = goal_completed"
  shows "\<exists>ce call e d. acceptedIn es ce call \<and> e \<in> set es \<and> mg_lastStatusEventId g = Some (eventId e) \<and>
    edata e = GoalStatusChanged d \<and> gsd_goal_id d = goalKey g \<and> gsd_to d = ToCompleted ce call"
proof -
  from assms(1) obtain s where s: "efold (taskStep p) task_projector_init es = Inr s"
    and st: "st = snapshot (if es = [] then 0 else sessionSeq (last es)) s"
    by (elim projectTaskState_Inr)
  have "goalAudited es g" using audit.log_run [OF s] assms(2) st by (simp add: auditInv_def list_all_iff)
  with assms(3) show ?thesis unfolding goalAudited_def by blast
qed

theorem completed_goal_justified_witness:
  "\<exists>st g ce call. projectTaskState demoPlatform demoLog = Inr st \<and> g \<in> set (ts_goals st) \<and>
     mg_status g = goal_completed \<and> acceptedIn demoLog ce call"
proof -
  from demo_completed obtain st g where "projectTaskState demoPlatform demoLog = Inr st" "g \<in> set (ts_goals st)"
    "mg_status g = goal_completed" by blast
  with completed_goal_justified [OF this] show ?thesis by blast
qed

section \<open>History\<close>

text \<open>
  C5: History is append-only.  When a session is accepted, so is every prefix of it, and what
  the prefix shows stays: Goals and Plans keep their place, identity and content, Goal
  revisions never decrease, transition histories only grow, and a completed or abandoned Goal
  as well as a completed, rejected or superseded Plan is never changed again.
\<close>

theorem history_append_only:
  assumes "efold (taskStep p) task_projector_init (es @ fs) = Inr t"
  shows "\<exists>s. efold (taskStep p) task_projector_init es = Inr s \<and>
    (\<forall>i<length (goals s). i < length (goals t) \<and> goalKey (goals t ! i) = goalKey (goals s ! i) \<and>
       gl_revision (mg_content (goals s ! i)) \<le> gl_revision (mg_content (goals t ! i)) \<and>
       (mg_status (goals s ! i) \<noteq> goal_active \<longrightarrow> goals t ! i = goals s ! i)) \<and>
    (\<forall>i<length (plans s). i < length (plans t) \<and> mp_content (plans t ! i) = mp_content (plans s ! i) \<and>
       prefix (mp_statusTransitions (plans s ! i)) (mp_statusTransitions (plans t ! i)) \<and>
       (mp_status (plans s ! i) \<notin> {plan_draft, plan_active} \<longrightarrow> plans t ! i = plans s ! i))"
proof -
  from assms obtain s where s: "efold (taskStep p) task_projector_init es = Inr s" and ev: "taskEvolves s t"
    by (elim task_state.evolves_prefix)
  have g: "\<And>i. i < length (goals s) \<Longrightarrow> i < length (goals t) \<and> goalStep (goals s ! i) (goals t ! i)"
    and pl: "\<And>i. i < length (plans s) \<Longrightarrow> i < length (plans t) \<and> planStep (plans s ! i) (plans t ! i)"
    using ev grows_nth by (auto simp: taskEvolves_def)
  show ?thesis
    by (rule exI [of _ s], intro conjI allI impI)
      (use s g pl in \<open>auto simp: goalStep_def planStep_def\<close>)
qed

theorem history_append_only_witness:
  "\<exists>s t. efold (taskStep demoPlatform) task_projector_init (take 3 demoLog @ drop 3 demoLog) = Inr t \<and>
     efold (taskStep demoPlatform) task_projector_init (take 3 demoLog) = Inr s"
proof -
  from demo_projects obtain t where "efold (taskStep demoPlatform) task_projector_init (take 3 demoLog @ drop 3 demoLog) = Inr t"
    by auto
  with history_append_only [OF this] show ?thesis by blast
qed

end
