(* ===== verification/TaskGraphTopology.thy ===== *)
theory TaskGraphTopology
  imports TaskGraphSchema
begin

text \<open>
  Correctness of the memoised depth search and of the lineage recursion of the Task Graph
  schema.  A dependency chain is a path along \<^verbatim>\<open>dependsOn\<close>; \<open>longest nodes i d\<close> says that
  the longest chain from node \<open>i\<close> has \<open>d\<close> nodes (in particular there is a longest one, so no
  cycle is reachable from \<open>i\<close>).  The search returns the length of the longest chain whenever
  there is one, and a number above the limit when there is none, although a cycle leaves wrong
  numbers in its memo table.
\<close>

section \<open>Dependency chains\<close>

definition deps :: "task_node_spec list \<Rightarrow> string \<Rightarrow> string list" where
  "deps nodes i = (case byId nodes i of None \<Rightarrow> [] | Some n \<Rightarrow> dependsOn n)"

fun depChain :: "task_node_spec list \<Rightarrow> string list \<Rightarrow> bool" where
  "depChain nodes [] = True"
| "depChain nodes [x] = True"
| "depChain nodes (x # y # xs) = (y \<in> set (deps nodes x) \<and> depChain nodes (y # xs))"

definition longest :: "task_node_spec list \<Rightarrow> string \<Rightarrow> nat \<Rightarrow> bool" where
  "longest nodes i d \<longleftrightarrow>
     (\<forall>xs. depChain nodes (i # xs) \<longrightarrow> Suc (length xs) \<le> d) \<and>
     (\<exists>xs. depChain nodes (i # xs) \<and> Suc (length xs) = d)"

definition reaches :: "task_node_spec list \<Rightarrow> string \<Rightarrow> string \<Rightarrow> bool" where
  "reaches nodes v i \<longleftrightarrow> (\<exists>xs. depChain nodes (v # xs @ [i]))"

lemma depChain_Cons: "depChain nodes (x # xs) \<longleftrightarrow> xs = [] \<or> hd xs \<in> set (deps nodes x) \<and> depChain nodes xs"
  by (cases xs) auto

lemma depChain_join:
  "depChain nodes (xs @ [x]) \<Longrightarrow> depChain nodes (x # ys) \<Longrightarrow> depChain nodes (xs @ x # ys)"
proof (induction xs)
  case (Cons a xs)
  then show ?case by (cases xs) (auto simp: depChain_Cons)
qed simp

lemma reaches_step: "e \<in> set (deps nodes i) \<Longrightarrow> reaches nodes i e"
  unfolding reaches_def by (rule exI [of _ "[]"]) simp

lemma reaches_snoc:
  assumes "reaches nodes v i" "e \<in> set (deps nodes i)"
  shows "reaches nodes v e"
proof -
  from assms(1) obtain xs where "depChain nodes ((v # xs) @ [i])" by (auto simp: reaches_def)
  with assms(2) have "depChain nodes ((v # xs) @ [i, e])"
    using depChain_join [of nodes "v # xs" i "[e]"] by simp
  then show ?thesis unfolding reaches_def by (intro exI [of _ "xs @ [i]"]) simp
qed

lemma longest_unique: "longest nodes i d \<Longrightarrow> longest nodes i d' \<Longrightarrow> d = d'"
proof -
  assume "longest nodes i d" "longest nodes i d'"
  moreover from this obtain xs ys where "depChain nodes (i # xs)" "Suc (length xs) = d"
    "depChain nodes (i # ys)" "Suc (length ys) = d'"
    by (auto simp: longest_def)
  ultimately have "d \<le> d'" "d' \<le> d" by (auto simp: longest_def)
  then show "d = d'" by simp
qed

lemma longest_no_cycle: "reaches nodes i i \<Longrightarrow> \<not> longest nodes i d"
proof
  assume "reaches nodes i i" "longest nodes i d"
  then obtain xs ys where xs: "depChain nodes ((i # xs) @ [i])" and
    ys: "depChain nodes (i # ys)" "Suc (length ys) = d"
    by (auto simp: reaches_def longest_def)
  have "depChain nodes (i # (xs @ i # ys))"
    using depChain_join [OF xs ys(1)] by simp
  with \<open>longest nodes i d\<close> have "Suc (length (xs @ i # ys)) \<le> d"
    unfolding longest_def by blast
  with ys(2) show False by simp
qed

lemma longest_bounded:
  assumes "\<And>xs. depChain nodes (i # xs) \<Longrightarrow> Suc (length xs) \<le> B"
  shows "\<exists>d \<le> B. longest nodes i d"
proof -
  let ?L = "{Suc (length xs) | xs. depChain nodes (i # xs)}"
  have fin: "finite ?L" by (rule finite_subset [of _ "{..B}"]) (use assms in auto)
  moreover have "1 \<in> ?L" by (auto intro!: exI [of _ "[]"])
  ultimately have max: "Max ?L \<in> ?L" using Max_in [of ?L] by blast
  have ge: "Suc (length xs) \<le> Max ?L" if "depChain nodes (i # xs)" for xs
    using fin that by (intro Max_ge) auto
  from max have "\<exists>xs. depChain nodes (i # xs) \<and> Suc (length xs) = Max ?L" by auto
  with ge have "longest nodes i (Max ?L)" unfolding longest_def by blast
  moreover have "Max ?L \<le> B" using max assms by auto
  ultimately show ?thesis by blast
qed

lemma longest_exists_iff:
  "(\<exists>d \<le> B. longest nodes i d) \<longleftrightarrow> (\<forall>xs. depChain nodes (i # xs) \<longrightarrow> Suc (length xs) \<le> B)"
proof
  assume "\<exists>d \<le> B. longest nodes i d"
  then show "\<forall>xs. depChain nodes (i # xs) \<longrightarrow> Suc (length xs) \<le> B"
    unfolding longest_def by (meson order_trans)
qed (simp add: longest_bounded)

lemma longest_dep:
  assumes "longest nodes i d" "e \<in> set (deps nodes i)"
  shows "\<exists>d' < d. longest nodes e d'"
proof -
  have "Suc (length xs) \<le> d - 1" if "depChain nodes (e # xs)" for xs
  proof -
    from that assms(2) have "depChain nodes (i # e # xs)" by simp
    with assms(1) have "Suc (length (e # xs)) \<le> d" unfolding longest_def by blast
    then show ?thesis by simp
  qed
  then obtain d' where "d' \<le> d - 1" "longest nodes e d'" using longest_bounded by blast
  moreover have "0 < d" using assms(1) by (auto simp: longest_def)
  ultimately show ?thesis by (intro exI [of _ d']) auto
qed

lemma longest_leaf: "deps nodes i = [] \<Longrightarrow> longest nodes i 1"
  by (auto simp: longest_def depChain_Cons)

lemma longest_node:
  assumes "list_all2 (longest nodes) (deps nodes i) ds" "deps nodes i \<noteq> []"
  shows "longest nodes i (1 + Max (set ds))"
  unfolding longest_def
proof (intro conjI allI impI)
  fix xs assume chain: "depChain nodes (i # xs)"
  show "Suc (length xs) \<le> 1 + Max (set ds)"
  proof (cases xs)
    case (Cons e ys)
    with chain have "e \<in> set (deps nodes i)" "depChain nodes (e # ys)" by simp_all
    then obtain d where "d \<in> set ds" "longest nodes e d"
      using assms(1) by (metis list_all2_conv_all_nth in_set_conv_nth)
    then have "Suc (length ys) \<le> d" "d \<le> Max (set ds)"
      using \<open>depChain nodes (e # ys)\<close> by (auto simp: longest_def)
    with Cons show ?thesis by simp
  qed simp
next
  have "ds \<noteq> []" using assms by auto
  then have "Max (set ds) \<in> set ds" by simp
  then obtain e where e: "e \<in> set (deps nodes i)" "longest nodes e (Max (set ds))"
    using assms(1) by (metis list_all2_conv_all_nth in_set_conv_nth)
  then obtain ys where "depChain nodes (e # ys)" "Suc (length ys) = Max (set ds)"
    by (auto simp: longest_def)
  with e show "\<exists>xs. depChain nodes (i # xs) \<and> Suc (length xs) = 1 + Max (set ds)"
    by (intro exI [of _ "e # ys"]) auto
qed

section \<open>The depth search\<close>

definition depthOk :: "task_node_spec list \<Rightarrow> string \<Rightarrow> nat \<Rightarrow> bool" where
  "depthOk nodes i d \<longleftrightarrow>
     (d \<le> MAX_TASK_GRAPH_DEPTH \<longrightarrow> longest nodes i d) \<and> (\<forall>d'. longest nodes i d' \<longrightarrow> d = d')"

definition memoOk :: "task_node_spec list \<Rightarrow> (string \<rightharpoonup> nat) \<Rightarrow> bool" where
  "memoOk nodes memo \<longleftrightarrow> (\<forall>i d. memo i = Some d \<longrightarrow> depthOk nodes i d)"

lemma memoOk_upd: "memoOk nodes memo \<Longrightarrow> depthOk nodes i d \<Longrightarrow> memoOk nodes (memo(i \<mapsto> d))"
  by (simp add: memoOk_def)

lemma depthOk_leaf: "deps nodes i = [] \<Longrightarrow> depthOk nodes i 1"
  using longest_leaf [of nodes i] longest_unique [of nodes i 1] unfolding depthOk_def by blast

lemma depthOk_node:
  assumes all: "list_all2 (depthOk nodes) (deps nodes i) ds" and ne: "deps nodes i \<noteq> []"
  shows "depthOk nodes i (1 + Max (set ds))"
proof -
  have len: "length ds = length (deps nodes i)" using all by (simp add: list_all2_lengthD)
  have "longest nodes i (1 + Max (set ds))" if "1 + Max (set ds) \<le> MAX_TASK_GRAPH_DEPTH"
  proof (rule longest_node [OF _ ne])
    have "d \<le> MAX_TASK_GRAPH_DEPTH" if "d \<in> set ds" for d
      using \<open>1 + Max (set ds) \<le> _\<close> order_trans [OF Max_ge [OF _ that]] by simp
    then show "list_all2 (longest nodes) (deps nodes i) ds"
      using all by (auto simp: list_all2_conv_all_nth depthOk_def)
  qed
  moreover have "1 + Max (set ds) = d'" if d': "longest nodes i d'" for d'
  proof -
    have "list_all2 (longest nodes) (deps nodes i) ds"
      unfolding list_all2_conv_all_nth
    proof (intro conjI allI impI)
      fix k assume k: "k < length (deps nodes i)"
      obtain d where "longest nodes (deps nodes i ! k) d"
        using longest_dep [OF d'] k nth_mem by blast
      then show "longest nodes (deps nodes i ! k) (ds ! k)"
        using all k by (auto simp: list_all2_conv_all_nth depthOk_def)
    qed (simp add: len)
    then show ?thesis using longest_node [OF _ ne] longest_unique d' by blast
  qed
  ultimately show ?thesis by (simp add: depthOk_def)
qed

lemma deps_byId: "deps nodes i = (case byId nodes i of None \<Rightarrow> [] | Some n \<Rightarrow> dependsOn n)"
  by (rule deps_def)

lemma visit_correct:
  "memoOk nodes (fst st) \<Longrightarrow> (\<And>v. v \<in> visiting \<Longrightarrow> reaches nodes v i) \<Longrightarrow>
     depthOk nodes i (fst (visit nodes visiting st i)) \<and> memoOk nodes (fst (snd (visit nodes visiting st i)))"
  "memoOk nodes (fst st) \<Longrightarrow> (\<And>v e. v \<in> visiting \<Longrightarrow> e \<in> set is \<Longrightarrow> reaches nodes v e) \<Longrightarrow>
     list_all2 (depthOk nodes) is (fst (visitAll nodes visiting st is)) \<and>
     memoOk nodes (fst (snd (visitAll nodes visiting st is)))"
proof (induction nodes visiting st i and nodes visiting st "is" rule: visit_visitAll.induct)
  case (1 nodes visiting st i)
  show ?case
  proof (cases "fst st i")
    case (Some known)
    with 1 show ?thesis by (auto simp: visit.simps [of nodes visiting st i] memoOk_def)
  next
    case None
    note memo = None
    show ?thesis
    proof (cases "i \<in> visiting")
      case True
      with 1 have "reaches nodes i i" by blast
      then have "depthOk nodes i (MAX_TASK_GRAPH_DEPTH + 1)"
        using longest_no_cycle by (auto simp: depthOk_def)
      with True memo 1 show ?thesis by (simp add: visit.simps [of nodes visiting st i])
    next
      case False
      show ?thesis
      proof (cases "deps nodes i = []")
        case True
        then have "visit nodes visiting st i = (1, ((fst st)(i \<mapsto> 1), snd st))"
          using memo False by (auto simp: visit.simps [of nodes visiting st i] deps_def split: option.splits)
        with "1.prems"(1) depthOk_leaf [OF True] show ?thesis by (simp add: memoOk_def)
      next
        case ne: False
        then obtain node where node: "byId nodes i = Some node" "dependsOn node \<noteq> []" "deps nodes i = dependsOn node"
          by (auto simp: deps_def split: option.splits)
        let ?r = "visitAll nodes (insert i visiting) st (dependsOn node)"
        have reach: "reaches nodes v e" if "v \<in> insert i visiting" "e \<in> set (dependsOn node)" for v e
          using that "1.prems"(2) node(3) by (metis insert_iff reaches_snoc reaches_step)
        have "list_all2 (depthOk nodes) (dependsOn node) (fst ?r) \<and> memoOk nodes (fst (snd ?r))"
          by (rule "1.IH" [OF memo False node(1,2) "1.prems"(1) reach])
        moreover have "visit nodes visiting st i =
            (1 + Max (set (fst ?r)), ((fst (snd ?r))(i \<mapsto> 1 + Max (set (fst ?r))), snd (snd ?r)))"
          using memo False node by (simp add: visit.simps [of nodes visiting st i] case_prod_unfold Let_def)
        ultimately show ?thesis
          using depthOk_node [of nodes i "fst ?r"] ne node(3) by (simp add: memoOk_def)
      qed
    qed
  qed
next
  case (3 nodes visiting st i "is")
  obtain d st' where v: "visit nodes visiting st i = (d, st')" by (cases "visit nodes visiting st i")
  have "depthOk nodes i d \<and> memoOk nodes (fst st')"
    using "3.IH"(1) [OF "3.prems"(1)] "3.prems"(2) v by auto
  moreover from this have "list_all2 (depthOk nodes) is (fst (visitAll nodes visiting st' is)) \<and>
      memoOk nodes (fst (snd (visitAll nodes visiting st' is)))"
    by (intro "3.IH"(2) [OF refl v [symmetric]] "3.prems"(2)) auto
  ultimately show ?case by (auto simp: v case_prod_unfold Let_def)
qed simp

text \<open>
  The depth the schema compares with its limit is within the limit exactly when no dependency
  chain of the Graph has more nodes than the limit; in particular a Graph with a cycle is
  never within it.
\<close>

lemma graphDepth_le_iff:
  "snd (graphDepth nodes) \<le> MAX_TASK_GRAPH_DEPTH \<longleftrightarrow>
     (\<forall>i xs. i \<in> nodeId ` set nodes \<longrightarrow> depChain nodes (i # xs) \<longrightarrow> length (i # xs) \<le> MAX_TASK_GRAPH_DEPTH)"
proof (cases "nodes = []")
  case False
  let ?ds = "fst (visitAll nodes {} (Map.empty, False) (map nodeId nodes))"
  have all: "list_all2 (depthOk nodes) (map nodeId nodes) ?ds"
    using visit_correct(2) [of nodes "(Map.empty, False)" "{}" "map nodeId nodes"] by (simp add: memoOk_def)
  then have len: "length ?ds = length nodes" by (metis length_map list_all2_lengthD)
  with False have ne: "?ds \<noteq> []" by auto
  have "snd (graphDepth nodes) \<le> MAX_TASK_GRAPH_DEPTH \<longleftrightarrow> (\<forall>d\<in>set ?ds. d \<le> MAX_TASK_GRAPH_DEPTH)"
    using False ne by (simp add: graphDepth_def)
  also have "\<dots> \<longleftrightarrow> (\<forall>i\<in>nodeId ` set nodes. \<exists>d\<le>MAX_TASK_GRAPH_DEPTH. longest nodes i d)"
    using list_all2_ball [OF all, of "\<lambda>d. d \<le> MAX_TASK_GRAPH_DEPTH"
        "\<lambda>i. \<exists>d\<le>MAX_TASK_GRAPH_DEPTH. longest nodes i d"]
    by (auto simp: depthOk_def)
  also have "\<dots> \<longleftrightarrow> (\<forall>i xs. i \<in> nodeId ` set nodes \<longrightarrow> depChain nodes (i # xs) \<longrightarrow>
      length (i # xs) \<le> MAX_TASK_GRAPH_DEPTH)"
    by (auto simp: longest_exists_iff)
  finally show ?thesis .
qed (simp add: graphDepth_def)

lemma no_cycle_within_depth:
  assumes "snd (graphDepth nodes) \<le> MAX_TASK_GRAPH_DEPTH" "i \<in> nodeId ` set nodes"
  shows "\<not> reaches nodes i i"
proof -
  obtain d where "longest nodes i d"
    using assms longest_bounded [of nodes i MAX_TASK_GRAPH_DEPTH] by (auto simp: graphDepth_le_iff)
  then show ?thesis using longest_no_cycle by blast
qed

section \<open>Lineages\<close>

text \<open>A set of nodes each of which inherits from another of the set.\<close>

definition inheritsWithin :: "task_node_spec list \<Rightarrow> string set \<Rightarrow> bool" where
  "inheritsWithin nodes C \<longleftrightarrow> (\<forall>i\<in>C. \<exists>n d ds. byId nodes i = Some n \<and>
     w_mode (n_workspace n) = inherit_predecessor \<and> dependsOn n = d # ds \<and> d \<in> C)"

lemma lineage_diverges:
  assumes C: "inheritsWithin nodes C" and i: "i \<in> C"
  shows "lineage nodes i = None"
proof (rule ccontr)
  assume "lineage nodes i \<noteq> None"
  then obtain r where ret: "lineage nodes i = Some r" by auto
  have "ns = nodes \<longrightarrow> j \<notin> C" if "lineage ns j = Some r" for ns j r
  proof (rule lineage.raw_induct [OF _ that, where P = "\<lambda>ns j r. ns = nodes \<longrightarrow> j \<notin> C"])
    fix f :: "task_node_spec list \<Rightarrow> string \<Rightarrow> string option option" and ns j and r :: "string option"
    assume IH: "\<And>ns j r. f ns j = Some r \<Longrightarrow> ns = nodes \<longrightarrow> j \<notin> C"
      and eq: "(case byId ns j of None \<Rightarrow> Some None
        | Some node \<Rightarrow> (case w_mode (n_workspace node) of origin_read_only \<Rightarrow> Some None
           | managed_worktree \<Rightarrow> Some (Some (nodeId node))
           | inherit_predecessor \<Rightarrow> (case dependsOn node of [] \<Rightarrow> Some None | d # _ \<Rightarrow> f ns d))) = Some r"
    show "ns = nodes \<longrightarrow> j \<notin> C"
    proof (intro impI notI)
      assume "ns = nodes" "j \<in> C"
      with C eq obtain d where "f nodes d = Some r" "d \<in> C"
        unfolding inheritsWithin_def by fastforce
      with IH show False by blast
    qed
  qed
  with ret i show False by blast
qed

lemma lineage_terminates:
  "(\<And>xs. depChain nodes (i # xs) \<Longrightarrow> Suc (length xs) \<le> B) \<Longrightarrow> \<exists>l. lineage nodes i = Some l"
proof (induction B arbitrary: i)
  case 0
  then show ?case using "0" [of "[]"] by simp
next
  case (Suc B)
  have "\<exists>l. lineage nodes d = Some l" if "d \<in> set (deps nodes i)" for d
  proof (rule Suc.IH)
    fix xs assume "depChain nodes (d # xs)"
    with that have "depChain nodes (i # d # xs)" by simp
    with Suc.prems [of "d # xs"] show "Suc (length xs) \<le> B" by simp
  qed
  then show ?case
    by (subst lineage.simps) (auto simp: deps_def split: option.splits workspace_mode.splits list.splits)
qed

lemma lineage_within_depth:
  assumes "snd (graphDepth nodes) \<le> MAX_TASK_GRAPH_DEPTH"
  shows "\<exists>l. lineage nodes i = Some l"
proof (cases "i \<in> nodeId ` set nodes")
  case True
  with assms show ?thesis
    by (intro lineage_terminates [where B = MAX_TASK_GRAPH_DEPTH]) (auto simp: graphDepth_le_iff)
next
  case False
  then have "byId nodes i = None" by (cases "byId nodes i") (auto dest: byId_Some)
  then show ?thesis by (subst lineage.simps) simp
qed

section \<open>What the schema accepts\<close>

definition nodeWithinGraph :: "task_graph_budget \<Rightarrow> task_node_spec \<Rightarrow> bool" where
  "nodeWithinGraph gb n \<longleftrightarrow> int (r_maxAttempts (n_retry n)) \<le> maxAttempts (n_budget n) \<and>
     (\<forall>f a b. budgetAt (n_budget n) f = Some a \<longrightarrow> budgetAt gb f = Some b \<longrightarrow> a \<le> b)"

definition nodeModeOk :: "task_node_spec \<Rightarrow> bool" where
  "nodeModeOk n \<longleftrightarrow>
     (w_mode (n_workspace n) = inherit_predecessor \<longrightarrow> length (dependsOn n) = 1) \<and>
     (w_mode (n_workspace n) = origin_read_only \<longleftrightarrow> n_kind n = AgentNode plan_mode read_only_profile)"

definition nodeLineageOk :: "task_node_spec list \<Rightarrow> task_node_spec \<Rightarrow> bool" where
  "nodeLineageOk nodes n \<longleftrightarrow>
     (\<forall>d\<in>set (dependsOn n). lineage nodes d \<noteq> None) \<and>
     (w_mode (n_workspace n) = inherit_predecessor \<longrightarrow> (\<exists>l. lineage nodes (nodeId n) = Some (Some l))) \<and>
     (w_mode (n_workspace n) \<noteq> origin_read_only \<longrightarrow>
        (\<forall>d\<in>set (dependsOn n). \<forall>e\<in>set (dependsOn n). \<forall>l m.
           lineage nodes d = Some (Some l) \<longrightarrow> lineage nodes e = Some (Some m) \<longrightarrow> l = m))"

lemma uniquenessIssues_Nil:
  "uniquenessIssues ids sequences nodes = [] \<longleftrightarrow>
     distinct (map nodeId nodes) \<and> distinct (map sequence nodes) \<and>
     set ids \<inter> nodeId ` set nodes = {} \<and> set sequences \<inter> sequence ` set nodes = {}"
  by (induction ids sequences nodes rule: uniquenessIssues.induct) auto

lemma dependencyIssues_Nil:
  "dependencyIssues ids n = [] \<longleftrightarrow> (\<forall>d\<in>set (dependsOn n). d \<noteq> nodeId n \<and> d \<in> ids)"
  by (auto simp: dependencyIssues_def split: if_splits)

lemma workspaceIssues_Nil: "taskNodeKindOk (n_kind n) \<Longrightarrow> workspaceIssues n = [] \<longleftrightarrow> nodeModeOk n"
  by (cases "n_kind n" rule: taskNodeKindOk.cases)
     (auto simp: workspaceIssues_def nodeModeOk_def split: task_node_kind.splits)

lemma budgetFields_all: "f \<in> set budgetFields"
  by (cases f) (auto simp: budgetFields_def)

lemma budgetAt_None: "budgetAt b f = None \<Longrightarrow> f = FReportedTokens"
  by (cases f) auto

lemma budgetIssues_Nil: "budgetIssues gb n = [] \<longleftrightarrow> nodeWithinGraph gb n"
proof -
  have "(case (budgetAt (n_budget n) f, budgetAt gb f) of
          (Some nodeLimit, Some graphLimit) \<Rightarrow> if nodeLimit > graphLimit then [NodeCeilingExceedsGraph f] else []
        | (Some nodeLimit, None) \<Rightarrow> if f \<noteq> FReportedTokens then [InvalidNullableGraphCeiling f] else []
        | _ \<Rightarrow> []) = [] \<longleftrightarrow>
      (\<forall>a b. budgetAt (n_budget n) f = Some a \<longrightarrow> budgetAt gb f = Some b \<longrightarrow> a \<le> b)" for f
    by (auto split: option.splits dest: budgetAt_None)
  then show ?thesis
    using budgetFields_all by (auto simp: budgetIssues_def nodeWithinGraph_def)
qed

lemma topologyIssues_Nil:
  "topologyIssues nodes = [] \<longleftrightarrow>
     sum_list (map (\<lambda>n. length (dependsOn n)) nodes) \<le> MAX_TASK_GRAPH_EDGES \<and>
     snd (graphDepth nodes) \<le> MAX_TASK_GRAPH_DEPTH"
  by (auto simp: topologyIssues_def graphDepth_def Let_def)

lemma osequence_Some: "osequence ms = Some xs \<longleftrightarrow> ms = map Some xs"
  by (induction ms arbitrary: xs) (auto simp: bind_eq_Some_conv map_eq_Cons_conv)

lemma osequence_map_ex: "(\<exists>xs. osequence (map f is) = Some xs) \<longleftrightarrow> (\<forall>i\<in>set is. f i \<noteq> None)"
  by (induction "is") (auto simp: bind_eq_Some_conv)

lemma lineageIssues_Nil: "lineageIssues nodes n = Some [] \<longleftrightarrow> nodeLineageOk nodes n"
proof (cases "\<forall>d\<in>set (dependsOn n). lineage nodes d \<noteq> None")
  case True
  then obtain ls where ls: "osequence (map (lineage nodes) (dependsOn n)) = Some ls"
    using osequence_map_ex by blast
  then have eq: "map (lineage nodes) (dependsOn n) = map Some ls" by (simp add: osequence_Some)
  have mem: "l \<in> set (List.map_filter id ls) \<longleftrightarrow> (\<exists>d\<in>set (dependsOn n). lineage nodes d = Some (Some l))" for l
  proof -
    have "l \<in> set (List.map_filter id ls) \<longleftrightarrow> Some (Some l) \<in> set (map Some ls)"
      by (induction ls) (auto simp: map_filter_simps split: option.splits)
    then show ?thesis unfolding eq [symmetric] by (auto simp: image_iff) metis
  qed
  have "card (set (List.map_filter id ls)) \<le> 1 \<longleftrightarrow>
      (\<forall>l\<in>set (List.map_filter id ls). \<forall>m\<in>set (List.map_filter id ls). l = m)"
    by (metis List.finite_set card_le_Suc0_iff_eq One_nat_def)
  then have one: "card (set (List.map_filter id ls)) \<le> 1 \<longleftrightarrow>
      (\<forall>d\<in>set (dependsOn n). \<forall>e\<in>set (dependsOn n). \<forall>l m.
           lineage nodes d = Some (Some l) \<longrightarrow> lineage nodes e = Some (Some m) \<longrightarrow> l = m)"
    by (simp add: Ball_def mem Bex_def) metis
  have "lineageIssues nodes n = Some [] \<longleftrightarrow>
      (w_mode (n_workspace n) = inherit_predecessor \<longrightarrow> (\<exists>l. lineage nodes (nodeId n) = Some (Some l))) \<and>
      (w_mode (n_workspace n) \<noteq> origin_read_only \<longrightarrow> card (set (List.map_filter id ls)) \<le> 1)"
    by (cases "lineage nodes (nodeId n)")
       (auto simp: lineageIssues_def ls Let_def not_less split: if_splits)
  then show ?thesis unfolding one nodeLineageOk_def using True by blast
next
  case False
  then have "osequence (map (lineage nodes) (dependsOn n)) = None"
    using osequence_map_ex [of "lineage nodes" "dependsOn n"]
    by (cases "osequence (map (lineage nodes) (dependsOn n))") auto
  with False show ?thesis by (auto simp: lineageIssues_def nodeLineageOk_def)
qed

lemma concat_map_Nil: "concat (map f xs) = [] \<longleftrightarrow> (\<forall>x\<in>set xs. f x = [])"
  by auto

lemma taskGraphSchema_accepts_iff:
  "taskGraphRevisionContentSchema p g = Some [] \<longleftrightarrow>
     taskGraphFieldsOk p g \<and>
     distinct (map nodeId (gc_nodes g)) \<and> distinct (map sequence (gc_nodes g)) \<and>
     (\<forall>n\<in>set (gc_nodes g). (\<forall>d\<in>set (dependsOn n). d \<noteq> nodeId n \<and> d \<in> nodeId ` set (gc_nodes g)) \<and>
        nodeModeOk n \<and> nodeWithinGraph (graphBudget g) n \<and> nodeLineageOk (gc_nodes g) n) \<and>
     sum_list (map (\<lambda>n. length (dependsOn n)) (gc_nodes g)) \<le> MAX_TASK_GRAPH_EDGES \<and>
     snd (graphDepth (gc_nodes g)) \<le> MAX_TASK_GRAPH_DEPTH \<and>
     graphBytes g \<le> MAX_TASK_GRAPH_BYTES"
proof (cases "taskGraphFieldsOk p g")
  case True
  have kinds: "taskNodeKindOk (n_kind n)" if "n \<in> set (gc_nodes g)" for n
    using True that by (auto simp: taskGraphFieldsOk_def taskNodeSpecSchema_def list_all_iff)
  have lin: "(\<exists>ls. osequence (map (lineageIssues (gc_nodes g)) (gc_nodes g)) = Some ls \<and> concat ls = []) \<longleftrightarrow>
      (\<forall>n\<in>set (gc_nodes g). lineageIssues (gc_nodes g) n = Some [])"
  proof
    assume "\<forall>n\<in>set (gc_nodes g). lineageIssues (gc_nodes g) n = Some []"
    then have "map (lineageIssues (gc_nodes g)) (gc_nodes g) = map Some (map (\<lambda>_. []) (gc_nodes g))" by simp
    then show "\<exists>ls. osequence (map (lineageIssues (gc_nodes g)) (gc_nodes g)) = Some ls \<and> concat ls = []"
      by (intro exI [of _ "map (\<lambda>_. []) (gc_nodes g)"]) (simp only: osequence_Some, simp)
  next
    assume "\<exists>ls. osequence (map (lineageIssues (gc_nodes g)) (gc_nodes g)) = Some ls \<and> concat ls = []"
    then obtain ls where "map (lineageIssues (gc_nodes g)) (gc_nodes g) = map Some ls" "\<forall>l\<in>set ls. l = []"
      by (auto simp: osequence_Some)
    then have "set (map (lineageIssues (gc_nodes g)) (gc_nodes g)) \<subseteq> {Some []}" by auto
    then show "\<forall>n\<in>set (gc_nodes g). lineageIssues (gc_nodes g) n = Some []" by auto
  qed
  have ws: "(\<forall>n\<in>set (gc_nodes g). workspaceIssues n = []) \<longleftrightarrow> (\<forall>n\<in>set (gc_nodes g). nodeModeOk n)"
    using kinds by (simp add: workspaceIssues_Nil)
  have "taskGraphRefinement g = Some [] \<longleftrightarrow>
      uniquenessIssues [] [] (gc_nodes g) = [] \<and>
      (\<forall>n\<in>set (gc_nodes g). dependencyIssues (nodeId ` set (gc_nodes g)) n = []) \<and>
      (\<forall>n\<in>set (gc_nodes g). workspaceIssues n = []) \<and>
      (\<forall>n\<in>set (gc_nodes g). budgetIssues (graphBudget g) n = []) \<and>
      topologyIssues (gc_nodes g) = [] \<and>
      (\<exists>ls. osequence (map (lineageIssues (gc_nodes g)) (gc_nodes g)) = Some ls \<and> concat ls = []) \<and>
      graphBytes g \<le> MAX_TASK_GRAPH_BYTES"
    unfolding taskGraphRefinement_def Let_def bind_eq_Some_conv by (auto simp: concat_map_Nil)
  then show ?thesis
    unfolding lin ws taskGraphRevisionContentSchema_def
    using True by (auto simp: uniquenessIssues_Nil dependencyIssues_Nil budgetIssues_Nil topologyIssues_Nil
        lineageIssues_Nil)
qed (simp add: taskGraphRevisionContentSchema_def)

end
