(* ===== verification/DemoGraph.thy ===== *)
theory DemoGraph
  imports TaskGraphTopology DemoSession
begin

text \<open>
  Concrete Task Graphs: one that the schema accepts (a read-only agent node and a managed node
  that depends on it), a two-node cycle, and a two-node cycle of inheriting nodes.
\<close>

definition demoBudget :: task_graph_budget where
  "demoBudget = \<lparr>maxAttempts = 3, maxDurationMs = 1000, maxModelSteps = 10, maxCommandExecutions = 10,
     maxCommandOutputBytes = 1000, maxChangedFiles = 10, maxChangedBytes = 1000, maxArtifactBytes = 1000,
     maxReportedTokens = None\<rparr>"

definition demoNode :: "string \<Rightarrow> nat \<Rightarrow> string list \<Rightarrow> workspace_mode \<Rightarrow> task_node_spec" where
  "demoNode i n ds m = \<lparr>nodeId = i, sequence = n, n_title = js ''t'', n_objective = js ''o'', planItemIds = [''i''],
     dependsOn = ds, n_workspace = \<lparr>w_mode = m, declaredPathPrefixes = []\<rparr>, requiredCapabilities = [],
     n_budget = demoBudget, n_retry = \<lparr>r_maxAttempts = 1, automaticOn = []\<rparr>,
     n_kind = (if m = origin_read_only then AgentNode plan_mode read_only_profile
               else AgentNode build_mode coding_profile)\<rparr>"

definition demoBinding :: task_graph_binding where
  "demoBinding = \<lparr>b_sessionId = ''s'', b_goalId = ''g'', b_goalRevision = 1, b_planId = ''p'', b_planRevision = 1,
     b_planSha256 = replicate 64 CHR ''a''\<rparr>"

definition graphOf :: "task_node_spec list \<Rightarrow> task_graph_content" where
  "graphOf ns = \<lparr>graphId = ''u'', gc_binding = demoBinding, gc_title = js ''t'', gc_nodes = ns, graphBudget = demoBudget\<rparr>"

definition demoGraph :: task_graph_content where
  "demoGraph = graphOf [demoNode ''a'' 1 [] origin_read_only, demoNode ''b'' 2 [''a''] managed_worktree]"

definition demoGraphReordered :: task_graph_content where
  "demoGraphReordered = demoGraph\<lparr>gc_nodes := rev (gc_nodes demoGraph)\<rparr>"

definition cyclicGraph :: task_graph_content where
  "cyclicGraph = graphOf [demoNode ''a'' 1 [''b''] managed_worktree, demoNode ''b'' 2 [''a''] managed_worktree]"

definition inheritCycle :: task_graph_content where
  "inheritCycle = graphOf [demoNode ''a'' 1 [''b''] inherit_predecessor, demoNode ''b'' 2 [''a''] inherit_predecessor]"

section \<open>Field checks\<close>

lemma demo_text: "textOk n [116]" "textOk n [111]" if "1 \<le> n" for n
  using that by (simp_all add: textOk_def text_eval)

lemma demo_planItemId: "planItemIdOk ''i''" "nodeIdOk ''a''" "nodeIdOk ''b''"
  by (simp_all add: planItemIdOk_def nodeIdOk_def char_class_defs)

lemma demoNode_ok:
  assumes "i \<in> {''a'', ''b''}" "1 \<le> n" "n \<le> 32" "set ds \<subseteq> {''a'', ''b''}" "length ds \<le> 1"
  shows "taskNodeSpecSchema demoPlatform (demoNode i n ds m)"
  using assms demo_planItemId
  by (auto simp: taskNodeSpecSchema_def demoNode_def demo_text noDuplicates_def taskNodeWorkspaceRequestSchema_def
      qualifiedCapabilities_def taskGraphBudgetSchema_def demoBudget_def taskNodeRetrySchema_def
      MAX_TASK_GRAPH_NODES_def MAX_TASK_GRAPH_ATTEMPTS_PER_NODE_def list_all_iff card_insert_if length_Suc_conv
      le_Suc_eq split: list.splits)

lemma graphOf_fields_ok:
  assumes "ns \<noteq> []" "length ns \<le> 32" "list_all (taskNodeSpecSchema demoPlatform) ns"
  shows "taskGraphFieldsOk demoPlatform (graphOf ns)"
  using assms
  by (simp add: taskGraphFieldsOk_def graphOf_def demo_text taskGraphBindingSchema_def demoBinding_def
      positiveSafeInteger_def sha256Ok_def char_class_defs list_all_iff taskGraphBudgetSchema_def demoBudget_def
      MAX_TASK_GRAPH_NODES_def MAX_TASK_GRAPH_ATTEMPTS_PER_NODE_def Suc_le_eq) (simp add: demoPlatform_def)

lemma length_js [simp]: "length (js s) = length s"
  by (simp add: js_def)

lemma demoGraph_bytes: "graphBytes demoGraph \<le> MAX_TASK_GRAPH_BYTES"
proof -
  have "3 * jsonBound (graphJson demoGraph) \<le> MAX_TASK_GRAPH_BYTES"
    by (simp add: demoGraph_def graphOf_def graphJson_def bindingJson_def nodeJson_def budgetJson_def
        demoBinding_def demoNode_def demoBudget_def MAX_TASK_GRAPH_BYTES_def showInt_def showNat.simps
        del: js_Cons js_Nil)
  then show ?thesis
    using canonicalJson_byteLength [of "graphJson demoGraph"] by (auto simp: graphBytes_def split: sum.splits)
qed

section \<open>The accepted Graph and the cycles\<close>

lemmas graph_eval = graphOf_def demoNode_def

lemma demoGraph_nodes:
  "gc_nodes demoGraph = [demoNode ''a'' 1 [] origin_read_only, demoNode ''b'' 2 [''a''] managed_worktree]"
  by (simp add: demoGraph_def graphOf_def)

lemma demoGraph_depth: "snd (graphDepth (gc_nodes demoGraph)) \<le> MAX_TASK_GRAPH_DEPTH"
  unfolding demoGraph_nodes
  by (simp add: graphDepth_def visit.simps byId_def demoNode_def MAX_TASK_GRAPH_DEPTH_def)

lemma demoGraph_lineage:
  "lineage (gc_nodes demoGraph) ''a'' = Some None" "lineage (gc_nodes demoGraph) ''b'' = Some (Some ''b'')"
  unfolding demoGraph_nodes
  by (simp_all add: lineage.simps [of _ "''a''"] lineage.simps [of _ "''b''"] byId_def demoNode_def)

lemma demoGraph_fields: "taskGraphFieldsOk demoPlatform demoGraph"
  unfolding demoGraph_def by (rule graphOf_fields_ok) (simp_all add: demoNode_ok)

lemma demoGraph_accepted: "taskGraphRevisionContentSchema demoPlatform demoGraph = Some []"
  unfolding taskGraphSchema_accepts_iff
  using demoGraph_fields demoGraph_depth demoGraph_bytes demoGraph_lineage
  by (simp add: demoGraph_nodes nodeModeOk_def nodeWithinGraph_def nodeLineageOk_def MAX_TASK_GRAPH_EDGES_def)
    (simp add: demoNode_def demoGraph_def graphOf_def demoBudget_def)

lemma inheritCycle_fields: "taskGraphFieldsOk demoPlatform inheritCycle"
  unfolding inheritCycle_def by (rule graphOf_fields_ok) (simp_all add: demoNode_ok)

lemma inheritCycle_within: "inheritsWithin (gc_nodes inheritCycle) {''a'', ''b''}"
  by (simp add: inheritsWithin_def inheritCycle_def graphOf_def byId_def demoNode_def)

lemma cyclicGraph_fields: "taskGraphFieldsOk demoPlatform cyclicGraph"
  unfolding cyclicGraph_def by (rule graphOf_fields_ok) (simp_all add: demoNode_ok)

lemma cyclicGraph_reaches: "reaches (gc_nodes cyclicGraph) ''a'' ''a''"
  unfolding reaches_def by (rule exI [of _ "[''b'']"])
    (simp add: deps_def cyclicGraph_def graphOf_def byId_def demoNode_def)

lemma cyclicGraph_lineage:
  "lineage (gc_nodes cyclicGraph) ''a'' = Some (Some ''a'')" "lineage (gc_nodes cyclicGraph) ''b'' = Some (Some ''b'')"
  by (simp_all add: lineage.simps [of _ "''a''"] lineage.simps [of _ "''b''"] byId_def demoNode_def cyclicGraph_def graphOf_def)

section \<open>The same Graph with its nodes in another order\<close>

lemma demoGraph_bytes': "graphBytes demoGraphReordered \<le> MAX_TASK_GRAPH_BYTES"
proof -
  have "3 * jsonBound (graphJson demoGraphReordered) \<le> MAX_TASK_GRAPH_BYTES"
    by (simp add: demoGraphReordered_def demoGraph_def graphOf_def graphJson_def bindingJson_def nodeJson_def
        budgetJson_def demoBinding_def demoNode_def demoBudget_def MAX_TASK_GRAPH_BYTES_def showInt_def showNat.simps
        del: js_Cons js_Nil)
  then show ?thesis
    using canonicalJson_byteLength [of "graphJson demoGraphReordered"] by (auto simp: graphBytes_def split: sum.splits)
qed

lemma demoGraphReordered_nodes:
  "gc_nodes demoGraphReordered = [demoNode ''b'' 2 [''a''] managed_worktree, demoNode ''a'' 1 [] origin_read_only]"
  by (simp add: demoGraphReordered_def demoGraph_nodes)

lemma demoGraphReordered_accepted: "taskGraphRevisionContentSchema demoPlatform demoGraphReordered = Some []"
proof -
  have "taskGraphFieldsOk demoPlatform demoGraphReordered"
    unfolding demoGraphReordered_def demoGraph_def
    using graphOf_fields_ok [of "[demoNode ''b'' 2 [''a''] managed_worktree, demoNode ''a'' 1 [] origin_read_only]"]
    by (simp add: demoNode_ok graphOf_def)
  moreover have "snd (graphDepth (gc_nodes demoGraphReordered)) \<le> MAX_TASK_GRAPH_DEPTH"
    unfolding demoGraphReordered_nodes
    by (simp add: graphDepth_def visit.simps byId_def demoNode_def MAX_TASK_GRAPH_DEPTH_def)
  moreover have "lineage (gc_nodes demoGraphReordered) ''a'' = Some None"
    "lineage (gc_nodes demoGraphReordered) ''b'' = Some (Some ''b'')"
    unfolding demoGraphReordered_nodes
    by (simp_all add: lineage.simps [of _ "''a''"] lineage.simps [of _ "''b''"] byId_def demoNode_def)
  ultimately show ?thesis
    unfolding taskGraphSchema_accepts_iff using demoGraph_bytes'
    by (simp add: demoGraphReordered_nodes nodeModeOk_def nodeWithinGraph_def nodeLineageOk_def MAX_TASK_GRAPH_EDGES_def)
      (simp add: demoNode_def demoGraphReordered_def demoGraph_def graphOf_def demoBudget_def)
qed

section \<open>Identities\<close>

lemma nodeJson_total: "\<exists>s. canonicalJson (nodeJson n) = Inr s"
proof -
  have arr: "\<exists>s. canonicalJson (JArray (map f xs)) = Inr s" if "\<And>x. \<exists>s. canonicalJson (f x) = Inr s" for f :: "'a \<Rightarrow> json" and xs
    by (rule canonicalJson_array_total) (use that in auto)
  have budget: "\<exists>s. canonicalJson (budgetJson b) = Inr s" for b
    unfolding budgetJson_def by (rule canonicalJson_object_total) (auto split: option.splits)
  have kind: "\<forall>f\<in>set (kindFields k). \<exists>s. canonicalJson (snd f) = Inr s" for k
    by (cases k) (auto intro!: canonicalJson_object_total arr simp del: canonicalJson.simps(7))
  show ?thesis
    unfolding nodeJson_def
    by (rule canonicalJson_object_total)
      (use kind budget in \<open>auto intro!: canonicalJson_object_total arr simp del: canonicalJson.simps(7)\<close>)
qed

lemma graphJson_total: "\<exists>s. canonicalJson (graphJson g) = Inr s"
proof -
  have "\<exists>s. canonicalJson (JArray (map nodeJson (gc_nodes g))) = Inr s"
    by (rule canonicalJson_array_total) (auto intro: nodeJson_total)
  moreover have "\<exists>s. canonicalJson (bindingJson b) = Inr s" for b
    unfolding bindingJson_def by (rule canonicalJson_object_total) auto
  moreover have "\<exists>s. canonicalJson (budgetJson b) = Inr s" for b
    unfolding budgetJson_def by (rule canonicalJson_object_total) (auto split: option.splits)
  ultimately show ?thesis
    unfolding graphJson_def by (intro canonicalJson_object_total) (auto simp del: canonicalJson.simps(7))
qed

lemma demo_identities:
  "\<exists>a. canonicalTaskGraphIdentity demoPlatform demoGraph = Inr a"
  "\<exists>b. canonicalTaskGraphIdentity demoPlatform demoGraphReordered = Inr b"
proof -
  have norm: "map (normalizeNode demoPlatform) ns = ns" for ns
    by (simp add: map_idI normalizeNode_def demoPlatform_def)
  have sorted: "sort_key sequence (gc_nodes demoGraph) = gc_nodes demoGraph"
    "sort_key sequence (gc_nodes demoGraphReordered) = gc_nodes demoGraph"
    unfolding demoGraph_nodes demoGraphReordered_nodes by (simp_all add: demoNode_def)
  have same: "demoGraphReordered\<lparr>gc_nodes := gc_nodes demoGraph\<rparr> = demoGraph" "demoGraph\<lparr>gc_nodes := gc_nodes demoGraph\<rparr> = demoGraph"
    by (simp_all add: demoGraphReordered_def)
  obtain s where "canonicalJson (graphJson demoGraph) = Inr s" using graphJson_total by blast
  then show "\<exists>a. canonicalTaskGraphIdentity demoPlatform demoGraph = Inr a"
    "\<exists>b. canonicalTaskGraphIdentity demoPlatform demoGraphReordered = Inr b"
    using demoGraph_accepted demoGraphReordered_accepted
    by (simp_all add: canonicalTaskGraphIdentity_def normalizeTaskGraphRevision_def parseGraph_def norm sorted same)
qed

end
