(* ===== verification/ContentProperties.thy ===== *)
theory ContentProperties
  imports DemoGraph TaskStateInvariants
begin

text \<open>
  What the content-level components guarantee: Task Graph revisions, canonical JSON, capability
  ids, stored text, the event log and Plan evidence.
\<close>

section \<open>Task Graph revisions\<close>

text \<open>
  C6: The Task Graph schema accepts exactly the Graphs whose fields are well formed, whose node
  ids and sequences are unique, whose dependencies exist and are not reflexive, whose nodes
  respect the workspace modes, budgets and worktree lineages, that have at most 128 edges, no
  dependency chain of more than 16 nodes, and a canonical form of at most 256 KiB.
\<close>

theorem graph_accepted_iff:
  "taskGraphRevisionContentSchema p g = Some [] \<longleftrightarrow>
     taskGraphFieldsOk p g \<and>
     distinct (map nodeId (gc_nodes g)) \<and> distinct (map sequence (gc_nodes g)) \<and>
     (\<forall>n\<in>set (gc_nodes g). (\<forall>d\<in>set (dependsOn n). d \<noteq> nodeId n \<and> d \<in> nodeId ` set (gc_nodes g)) \<and>
        nodeModeOk n \<and> nodeWithinGraph (graphBudget g) n \<and> nodeLineageOk (gc_nodes g) n) \<and>
     sum_list (map (\<lambda>n. length (dependsOn n)) (gc_nodes g)) \<le> 128 \<and>
     (\<forall>i xs. i \<in> nodeId ` set (gc_nodes g) \<longrightarrow> depChain (gc_nodes g) (i # xs) \<longrightarrow> length (i # xs) \<le> 16) \<and>
     graphBytes g \<le> 256 * 1024"
  unfolding taskGraphSchema_accepts_iff graphDepth_le_iff
  by (simp only: MAX_TASK_GRAPH_EDGES_def MAX_TASK_GRAPH_DEPTH_def MAX_TASK_GRAPH_BYTES_def)

theorem graph_accepted_iff_witness:
  "graphBytes demoGraph \<le> 256 * 1024 \<and> distinct (map sequence (gc_nodes demoGraph))"
  using demoGraph_accepted graph_accepted_iff [of demoPlatform demoGraph] by simp

text \<open>
  C33: An accepted Graph has no dependency cycle, and the recursion that computes the worktree
  lineage of its nodes ends for every node.
\<close>

theorem accepted_graph_acyclic:
  assumes "taskGraphRevisionContentSchema p g = Some []" "i \<in> nodeId ` set (gc_nodes g)"
  shows "\<not> reaches (gc_nodes g) i i \<and> (\<exists>l. lineage (gc_nodes g) i = Some l)"
  using assms no_cycle_within_depth lineage_within_depth by (auto simp: taskGraphSchema_accepts_iff)

theorem accepted_graph_acyclic_witness:
  "\<not> reaches (gc_nodes demoGraph) ''b'' ''b'' \<and> (\<exists>l. lineage (gc_nodes demoGraph) ''b'' = Some l)"
  by (rule accepted_graph_acyclic [OF demoGraph_accepted]) (simp add: demoGraph_nodes demoNode_def)

text \<open>
  C34: A cyclic Graph is never reported as cyclic: the schema check, when it returns, reports the
  depth bound instead, which is classified as exceeded bounds, and the dependency-cycle issue
  never occurs.
\<close>

lemma taskGraphRefinement_Some:
  assumes "taskGraphRefinement g = Some issues"
  shows "set (topologyIssues (gc_nodes g)) \<subseteq> set issues"
    "DependencyCycle \<in> set issues \<Longrightarrow> DependencyCycle \<in> set (topologyIssues (gc_nodes g))"
proof -
  obtain ls where ls: "osequence (map (lineageIssues (gc_nodes g)) (gc_nodes g)) = Some ls"
    and issues: "issues = uniquenessIssues [] [] (gc_nodes g) @
              concat (map (\<lambda>node. dependencyIssues (nodeId ` set (gc_nodes g)) node @ workspaceIssues node @
                budgetIssues (graphBudget g) node) (gc_nodes g)) @
              topologyIssues (gc_nodes g) @ concat ls @
              (if graphBytes g > MAX_TASK_GRAPH_BYTES then [CanonicalTooLarge] else [])"
    using assms by (auto simp: taskGraphRefinement_def Let_def bind_eq_Some_conv)
  show "set (topologyIssues (gc_nodes g)) \<subseteq> set issues" using issues by auto
  have u: "DependencyCycle \<notin> set (uniquenessIssues ids seqs ns)" for ids seqs ns
    by (induction ids seqs ns rule: uniquenessIssues.induct) auto
  have d: "DependencyCycle \<notin> set (dependencyIssues ids n)" for ids n
    by (auto simp: dependencyIssues_def)
  have w: "DependencyCycle \<notin> set (workspaceIssues n)" for n
    by (auto simp: workspaceIssues_def split: task_node_kind.splits)
  have b: "DependencyCycle \<notin> set (budgetIssues gb n)" for gb n
    by (auto simp: budgetIssues_def split: option.splits)
  have "map (lineageIssues (gc_nodes g)) (gc_nodes g) = map Some ls" using ls by (simp add: osequence_Some)
  moreover have "DependencyCycle \<notin> set l" if "lineageIssues ns n = Some l" for ns n l
    using that by (auto simp: lineageIssues_def Let_def bind_eq_Some_conv split: if_splits)
  ultimately have l: "DependencyCycle \<notin> set l" if "l \<in> set ls" for l
    using that by (metis (no_types, lifting) in_set_conv_nth length_map nth_map)
  assume "DependencyCycle \<in> set issues"
  with issues u d w b l show "DependencyCycle \<in> set (topologyIssues (gc_nodes g))"
    by (auto split: if_splits)
qed

theorem cycle_reported_as_depth:
  assumes "taskGraphRevisionContentSchema p g = Some issues" "taskGraphFieldsOk p g"
    and "i \<in> nodeId ` set (gc_nodes g)" "reaches (gc_nodes g) i i"
  shows "DepthExceeded \<in> set issues \<and> DependencyCycle \<notin> set issues \<and>
    classifyTaskGraphSchemaError (issueMessage DepthExceeded) = task_graph_bounds_exceeded"
proof -
  have ref: "taskGraphRefinement g = Some issues" using assms(1,2) by (simp add: taskGraphRevisionContentSchema_def)
  have "\<not> snd (graphDepth (gc_nodes g)) \<le> MAX_TASK_GRAPH_DEPTH"
    using no_cycle_within_depth [OF _ assms(3)] assms(4) by blast
  then have "DepthExceeded \<in> set (topologyIssues (gc_nodes g))"
    by (auto simp: topologyIssues_def graphDepth_def Let_def)
  moreover have "DependencyCycle \<notin> set (topologyIssues (gc_nodes g))"
    by (auto simp: topologyIssues_def graphDepth_def Let_def)
  ultimately show ?thesis
    using taskGraphRefinement_Some [OF ref] by (auto simp: classifyTaskGraphSchemaError_def)
qed

theorem cycle_reported_as_depth_witness:
  "\<exists>issues. taskGraphRevisionContentSchema demoPlatform cyclicGraph = Some issues \<and> DepthExceeded \<in> set issues \<and>
     DependencyCycle \<notin> set issues"
proof -
  have nodes: "gc_nodes cyclicGraph = [demoNode ''a'' 1 [''b''] managed_worktree, demoNode ''b'' 2 [''a''] managed_worktree]"
    by (simp add: cyclicGraph_def graphOf_def)
  have "\<exists>issues. taskGraphRevisionContentSchema demoPlatform cyclicGraph = Some issues"
    using cyclicGraph_fields cyclicGraph_lineage
    by (simp add: taskGraphRevisionContentSchema_def taskGraphRefinement_def Let_def lineageIssues_def nodes)
      (simp add: demoNode_def)
  then obtain issues where "taskGraphRevisionContentSchema demoPlatform cyclicGraph = Some issues" by blast
  with cycle_reported_as_depth [OF this cyclicGraph_fields _ cyclicGraph_reaches] show ?thesis
    by (auto simp: nodes demoNode_def)
qed

text \<open>
  C35: The schema check does not return for Graphs in which inheriting nodes depend on each
  other in a cycle: the lineage recursion has no cycle guard and the stack overflows, so parsing
  fails with an error that is not a schema error.
\<close>

theorem inherit_cycle_overflows:
  assumes "taskGraphFieldsOk p g" "inheritsWithin (gc_nodes g) C" "C \<noteq> {}"
  shows "parseGraph p g = Inl StackOverflow"
proof -
  from assms(3) obtain i where i: "i \<in> C" by blast
  with assms(2) obtain n where n: "byId (gc_nodes g) i = Some n" "w_mode (n_workspace n) = inherit_predecessor"
    by (auto simp: inheritsWithin_def)
  then have mem: "n \<in> set (gc_nodes g)" "nodeId n = i" using byId_Some by auto
  have "lineage (gc_nodes g) i = None" by (rule lineage_diverges [OF assms(2) i])
  then have "lineageIssues (gc_nodes g) n = None"
    using n(2) mem(2) by (simp add: lineageIssues_def Let_def Option.bind_eq_None_conv)
  then have "osequence (map (lineageIssues (gc_nodes g)) (gc_nodes g)) = None"
    using mem(1) osequence_map_ex [of "lineageIssues (gc_nodes g)" "gc_nodes g"]
    by (metis not_None_eq)
  then show ?thesis
    using assms(1) by (simp add: parseGraph_def taskGraphRevisionContentSchema_def taskGraphRefinement_def)
qed

theorem inherit_cycle_overflows_witness: "parseGraph demoPlatform inheritCycle = Inl StackOverflow"
  by (rule inherit_cycle_overflows [OF inheritCycle_fields inheritCycle_within]) simp

text \<open>
  C36: The identity of a Task Graph revision does not depend on the order in which its nodes are
  listed: two accepted Graphs that differ only in that order have the same normalised content,
  bytes and hash.
\<close>

lemma canonicalTaskGraphIdentity_Inr:
  assumes "canonicalTaskGraphIdentity p g = Inr ident"
  shows "taskGraphRevisionContentSchema p g = Some []"
    "gi_content ident = g\<lparr>gc_nodes := sort_key sequence (map (normalizeNode p) (gc_nodes g))\<rparr>"
    "canonicalJson (graphJson (gi_content ident)) = Inr (gi_bytes ident)"
    "gi_byteLength ident = byteLength (gi_bytes ident)" "gi_graphSha256 ident = sha256 p (gi_bytes ident)"
proof -
  obtain content where c: "normalizeTaskGraphRevision p g = Inr content"
    and i: "(case canonicalJson (graphJson content) of Inl _ \<Rightarrow> Inl (ZodIssues [])
       | Inr bytes \<Rightarrow> Inr \<lparr>gi_bytes = bytes, gi_byteLength = byteLength bytes, gi_content = content,
                          gi_graphSha256 = sha256 p bytes\<rparr>) = Inr ident"
    using assms unfolding canonicalTaskGraphIdentity_def ebind_eq_Inr by blast
  from i show "canonicalJson (graphJson (gi_content ident)) = Inr (gi_bytes ident)"
    "gi_byteLength ident = byteLength (gi_bytes ident)" "gi_graphSha256 ident = sha256 p (gi_bytes ident)"
    by (auto split: sum.splits)
  from i have "gi_content ident = content" by (auto split: sum.splits)
  moreover obtain parsed where "parseGraph p g = Inr parsed"
    "content = parsed\<lparr>gc_nodes := sort_key sequence (map (normalizeNode p) (gc_nodes parsed))\<rparr>"
    using c unfolding normalizeTaskGraphRevision_def Let_def ebind_eq_Inr by blast
  ultimately show "gi_content ident = g\<lparr>gc_nodes := sort_key sequence (map (normalizeNode p) (gc_nodes g))\<rparr>"
    "taskGraphRevisionContentSchema p g = Some []"
    by (simp_all add: parseGraph_def split: option.splits if_splits)
qed

lemma sequence_normalizeNode [simp]: "sequence (normalizeNode p n) = sequence n"
  by (simp add: normalizeNode_def)

lemma sort_nodes_eq:
  assumes "set ns = set ms" "distinct (map sequence ns)" "distinct (map sequence ms)"
  shows "sort_key sequence (map (normalizeNode p) ns) = sort_key sequence (map (normalizeNode p) ms)"
proof (rule map_sorted_distinct_set_unique [where f = sequence])
  have inj: "inj_on sequence (set ns)" using assms(2) by (simp add: distinct_map)
  show "inj_on sequence (set (sort_key sequence (map (normalizeNode p) ns)) \<union>
      set (sort_key sequence (map (normalizeNode p) ms)))"
    using inj assms(1) by (auto simp: inj_on_def)
  have "mset (map sequence (sort_key sequence (map (normalizeNode p) xs))) = mset (map sequence xs)" for xs
    unfolding mset_map mset_sort by (simp add: multiset.map_comp comp_def)
  then show "distinct (map sequence (sort_key sequence (map (normalizeNode p) ns)))"
    "distinct (map sequence (sort_key sequence (map (normalizeNode p) ms)))"
    using assms(2,3) by (metis mset_eq_imp_distinct_iff)+
qed (use assms(1) in auto)

theorem graph_identity_order_independent:
  assumes "canonicalTaskGraphIdentity p g = Inr a" "canonicalTaskGraphIdentity p (g\<lparr>gc_nodes := ns\<rparr>) = Inr b"
    and "set ns = set (gc_nodes g)"
  shows "gi_content a = gi_content b \<and> gi_bytes a = gi_bytes b \<and> gi_graphSha256 a = gi_graphSha256 b"
proof -
  note a = canonicalTaskGraphIdentity_Inr [OF assms(1)] and b = canonicalTaskGraphIdentity_Inr [OF assms(2)]
  have "distinct (map sequence (gc_nodes g))" "distinct (map sequence ns)"
    using a(1) b(1) by (simp_all add: taskGraphSchema_accepts_iff)
  then have "gi_content a = gi_content b" using sort_nodes_eq [OF assms(3)] a(2) b(2) by simp
  with a b show ?thesis by simp
qed

theorem graph_identity_order_independent_witness:
  "\<exists>a b. canonicalTaskGraphIdentity demoPlatform demoGraph = Inr a \<and>
     canonicalTaskGraphIdentity demoPlatform (demoGraph\<lparr>gc_nodes := rev (gc_nodes demoGraph)\<rparr>) = Inr b \<and> gi_bytes a = gi_bytes b"
proof -
  from demo_identities obtain a b where a: "canonicalTaskGraphIdentity demoPlatform demoGraph = Inr a"
    and b: "canonicalTaskGraphIdentity demoPlatform (demoGraph\<lparr>gc_nodes := rev (gc_nodes demoGraph)\<rparr>) = Inr b"
    unfolding demoGraphReordered_def by blast
  from graph_identity_order_independent [OF a b] a b show ?thesis by auto
qed

section \<open>Capability ids, canonical JSON, stored text\<close>

text \<open>
  C40: Parsing a qualified capability id succeeds exactly on the renderings of well-formed
  identities and returns the identity that was rendered.
\<close>

theorem capability_id_roundtrip:
  "parseQualifiedCapabilityId v = Inr c \<longleftrightarrow> capabilityFieldsOk c \<and> formatQualifiedCapabilityId c = v"
  by (rule parse_format_iff)

text \<open>
  The canonical JSON of an object depends only on its set of defined properties, not on the
  order in which the program built it; and its size in UTF-8 bytes is bounded by the sizes of
  the parts.
\<close>

lemma canonical_json_order_independent:
  assumes "set (definedFields fs) = set (definedFields gs)" "distinct (map fst fs)" "distinct (map fst gs)"
  shows "canonicalJson (JObject fs) = canonicalJson (JObject gs) \<and>
    (\<forall>s. canonicalJson (JObject gs) = Inr s \<longrightarrow> byteLength s \<le> 3 * jsonBound (JObject fs))"
  using canonicalJson_object_perm [OF assms] canonicalJson_byteLength by metis

lemma canonical_json_order_independent_example:
  "canonicalJson (JObject [(js ''b'', JNull), (js ''a'', JBool True)]) =
   canonicalJson (JObject [(js ''a'', JBool True), (js ''c'', JUndefined), (js ''b'', JNull)])"
  by (rule conjunct1 [OF canonical_json_order_independent]) (auto simp: definedFields_def)

text \<open>
  Text accepted by the stored-text schema consists of Unicode scalar values only, has no
  carriage return and no forbidden control character, respects the scalar and byte bounds, and
  its number of UTF-16 code units is bounded by the byte limit.
\<close>

lemma stored_text_bounds:
  assumes "canonicalStoredTextSchema opts value = []"
  shows "(\<forall>cp\<in>set (codePoints value). isScalar cp) \<and> 0xd \<notin> set value \<and> \<not> containsForbiddenControl value \<and>
    byteLength value \<le> maximumBytes opts \<and> length value \<le> maximumBytes opts \<and>
    (\<forall>m. maximumScalars opts = Some m \<longrightarrow> length (codePoints value) \<le> m) \<and>
    (nonblank opts \<longrightarrow> (\<exists>u\<in>set value. \<not> isJsSpace u))"
proof -
  note a = assms [unfolded canonicalStoredText_accepts_iff]
  have "length value \<le> maximumBytes opts" using a length_le_byteLength [of "value"] by linarith
  moreover have "\<forall>cp\<in>set (codePoints value). isScalar cp" using a codePoints_scalar by blast
  moreover have "nonblank opts \<longrightarrow> (\<exists>u\<in>set value. \<not> isJsSpace u)"
    using a by (auto simp: isNonblankCanonicalText_def trim_eq_Nil)
  ultimately show ?thesis using a by blast
qed

lemma stored_text_bounds_example:
  "codePoints [0xd83d, 0xde00] = [0x1f600] \<and> isScalar 0x1f600"
proof -
  let ?opts = "\<lparr>maximumBytes = 4, maximumScalars = Some 1, minimumScalars = Some 1, nonblank = True\<rparr>"
  have "canonicalStoredTextSchema ?opts [0xd83d, 0xde00] = []" by (simp add: text_eval)
  from stored_text_bounds [OF this] show ?thesis by (simp add: isHighSurrogate_def isLowSurrogate_def)
qed

section \<open>The event log and evidence\<close>

text \<open>
  C39: A log accepted by the event checker is well formed: session positions are 1, 2, 3 and so
  on, event ids are distinct, all events belong to one session, no version 1 event follows a
  version 2 event, runs do not interleave, and each run starts with \<^verbatim>\<open>run.started\<close>, numbers
  its events from one and ends with its first terminal event.
\<close>

theorem accepted_log_wf:
  assumes "assertDecodedStoredEventInvariants es = Inr s"
  shows "map sessionSeq es = [1..<Suc (length es)] \<and> distinct (map eventId es) \<and>
    (\<forall>e\<in>set es. sessionId e = sessionId (hd es)) \<and>
    (\<forall>j<length es. \<forall>i<j. sourceSchemaVersion (es ! i) = 2 \<longrightarrow> sourceSchemaVersion (es ! j) \<noteq> 1) \<and>
    distinct (remdups_adj (runOrder es)) \<and> (\<forall>r\<in>set (runOrder es). runWf (runEvents r es))"
  using accepted_logWf [OF assms] unfolding logWf_def .

theorem accepted_log_wf_witness:
  "\<exists>s. assertDecodedStoredEventInvariants demoLog = Inr s \<and> distinct (map eventId demoLog)"
proof -
  from demo_log_accepted obtain s where "assertDecodedStoredEventInvariants demoLog = Inr s"
    by (cases "assertDecodedStoredEventInvariants demoLog") auto
  with accepted_log_wf [OF this] show ?thesis by blast
qed

text \<open>
  Evidence that is eligible to complete a Plan item is eligible to block it too, is bound
  to the Goal revision of the item (through its run, its source run or the Task Graph binding),
  and records a success.
\<close>

lemma eligible_evidence_bound:
  "(eligibleForCompleted (classifyPlanItemEvidence e c) \<longrightarrow>
      eligibleForBlocked (classifyPlanItemEvidence e c) \<and> factSucceeded (edata e)) \<and>
   (eligibleForBlocked (classifyPlanItemEvidence e c) \<longrightarrow> evidenceBound e c)"
  using eligible_completed_blocked eligible_completed_succeeded eligible_bound by blast

lemma eligible_evidence_bound_example:
  "factSucceeded (edata (demoEvent 8 ''e8'' (RunScope ''r'' 4) (ToolCallCompleted ''read_file'' ''c2'' status_success)))"
proof -
  let ?c = "\<lparr>ec_eventsById = [], ec_goalId = ''g'', ec_goalRevision = 1,
    ec_runBindings = [''r'' \<mapsto> \<lparr>erb_goalId = ''g'', erb_goalRevision = 1, erb_mode = mode_build\<rparr>]\<rparr>"
  let ?e = "demoEvent 8 ''e8'' (RunScope ''r'' 4) (ToolCallCompleted ''read_file'' ''c2'' status_success)"
  have "eligibleForCompleted (classifyPlanItemEvidence ?e ?c)"
    by (simp add: demoEvent_def plan_eval)
  then show ?thesis using eligible_evidence_bound [of ?e ?c] by blast
qed

end
