(* ===== verification/TaskGraphProjector.thy ===== *)
theory TaskGraphProjector
  imports TaskStateMachine TaskGraphTopology "HOL-Library.Sublist"
begin

text \<open>
  The life of Task Graph revisions as a projection of the session log
  (\<^verbatim>\<open>src/src/task-graph/task-graph-projector.ts\<close>).

  The local variables of \<^verbatim>\<open>TaskGraphProjector.project\<close> are the record \<open>graph_projector\<close>;
  \<^verbatim>\<open>currentDraft\<close>, \<^verbatim>\<open>currentApproved\<close> and \<^verbatim>\<open>currentExecution\<close>, references to the mutable
  revisions, are indexes into \<open>revisions\<close>.  \<^verbatim>\<open>byKey\<close> holds exactly the revisions of that list
  (a key is never set twice) and is the search by Graph id and revision.  There is one definition
  per case of the switch.
\<close>

section \<open>State\<close>

datatype graph_status =
    gs_draft | gs_approved | gs_queued | gs_running | gs_waiting_for_user | gs_awaiting_integration
  | gs_completed | gs_blocked | gs_cancelled | gs_failed | gs_rejected | gs_stale | gs_superseded

record mutable_revision =
  mr_approvedEventId :: "string option"
  mr_artifact :: graph_artifact
  mr_binding :: task_graph_binding
  mr_content :: task_graph_content
  mr_createdEventId :: string
  mr_decisionEventId :: "string option"
  mr_graphId :: string
  mr_graphSha256 :: string
  mr_revision :: nat
  mr_status :: graph_status
  mr_terminalEventId :: "string option"

record graph_projector =
  revisions :: "mutable_revision list"
  currentDraft :: "nat option"
  currentApproved :: "nat option"
  currentExecution :: "nat option"

definition graph_projector_init :: graph_projector where
  "graph_projector_init = \<lparr>revisions = [], currentDraft = None, currentApproved = None, currentExecution = None\<rparr>"

datatype graph_failure = GraphError task_graph_error_code | GraphIdentityFailure graph_parse_error

type_synonym graph_result = "graph_failure + graph_projector"

definition byKey :: "graph_projector \<Rightarrow> string \<Rightarrow> nat \<Rightarrow> nat option" where
  "byKey s gid n = findIndex (\<lambda>r. mr_graphId r = gid \<and> mr_revision r = n) (revisions s)"

definition updateRevision :: "nat \<Rightarrow> (mutable_revision \<Rightarrow> mutable_revision) \<Rightarrow> graph_projector \<Rightarrow> graph_projector" where
  "updateRevision i f s = s\<lparr>revisions := (revisions s)[i := f (revisions s ! i)]\<rparr>"

definition exactGraph :: "graph_ref \<Rightarrow> graph_projector \<Rightarrow> graph_failure + nat" where
  "exactGraph ref s = (case byKey s (gr_graph_id ref) (gr_graph_revision ref) of
     None \<Rightarrow> Inl (GraphError task_graph_revision_conflict)
   | Some i \<Rightarrow> if mr_graphSha256 (revisions s ! i) \<noteq> gr_graph_sha256 ref
       then Inl (GraphError task_graph_revision_conflict) else Inr i)"

definition graphIdentity :: "platform \<Rightarrow> task_graph_content \<Rightarrow> graph_failure + task_graph_identity" where
  "graphIdentity p content = (case canonicalTaskGraphIdentity p content of
     Inl e \<Rightarrow> Inl (GraphIdentityFailure e) | Inr ident \<Rightarrow> Inr ident)"

definition createdRevision ::
  "stored_event \<Rightarrow> graph_artifact \<Rightarrow> task_graph_binding \<Rightarrow> task_graph_identity \<Rightarrow> graph_ref \<Rightarrow> mutable_revision" where
  "createdRevision event art b ident ref =
     \<lparr>mr_approvedEventId = None, mr_artifact = art, mr_binding = b, mr_content = gi_content ident,
      mr_createdEventId = eventId event, mr_decisionEventId = None, mr_graphId = gr_graph_id ref,
      mr_graphSha256 = gr_graph_sha256 ref, mr_revision = gr_graph_revision ref, mr_status = gs_draft,
      mr_terminalEventId = None\<rparr>"

definition pushRevision :: "mutable_revision \<Rightarrow> graph_projector \<Rightarrow> graph_projector" where
  "pushRevision r s = s\<lparr>revisions := revisions s @ [r], currentDraft := Some (length (revisions s))\<rparr>"

section \<open>The cases of the switch\<close>

definition proposeGraph :: "platform \<Rightarrow> stored_event \<Rightarrow> graph_proposed_data \<Rightarrow> graph_projector \<Rightarrow> graph_result" where
  "proposeGraph p event d s =
     (let ref = gp_ref d in
      if byKey s (gr_graph_id ref) (gr_graph_revision ref) \<noteq> None then Inl (GraphError task_graph_revision_conflict)
      else if list_ex (\<lambda>r. mr_graphId r = gr_graph_id ref) (revisions s)
      then Inl (GraphError task_graph_revision_conflict)
      else ebind (graphIdentity p (gp_content d)) (\<lambda>ident.
        if gi_graphSha256 ident \<noteq> gr_graph_sha256 ref \<or> b_sessionId (gp_binding d) \<noteq> sessionId event
        then Inl (GraphError task_graph_artifact_invalid)
        else Inr (pushRevision (createdRevision event (gp_artifact d) (gp_binding d) ident ref) s)))"

definition replaceGraph :: "platform \<Rightarrow> stored_event \<Rightarrow> graph_replaced_data \<Rightarrow> graph_projector \<Rightarrow> graph_result" where
  "replaceGraph p event d s =
     (let ref = gx_ref d in
      case byKey s (gr_graph_id ref) (gx_base_revision d) of
        None \<Rightarrow> Inl (GraphError task_graph_revision_conflict)
      | Some i \<Rightarrow>
          let base = revisions s ! i in
          if mr_graphSha256 base \<noteq> gx_base_sha256 d \<or> mr_status base \<notin> {gs_draft, gs_approved} \<or>
             currentExecution s \<noteq> None
          then Inl (GraphError task_graph_revision_conflict)
          else if gr_graph_revision ref \<noteq> mr_revision base + 1 \<or>
             byKey s (gr_graph_id ref) (gr_graph_revision ref) \<noteq> None
          then Inl (GraphError task_graph_revision_conflict)
          else ebind (graphIdentity p (gx_content d)) (\<lambda>ident.
            if gi_graphSha256 ident \<noteq> gr_graph_sha256 ref \<or> gx_binding d \<noteq> mr_binding base
            then Inl (GraphError task_graph_binding_stale)
            else
              let s = updateRevision i (\<lambda>r. r\<lparr>mr_status := gs_superseded\<rparr>) s;
                  s = s\<lparr>currentApproved := (if currentApproved s = Some i then None else currentApproved s)\<rparr>
              in Inr (pushRevision (createdRevision event (gx_artifact d) (gx_binding d) ident ref) s)))"

definition currentDraftDecision :: "graph_ref \<Rightarrow> string \<Rightarrow> graph_projector \<Rightarrow> graph_failure + nat" where
  "currentDraftDecision ref revision_event_id s =
     ebind (exactGraph ref s) (\<lambda>i.
       let revision = revisions s ! i in
       if mr_status revision \<noteq> gs_draft \<or> currentDraft s \<noteq> Some i \<or> mr_decisionEventId revision \<noteq> None
       then Inl (GraphError task_graph_decision_conflict)
       else if revision_event_id \<noteq> mr_createdEventId revision
       then Inl (GraphError task_graph_decision_conflict) else Inr i)"

definition approveGraph :: "stored_event \<Rightarrow> graph_ref \<Rightarrow> string \<Rightarrow> graph_projector \<Rightarrow> graph_result" where
  "approveGraph event ref revision_event_id s =
     ebind (currentDraftDecision ref revision_event_id s) (\<lambda>i.
       Inr ((updateRevision i (\<lambda>r. r\<lparr>mr_status := gs_approved, mr_approvedEventId := Some (eventId event),
               mr_decisionEventId := Some (eventId event)\<rparr>) s)\<lparr>currentDraft := None, currentApproved := Some i\<rparr>))"

definition rejectGraph :: "stored_event \<Rightarrow> graph_ref \<Rightarrow> string \<Rightarrow> graph_projector \<Rightarrow> graph_result" where
  "rejectGraph event ref revision_event_id s =
     ebind (currentDraftDecision ref revision_event_id s) (\<lambda>i.
       Inr ((updateRevision i (\<lambda>r. r\<lparr>mr_status := gs_rejected, mr_decisionEventId := Some (eventId event)\<rparr>) s)
            \<lparr>currentDraft := None\<rparr>))"

definition dropRef :: "nat \<Rightarrow> nat option \<Rightarrow> nat option" where
  "dropRef i ref = (if ref = Some i then None else ref)"

definition staleGraph :: "stored_event \<Rightarrow> graph_ref \<Rightarrow> graph_projector \<Rightarrow> graph_result" where
  "staleGraph event ref s =
     ebind (exactGraph ref s) (\<lambda>i.
       if mr_status (revisions s ! i) \<in> {gs_completed, gs_cancelled, gs_failed, gs_rejected, gs_superseded}
       then Inl (GraphError task_graph_revision_conflict)
       else Inr ((updateRevision i (\<lambda>r. r\<lparr>mr_status := gs_stale, mr_terminalEventId := Some (eventId event)\<rparr>) s)
            \<lparr>currentDraft := dropRef i (currentDraft s), currentApproved := dropRef i (currentApproved s),
             currentExecution := dropRef i (currentExecution s)\<rparr>))"

definition enqueueGraph :: "graph_ref \<Rightarrow> graph_projector \<Rightarrow> graph_result" where
  "enqueueGraph ref s =
     ebind (exactGraph ref s) (\<lambda>i.
       let status = mr_status (revisions s ! i) in
       if status \<notin> {gs_approved, gs_waiting_for_user} \<or> currentApproved s \<noteq> Some i \<or>
          (status = gs_waiting_for_user \<and> currentExecution s \<noteq> Some i)
       then Inl (GraphError task_graph_not_approved)
       else Inr ((updateRevision i (\<lambda>r. r\<lparr>mr_status := gs_queued\<rparr>) s)\<lparr>currentExecution := Some i\<rparr>))"

definition startGraph :: "graph_ref \<Rightarrow> graph_projector \<Rightarrow> graph_result" where
  "startGraph ref s =
     ebind (exactGraph ref s) (\<lambda>i.
       if mr_status (revisions s ! i) \<noteq> gs_queued \<or> currentExecution s \<noteq> Some i
       then Inl (GraphError task_graph_revision_conflict)
       else Inr (updateRevision i (\<lambda>r. r\<lparr>mr_status := gs_running\<rparr>) s))"

definition waitGraph :: "graph_ref \<Rightarrow> graph_projector \<Rightarrow> graph_result" where
  "waitGraph ref s =
     ebind (exactGraph ref s) (\<lambda>i.
       if mr_status (revisions s ! i) \<notin> {gs_queued, gs_running} then Inl (GraphError task_graph_revision_conflict)
       else Inr (updateRevision i (\<lambda>r. r\<lparr>mr_status := gs_waiting_for_user\<rparr>) s))"

definition activeStatuses :: "graph_status set" where
  "activeStatuses = {gs_queued, gs_running, gs_waiting_for_user, gs_awaiting_integration}"

definition cancelGraph :: "graph_ref \<Rightarrow> graph_projector \<Rightarrow> graph_result" where
  "cancelGraph ref s =
     ebind (exactGraph ref s) (\<lambda>i.
       if mr_status (revisions s ! i) \<notin> activeStatuses then Inl (GraphError task_graph_decision_conflict)
       else Inr s)"

fun terminalStatus :: "graph_terminal_status \<Rightarrow> graph_status" where
  "terminalStatus gt_completed = gs_completed"
| "terminalStatus gt_blocked = gs_blocked"
| "terminalStatus gt_cancelled = gs_cancelled"
| "terminalStatus gt_failed = gs_failed"
| "terminalStatus gt_stale = gs_stale"
| "terminalStatus gt_awaiting_integration = gs_awaiting_integration"

definition terminalGraph :: "stored_event \<Rightarrow> graph_ref \<Rightarrow> graph_terminal_status \<Rightarrow> graph_projector \<Rightarrow> graph_result" where
  "terminalGraph event ref status s =
     ebind (exactGraph ref s) (\<lambda>i.
       if mr_status (revisions s ! i) \<notin> activeStatuses then Inl (GraphError task_graph_revision_conflict)
       else Inr ((updateRevision i (\<lambda>r. r\<lparr>mr_status := terminalStatus status,
                    mr_terminalEventId := Some (eventId event)\<rparr>) s)\<lparr>currentExecution := None\<rparr>))"

definition retryGraph :: "graph_ref \<Rightarrow> graph_projector \<Rightarrow> graph_result" where
  "retryGraph ref s =
     ebind (exactGraph ref s) (\<lambda>i.
       if mr_status (revisions s ! i) \<notin> {gs_failed, gs_cancelled} \<or> currentApproved s \<noteq> Some i \<or>
          currentExecution s \<noteq> None
       then Inl (GraphError task_graph_revision_conflict)
       else Inr ((updateRevision i (\<lambda>r. r\<lparr>mr_status := gs_waiting_for_user, mr_terminalEventId := None\<rparr>) s)
            \<lparr>currentExecution := Some i\<rparr>))"

definition graphStep :: "platform \<Rightarrow> graph_projector \<Rightarrow> stored_event \<Rightarrow> graph_result" where
  "graphStep p s event =
     (if scope event \<noteq> SessionScope then Inr s
      else case edata event of
        TaskGraphProposed d \<Rightarrow> proposeGraph p event d s
      | TaskGraphReplaced d \<Rightarrow> replaceGraph p event d s
      | TaskGraphApproved ref revision_event_id \<Rightarrow> approveGraph event ref revision_event_id s
      | TaskGraphRejected ref revision_event_id \<Rightarrow> rejectGraph event ref revision_event_id s
      | TaskGraphStale ref \<Rightarrow> staleGraph event ref s
      | TaskGraphEnqueued ref _ _ _ \<Rightarrow> enqueueGraph ref s
      | TaskGraphStarted ref _ \<Rightarrow> startGraph ref s
      | TaskGraphWaitingForUser ref _ \<Rightarrow> waitGraph ref s
      | TaskGraphCancelRequested ref \<Rightarrow> cancelGraph ref s
      | TaskGraphTerminal ref status _ \<Rightarrow> terminalGraph event ref status s
      | TaskNodeRetryRequested ref _ \<Rightarrow> retryGraph ref s
      | _ \<Rightarrow> Inr s)"

section \<open>The projection\<close>

record revision_ref =
  rf_graphId :: string
  rf_revision :: nat
  rf_graphSha256 :: string
  rf_binding :: task_graph_binding

definition refOf :: "mutable_revision \<Rightarrow> revision_ref" where
  "refOf r = \<lparr>rf_graphId = mr_graphId r, rf_revision = mr_revision r, rf_graphSha256 = mr_graphSha256 r,
     rf_binding = mr_binding r\<rparr>"

definition graphRef :: "graph_projector \<Rightarrow> nat option \<Rightarrow> revision_ref option" where
  "graphRef s ref = map_option (\<lambda>i. refOf (revisions s ! i)) ref"

record task_graph_projection =
  tg_phase19 :: bool
  tg_currentApproved :: "revision_ref option"
  tg_currentDraft :: "revision_ref option"
  tg_currentExecution :: "revision_ref option"
  tg_lastSessionSeq :: nat
  tg_revisions :: "mutable_revision list"

definition projectTaskGraph :: "platform \<Rightarrow> stored_event list \<Rightarrow> graph_failure + task_graph_projection" where
  "projectTaskGraph p events = ebind (efold (graphStep p) graph_projector_init events) (\<lambda>s.
     Inr \<lparr>tg_phase19 = (revisions s \<noteq> []), tg_currentApproved = graphRef s (currentApproved s),
          tg_currentDraft = graphRef s (currentDraft s), tg_currentExecution = graphRef s (currentExecution s),
          tg_lastSessionSeq = (if events = [] then 0 else sessionSeq (last events)), tg_revisions = revisions s\<rparr>)"

datatype binding_observation = binding_current | binding_stale | binding_unavailable

definition observeTaskGraphBinding :: "revision_ref \<Rightarrow> task_state_projection \<Rightarrow> binding_observation" where
  "observeTaskGraphBinding graph state =
     (if ts_trackingMode state \<noteq> phase16 then binding_unavailable
      else case (find (\<lambda>g. Some (gl_goalId (mg_content g)) = ts_activeGoalId state) (ts_goals state),
                 ts_currentApprovedPlan state) of
        (Some goal, Some plan) \<Rightarrow>
          if gl_goalId (mg_content goal) = b_goalId (rf_binding graph) \<and>
             gl_revision (mg_content goal) = b_goalRevision (rf_binding graph) \<and>
             ref_planId plan = b_planId (rf_binding graph) \<and> ref_revision plan = b_planRevision (rf_binding graph) \<and>
             ref_planSha256 plan = b_planSha256 (rf_binding graph)
          then binding_current else binding_stale
      | _ \<Rightarrow> binding_stale)"

end
