(* ===== verification/TaskBudget.thy ===== *)
theory TaskBudget
  imports StoredEvents
begin

text \<open>
  The budget ledger of a Task Graph execution: the counters of
  \<^verbatim>\<open>src/src/scheduling/task-execution-projector.ts\<close> and the reservations of
  \<^verbatim>\<open>src/src/scheduling/task-budget-ledger.ts\<close>.

  Counters are integers; \<^verbatim>\<open>null\<close>, possible for reported tokens only, is \<open>None\<close>.  \<open>counterAt\<close>
  is the property access \<^verbatim>\<open>value[counter]\<close>.  The lemmas give the ledger's law: what is consumed and
  held stays within the approved ceilings, the remainder is then defined and the scheduler's
  question (\<open>taskBudgetCanReserve\<close>) is the projector's admission test (\<open>within\<close>).
\<close>

section \<open>Counters\<close>

fun counterAt :: "task_budget_counters \<Rightarrow> budget_field \<Rightarrow> int option" where
  "counterAt c FAttempts = Some (attempts c)"
| "counterAt c FDurationMs = Some (durationMs c)"
| "counterAt c FModelSteps = Some (modelSteps c)"
| "counterAt c FCommandExecutions = Some (commandExecutions c)"
| "counterAt c FCommandOutputBytes = Some (commandOutputBytes c)"
| "counterAt c FChangedFiles = Some (changedFiles c)"
| "counterAt c FChangedBytes = Some (changedBytes c)"
| "counterAt c FArtifactBytes = Some (artifactBytes c)"
| "counterAt c FReportedTokens = reportedTokens c"

definition TASK_BUDGET_COUNTERS :: "budget_field list" where
  "TASK_BUDGET_COUNTERS = [FAttempts, FDurationMs, FModelSteps, FCommandExecutions, FCommandOutputBytes,
     FChangedFiles, FChangedBytes, FArtifactBytes, FReportedTokens]"

definition budgetZero :: "int option \<Rightarrow> task_budget_counters" where
  "budgetZero tokens = \<lparr>attempts = 0, durationMs = 0, modelSteps = 0, commandExecutions = 0, commandOutputBytes = 0,
     changedFiles = 0, changedBytes = 0, artifactBytes = 0, reportedTokens = tokens\<rparr>"

definition limits :: "task_graph_budget \<Rightarrow> task_budget_counters" where
  "limits budget = \<lparr>attempts = maxAttempts budget, durationMs = maxDurationMs budget, modelSteps = maxModelSteps budget,
     commandExecutions = maxCommandExecutions budget, commandOutputBytes = maxCommandOutputBytes budget,
     changedFiles = maxChangedFiles budget, changedBytes = maxChangedBytes budget, artifactBytes = maxArtifactBytes budget,
     reportedTokens = maxReportedTokens budget\<rparr>"

definition both :: "(int \<Rightarrow> int \<Rightarrow> int) \<Rightarrow> int option \<Rightarrow> int option \<Rightarrow> int option" where
  "both f x y = (case (x, y) of (Some a, Some b) \<Rightarrow> Some (f a b) | _ \<Rightarrow> None)"

definition budgetAdd :: "task_budget_counters \<Rightarrow> task_budget_counters \<Rightarrow> task_budget_counters" where
  "budgetAdd target v = \<lparr>attempts = attempts target + attempts v, durationMs = durationMs target + durationMs v,
     modelSteps = modelSteps target + modelSteps v, commandExecutions = commandExecutions target + commandExecutions v,
     commandOutputBytes = commandOutputBytes target + commandOutputBytes v,
     changedFiles = changedFiles target + changedFiles v, changedBytes = changedBytes target + changedBytes v,
     artifactBytes = artifactBytes target + artifactBytes v,
     reportedTokens = both (+) (reportedTokens target) (reportedTokens v)\<rparr>"

text \<open>\<open>budgetRelease\<close> is the inline subtraction of a finished attempt's reservation.\<close>

definition budgetRelease :: "task_budget_counters \<Rightarrow> task_budget_counters \<Rightarrow> task_budget_counters" where
  "budgetRelease reserved v = \<lparr>attempts = attempts reserved - attempts v, durationMs = durationMs reserved - durationMs v,
     modelSteps = modelSteps reserved - modelSteps v, commandExecutions = commandExecutions reserved - commandExecutions v,
     commandOutputBytes = commandOutputBytes reserved - commandOutputBytes v,
     changedFiles = changedFiles reserved - changedFiles v, changedBytes = changedBytes reserved - changedBytes v,
     artifactBytes = artifactBytes reserved - artifactBytes v,
     reportedTokens = both (-) (reportedTokens reserved) (reportedTokens v)\<rparr>"

definition budgetSubtract ::
  "task_budget_counters \<Rightarrow> task_budget_counters \<Rightarrow> task_budget_counters \<Rightarrow> task_graph_error_code + task_budget_counters" where
  "budgetSubtract limit consumed reserved =
     (let result = budgetRelease (budgetRelease limit consumed) reserved in
      if list_ex (\<lambda>c. case counterAt result c of None \<Rightarrow> False | Some v \<Rightarrow> v < 0) TASK_BUDGET_COUNTERS
      then Inl task_graph_invalid else Inr result)"

definition within :: "task_budget_counters \<Rightarrow> task_budget_counters \<Rightarrow> task_budget_counters \<Rightarrow> bool" where
  "within consumed reserved limit \<longleftrightarrow> list_all (\<lambda>c. case counterAt limit c of
       None \<Rightarrow> True
     | Some maximum \<Rightarrow> (case (counterAt consumed c, counterAt reserved c) of
           (Some used, Some held) \<Rightarrow> used + held \<le> maximum | _ \<Rightarrow> False)) TASK_BUDGET_COUNTERS"

fun mergeCompleteness :: "usage_completeness \<Rightarrow> usage_completeness \<Rightarrow> usage_completeness" where
  "mergeCompleteness current nxt =
     (if current = usage_none \<or> nxt = usage_none then usage_none
      else if current = usage_partial \<or> nxt = usage_partial then usage_partial else usage_complete)"

section \<open>Reservations\<close>

definition reservationForTaskNode :: "task_node_spec \<Rightarrow> task_budget_counters" where
  "reservationForTaskNode node =
     (let readOnly = (case n_kind node of AgentNode m _ \<Rightarrow> m = plan_mode | _ \<Rightarrow> False);
          verification = (case n_kind node of AgentNode _ _ \<Rightarrow> False | _ \<Rightarrow> True);
          budget = n_budget node
      in \<lparr>attempts = 1, durationMs = maxDurationMs budget,
          modelSteps = (if verification then 0 else maxModelSteps budget),
          commandExecutions = (if readOnly then 0 else if verification then 1 else maxCommandExecutions budget),
          commandOutputBytes = (if readOnly then 0 else maxCommandOutputBytes budget),
          changedFiles = (if readOnly \<or> verification then 0 else maxChangedFiles budget),
          changedBytes = (if readOnly \<or> verification then 0 else maxChangedBytes budget),
          artifactBytes = maxArtifactBytes budget,
          reportedTokens = (if verification then Some 0 else maxReportedTokens budget)\<rparr>)"

definition taskBudgetCanReserve :: "task_budget_counters \<Rightarrow> task_budget_counters \<Rightarrow> bool" where
  "taskBudgetCanReserve remaining reservation \<longleftrightarrow> list_all (\<lambda>c. case counterAt remaining c of
       None \<Rightarrow> True
     | Some r \<Rightarrow> (case counterAt reservation c of None \<Rightarrow> False | Some requested \<Rightarrow> requested \<le> r)) TASK_BUDGET_COUNTERS"

section \<open>The law of the ledger\<close>

lemma counters_all [simp]: "set TASK_BUDGET_COUNTERS = UNIV"
  by (auto simp: TASK_BUDGET_COUNTERS_def intro: budget_field.exhaust)

lemma list_all_counters: "list_all P TASK_BUDGET_COUNTERS \<longleftrightarrow> (\<forall>c. P c)"
  by (simp add: list_all_iff)

lemma counterAt_add: "counterAt (budgetAdd x y) c = both (+) (counterAt x c) (counterAt y c)"
  by (cases c) (simp_all add: budgetAdd_def both_def)

lemma counterAt_release: "counterAt (budgetRelease x y) c = both (-) (counterAt x c) (counterAt y c)"
  by (cases c) (simp_all add: budgetRelease_def both_def)

lemma both_Some [simp]: "both f x y = Some z \<longleftrightarrow> (\<exists>a b. x = Some a \<and> y = Some b \<and> z = f a b)"
  by (auto simp: both_def split: option.splits)

lemma both_simps [simp]: "both f (Some a) (Some b) = Some (f a b)" "both f None y = None" "both f x None = None"
  by (simp_all add: both_def split: option.splits)

lemma counters_eqI: "(\<And>c. counterAt x c = counterAt y c) \<Longrightarrow> x = (y :: task_budget_counters)"
proof -
  assume a: "\<And>c. counterAt x c = counterAt y c"
  show ?thesis
    using a [of FAttempts] a [of FDurationMs] a [of FModelSteps] a [of FCommandExecutions] a [of FCommandOutputBytes]
      a [of FChangedFiles] a [of FChangedBytes] a [of FArtifactBytes] a [of FReportedTokens] by simp
qed

lemma within_iff:
  "within consumed reserved limit \<longleftrightarrow> (\<forall>c m. counterAt limit c = Some m \<longrightarrow>
     (\<exists>u h. counterAt consumed c = Some u \<and> counterAt reserved c = Some h \<and> u + h \<le> m))"
  unfolding within_def list_all_counters by (rule all_cong1) (auto split: option.splits)

lemma within_at:
  "within consumed reserved limit \<Longrightarrow> counterAt limit c = Some m \<Longrightarrow>
   \<exists>u h. counterAt consumed c = Some u \<and> counterAt reserved c = Some h \<and> u + h \<le> m"
  by (simp add: within_iff)

text \<open>The remainder of a ledger within its ceilings is defined and nowhere negative.\<close>

lemma budgetSubtract_defined:
  assumes "within consumed reserved limit"
  obtains r where "budgetSubtract limit consumed reserved = Inr r"
    "\<And>c v. counterAt r c = Some v \<Longrightarrow> 0 \<le> v"
    "r = budgetRelease (budgetRelease limit consumed) reserved"
proof -
  define r where "r = budgetRelease (budgetRelease limit consumed) reserved"
  have "0 \<le> v" if "counterAt r c = Some v" for c v
    using that within_at [OF assms, of c] by (auto simp: r_def counterAt_release)
  moreover from this have "budgetSubtract limit consumed reserved = Inr r"
    unfolding budgetSubtract_def Let_def r_def [symmetric] by (fastforce simp: list_ex_iff split: option.splits)
  ultimately show thesis using that r_def by blast
qed

text \<open>The scheduler's question and the projector's admission test agree.\<close>

lemma canReserve_iff_within:
  assumes w: "within consumed reserved limit" and r: "budgetSubtract limit consumed reserved = Inr remaining"
  shows "taskBudgetCanReserve remaining held \<longleftrightarrow> within consumed (budgetAdd reserved held) limit"
proof -
  have rem: "remaining = budgetRelease (budgetRelease limit consumed) reserved"
    using r by (auto simp: budgetSubtract_def Let_def split: if_splits)
  have "(case counterAt remaining c of None \<Rightarrow> True
     | Some r \<Rightarrow> (case counterAt held c of None \<Rightarrow> False | Some requested \<Rightarrow> requested \<le> r)) \<longleftrightarrow>
     (case counterAt limit c of None \<Rightarrow> True
     | Some maximum \<Rightarrow> (case (counterAt consumed c, counterAt (budgetAdd reserved held) c) of
           (Some used, Some held) \<Rightarrow> used + held \<le> maximum | _ \<Rightarrow> False))" for c
    using within_at [OF w, of c]
    by (cases "counterAt limit c"; cases "counterAt held c") (auto simp: rem counterAt_release counterAt_add)
  then show ?thesis
    by (simp add: taskBudgetCanReserve_def within_def)
qed

text \<open>
  When an attempt ends, its reservation is released and what it used is charged: the ledger stays
  within the ceilings because an attempt uses at most what it reserved.
\<close>

lemma within_settle:
  assumes w: "within consumed reserved limit" and u: "within used (budgetZero t) held" and t: "t = None \<or> t = Some 0"
    and h: "\<And>m. reportedTokens limit = Some m \<Longrightarrow> reportedTokens held \<noteq> None"
  shows "within (budgetAdd consumed used) (budgetRelease reserved held) limit"
  unfolding within_iff
proof (intro allI impI)
  fix c m assume m: "counterAt limit c = Some m"
  obtain a b where ab: "counterAt consumed c = Some a" "counterAt reserved c = Some b" "a + b \<le> m"
    using within_at [OF w m] by blast
  obtain k where k: "counterAt held c = Some k"
    using h m by (cases c) auto
  obtain x z where x: "counterAt used c = Some x" "counterAt (budgetZero t) c = Some z" "x + z \<le> k"
    using within_at [OF u k] by blast
  moreover have "z = 0" using x(2) t by (cases c) (auto simp: budgetZero_def)
  ultimately show "\<exists>u h. counterAt (budgetAdd consumed used) c = Some u \<and> counterAt (budgetRelease reserved held) c = Some h \<and> u + h \<le> m"
    using ab k by (simp add: counterAt_add counterAt_release)
qed

lemma within_zero:
  assumes "\<And>c m. counterAt limit c = Some m \<Longrightarrow> 0 \<le> m"
  shows "within (budgetZero (if reportedTokens limit = None then None else Some 0))
     (budgetZero (if reportedTokens limit = None then None else Some 0)) limit"
  unfolding within_iff
proof (intro allI impI)
  fix c m assume "counterAt limit c = Some m"
  with assms [OF this] show "\<exists>u h. counterAt (budgetZero (if reportedTokens limit = None then None else Some 0)) c = Some u \<and>
      counterAt (budgetZero (if reportedTokens limit = None then None else Some 0)) c = Some h \<and> u + h \<le> m"
    by (cases c) (auto simp: budgetZero_def)
qed

text \<open>A node whose ceilings lie within the Graph's can always be admitted into an untouched ledger.\<close>

lemma reservation_within_node:
  "counterAt (reservationForTaskNode node) c = Some v \<Longrightarrow> c \<noteq> FAttempts \<Longrightarrow> c \<noteq> FCommandExecutions \<Longrightarrow>
   v = 0 \<or> budgetAt (n_budget node) c = Some v"
  by (cases c; cases "n_kind node") (auto simp: reservationForTaskNode_def Let_def split: if_splits)

end
