(* ===== verification/TaskExecution.thy ===== *)
theory TaskExecution
  imports TaskGraphProjector TaskBudget
begin

text \<open>
  The execution of an approved Task Graph as a projection of the session log
  (\<^verbatim>\<open>src/src/scheduling/task-execution-projector.ts\<close>), and the ready queue of
  \<^verbatim>\<open>task-ready-queue.ts\<close>.

  The local variables of \<^verbatim>\<open>TaskExecutionProjector.project\<close> are the record \<open>execution_state\<close>.
  The map \<^verbatim>\<open>nodes\<close> is an association list in insertion order.  The mutable attempts, shared by
  \<^verbatim>\<open>node.attempts\<close>, the map \<^verbatim>\<open>attempts\<close> and \<^verbatim>\<open>active\<close>, live in the list \<open>x_attempts\<close>; the
  three refer to them by index (an attempt id is set once, so the map's keys are those of the
  list).  There is one definition per case of the switch.
\<close>

section \<open>State\<close>

datatype node_status =
    ns_pending | ns_ready | ns_leased | ns_running | ns_waiting_for_user | ns_succeeded | ns_failed
  | ns_blocked | ns_cancelled | ns_skipped

datatype attempt_status = as_requested | as_running | as_waiting_for_user | as_terminal

record mutable_attempt =
  ma_attemptId :: string
  ma_attemptNumber :: nat
  ma_nodeId :: string
  ma_requestEventId :: string
  ma_reservation :: task_budget_counters
  ma_retryOrigin :: retry_origin
  ma_runId :: "string option"
  ma_startEventId :: "string option"
  ma_status :: attempt_status
  ma_terminal :: "attempt_terminal option"
  ma_terminalEventId :: "string option"
  ma_workspaceBinding :: "workspace_binding option"

record mutable_node =
  xn_attempts :: "nat list"
  xn_nextAttemptOrigin :: "retry_origin option"
  xn_node :: task_node_spec
  xn_status :: node_status
  xn_terminalEventId :: "string option"

datatype blocker_code = BudgetExhausted budget_field | WaitingForUser wait_reason | TerminalBlocker string

record execution_blocker =
  bl_code :: blocker_code
  bl_eventId :: string
  bl_nodeId :: "string option"

record execution_enqueue =
  nq_enqueueId :: string
  nq_eventId :: string
  nq_requestedExecution :: requested_execution
  nq_runtimeProfileId :: string

record execution_state =
  x_nodes :: "(string \<times> mutable_node) list"
  x_attempts :: "mutable_attempt list"
  x_active :: "nat option"
  x_blocker :: "execution_blocker option"
  x_enqueue :: "execution_enqueue option"
  x_lease :: "string option"
  x_consumed :: task_budget_counters
  x_reserved :: task_budget_counters
  x_completeness :: usage_completeness
  x_cancelRequested :: bool

type_synonym execution_result = "task_graph_error_code + execution_state"

definition nodeAt :: "execution_state \<Rightarrow> string \<Rightarrow> mutable_node option" where
  "nodeAt s i = map_of (x_nodes s) i"

definition setNode :: "string \<Rightarrow> (mutable_node \<Rightarrow> mutable_node) \<Rightarrow> execution_state \<Rightarrow> execution_state" where
  "setNode i f s = s\<lparr>x_nodes := map (\<lambda>(k, n). (k, if k = i then f n else n)) (x_nodes s)\<rparr>"

definition setAttempt :: "nat \<Rightarrow> (mutable_attempt \<Rightarrow> mutable_attempt) \<Rightarrow> execution_state \<Rightarrow> execution_state" where
  "setAttempt a f s = s\<lparr>x_attempts := (x_attempts s)[a := f (x_attempts s ! a)]\<rparr>"

definition initialNode :: "task_node_spec \<Rightarrow> mutable_node" where
  "initialNode node = \<lparr>xn_attempts = [], xn_nextAttemptOrigin = Some retry_initial, xn_node = node,
     xn_status = ns_pending, xn_terminalEventId = None\<rparr>"

definition initialNodes :: "task_node_spec list \<Rightarrow> (string \<times> mutable_node) list" where
  "initialNodes ns = fold (\<lambda>n m. AList.update (nodeId n) (initialNode n) m) ns []"

definition execution_init :: "task_graph_content \<Rightarrow> execution_state" where
  "execution_init content =
     (let tokens = (if maxReportedTokens (graphBudget content) = None then None else Some 0)
      in \<lparr>x_nodes = initialNodes (gc_nodes content), x_attempts = [], x_active = None, x_blocker = None, x_enqueue = None,
          x_lease = None, x_consumed = budgetZero tokens, x_reserved = budgetZero tokens,
          x_completeness = usage_complete, x_cancelRequested = False\<rparr>)"

definition isReady :: "execution_state \<Rightarrow> mutable_node \<Rightarrow> bool" where
  "isReady s node \<longleftrightarrow> xn_status node = ns_pending \<and>
     list_all (\<lambda>d. map_option xn_status (nodeAt s d) = Some ns_succeeded) (dependsOn (xn_node node))"

fun terminalNodeStatus :: "attempt_terminal \<Rightarrow> node_status" where
  "terminalNodeStatus at_succeeded = ns_succeeded"
| "terminalNodeStatus at_known_failed = ns_failed"
| "terminalNodeStatus at_pre_effect_infrastructure_failure = ns_failed"
| "terminalNodeStatus at_cancelled_clean = ns_cancelled"
| "terminalNodeStatus at_blocked_reconciliation = ns_blocked"
| "terminalNodeStatus at_blocked_unknown_effect = ns_blocked"

section \<open>The cases of the switch\<close>

definition xEnqueued :: "stored_event \<Rightarrow> string \<Rightarrow> requested_execution \<Rightarrow> string \<Rightarrow> execution_state \<Rightarrow> execution_state" where
  "xEnqueued event enqueue_id requested profile s =
     s\<lparr>x_enqueue := Some \<lparr>nq_enqueueId = enqueue_id, nq_eventId = eventId event, nq_requestedExecution = requested,
         nq_runtimeProfileId = profile\<rparr>, x_blocker := None\<rparr>"

definition xLeaseAcquired :: "string \<Rightarrow> execution_state \<Rightarrow> execution_result" where
  "xLeaseAcquired nonce s = (if x_lease s \<noteq> None then Inl task_graph_invalid else Inr (s\<lparr>x_lease := Some nonce\<rparr>))"

definition xLeaseRecovered :: "string \<Rightarrow> execution_state \<Rightarrow> execution_result" where
  "xLeaseRecovered previous s = (if x_lease s \<noteq> Some previous then Inl task_graph_invalid else Inr (s\<lparr>x_lease := None\<rparr>))"

definition xStarted :: "string \<Rightarrow> execution_state \<Rightarrow> execution_result" where
  "xStarted nonce s = (if x_lease s \<noteq> Some nonce then Inl task_graph_invalid else Inr s)"

definition newAttempt :: "stored_event \<Rightarrow> attempt_requested_data \<Rightarrow> mutable_attempt" where
  "newAttempt event d = \<lparr>ma_attemptId = ar_attempt_id d, ma_attemptNumber = ar_attempt_number d,
     ma_nodeId = ar_node_id d, ma_requestEventId = eventId event, ma_reservation = ar_reservation d,
     ma_retryOrigin = ar_retry_origin d, ma_runId = None, ma_startEventId = None,
     ma_status = as_requested, ma_terminal = None, ma_terminalEventId = None,
     ma_workspaceBinding = ar_workspace_binding d\<rparr>"

definition xAttemptRequested ::
  "task_graph_budget \<Rightarrow> stored_event \<Rightarrow> attempt_requested_data \<Rightarrow> execution_state \<Rightarrow> execution_result" where
  "xAttemptRequested graph_budget event d s =
     (case nodeAt s (ar_node_id d) of
        None \<Rightarrow> Inl task_graph_invalid
      | Some node \<Rightarrow>
          if x_active s \<noteq> None \<or> x_cancelRequested s \<or> \<not> isReady s node \<or>
             ar_attempt_number d \<noteq> length (xn_attempts node) + 1 \<or>
             list_ex (\<lambda>a. ma_attemptId a = ar_attempt_id d) (x_attempts s)
          then Inl task_graph_invalid
          else
            let held = ar_reservation d in
            if \<not> within (x_consumed s) (budgetAdd (x_reserved s) held) (limits graph_budget)
            then Inl task_graph_invalid
            else if (w_mode (n_workspace (xn_node node)) = origin_read_only) \<noteq> (ar_workspace_binding d = None)
            then Inl task_graph_invalid
            else
              let attempt = newAttempt event d;
                  a = length (x_attempts s);
                  s = setNode (ar_node_id d) (\<lambda>n. n\<lparr>xn_attempts := xn_attempts n @ [a], xn_status := ns_leased\<rparr>) s
              in Inr (s\<lparr>x_attempts := x_attempts s @ [attempt], x_active := Some a,
                       x_reserved := budgetAdd (x_reserved s) held\<rparr>))"

definition activeMatches :: "string \<Rightarrow> string \<Rightarrow> execution_state \<Rightarrow> nat option" where
  "activeMatches attempt_id node_id s = (case x_active s of
     None \<Rightarrow> None
   | Some a \<Rightarrow> if ma_attemptId (x_attempts s ! a) = attempt_id \<and> ma_nodeId (x_attempts s ! a) = node_id
       then Some a else None)"

definition xAttemptStarted :: "stored_event \<Rightarrow> string \<Rightarrow> string \<Rightarrow> string \<Rightarrow> string \<Rightarrow> execution_state \<Rightarrow> execution_result" where
  "xAttemptStarted event attempt_id node_id run_id nonce s =
     (case activeMatches attempt_id node_id s of
        None \<Rightarrow> Inl task_graph_invalid
      | Some a \<Rightarrow>
          if ma_status (x_attempts s ! a) \<noteq> as_requested \<or> x_lease s \<noteq> Some nonce then Inl task_graph_invalid
          else Inr (setNode node_id (\<lambda>n. n\<lparr>xn_status := ns_running\<rparr>)
                 (setAttempt a (\<lambda>t. t\<lparr>ma_status := as_running, ma_runId := Some run_id,
                    ma_startEventId := Some (eventId event)\<rparr>) s)))"

definition xAttemptWaiting :: "string \<Rightarrow> string \<Rightarrow> execution_state \<Rightarrow> execution_result" where
  "xAttemptWaiting attempt_id node_id s =
     (case activeMatches attempt_id node_id s of
        None \<Rightarrow> Inl task_graph_invalid
      | Some a \<Rightarrow> Inr (setNode node_id (\<lambda>n. n\<lparr>xn_status := ns_waiting_for_user\<rparr>)
                 (setAttempt a (\<lambda>t. t\<lparr>ma_status := as_waiting_for_user\<rparr>) s)))"

definition automaticRetry :: "attempt_terminal \<Rightarrow> bool \<Rightarrow> mutable_node \<Rightarrow> bool" where
  "automaticRetry terminal wasWaitingForUser node \<longleftrightarrow> terminal = at_pre_effect_infrastructure_failure \<and>
     (wasWaitingForUser \<and> length (xn_attempts node) < 3 \<or>
      length (xn_attempts node) < r_maxAttempts (n_retry (xn_node node)) \<and>
      pre_effect_infrastructure_failure_class \<in> set (automaticOn (n_retry (xn_node node))))"

definition settleNode :: "stored_event \<Rightarrow> attempt_terminal \<Rightarrow> bool \<Rightarrow> mutable_node \<Rightarrow> mutable_node" where
  "settleNode event terminal wasWaitingForUser node =
     (let again = automaticRetry terminal wasWaitingForUser node in
      node\<lparr>xn_status := (if again then ns_pending else terminalNodeStatus terminal),
           xn_nextAttemptOrigin := (if again then Some (if wasWaitingForUser then retry_user else retry_automatic) else None),
           xn_terminalEventId := (if again then None else Some (eventId event))\<rparr>)"

definition xAttemptTerminal :: "stored_event \<Rightarrow> attempt_terminal_data \<Rightarrow> execution_state \<Rightarrow> execution_result" where
  "xAttemptTerminal event d s =
     (case activeMatches (atd_attempt_id d) (atd_node_id d) s of
        None \<Rightarrow> Inl task_graph_invalid
      | Some a \<Rightarrow>
          let active = x_attempts s ! a; used = atd_budget d in
          if \<not> within used (budgetZero (if reportedTokens used = None then None else Some 0)) (ma_reservation active)
          then Inl task_graph_invalid
          else
            let wasWaitingForUser = (ma_status active = as_waiting_for_user);
                s = s\<lparr>x_reserved := budgetRelease (x_reserved s) (ma_reservation active),
                      x_consumed := budgetAdd (x_consumed s) used,
                      x_completeness := mergeCompleteness (x_completeness s) (atd_usage_completeness d)\<rparr>;
                s = setAttempt a (\<lambda>t. t\<lparr>ma_status := as_terminal, ma_terminal := Some (atd_terminal d),
                      ma_terminalEventId := Some (eventId event)\<rparr>) s;
                s = setNode (atd_node_id d) (settleNode event (atd_terminal d) wasWaitingForUser) s
            in Inr (s\<lparr>x_active := None\<rparr>))"

definition retryable :: "attempt_terminal option \<Rightarrow> bool" where
  "retryable t \<longleftrightarrow> t \<in> {Some at_known_failed, Some at_pre_effect_infrastructure_failure, Some at_cancelled_clean}"

definition xRetryRequested :: "retry_requested_data \<Rightarrow> execution_state \<Rightarrow> execution_result" where
  "xRetryRequested d s =
     (case nodeAt s (rr_node_id d) of
        None \<Rightarrow> Inl task_graph_invalid
      | Some node \<Rightarrow>
          if length (xn_attempts node) \<le> rr_attempt_number d - 1 then Inl task_graph_invalid
          else
            let previous = x_attempts s ! (xn_attempts node ! (rr_attempt_number d - 1));
                previousTerminal = (case rr_previous_terminal d of Some t \<Rightarrow> Some t | None \<Rightarrow> ma_terminal previous);
                expectedNodeStatus = (if previousTerminal = Some at_cancelled_clean then ns_cancelled else ns_failed)
            in
            if x_active s \<noteq> None \<or> ma_attemptNumber previous \<noteq> rr_attempt_number d \<or>
               ma_terminalEventId previous \<noteq> Some (rr_terminal_event_id d) \<or> ma_status previous \<noteq> as_terminal \<or>
               ma_terminal previous \<noteq> previousTerminal \<or> \<not> retryable previousTerminal \<or>
               xn_status node \<noteq> expectedNodeStatus \<or>
               int (length (xn_attempts node)) \<ge> maxAttempts (n_budget (xn_node node))
            then Inl task_graph_invalid
            else Inr ((setNode (rr_node_id d) (\<lambda>n. n\<lparr>xn_status := ns_pending, xn_nextAttemptOrigin := Some retry_user,
                         xn_terminalEventId := None\<rparr>) s)\<lparr>x_blocker := None\<rparr>))"

definition xSkipped :: "stored_event \<Rightarrow> string \<Rightarrow> string list \<Rightarrow> execution_state \<Rightarrow> execution_result" where
  "xSkipped event node_id root_blocker_node_ids s =
     (case nodeAt s node_id of
        None \<Rightarrow> Inl task_graph_invalid
      | Some node \<Rightarrow>
          if xn_status node \<noteq> ns_pending \<or>
             list_ex (\<lambda>b. map_option xn_status (nodeAt s b) \<notin>
               {Some ns_failed, Some ns_blocked, Some ns_cancelled, Some ns_skipped}) root_blocker_node_ids
          then Inl task_graph_invalid
          else Inr (setNode node_id (\<lambda>n. n\<lparr>xn_status := ns_skipped, xn_terminalEventId := Some (eventId event)\<rparr>) s))"

definition setBlocker :: "stored_event \<Rightarrow> blocker_code \<Rightarrow> string option \<Rightarrow> execution_state \<Rightarrow> execution_state" where
  "setBlocker event code node s = s\<lparr>x_blocker := Some \<lparr>bl_code = code, bl_eventId = eventId event, bl_nodeId = node\<rparr>\<rparr>"

definition xTerminal :: "stored_event \<Rightarrow> graph_terminal_status \<Rightarrow> string option \<Rightarrow> execution_state \<Rightarrow> execution_result" where
  "xTerminal event status blocker_code s =
     (if status = gt_completed \<and> list_ex (\<lambda>(_, n). xn_status n \<noteq> ns_succeeded) (x_nodes s) then Inl task_graph_invalid
      else
        let s = (case blocker_code of None \<Rightarrow> s | Some code \<Rightarrow> setBlocker event (TerminalBlocker code) None s)
        in Inr (s\<lparr>x_lease := None\<rparr>))"

text \<open>\<open>eventGraph\<close> reads \<^verbatim>\<open>graph_id\<close>, \<^verbatim>\<open>graph_revision\<close> and \<^verbatim>\<open>graph_sha256\<close> of an event's data.\<close>

fun eventGraph :: "event_data \<Rightarrow> graph_ref option" where
  "eventGraph (TaskGraphEnqueued ref _ _ _) = Some ref"
| "eventGraph (TaskSchedulerLeaseAcquired ref _) = Some ref"
| "eventGraph (TaskSchedulerLeaseRecovered ref _) = Some ref"
| "eventGraph (TaskGraphStarted ref _) = Some ref"
| "eventGraph (TaskGraphCancelRequested ref) = Some ref"
| "eventGraph (TaskNodeAttemptRequested ref _) = Some ref"
| "eventGraph (TaskNodeAttemptStarted ref _ _ _ _) = Some ref"
| "eventGraph (TaskNodeAttemptWaiting ref _ _) = Some ref"
| "eventGraph (TaskNodeAttemptTerminal ref _) = Some ref"
| "eventGraph (TaskNodeRetryRequested ref _) = Some ref"
| "eventGraph (TaskNodeSkipped ref _ _) = Some ref"
| "eventGraph (TaskBudgetExhausted ref _ _) = Some ref"
| "eventGraph (TaskGraphWaitingForUser ref _) = Some ref"
| "eventGraph (TaskGraphTerminal ref _ _) = Some ref"
| "eventGraph _ = None"

definition exactGraphEvent :: "stored_event \<Rightarrow> mutable_revision \<Rightarrow> bool" where
  "exactGraphEvent event graph \<longleftrightarrow> scope event = SessionScope \<and>
     eventGraph (edata event) = Some \<lparr>gr_graph_id = mr_graphId graph, gr_graph_revision = mr_revision graph,
       gr_graph_sha256 = mr_graphSha256 graph\<rparr>"

definition executionEvent :: "task_graph_budget \<Rightarrow> stored_event \<Rightarrow> execution_state \<Rightarrow> execution_result" where
  "executionEvent graph_budget event s = (case edata event of
     TaskGraphEnqueued _ enqueue_id requested profile \<Rightarrow> Inr (xEnqueued event enqueue_id requested profile s)
   | TaskSchedulerLeaseAcquired _ nonce \<Rightarrow> xLeaseAcquired nonce s
   | TaskSchedulerLeaseRecovered _ previous \<Rightarrow> xLeaseRecovered previous s
   | TaskGraphStarted _ nonce \<Rightarrow> xStarted nonce s
   | TaskGraphCancelRequested _ \<Rightarrow> Inr (s\<lparr>x_cancelRequested := True\<rparr>)
   | TaskNodeAttemptRequested _ d \<Rightarrow> xAttemptRequested graph_budget event d s
   | TaskNodeAttemptStarted _ attempt_id node_id run_id nonce \<Rightarrow> xAttemptStarted event attempt_id node_id run_id nonce s
   | TaskNodeAttemptWaiting _ attempt_id node_id \<Rightarrow> xAttemptWaiting attempt_id node_id s
   | TaskNodeAttemptTerminal _ d \<Rightarrow> xAttemptTerminal event d s
   | TaskNodeRetryRequested _ d \<Rightarrow> xRetryRequested d s
   | TaskNodeSkipped _ node_id roots \<Rightarrow> xSkipped event node_id roots s
   | TaskBudgetExhausted _ counter node \<Rightarrow> Inr (setBlocker event (BudgetExhausted counter) node s)
   | TaskGraphWaitingForUser _ reason \<Rightarrow> Inr (setBlocker event (WaitingForUser reason)
       (map_option (\<lambda>a. ma_nodeId (x_attempts s ! a)) (x_active s)) s)
   | TaskGraphTerminal _ status blocker_code \<Rightarrow> xTerminal event status blocker_code s
   | _ \<Rightarrow> Inr s)"

definition executionStep :: "mutable_revision \<Rightarrow> execution_state \<Rightarrow> stored_event \<Rightarrow> execution_result" where
  "executionStep graph s event =
     (if \<not> exactGraphEvent event graph then Inr s else executionEvent (graphBudget (mr_content graph)) event s)"

section \<open>The projection\<close>

definition executionGraph :: "stored_event list \<Rightarrow> mutable_revision list \<Rightarrow> mutable_revision option" where
  "executionGraph events revs =
     (case find (\<lambda>e. scope e = SessionScope \<and> (case edata e of TaskGraphEnqueued _ _ _ _ \<Rightarrow> True | _ \<Rightarrow> False)) (rev events) of
        None \<Rightarrow> None
      | Some enqueue \<Rightarrow> find (\<lambda>r. eventGraph (edata enqueue) = Some \<lparr>gr_graph_id = mr_graphId r,
          gr_graph_revision = mr_revision r, gr_graph_sha256 = mr_graphSha256 r\<rparr>) revs)"

record node_projection =
  np_attempts :: "mutable_attempt list"
  np_nextAttemptOrigin :: "retry_origin option"
  np_node :: task_node_spec
  np_nodeId :: string
  np_status :: node_status
  np_terminalEventId :: "string option"

record task_budget_projection =
  tb_consumed :: task_budget_counters
  tb_limits :: task_budget_counters
  tb_remaining :: task_budget_counters
  tb_reserved :: task_budget_counters
  tb_usageCompleteness :: usage_completeness

record task_execution_projection =
  tx_activeAttempt :: "mutable_attempt option"
  tx_blocker :: "execution_blocker option"
  tx_budget :: task_budget_projection
  tx_enqueue :: execution_enqueue
  tx_graph :: mutable_revision
  tx_lastSessionSeq :: nat
  tx_nodes :: "node_projection list"
  tx_readyNodeIds :: "string list"
  tx_schedulerLeaseNonceSha256 :: "string option"
  tx_status :: graph_status

definition canQueue :: "mutable_revision \<Rightarrow> execution_state \<Rightarrow> bool" where
  "canQueue graph s \<longleftrightarrow> x_active s = None \<and> x_blocker s = None \<and> \<not> x_cancelRequested s \<and>
     mr_status graph \<in> {gs_queued, gs_running}"

text \<open>
  Node sequences of an accepted revision are distinct, so the comparison by sequence decides the
  order and its fallback to the node id never matters.
\<close>

definition readyNodes :: "mutable_revision \<Rightarrow> execution_state \<Rightarrow> string list" where
  "readyNodes graph s = (if canQueue graph s
     then map (\<lambda>n. nodeId (xn_node n)) (sort_key (\<lambda>n. sequence (xn_node n)) (filter (isReady s) (map snd (x_nodes s))))
     else [])"

definition projectedNode :: "execution_state \<Rightarrow> task_node_spec \<Rightarrow> node_projection" where
  "projectedNode s spec = (let node = the (nodeAt s (nodeId spec)) in
     \<lparr>np_attempts = map (\<lambda>a. x_attempts s ! a) (xn_attempts node), np_nextAttemptOrigin = xn_nextAttemptOrigin node,
      np_node = spec, np_nodeId = nodeId spec, np_status = xn_status node, np_terminalEventId = xn_terminalEventId node\<rparr>)"

definition markReady :: "string list \<Rightarrow> execution_state \<Rightarrow> execution_state" where
  "markReady ready s = fold (\<lambda>i. setNode i (\<lambda>n. n\<lparr>xn_status := ns_ready\<rparr>)) ready s"

definition executionProjection ::
  "stored_event list \<Rightarrow> mutable_revision \<Rightarrow> execution_state \<Rightarrow> task_graph_error_code + task_execution_projection" where
  "executionProjection events graph s = (case x_enqueue s of
     None \<Rightarrow> Inl task_graph_invalid
   | Some enqueue \<Rightarrow>
       let ready = readyNodes graph s;
           s = markReady ready s;
           budgetLimits = limits (graphBudget (mr_content graph))
       in ebind (budgetSubtract budgetLimits (x_consumed s) (x_reserved s)) (\<lambda>remaining.
          Inr \<lparr>tx_activeAttempt = map_option (\<lambda>a. x_attempts s ! a) (x_active s), tx_blocker = x_blocker s,
               tx_budget = \<lparr>tb_consumed = x_consumed s, tb_limits = budgetLimits, tb_remaining = remaining,
                 tb_reserved = x_reserved s, tb_usageCompleteness = x_completeness s\<rparr>,
               tx_enqueue = enqueue, tx_graph = graph,
               tx_lastSessionSeq = (if events = [] then 0 else sessionSeq (last events)),
               tx_nodes = map (projectedNode s) (gc_nodes (mr_content graph)), tx_readyNodeIds = ready,
               tx_schedulerLeaseNonceSha256 = x_lease s, tx_status = mr_status graph\<rparr>))"

definition projectExecution ::
  "stored_event list \<Rightarrow> mutable_revision list \<Rightarrow> task_graph_error_code + task_execution_projection option" where
  "projectExecution events revs = (case executionGraph events revs of
     None \<Rightarrow> Inr None
   | Some graph \<Rightarrow>
       ebind (efold (executionStep graph) (execution_init (mr_content graph)) events) (\<lambda>s.
         ebind (executionProjection events graph s) (\<lambda>p. Inr (Some p))))"

section \<open>The ready queue\<close>

definition deterministicReadyQueue :: "task_execution_projection \<Rightarrow> node_projection list" where
  "deterministicReadyQueue execution =
     sort_key (\<lambda>n. sequence (np_node n)) (filter (\<lambda>n. np_nodeId n \<in> set (tx_readyNodeIds execution)) (tx_nodes execution))"

end
