(* ===== verification/TaskExecutionInvariants.thy ===== *)
theory TaskExecutionInvariants
  imports TaskExecution
begin

text \<open>
  The invariant of the execution projector: the nodes are those of the approved revision, the
  ledger stays within its ceilings and holds exactly the reservation of the active attempt, at
  most one attempt is open, attempts are numbered, and a node that was ever attempted has only
  succeeded dependencies.
\<close>

section \<open>The invariant\<close>

fun attemptNodeStatus :: "attempt_status \<Rightarrow> node_status" where
  "attemptNodeStatus as_requested = ns_leased"
| "attemptNodeStatus as_running = ns_running"
| "attemptNodeStatus as_waiting_for_user = ns_waiting_for_user"
| "attemptNodeStatus as_terminal = ns_pending"

definition nodesOk :: "task_graph_content \<Rightarrow> execution_state \<Rightarrow> bool" where
  "nodesOk content s \<longleftrightarrow> map (\<lambda>(k, n). (k, xn_node n)) (x_nodes s) = map (\<lambda>n. (nodeId n, n)) (gc_nodes content)"

definition succeeded :: "execution_state \<Rightarrow> string \<Rightarrow> bool" where
  "succeeded s i \<longleftrightarrow> map_option xn_status (nodeAt s i) = Some ns_succeeded"

definition nodeInv :: "execution_state \<Rightarrow> string \<Rightarrow> mutable_node \<Rightarrow> bool" where
  "nodeInv s k n \<longleftrightarrow> xn_status n \<noteq> ns_ready \<and>
     (\<forall>j<length (xn_attempts n). xn_attempts n ! j < length (x_attempts s) \<and>
        ma_nodeId (x_attempts s ! (xn_attempts n ! j)) = k \<and>
        ma_attemptNumber (x_attempts s ! (xn_attempts n ! j)) = j + 1) \<and>
     (xn_attempts n \<noteq> [] \<longrightarrow> list_all (succeeded s) (dependsOn (xn_node n))) \<and>
     (xn_status n = ns_succeeded \<longrightarrow> xn_attempts n \<noteq> [] \<and>
        ma_terminal (x_attempts s ! last (xn_attempts n)) = Some at_succeeded) \<and>
     (xn_status n \<in> {ns_leased, ns_running, ns_waiting_for_user} \<longrightarrow>
        xn_attempts n \<noteq> [] \<and> x_active s = Some (last (xn_attempts n)))"

definition attemptInv :: "execution_state \<Rightarrow> bool" where
  "attemptInv s \<longleftrightarrow> distinct (map ma_attemptId (x_attempts s)) \<and>
     (\<forall>a<length (x_attempts s). (ma_status (x_attempts s ! a) = as_terminal \<longleftrightarrow> x_active s \<noteq> Some a) \<and>
        (ma_status (x_attempts s ! a) = as_terminal \<longleftrightarrow> ma_terminal (x_attempts s ! a) \<noteq> None) \<and>
        (\<exists>n. nodeAt s (ma_nodeId (x_attempts s ! a)) = Some n \<and> a \<in> set (xn_attempts n))) \<and>
     (\<forall>a. x_active s = Some a \<longrightarrow> a < length (x_attempts s) \<and>
        (\<exists>n. nodeAt s (ma_nodeId (x_attempts s ! a)) = Some n \<and> xn_status n = attemptNodeStatus (ma_status (x_attempts s ! a))))"

definition zeroTokens :: "task_graph_content \<Rightarrow> int option" where
  "zeroTokens content = (if maxReportedTokens (graphBudget content) = None then None else Some 0)"

definition ledgerInv :: "task_graph_content \<Rightarrow> execution_state \<Rightarrow> bool" where
  "ledgerInv content s \<longleftrightarrow> within (x_consumed s) (x_reserved s) (limits (graphBudget content)) \<and>
     x_reserved s = (case x_active s of None \<Rightarrow> budgetZero (zeroTokens content)
       | Some a \<Rightarrow> budgetAdd (budgetZero (zeroTokens content)) (ma_reservation (x_attempts s ! a)))"

definition executionInv :: "task_graph_content \<Rightarrow> execution_state \<Rightarrow> bool" where
  "executionInv content s \<longleftrightarrow> nodesOk content s \<and> (\<forall>k n. nodeAt s k = Some n \<longrightarrow> nodeInv s k n) \<and>
     attemptInv s \<and> ledgerInv content s"

lemma executionInvD:
  assumes "executionInv content s"
  shows "nodesOk content s" "nodeAt s k = Some n \<Longrightarrow> nodeInv s k n" "attemptInv s" "ledgerInv content s"
  using assms by (simp_all add: executionInv_def)

lemma executionInv_same:
  assumes "executionInv content s" "x_nodes s' = x_nodes s" "x_attempts s' = x_attempts s" "x_active s' = x_active s"
    "x_consumed s' = x_consumed s" "x_reserved s' = x_reserved s"
  shows "executionInv content s'"
proof -
  have n: "nodeAt s' = nodeAt s"
    using assms(2) by (simp add: nodeAt_def fun_eq_iff)
  then have ok: "succeeded s' = succeeded s"
    by (simp add: succeeded_def fun_eq_iff)
  show ?thesis
    using assms(1) unfolding executionInv_def nodesOk_def nodeInv_def attemptInv_def ledgerInv_def assms(2-6) n ok .
qed

section \<open>Updating nodes and attempts\<close>

lemma setNode_simps [simp]:
  "x_attempts (setNode i f s) = x_attempts s" "x_active (setNode i f s) = x_active s" "x_blocker (setNode i f s) = x_blocker s"
  "x_enqueue (setNode i f s) = x_enqueue s" "x_lease (setNode i f s) = x_lease s" "x_consumed (setNode i f s) = x_consumed s"
  "x_reserved (setNode i f s) = x_reserved s" "x_completeness (setNode i f s) = x_completeness s"
  "x_cancelRequested (setNode i f s) = x_cancelRequested s"
  by (simp_all add: setNode_def)

lemma setAttempt_simps [simp]:
  "x_attempts (setAttempt a g s) = (x_attempts s)[a := g (x_attempts s ! a)]" "x_nodes (setAttempt a g s) = x_nodes s"
  "x_active (setAttempt a g s) = x_active s" "x_consumed (setAttempt a g s) = x_consumed s"
  "x_reserved (setAttempt a g s) = x_reserved s"
  by (simp_all add: setAttempt_def)

lemma map_of_map_key:
  "map_of (map (\<lambda>(k, n). (k, if k = i then f n else n)) xs) j = map_option (\<lambda>n. if j = i then f n else n) (map_of xs j)"
  by (induction xs) auto

lemma nodeAt_setNode: "nodeAt (setNode i f s) j = map_option (\<lambda>n. if j = i then f n else n) (nodeAt s j)"
  by (simp add: nodeAt_def setNode_def map_of_map_key)

lemma nodeAt_cong: "x_nodes s' = x_nodes s \<Longrightarrow> nodeAt s' = nodeAt (s :: execution_state)"
  by (rule ext) (simp add: nodeAt_def)

lemma nodesOk_setNode:
  assumes "nodesOk content s" "\<And>n. xn_node (f n) = xn_node n"
  shows "nodesOk content (setNode i f s)"
proof -
  have "map (\<lambda>(k, n). (k, xn_node n)) (x_nodes (setNode i f s)) = map (\<lambda>(k, n). (k, xn_node n)) (x_nodes s)"
    by (simp add: setNode_def assms(2) split_def)
  with assms(1) show ?thesis by (simp add: nodesOk_def)
qed

lemma nodesOk_cong: "x_nodes s' = x_nodes s \<Longrightarrow> nodesOk content s' = nodesOk content s"
  by (simp add: nodesOk_def)

text \<open>
  One node and the attempts of that node change; every other node keeps its part of the
  invariant, and no success is undone.
\<close>

definition nodeChange ::
  "task_graph_content \<Rightarrow> execution_state \<Rightarrow> execution_state \<Rightarrow> string \<Rightarrow> (mutable_node \<Rightarrow> mutable_node) \<Rightarrow> mutable_node \<Rightarrow> bool" where
  "nodeChange content s s' i f n0 \<longleftrightarrow> executionInv content s \<and> nodeAt s i = Some n0 \<and> xn_status n0 \<noteq> ns_succeeded \<and>
     x_nodes s' = x_nodes (setNode i f s) \<and> (\<forall>n. xn_node (f n) = xn_node n) \<and> length (x_attempts s) \<le> length (x_attempts s') \<and>
     (\<forall>a<length (x_attempts s). ma_nodeId (x_attempts s ! a) \<noteq> i \<longrightarrow> x_attempts s' ! a = x_attempts s ! a) \<and>
     (\<forall>a. x_active s = Some a \<longrightarrow> ma_nodeId (x_attempts s ! a) \<noteq> i \<longrightarrow> x_active s' = Some a)"

lemma nodeChangeD:
  assumes "nodeChange content s s' i f n0"
  shows "executionInv content s" "nodeAt s i = Some n0" "xn_status n0 \<noteq> ns_succeeded" "x_nodes s' = x_nodes (setNode i f s)"
    "xn_node (f n) = xn_node n" "length (x_attempts s) \<le> length (x_attempts s')"
    "a < length (x_attempts s) \<Longrightarrow> ma_nodeId (x_attempts s ! a) \<noteq> i \<Longrightarrow> x_attempts s' ! a = x_attempts s ! a"
    "x_active s = Some b \<Longrightarrow> ma_nodeId (x_attempts s ! b) \<noteq> i \<Longrightarrow> x_active s' = Some b"
    "nodeAt s' j = map_option (\<lambda>n. if j = i then f n else n) (nodeAt s j)"
  using assms by (auto simp: nodeChange_def nodeAt_setNode nodeAt_cong [of s' "setNode i f s"])

lemma succeeded_kept: "nodeChange content s s' i f n0 \<Longrightarrow> succeeded s d \<Longrightarrow> succeeded s' d"
  using nodeChangeD(2,3) [of content s s' i f n0] by (cases "d = i") (auto simp: succeeded_def nodeChangeD(9))

lemma succeeded_all: "nodeChange content s s' i f n0 \<Longrightarrow> list_all (succeeded s) ds \<Longrightarrow> list_all (succeeded s') ds"
  by (auto simp: list_all_iff intro: succeeded_kept)

lemma node_attempt:
  assumes "executionInv content s" "nodeAt s k = Some n" "a \<in> set (xn_attempts n)"
  shows "a < length (x_attempts s)" "ma_nodeId (x_attempts s ! a) = k"
proof -
  obtain j where "j < length (xn_attempts n)" "xn_attempts n ! j = a"
    using assms(3) by (auto simp: in_set_conv_nth)
  with executionInvD(2) [OF assms(1,2)] have "a < length (x_attempts s) \<and> ma_nodeId (x_attempts s ! a) = k"
    unfolding nodeInv_def by blast
  then show "a < length (x_attempts s)" "ma_nodeId (x_attempts s ! a) = k" by auto
qed

lemma other_node:
  assumes ch: "nodeChange content s s' i f n0" and "nodeAt s' k = Some n" "k \<noteq> i"
  shows "nodeInv s' k n"
proof -
  note inv = nodeChangeD(1) [OF ch]
  have n: "nodeAt s k = Some n"
    using assms by (auto simp: nodeChangeD(9) [OF ch])
  note N = executionInvD(2) [OF inv n, unfolded nodeInv_def]
  note A = node_attempt [OF inv n]
  have same: "x_attempts s' ! a = x_attempts s ! a" if "a \<in> set (xn_attempts n)" for a
    using nodeChangeD(7) [OF ch A(1) [OF that]] A(2) [OF that] assms(3) by simp
  have "xn_attempts n ! j < length (x_attempts s') \<and> ma_nodeId (x_attempts s' ! (xn_attempts n ! j)) = k \<and>
      ma_attemptNumber (x_attempts s' ! (xn_attempts n ! j)) = j + 1" if "j < length (xn_attempts n)" for j
    using N that same [OF nth_mem [OF that]] nodeChangeD(6) [OF ch] by auto
  moreover have "ma_terminal (x_attempts s' ! last (xn_attempts n)) = Some at_succeeded"
    if "xn_status n = ns_succeeded" "xn_attempts n \<noteq> []"
    using N that same [of "last (xn_attempts n)"] by simp
  moreover have "x_active s' = Some (last (xn_attempts n))"
    if "xn_status n \<in> {ns_leased, ns_running, ns_waiting_for_user}" "xn_attempts n \<noteq> []"
    using N that nodeChangeD(8) [OF ch, of "last (xn_attempts n)"] A(2) [of "last (xn_attempts n)"] assms(3) by auto
  ultimately show ?thesis
    using N succeeded_all [OF ch] unfolding nodeInv_def by blast
qed

lemma nodeChange_inv:
  assumes ch: "nodeChange content s s' i f n0"
    and "nodeInv s' i (f n0)" "attemptInv s'" "ledgerInv content s'"
  shows "executionInv content s'"
proof -
  have "nodesOk content s'"
    using nodesOk_setNode [OF executionInvD(1) [OF nodeChangeD(1) [OF ch]] nodeChangeD(5) [OF ch]]
    by (simp add: nodesOk_cong [OF nodeChangeD(4) [OF ch]])
  moreover have "nodeInv s' k n" if "nodeAt s' k = Some n" for k n
    using that other_node [OF ch that] assms(2) nodeChangeD(2,9) [OF ch] by (cases "k = i") auto
  ultimately show ?thesis
    using assms(3,4) by (simp add: executionInv_def)
qed

section \<open>The ledger\<close>

lemma zeroTokens_limit: "zeroTokens content = None \<longleftrightarrow> reportedTokens (limits (graphBudget content)) = None"
  by (simp add: zeroTokens_def limits_def)

lemma zeroTokens_cases: "zeroTokens content = None \<or> zeroTokens content = Some 0"
  by (simp add: zeroTokens_def)

lemma release_add_zero:
  assumes "t = None \<or> (t = Some 0 \<and> reportedTokens h \<noteq> None)"
  shows "budgetRelease (budgetAdd (budgetZero t) h) h = budgetZero t"
  using assms by (auto simp: budgetRelease_def budgetAdd_def budgetZero_def)

lemma held_tokens:
  assumes "within consumed (budgetAdd r h) limit" "reportedTokens limit = Some m"
  shows "reportedTokens h \<noteq> None"
  using within_at [OF assms(1), of FReportedTokens] assms(2) by (auto simp: budgetAdd_def both_def split: option.splits)

lemma active_tokens:
  assumes "ledgerInv content s" "x_active s = Some a"
  shows "zeroTokens content = None \<or> (zeroTokens content = Some 0 \<and> reportedTokens (ma_reservation (x_attempts s ! a)) \<noteq> None)"
    "reportedTokens (limits (graphBudget content)) = Some m \<Longrightarrow> reportedTokens (ma_reservation (x_attempts s ! a)) \<noteq> None"
  using assms held_tokens [of "x_consumed s" "budgetZero (zeroTokens content)" "ma_reservation (x_attempts s ! a)" "limits (graphBudget content)"]
    zeroTokens_cases [of content] zeroTokens_limit [of content] by (auto simp: ledgerInv_def)

section \<open>Every case keeps the invariant\<close>

lemma nodeChangeI:
  assumes "executionInv content s" "nodeAt s i = Some n0" "xn_status n0 \<noteq> ns_succeeded"
    "x_nodes s' = x_nodes (setNode i f s)" "\<And>n. xn_node (f n) = xn_node n" "length (x_attempts s) \<le> length (x_attempts s')"
    "\<And>a. a < length (x_attempts s) \<Longrightarrow> ma_nodeId (x_attempts s ! a) \<noteq> i \<Longrightarrow> x_attempts s' ! a = x_attempts s ! a"
    "\<And>a. x_active s = Some a \<Longrightarrow> ma_nodeId (x_attempts s ! a) \<noteq> i \<Longrightarrow> x_active s' = Some a"
  shows "nodeChange content s s' i f n0"
  using assms unfolding nodeChange_def by blast

text \<open>A case that only changes the status of an idle node.\<close>

lemma idle_node_inv:
  assumes inv: "executionInv content s" and at: "nodeAt s i = Some n0"
    and st: "xn_status n0 \<notin> {ns_succeeded, ns_leased, ns_running, ns_waiting_for_user}"
    and f: "\<And>n. xn_node (f n) = xn_node n" "\<And>n. xn_attempts (f n) = xn_attempts n"
    and st': "xn_status (f n0) \<notin> {ns_ready, ns_succeeded, ns_leased, ns_running, ns_waiting_for_user}"
  shows "executionInv content (setNode i f s)"
proof -
  have ch: "nodeChange content s (setNode i f s) i f n0"
    using st f(1) by (intro nodeChangeI [OF inv at]) auto
  note N = executionInvD(2) [OF inv at, unfolded nodeInv_def]
  have "nodeInv (setNode i f s) i (f n0)"
    using N st' succeeded_all [OF ch] unfolding nodeInv_def f setNode_simps by auto
  moreover have "attemptInv (setNode i f s)"
  proof -
    have A: "attemptInv s" by (rule executionInvD(3) [OF inv])
    have "\<exists>n. nodeAt (setNode i f s) k = Some n \<and> a \<in> set (xn_attempts n)"
      if "\<exists>n. nodeAt s k = Some n \<and> a \<in> set (xn_attempts n)" for k a
      using that f(2) by (cases "k = i") (auto simp: nodeAt_setNode)
    moreover have "\<exists>n. nodeAt (setNode i f s) k = Some n \<and> xn_status n = attemptNodeStatus (ma_status (x_attempts s ! a))"
      if "x_active s = Some a" "a < length (x_attempts s)" "k = ma_nodeId (x_attempts s ! a)"
        "\<exists>n. nodeAt s k = Some n \<and> xn_status n = attemptNodeStatus (ma_status (x_attempts s ! a))" for k a
    proof -
      have "ma_status (x_attempts s ! a) \<noteq> as_terminal" using A that(1,2) by (auto simp: attemptInv_def)
      then have "k \<noteq> i" using that(4) at st by (cases "ma_status (x_attempts s ! a)") auto
      with that(4) show ?thesis by (auto simp: nodeAt_setNode)
    qed
    ultimately show ?thesis
      using A unfolding attemptInv_def setNode_simps by blast
  qed
  moreover have "ledgerInv content (setNode i f s)"
    using executionInvD(4) [OF inv] unfolding ledgerInv_def setNode_simps .
  ultimately show ?thesis
    by (rule nodeChange_inv [OF ch])
qed

lemma xSkipped_inv:
  assumes "executionInv content s" "xSkipped event i roots s = Inr s'"
  shows "executionInv content s'"
  using assms by (auto simp: xSkipped_def split: option.splits if_splits intro!: idle_node_inv)

lemma xRetryRequested_inv:
  assumes inv: "executionInv content s" and step: "xRetryRequested d s = Inr s'"
  shows "executionInv content s'"
proof -
  obtain node where node: "nodeAt s (rr_node_id d) = Some node" and st: "xn_status node \<in> {ns_failed, ns_cancelled}"
    and s': "s' = (setNode (rr_node_id d) (\<lambda>n. n\<lparr>xn_status := ns_pending, xn_nextAttemptOrigin := Some retry_user,
                         xn_terminalEventId := None\<rparr>) s)\<lparr>x_blocker := None\<rparr>"
    using step by (auto simp: xRetryRequested_def Let_def split: option.splits if_splits)
  have "executionInv content (setNode (rr_node_id d) (\<lambda>n. n\<lparr>xn_status := ns_pending, xn_nextAttemptOrigin := Some retry_user,
                         xn_terminalEventId := None\<rparr>) s)"
    by (rule idle_node_inv [OF inv node]) (use st in auto)
  then show ?thesis
    by (rule executionInv_same) (simp_all add: s')
qed

text \<open>The request of an attempt: the node is idle and no attempt is open.\<close>

lemma xAttemptRequested_inv:
  assumes inv: "executionInv content s" and step: "xAttemptRequested (graphBudget content) event d s = Inr s'"
  shows "executionInv content s'"
proof -
  let ?i = "ar_node_id d" and ?a = "length (x_attempts s)"
  let ?f = "\<lambda>n. n\<lparr>xn_attempts := xn_attempts n @ [?a], xn_status := ns_leased\<rparr>"
  define attempt where "attempt = newAttempt event d"
  have att: "ma_attemptId attempt = ar_attempt_id d" "ma_attemptNumber attempt = ar_attempt_number d" "ma_nodeId attempt = ?i"
      "ma_reservation attempt = ar_reservation d" "ma_status attempt = as_requested" "ma_terminal attempt = None"
    by (simp_all add: attempt_def newAttempt_def)
  obtain node where node: "nodeAt s ?i = Some node" and idle: "x_active s = None" and ready: "isReady s node"
    and num: "ar_attempt_number d = length (xn_attempts node) + 1"
    and fresh: "\<not> list_ex (\<lambda>a. ma_attemptId a = ar_attempt_id d) (x_attempts s)"
    and w: "within (x_consumed s) (budgetAdd (x_reserved s) (ar_reservation d)) (limits (graphBudget content))"
    and s': "s' = (setNode ?i ?f s)\<lparr>x_attempts := x_attempts s @ [attempt], x_active := Some ?a,
      x_reserved := budgetAdd (x_reserved s) (ar_reservation d)\<rparr>"
    using step by (auto simp: xAttemptRequested_def Let_def attempt_def split: option.splits if_splits)
  have st: "xn_status node = ns_pending" and deps: "list_all (succeeded s) (dependsOn (xn_node node))"
    using ready by (simp_all add: isReady_def succeeded_def [abs_def])
  have ch: "nodeChange content s s' ?i ?f node"
    using st idle by (intro nodeChangeI [OF inv node]) (simp_all add: s' setNode_def nth_append)
  have at: "nodeAt s' j = map_option (\<lambda>n. if j = ?i then ?f n else n) (nodeAt s j)" for j
    by (rule nodeChangeD(9) [OF ch])
  note N = executionInvD(2) [OF inv node, unfolded nodeInv_def]
  have "nodeInv s' ?i (?f node)"
    using N succeeded_all [OF ch deps] num att unfolding nodeInv_def by (auto simp: s' nth_append less_Suc_eq)
  moreover have "attemptInv s'"
  proof -
    have A: "attemptInv s" by (rule executionInvD(3) [OF inv])
    then have old: "ma_status (x_attempts s ! a) = as_terminal \<and> ma_terminal (x_attempts s ! a) \<noteq> None \<and>
      (\<exists>n. nodeAt s (ma_nodeId (x_attempts s ! a)) = Some n \<and> a \<in> set (xn_attempts n))" if "a < ?a" for a
      using that idle by (auto simp: attemptInv_def)
    have "distinct (map ma_attemptId (x_attempts s'))"
      using A fresh att(1) by (auto simp: s' attemptInv_def list_ex_iff)
    moreover have "\<exists>n. nodeAt s' k = Some n \<and> a \<in> set (xn_attempts n)"
      if "\<exists>n. nodeAt s k = Some n \<and> a \<in> set (xn_attempts n)" for k a
      using that by (cases "k = ?i") (auto simp: at)
    ultimately show ?thesis
      using old att node unfolding attemptInv_def
      by (auto simp: s' nth_append less_Suc_eq at [unfolded s'])
  qed
  moreover have "ledgerInv content s'"
    using w executionInvD(4) [OF inv] att(4) idle by (simp add: ledgerInv_def s')
  ultimately show ?thesis
    by (rule nodeChange_inv [OF ch])
qed

text \<open>The active attempt belongs to one node, as its last attempt.\<close>

lemma activeMatches_Some:
  "activeMatches aid i s = Some a \<Longrightarrow> x_active s = Some a \<and> ma_attemptId (x_attempts s ! a) = aid \<and> ma_nodeId (x_attempts s ! a) = i"
  by (auto simp: activeMatches_def split: option.splits if_splits)

lemma active_node:
  assumes inv: "executionInv content s" and act: "activeMatches aid i s = Some a"
  obtains n0 where "x_active s = Some a" "a < length (x_attempts s)" "ma_nodeId (x_attempts s ! a) = i"
    "ma_status (x_attempts s ! a) \<noteq> as_terminal" "ma_terminal (x_attempts s ! a) = None" "nodeAt s i = Some n0"
    "xn_status n0 = attemptNodeStatus (ma_status (x_attempts s ! a))" "xn_attempts n0 \<noteq> []" "last (xn_attempts n0) = a"
    "list_all (succeeded s) (dependsOn (xn_node n0))" "xn_status n0 \<noteq> ns_succeeded"
proof -
  note m = activeMatches_Some [OF act]
  have A: "attemptInv s" by (rule executionInvD(3) [OF inv])
  then have len: "a < length (x_attempts s)" using m by (simp add: attemptInv_def)
  have st: "ma_status (x_attempts s ! a) \<noteq> as_terminal" "ma_terminal (x_attempts s ! a) = None"
    using A len m unfolding attemptInv_def by auto
  obtain n0 where n0: "nodeAt s i = Some n0" "xn_status n0 = attemptNodeStatus (ma_status (x_attempts s ! a))"
    using A m unfolding attemptInv_def by blast
  have "xn_status n0 \<in> {ns_leased, ns_running, ns_waiting_for_user}"
    using n0(2) st(1) by (cases "ma_status (x_attempts s ! a)") auto
  then show thesis
    using that [OF _ len _ st n0] m executionInvD(2) [OF inv n0(1)] unfolding nodeInv_def by auto
qed

lemma attempt_of_node:
  assumes "executionInv content s" "a < length (x_attempts s)"
  shows "\<exists>n. nodeAt s (ma_nodeId (x_attempts s ! a)) = Some n \<and> a \<in> set (xn_attempts n)"
  using executionInvD(3) [OF assms(1)] assms(2) unfolding attemptInv_def by blast

lemma nodeInv_attempts:
  assumes "nodeInv s k n" "length (x_attempts s') = length (x_attempts s)"
    "\<And>a. a < length (x_attempts s) \<Longrightarrow> ma_nodeId (x_attempts s' ! a) = ma_nodeId (x_attempts s ! a) \<and>
       ma_attemptNumber (x_attempts s' ! a) = ma_attemptNumber (x_attempts s ! a)"
  shows "\<forall>j<length (xn_attempts n). xn_attempts n ! j < length (x_attempts s') \<and>
        ma_nodeId (x_attempts s' ! (xn_attempts n ! j)) = k \<and> ma_attemptNumber (x_attempts s' ! (xn_attempts n ! j)) = j + 1"
  using assms unfolding nodeInv_def by auto

definition sameAttempt :: "mutable_attempt \<Rightarrow> mutable_attempt \<Rightarrow> bool" where
  "sameAttempt t t' \<longleftrightarrow> ma_attemptId t' = ma_attemptId t \<and> ma_attemptNumber t' = ma_attemptNumber t \<and>
     ma_nodeId t' = ma_nodeId t \<and> ma_reservation t' = ma_reservation t"

text \<open>
  The frame of the three cases that touch the active attempt: \<open>s'\<close> differs from \<open>s\<close> in that
  attempt and in its node.
\<close>

lemma active_frame:
  assumes inv: "executionInv content s" and act: "activeMatches aid i s = Some a" and n0: "nodeAt s i = Some n0"
    and nodes: "x_nodes s' = x_nodes (setNode i f s)" and f: "\<And>n. xn_node (f n) = xn_node n" "\<And>n. xn_attempts (f n) = xn_attempts n"
    and atts: "x_attempts s' = (x_attempts s)[a := t']" and t': "sameAttempt (x_attempts s ! a) t'"
  shows "nodeChange content s s' i f n0"
    "\<forall>j<length (xn_attempts (f n0)). xn_attempts (f n0) ! j < length (x_attempts s') \<and>
        ma_nodeId (x_attempts s' ! (xn_attempts (f n0) ! j)) = i \<and> ma_attemptNumber (x_attempts s' ! (xn_attempts (f n0) ! j)) = j + 1"
    "distinct (map ma_attemptId (x_attempts s'))"
    "b < length (x_attempts s') \<Longrightarrow> \<exists>n. nodeAt s' (ma_nodeId (x_attempts s' ! b)) = Some n \<and> b \<in> set (xn_attempts n)"
proof -
  obtain n1 where act': "x_active s = Some a" "a < length (x_attempts s)" "ma_nodeId (x_attempts s ! a) = i" "nodeAt s i = Some n1"
    "xn_status n1 \<noteq> ns_succeeded"
    by (rule active_node [OF inv act]) blast
  then have n1: "n1 = n0" using n0 by simp
  show ch: "nodeChange content s s' i f n0"
    using act' n1 f(1) by (intro nodeChangeI [OF inv n0]) (auto simp: nodes atts nth_list_update_cases)
  have same: "sameAttempt (x_attempts s ! b) (x_attempts s' ! b)" if "b < length (x_attempts s)" for b
    using that t' by (cases "b = a") (auto simp: atts sameAttempt_def)
  show "\<forall>j<length (xn_attempts (f n0)). xn_attempts (f n0) ! j < length (x_attempts s') \<and>
        ma_nodeId (x_attempts s' ! (xn_attempts (f n0) ! j)) = i \<and> ma_attemptNumber (x_attempts s' ! (xn_attempts (f n0) ! j)) = j + 1"
    unfolding f(2) using same by (intro nodeInv_attempts [OF executionInvD(2) [OF inv n0]]) (auto simp: atts sameAttempt_def)
  have "map ma_attemptId (x_attempts s') = map ma_attemptId (x_attempts s)"
    using same by (intro nth_equalityI) (auto simp: atts sameAttempt_def nth_list_update)
  then show "distinct (map ma_attemptId (x_attempts s'))"
    using executionInvD(3) [OF inv] by (simp add: attemptInv_def)
  show "\<exists>n. nodeAt s' (ma_nodeId (x_attempts s' ! b)) = Some n \<and> b \<in> set (xn_attempts n)" if "b < length (x_attempts s')" for b
  proof -
    have b: "b < length (x_attempts s)" using that by (simp add: atts)
    obtain n where "nodeAt s (ma_nodeId (x_attempts s ! b)) = Some n" "b \<in> set (xn_attempts n)"
      using attempt_of_node [OF inv b] by blast
    then show ?thesis
      using same [OF b] f(2) by (auto simp: sameAttempt_def nodeChangeD(9) [OF ch])
  qed
qed

lemma active_status_inv:
  assumes inv: "executionInv content s" and act: "activeMatches aid i s = Some a"
    and s': "s' = setNode i (\<lambda>n. n\<lparr>xn_status := attemptNodeStatus st\<rparr>) (setAttempt a g s)"
    and g: "sameAttempt (x_attempts s ! a) (g (x_attempts s ! a))" "ma_status (g (x_attempts s ! a)) = st"
      "ma_terminal (g (x_attempts s ! a)) = ma_terminal (x_attempts s ! a)" and st: "st \<noteq> as_terminal"
  shows "executionInv content s'"
proof -
  obtain n0 where a: "x_active s = Some a" "a < length (x_attempts s)" "ma_nodeId (x_attempts s ! a) = i"
    "ma_terminal (x_attempts s ! a) = None" "nodeAt s i = Some n0" "xn_attempts n0 \<noteq> []" "last (xn_attempts n0) = a"
    "list_all (succeeded s) (dependsOn (xn_node n0))"
    by (rule active_node [OF inv act]) blast
  let ?f = "\<lambda>n. n\<lparr>xn_status := attemptNodeStatus st\<rparr>"
  have nodes: "x_nodes s' = x_nodes (setNode i ?f s)" by (simp add: s' setNode_def)
  have atts: "x_attempts s' = (x_attempts s)[a := g (x_attempts s ! a)]" by (simp add: s')
  have act': "x_active s' = Some a" by (simp add: s' a)
  note fr = active_frame [OF inv act a(5) nodes _ _ atts g(1), simplified]
  have "attemptNodeStatus st \<in> {ns_leased, ns_running, ns_waiting_for_user}" using st by (cases st) auto
  then have "nodeInv s' i (?f n0)"
    using fr(2) succeeded_all [OF fr(1) a(8)] a(6,7) act' unfolding nodeInv_def by auto
  moreover have "attemptInv s'"
  proof -
    have A: "attemptInv s" by (rule executionInvD(3) [OF inv])
    have "(ma_status (x_attempts s' ! b) = as_terminal \<longleftrightarrow> x_active s' \<noteq> Some b) \<and>
        (ma_status (x_attempts s' ! b) = as_terminal \<longleftrightarrow> ma_terminal (x_attempts s' ! b) \<noteq> None)" if "b < length (x_attempts s')" for b
      using A that a(1,2,4) g(2,3) st act' by (cases "b = a") (auto simp: attemptInv_def atts)
    moreover have "nodeAt s' (ma_nodeId (x_attempts s' ! a)) = Some (?f n0)" "ma_status (x_attempts s' ! a) = st"
      using a(2,3,5) g by (simp_all add: nodeChangeD(9) [OF fr(1)] atts sameAttempt_def)
    ultimately show ?thesis
      using fr(3,4) act' a(2) unfolding attemptInv_def by (auto simp: atts)
  qed
  moreover have "ledgerInv content s'"
    using executionInvD(4) [OF inv] a(1,2) g(1) unfolding ledgerInv_def by (auto simp: s' sameAttempt_def)
  ultimately show ?thesis
    by (rule nodeChange_inv [OF fr(1)])
qed

lemma xAttemptStarted_inv:
  assumes inv: "executionInv content s" and step: "xAttemptStarted event aid i run nonce s = Inr s'"
  shows "executionInv content s'"
proof -
  obtain a where a: "activeMatches aid i s = Some a"
    and s': "s' = setNode i (\<lambda>n. n\<lparr>xn_status := attemptNodeStatus as_running\<rparr>)
                 (setAttempt a (\<lambda>t. t\<lparr>ma_status := as_running, ma_runId := Some run, ma_startEventId := Some (eventId event)\<rparr>) s)"
    using step by (auto simp: xAttemptStarted_def split: option.splits if_splits)
  show ?thesis
    by (rule active_status_inv [OF inv a s']) (simp_all add: sameAttempt_def)
qed

lemma xAttemptWaiting_inv:
  assumes inv: "executionInv content s" and step: "xAttemptWaiting aid i s = Inr s'"
  shows "executionInv content s'"
proof -
  obtain a where a: "activeMatches aid i s = Some a"
    and s': "s' = setNode i (\<lambda>n. n\<lparr>xn_status := attemptNodeStatus as_waiting_for_user\<rparr>)
                 (setAttempt a (\<lambda>t. t\<lparr>ma_status := as_waiting_for_user\<rparr>) s)"
    using step by (auto simp: xAttemptWaiting_def split: option.splits)
  show ?thesis
    by (rule active_status_inv [OF inv a s']) (simp_all add: sameAttempt_def)
qed

lemma settleNode_simps [simp]:
  "xn_node (settleNode event t w n) = xn_node n" "xn_attempts (settleNode event t w n) = xn_attempts n"
  "xn_status (settleNode event t w n) = (if automaticRetry t w n then ns_pending else terminalNodeStatus t)"
  by (simp_all add: settleNode_def Let_def)

lemma terminalNodeStatus_closed:
  "terminalNodeStatus t \<notin> {ns_ready, ns_leased, ns_running, ns_waiting_for_user, ns_pending}"
  "terminalNodeStatus t = ns_succeeded \<longleftrightarrow> t = at_succeeded"
  by (cases t; simp)+

lemma xAttemptTerminal_inv:
  assumes inv: "executionInv content s" and step: "xAttemptTerminal event d s = Inr s'"
  shows "executionInv content s'"
proof -
  let ?i = "atd_node_id d" and ?used = "atd_budget d"
  obtain a where act: "activeMatches (atd_attempt_id d) ?i s = Some a"
    using step by (auto simp: xAttemptTerminal_def split: option.splits)
  define t where "t = x_attempts s ! a"
  define t' where "t' = t\<lparr>ma_status := as_terminal, ma_terminal := Some (atd_terminal d), ma_terminalEventId := Some (eventId event)\<rparr>"
  define f where "f = settleNode event (atd_terminal d) (ma_status t = as_waiting_for_user)"
  have w: "within ?used (budgetZero (if reportedTokens ?used = None then None else Some 0)) (ma_reservation t)"
    and nodes: "x_nodes s' = x_nodes (setNode ?i f s)" and atts: "x_attempts s' = (x_attempts s)[a := t']"
    and none: "x_active s' = None" and cons: "x_consumed s' = budgetAdd (x_consumed s) ?used"
    and res: "x_reserved s' = budgetRelease (x_reserved s) (ma_reservation t)"
    using step act by (auto simp: xAttemptTerminal_def Let_def t_def t'_def f_def setNode_def setAttempt_def split: if_splits)
  obtain n0 where a: "x_active s = Some a" "a < length (x_attempts s)" "ma_nodeId (x_attempts s ! a) = ?i"
    "nodeAt s ?i = Some n0" "xn_attempts n0 \<noteq> []" "last (xn_attempts n0) = a"
    "list_all (succeeded s) (dependsOn (xn_node n0))"
    by (rule active_node [OF inv act]) blast
  have same: "sameAttempt (x_attempts s ! a) t'" by (simp add: sameAttempt_def t'_def t_def)
  note fr = active_frame [OF inv act a(4) nodes _ _ atts same, unfolded f_def, simplified, folded f_def]
  have "nodeInv s' ?i (f n0)"
    using fr(2) succeeded_all [OF fr(1) a(7)] a(2,5,6) terminalNodeStatus_closed [of "atd_terminal d"]
    unfolding nodeInv_def by (auto simp: f_def atts t'_def split: if_splits)
  moreover have "attemptInv s'"
  proof -
    have "attemptInv s" by (rule executionInvD(3) [OF inv])
    then have "ma_status (x_attempts s' ! b) = as_terminal \<and> ma_terminal (x_attempts s' ! b) \<noteq> None" if "b < length (x_attempts s')" for b
      using that a(1) by (cases "b = a") (auto simp: attemptInv_def atts t'_def)
    then show ?thesis
      using fr(3,4) none unfolding attemptInv_def by auto
  qed
  moreover have "ledgerInv content s'"
  proof -
    have L: "ledgerInv content s" by (rule executionInvD(4) [OF inv])
    have "within (x_consumed s) (x_reserved s) (limits (graphBudget content))"
      using L unfolding ledgerInv_def by blast
    then have "within (x_consumed s') (x_reserved s') (limits (graphBudget content))"
      unfolding cons res using w by (rule within_settle) (use active_tokens(2) [OF L a(1)] in \<open>simp_all add: t_def\<close>)
    moreover have "x_reserved s' = budgetZero (zeroTokens content)"
      using L a(1) release_add_zero [OF active_tokens(1) [OF L a(1)]] by (simp add: res ledgerInv_def t_def)
    ultimately show ?thesis
      by (simp add: ledgerInv_def none)
  qed
  ultimately show ?thesis
    by (rule nodeChange_inv [OF fr(1)])
qed

section \<open>The projector\<close>

lemma quiet_inv:
  assumes inv: "executionInv content s"
  shows "xLeaseAcquired nonce s = Inr s' \<Longrightarrow> executionInv content s'" "xLeaseRecovered nonce s = Inr s' \<Longrightarrow> executionInv content s'"
    "xStarted nonce s = Inr s' \<Longrightarrow> executionInv content s'" "xTerminal event status code s = Inr s' \<Longrightarrow> executionInv content s'"
    "executionInv content (xEnqueued event e r pr s)" "executionInv content (setBlocker event bc nd s)"
    "executionInv content (s\<lparr>x_cancelRequested := True\<rparr>)"
  by (rule executionInv_same [OF inv]; auto simp: xLeaseAcquired_def xLeaseRecovered_def xStarted_def xTerminal_def Let_def
      xEnqueued_def setBlocker_def split: if_splits option.splits)+

lemmas execution_cases_inv = xAttemptRequested_inv xAttemptStarted_inv xAttemptWaiting_inv xAttemptTerminal_inv
  xRetryRequested_inv xSkipped_inv quiet_inv(1-4)

lemma executionEvent_inv:
  assumes inv: "executionInv content s" and step: "executionEvent (graphBudget content) event s = Inr s'"
  shows "executionInv content s'"
  using step by (cases "edata event") (simp_all add: executionEvent_def,
    (erule execution_cases_inv [OF inv] | use inv quiet_inv(5-7) [OF inv] in force)+)

lemma executionStep_inv:
  "executionInv (mr_content graph) s \<Longrightarrow> executionStep graph s event = Inr s' \<Longrightarrow> executionInv (mr_content graph) s'"
  by (auto simp: executionStep_def split: if_splits intro: executionEvent_inv)

definition graphPositive :: "task_graph_content \<Rightarrow> bool" where
  "graphPositive content \<longleftrightarrow> distinct (map nodeId (gc_nodes content)) \<and>
     (\<forall>c m. counterAt (limits (graphBudget content)) c = Some m \<longrightarrow> 0 \<le> m)"

lemma initialNodes_distinct:
  assumes "distinct (map nodeId ns)"
  shows "initialNodes ns = map (\<lambda>n. (nodeId n, initialNode n)) ns"
proof -
  have "distinct (map fst m @ map nodeId ns) \<Longrightarrow>
      fold (\<lambda>n m. AList.update (nodeId n) (initialNode n) m) ns m = m @ map (\<lambda>n. (nodeId n, initialNode n)) ns" for m
  proof (induction ns arbitrary: m)
    case (Cons n ns)
    then have "AList.update (nodeId n) (initialNode n) m = m @ [(nodeId n, initialNode n)]"
      by (intro update_fresh) auto
    with Cons show ?case by auto
  qed simp
  from this [of "[]"] assms show ?thesis by (simp add: initialNodes_def)
qed

lemma execution_init_inv:
  assumes "graphPositive content"
  shows "executionInv content (execution_init content)"
proof -
  have nodes: "x_nodes (execution_init content) = map (\<lambda>n. (nodeId n, initialNode n)) (gc_nodes content)"
    using assms by (simp add: execution_init_def graphPositive_def initialNodes_distinct Let_def)
  have "within (budgetZero (zeroTokens content)) (budgetZero (zeroTokens content)) (limits (graphBudget content))"
    using within_zero [of "limits (graphBudget content)"] assms
    by (simp add: graphPositive_def zeroTokens_def limits_def)
  then have "ledgerInv content (execution_init content)"
    by (simp add: ledgerInv_def execution_init_def Let_def zeroTokens_def)
  moreover have "nodeInv (execution_init content) k n" if "nodeAt (execution_init content) k = Some n" for k n
  proof -
    have "n \<in> initialNode ` set (gc_nodes content)"
      using map_of_SomeD [OF that [unfolded nodeAt_def nodes]] by auto
    then show ?thesis by (auto simp: nodeInv_def initialNode_def)
  qed
  moreover have "attemptInv (execution_init content)"
    by (simp add: attemptInv_def execution_init_def Let_def)
  moreover have "nodesOk content (execution_init content)"
    by (simp add: nodesOk_def nodes initialNode_def)
  ultimately show ?thesis
    by (simp add: executionInv_def)
qed

end
