(* ===== verification/TaskGraphLifecycle.thy ===== *)
theory TaskGraphLifecycle
  imports TaskGraphProjector TaskStateInvariants
begin

text \<open>
  Invariants of the Task Graph projection: unique revisions with the hash of their normalised,
  accepted content; one authority binding per Graph; a draft reference is a draft, an executing
  revision is queued, running or waiting; nothing runs without an approval event of exactly that
  revision; rejected, superseded and completed revisions are final.
\<close>

section \<open>The invariant\<close>

definition revisionHash :: "platform \<Rightarrow> mutable_revision \<Rightarrow> bool" where
  "revisionHash p r \<longleftrightarrow> taskGraphRevisionContentSchema p (mr_content r) = Some [] \<and>
     (\<exists>bytes. canonicalJson (graphJson (mr_content r)) = Inr bytes \<and> mr_graphSha256 r = sha256 p bytes)"

definition approvedBy :: "stored_event list \<Rightarrow> mutable_revision \<Rightarrow> string \<Rightarrow> bool" where
  "approvedBy es r e \<longleftrightarrow> (\<exists>ev\<in>set es. eventId ev = e \<and> scope ev = SessionScope \<and>
     edata ev = TaskGraphApproved \<lparr>gr_graph_id = mr_graphId r, gr_graph_revision = mr_revision r,
       gr_graph_sha256 = mr_graphSha256 r\<rparr> (mr_createdEventId r))"

definition revisionWf :: "platform \<Rightarrow> stored_event list \<Rightarrow> mutable_revision \<Rightarrow> bool" where
  "revisionWf p es r \<longleftrightarrow> revisionHash p r \<and>
     (mr_status r = gs_draft \<longrightarrow> mr_approvedEventId r = None \<and> mr_decisionEventId r = None) \<and>
     (mr_status r = gs_rejected \<longrightarrow> mr_approvedEventId r = None) \<and>
     (mr_status r \<notin> {gs_draft, gs_rejected, gs_superseded, gs_stale} \<longrightarrow> mr_approvedEventId r \<noteq> None) \<and>
     (\<forall>e. mr_approvedEventId r = Some e \<longrightarrow> approvedBy es r e)"

definition graphInv :: "platform \<Rightarrow> stored_event list \<Rightarrow> graph_projector \<Rightarrow> bool" where
  "graphInv p es s \<longleftrightarrow>
     distinct (map (\<lambda>r. (mr_graphId r, mr_revision r)) (revisions s)) \<and>
     list_all (revisionWf p es) (revisions s) \<and>
     (\<forall>r\<in>set (revisions s). \<forall>q\<in>set (revisions s). mr_graphId r = mr_graphId q \<longrightarrow> mr_binding r = mr_binding q) \<and>
     (\<forall>i. currentDraft s = Some i \<longrightarrow> i < length (revisions s) \<and> mr_status (revisions s ! i) = gs_draft) \<and>
     (\<forall>i. currentApproved s = Some i \<longrightarrow> i < length (revisions s) \<and> mr_approvedEventId (revisions s ! i) \<noteq> None \<and>
        mr_status (revisions s ! i) \<notin> {gs_draft, gs_rejected, gs_superseded}) \<and>
     (\<forall>i. currentExecution s = Some i \<longrightarrow> i < length (revisions s) \<and>
        mr_status (revisions s ! i) \<in> {gs_queued, gs_running, gs_waiting_for_user})"

definition keyOf :: "mutable_revision \<Rightarrow> string \<times> nat \<times> task_graph_binding \<times> string \<times> task_graph_content \<times> string" where
  "keyOf r = (mr_graphId r, mr_revision r, mr_binding r, mr_graphSha256 r, mr_content r, mr_createdEventId r)"

lemma revisionWf_mono: "revisionWf p es r \<Longrightarrow> set es \<subseteq> set fs \<Longrightarrow> revisionWf p fs r"
  unfolding revisionWf_def approvedBy_def by blast

lemma graphInv_mono: "graphInv p es s \<Longrightarrow> set es \<subseteq> set fs \<Longrightarrow> graphInv p fs s"
  unfolding graphInv_def list_all_iff using revisionWf_mono by blast

section \<open>Changing one revision in place\<close>

lemma byKey_Some: "byKey s g n = Some i \<Longrightarrow> i < length (revisions s) \<and> mr_graphId (revisions s ! i) = g \<and> mr_revision (revisions s ! i) = n"
  by (auto simp: byKey_def dest: findIndex_Some)

lemma exactGraph_Inr:
  assumes "exactGraph ref s = Inr i"
  shows "i < length (revisions s)" "gr_graph_id ref = mr_graphId (revisions s ! i)"
    "gr_graph_revision ref = mr_revision (revisions s ! i)" "gr_graph_sha256 ref = mr_graphSha256 (revisions s ! i)"
  using assms by (auto simp: exactGraph_def split: option.splits if_splits dest: byKey_Some)

lemma updateRevision_simps [simp]:
  "revisions (updateRevision i f s) = (revisions s)[i := f (revisions s ! i)]"
  "currentDraft (updateRevision i f s) = currentDraft s" "currentApproved (updateRevision i f s) = currentApproved s"
  "currentExecution (updateRevision i f s) = currentExecution s"
  by (simp_all add: updateRevision_def)

lemma graphInv_facts:
  assumes "graphInv p es s"
  shows "currentDraft s = Some i \<Longrightarrow> i < length (revisions s) \<and> mr_status (revisions s ! i) = gs_draft"
    "currentApproved s = Some i \<Longrightarrow> i < length (revisions s) \<and> mr_approvedEventId (revisions s ! i) \<noteq> None \<and>
        mr_status (revisions s ! i) \<notin> {gs_draft, gs_rejected, gs_superseded}"
    "currentExecution s = Some i \<Longrightarrow> i < length (revisions s) \<and>
        mr_status (revisions s ! i) \<in> {gs_queued, gs_running, gs_waiting_for_user}"
    "i < length (revisions s) \<Longrightarrow> revisionWf p es (revisions s ! i)"
    "list_all (revisionWf p es) (revisions s)" "distinct (map (\<lambda>r. (mr_graphId r, mr_revision r)) (revisions s))"
    "\<forall>r\<in>set (revisions s). \<forall>q\<in>set (revisions s). mr_graphId r = mr_graphId q \<longrightarrow> mr_binding r = mr_binding q"
  using assms unfolding graphInv_def list_all_length by blast+

lemma map_keyOf_update: "i < length rs \<Longrightarrow> keyOf r = keyOf (rs ! i) \<Longrightarrow> map keyOf (rs[i := r]) = map keyOf rs"
  by (metis list_update_id map_update)

lemma map_index: "map (\<lambda>r. (mr_graphId r, mr_revision r)) rs = map (\<lambda>k. (fst k, fst (snd k))) (map keyOf rs)"
  by (simp add: keyOf_def)

lemma keyOf_image: "map keyOf rs' = map keyOf rs \<Longrightarrow> q \<in> set rs' \<Longrightarrow> \<exists>r\<in>set rs. mr_graphId r = mr_graphId q \<and> mr_binding r = mr_binding q"
proof -
  assume "map keyOf rs' = map keyOf rs" "q \<in> set rs'"
  then have "keyOf q \<in> set (map keyOf rs)" by (metis image_eqI list.set_map)
  then show ?thesis by (auto simp: keyOf_def)
qed

lemma one_binding_keys:
  assumes "\<forall>r\<in>set rs. \<forall>q\<in>set rs. mr_graphId r = mr_graphId q \<longrightarrow> mr_binding r = mr_binding q"
    and "map keyOf rs' = map keyOf rs"
  shows "\<forall>r\<in>set rs'. \<forall>q\<in>set rs'. mr_graphId r = mr_graphId q \<longrightarrow> mr_binding r = mr_binding q"
  by (metis assms keyOf_image)

text \<open>
  A revision may change its status and event ids; the invariant then reduces to what is local
  to that revision and to the references.
\<close>

lemma graphInv_update:
  assumes inv: "graphInv p es s" and i: "i < length (revisions s)" and key: "keyOf r = keyOf (revisions s ! i)"
    and wf: "revisionWf p es r" and revs: "revisions s' = (revisions s)[i := r]"
    and draft: "\<And>j. currentDraft s' = Some j \<Longrightarrow> j \<noteq> i \<and> currentDraft s = Some j"
    and appr: "\<And>j. currentApproved s' = Some j \<Longrightarrow> (j \<noteq> i \<and> currentApproved s = Some j) \<or>
      (j = i \<and> mr_approvedEventId r \<noteq> None \<and> mr_status r \<notin> {gs_draft, gs_rejected, gs_superseded})"
    and exe: "\<And>j. currentExecution s' = Some j \<Longrightarrow> (j \<noteq> i \<and> currentExecution s = Some j) \<or>
      (j = i \<and> mr_status r \<in> {gs_queued, gs_running, gs_waiting_for_user})"
  shows "graphInv p es s'"
proof -
  have keys: "map keyOf (revisions s') = map keyOf (revisions s)"
    unfolding revs by (rule map_keyOf_update [OF i key])
  have d1: "distinct (map (\<lambda>r. (mr_graphId r, mr_revision r)) (revisions s'))"
    using graphInv_facts(6) [OF inv] unfolding map_index keys .
  have l1: "list_all (revisionWf p es) (revisions s')"
    unfolding revs using graphInv_facts(5) [OF inv] wf by (rule list_all_update)
  have b1: "\<forall>q\<in>set (revisions s'). \<forall>q'\<in>set (revisions s'). mr_graphId q = mr_graphId q' \<longrightarrow> mr_binding q = mr_binding q'"
    by (rule one_binding_keys [OF graphInv_facts(7) [OF inv] keys])
  have c1: "j < length (revisions s') \<and> mr_status (revisions s' ! j) = gs_draft" if "currentDraft s' = Some j" for j
    using graphInv_facts(1) [OF inv, of j] draft [OF that] unfolding revs by simp
  have c2: "j < length (revisions s') \<and> mr_approvedEventId (revisions s' ! j) \<noteq> None \<and>
      mr_status (revisions s' ! j) \<notin> {gs_draft, gs_rejected, gs_superseded}" if "currentApproved s' = Some j" for j
    using graphInv_facts(2) [OF inv, of j] appr [OF that] i unfolding revs by (elim disjE) simp_all
  have c3: "j < length (revisions s') \<and> mr_status (revisions s' ! j) \<in> {gs_queued, gs_running, gs_waiting_for_user}"
    if "currentExecution s' = Some j" for j
    using graphInv_facts(3) [OF inv, of j] exe [OF that] i unfolding revs by (elim disjE) simp_all
  show ?thesis
    unfolding graphInv_def using d1 l1 b1 c1 c2 c3 by (intro conjI) blast+
qed

section \<open>Adding a revision\<close>

lemma parseGraph_Inr: "parseGraph p v = Inr x \<longleftrightarrow> x = v \<and> taskGraphRevisionContentSchema p v = Some []"
  by (auto simp: parseGraph_def split: option.splits if_splits)

lemma graphIdentity_Inr:
  assumes "graphIdentity p content = Inr ident"
  shows "taskGraphRevisionContentSchema p (gi_content ident) = Some []"
    "\<exists>bytes. canonicalJson (graphJson (gi_content ident)) = Inr bytes \<and> gi_graphSha256 ident = sha256 p bytes"
proof -
  have c: "canonicalTaskGraphIdentity p content = Inr ident"
    using assms by (simp add: graphIdentity_def split: sum.splits)
  obtain x where x: "normalizeTaskGraphRevision p content = Inr x"
    and i: "(case canonicalJson (graphJson x) of Inl _ \<Rightarrow> Inl (ZodIssues [])
       | Inr bytes \<Rightarrow> Inr \<lparr>gi_bytes = bytes, gi_byteLength = byteLength bytes, gi_content = x,
                          gi_graphSha256 = sha256 p bytes\<rparr>) = Inr ident"
    using c unfolding canonicalTaskGraphIdentity_def ebind_eq_Inr by blast
  have "taskGraphRevisionContentSchema p x = Some []"
    using x unfolding normalizeTaskGraphRevision_def Let_def ebind_eq_Inr parseGraph_Inr by blast
  with i show "taskGraphRevisionContentSchema p (gi_content ident) = Some []"
    "\<exists>bytes. canonicalJson (graphJson (gi_content ident)) = Inr bytes \<and> gi_graphSha256 ident = sha256 p bytes"
    by (auto split: sum.splits)
qed

lemma createdRevision_wf:
  "graphIdentity p content = Inr ident \<Longrightarrow> gi_graphSha256 ident = gr_graph_sha256 ref \<Longrightarrow>
   revisionWf p es (createdRevision event art b ident ref)"
  using graphIdentity_Inr [of p content ident] by (simp add: revisionWf_def revisionHash_def createdRevision_def)

lemma byKey_None: "byKey s g n = None \<longleftrightarrow> (g, n) \<notin> set (map (\<lambda>r. (mr_graphId r, mr_revision r)) (revisions s))"
  by (auto simp: byKey_def findIndex_None)

lemma pushRevision_simps [simp]:
  "revisions (pushRevision r s) = revisions s @ [r]" "currentDraft (pushRevision r s) = Some (length (revisions s))"
  "currentApproved (pushRevision r s) = currentApproved s" "currentExecution (pushRevision r s) = currentExecution s"
  by (simp_all add: pushRevision_def)

lemma one_binding_snoc:
  assumes "\<forall>q\<in>set rs. \<forall>q'\<in>set rs. mr_graphId q = mr_graphId q' \<longrightarrow> mr_binding q = mr_binding q'"
    and "\<forall>q\<in>set rs. mr_graphId q = mr_graphId r \<longrightarrow> mr_binding q = mr_binding r"
  shows "\<forall>q\<in>set (rs @ [r]). \<forall>q'\<in>set (rs @ [r]). mr_graphId q = mr_graphId q' \<longrightarrow> mr_binding q = mr_binding q'"
proof (intro ballI impI)
  fix q q' assume "q \<in> set (rs @ [r])" "q' \<in> set (rs @ [r])" "mr_graphId q = mr_graphId q'"
  then show "mr_binding q = mr_binding q'"
    using assms(1) [rule_format, of q q'] assms(2) [rule_format, of q] assms(2) [rule_format, of q']
    by (cases "q = r"; cases "q' = r") simp_all
qed

lemma graphInv_push:
  assumes inv: "graphInv p es s" and wf: "revisionWf p es r" and draft: "mr_status r = gs_draft"
    and fresh: "byKey s (mr_graphId r) (mr_revision r) = None"
    and bind: "\<forall>q\<in>set (revisions s). mr_graphId q = mr_graphId r \<longrightarrow> mr_binding q = mr_binding r"
  shows "graphInv p es (pushRevision r s)"
proof -
  have b: "\<forall>q\<in>set (revisions s @ [r]). \<forall>q'\<in>set (revisions s @ [r]). mr_graphId q = mr_graphId q' \<longrightarrow> mr_binding q = mr_binding q'"
    by (rule one_binding_snoc [OF graphInv_facts(7) [OF inv] bind])
  have d: "distinct (map (\<lambda>r. (mr_graphId r, mr_revision r)) (revisions s @ [r]))"
    using graphInv_facts(6) [OF inv] fresh unfolding byKey_None by simp
  have a: "i < length (revisions s @ [r]) \<and> mr_approvedEventId ((revisions s @ [r]) ! i) \<noteq> None \<and>
     mr_status ((revisions s @ [r]) ! i) \<notin> {gs_draft, gs_rejected, gs_superseded}" if "currentApproved s = Some i" for i
    using graphInv_facts(2) [OF inv that] by (simp add: nth_append)
  have e: "i < length (revisions s @ [r]) \<and> mr_status ((revisions s @ [r]) ! i) \<in> {gs_queued, gs_running, gs_waiting_for_user}"
    if "currentExecution s = Some i" for i
    using graphInv_facts(3) [OF inv that] by (simp add: nth_append)
  have c: "i < length (revisions s @ [r]) \<and> mr_status ((revisions s @ [r]) ! i) = gs_draft"
    if "Some (length (revisions s)) = Some i" for i
    using that draft by auto
  have l: "list_all (revisionWf p es) (revisions s @ [r])"
    using graphInv_facts(5) [OF inv] wf by simp
  show ?thesis
    unfolding graphInv_def pushRevision_simps using d l b c a e by (intro conjI) blast+
qed

section \<open>Every case keeps the invariant\<close>

lemma proposeGraph_inv:
  assumes inv: "graphInv p es s" and step: "proposeGraph p event d s = Inr s'"
  shows "graphInv p es s'"
proof -
  obtain ident where ident: "graphIdentity p (gp_content d) = Inr ident" "gi_graphSha256 ident = gr_graph_sha256 (gp_ref d)"
    and s': "s' = pushRevision (createdRevision event (gp_artifact d) (gp_binding d) ident (gp_ref d)) s"
    and fresh: "byKey s (gr_graph_id (gp_ref d)) (gr_graph_revision (gp_ref d)) = None"
    and new: "\<not> list_ex (\<lambda>r. mr_graphId r = gr_graph_id (gp_ref d)) (revisions s)"
    using step by (auto simp: proposeGraph_def Let_def err_simps split: if_splits)
  show ?thesis
    unfolding s' using inv createdRevision_wf [OF ident] _ _ _
    by (rule graphInv_push) (use fresh new in \<open>auto simp: createdRevision_def list_ex_iff\<close>)
qed

lemma one_binding_at:
  "graphInv p es s \<Longrightarrow> i < length (revisions s) \<Longrightarrow> q \<in> set (revisions s) \<Longrightarrow>
   mr_graphId q = mr_graphId (revisions s ! i) \<Longrightarrow> mr_binding q = mr_binding (revisions s ! i)"
  using graphInv_facts(7) [of p es s] nth_mem by blast

lemma replaceGraph_inv:
  assumes inv: "graphInv p es s" and step: "replaceGraph p event d s = Inr s'"
  shows "graphInv p es s'"
proof -
  let ?ref = "gx_ref d"
  obtain i where i: "byKey s (gr_graph_id ?ref) (gx_base_revision d) = Some i"
    using step by (auto simp: replaceGraph_def Let_def split: option.splits)
  define base where "base = revisions s ! i"
  define s1 where "s1 = (updateRevision i (\<lambda>r. r\<lparr>mr_status := gs_superseded\<rparr>) s)
    \<lparr>currentDraft := None, currentApproved := (if currentApproved s = Some i then None else currentApproved s)\<rparr>"
  obtain ident where ident: "graphIdentity p (gx_content d) = Inr ident" "gi_graphSha256 ident = gr_graph_sha256 ?ref"
    and s': "s' = pushRevision (createdRevision event (gx_artifact d) (gx_binding d) ident ?ref) s1"
    and fresh: "byKey s (gr_graph_id ?ref) (gr_graph_revision ?ref) = None" and bind: "gx_binding d = mr_binding base"
    and exe: "currentExecution s = None"
    using step i by (auto simp: replaceGraph_def Let_def err_simps base_def s1_def pushRevision_def updateRevision_def split: if_splits)
  have idx: "i < length (revisions s)" "mr_graphId base = gr_graph_id ?ref"
    using byKey_Some [OF i] by (simp_all add: base_def)
  have wf: "revisionWf p es (base\<lparr>mr_status := gs_superseded\<rparr>)"
    using graphInv_facts(4) [OF inv idx(1)] by (simp add: revisionWf_def revisionHash_def approvedBy_def base_def)
  have inv1: "graphInv p es s1"
    using inv idx(1) _ wf _ by (rule graphInv_update) (simp_all add: s1_def keyOf_def base_def exe split: if_splits)
  have key: "map keyOf (revisions s1) = map keyOf (revisions s)"
    by (simp add: s1_def map_keyOf_update idx keyOf_def)
  have "byKey s1 (gr_graph_id ?ref) (gr_graph_revision ?ref) = None"
    using fresh unfolding byKey_None map_index key .
  moreover have "\<forall>q\<in>set (revisions s1). mr_graphId q = gr_graph_id ?ref \<longrightarrow> mr_binding q = gx_binding d"
    using one_binding_at [OF inv idx(1)] keyOf_image [OF key] unfolding bind base_def idx(2) [unfolded base_def] by metis
  ultimately show ?thesis
    unfolding s' using createdRevision_wf [OF ident]
    by (intro graphInv_push [OF inv1]) (simp_all add: createdRevision_def)
qed

text \<open>
  The other cases change the status of the revision the event names.
\<close>

lemma currentDraftDecision_Inr:
  assumes "currentDraftDecision ref revision_event_id s = Inr i"
  shows "exactGraph ref s = Inr i" "mr_status (revisions s ! i) = gs_draft" "currentDraft s = Some i"
    "mr_decisionEventId (revisions s ! i) = None" "revision_event_id = mr_createdEventId (revisions s ! i)"
  using assms by (auto simp: currentDraftDecision_def Let_def err_simps split: if_splits)

lemma approveGraph_inv:
  assumes inv: "graphInv p es s" and step: "approveGraph event ref rid s = Inr s'"
    and data: "scope event = SessionScope" "edata event = TaskGraphApproved ref rid" "event \<in> set es"
  shows "graphInv p es s'"
proof -
  obtain i where i: "currentDraftDecision ref rid s = Inr i"
    and s': "s' = (updateRevision i (\<lambda>r. r\<lparr>mr_status := gs_approved, mr_approvedEventId := Some (eventId event),
               mr_decisionEventId := Some (eventId event)\<rparr>) s)\<lparr>currentDraft := None, currentApproved := Some i\<rparr>"
    using step by (auto simp: approveGraph_def err_simps)
  note d = currentDraftDecision_Inr [OF i]
  note x = exactGraph_Inr [OF d(1)]
  have "revisionHash p (revisions s ! i)"
    using graphInv_facts(4) [OF inv x(1)] by (simp add: revisionWf_def)
  moreover have "\<exists>ev\<in>set es. eventId ev = eventId event \<and> scope ev = SessionScope \<and>
     edata ev = TaskGraphApproved \<lparr>gr_graph_id = mr_graphId (revisions s ! i), gr_graph_revision = mr_revision (revisions s ! i),
       gr_graph_sha256 = mr_graphSha256 (revisions s ! i)\<rparr> (mr_createdEventId (revisions s ! i))"
    using data x(2-4) d(5) by (cases ref) auto
  ultimately have wf: "revisionWf p es ((revisions s ! i)\<lparr>mr_status := gs_approved, mr_approvedEventId := Some (eventId event),
      mr_decisionEventId := Some (eventId event)\<rparr>)"
    by (simp add: revisionWf_def revisionHash_def approvedBy_def)
  have exe: "currentExecution s \<noteq> Some i"
    using graphInv_facts(3) [OF inv, of i] d(2) by auto
  show ?thesis
    using inv x(1) _ wf _ by (rule graphInv_update) (use exe in \<open>auto simp: s' keyOf_def\<close>)
qed

lemma rejectGraph_inv:
  assumes inv: "graphInv p es s" and step: "rejectGraph event ref rid s = Inr s'"
  shows "graphInv p es s'"
proof -
  obtain i where i: "currentDraftDecision ref rid s = Inr i"
    and s': "s' = (updateRevision i (\<lambda>r. r\<lparr>mr_status := gs_rejected, mr_decisionEventId := Some (eventId event)\<rparr>) s)
            \<lparr>currentDraft := None\<rparr>"
    using step by (auto simp: rejectGraph_def err_simps)
  note d = currentDraftDecision_Inr [OF i]
  note x = exactGraph_Inr [OF d(1)]
  have wf: "revisionWf p es ((revisions s ! i)\<lparr>mr_status := gs_rejected, mr_decisionEventId := Some (eventId event)\<rparr>)"
    using graphInv_facts(4) [OF inv x(1)] d(2) by (simp add: revisionWf_def revisionHash_def approvedBy_def)
  have "currentExecution s \<noteq> Some i" "currentApproved s \<noteq> Some i"
    using graphInv_facts(2,3) [OF inv, of i] d(2) by auto
  then show ?thesis
    using graphInv_update [OF inv x(1) _ wf, of s'] by (auto simp: s' keyOf_def)
qed

lemma exact_inv:
  assumes inv: "graphInv p es s" and x: "exactGraph ref s = Inr i"
    and ap: "mr_status (f (revisions s ! i)) \<notin> {gs_draft, gs_rejected, gs_superseded}" "mr_status (revisions s ! i) \<noteq> gs_draft"
    and wf: "revisionWf p es (f (revisions s ! i))" and key: "keyOf (f (revisions s ! i)) = keyOf (revisions s ! i)"
    and same: "mr_approvedEventId (f (revisions s ! i)) = mr_approvedEventId (revisions s ! i)"
    and exe: "ex = Some i \<Longrightarrow> mr_status (f (revisions s ! i)) \<in> {gs_queued, gs_running, gs_waiting_for_user}"
    and exe': "\<And>j. ex = Some j \<Longrightarrow> j \<noteq> i \<Longrightarrow> currentExecution s = Some j"
  shows "graphInv p es ((updateRevision i f s)\<lparr>currentExecution := ex\<rparr>)"
proof -
  note i = exactGraph_Inr(1) [OF x]
  have dr: "currentDraft s = Some j \<Longrightarrow> j \<noteq> i" for j
    using graphInv_facts(1) [OF inv, of j] ap(2) by auto
  have "currentApproved s = Some i \<Longrightarrow> mr_approvedEventId (revisions s ! i) \<noteq> None"
    using graphInv_facts(2) [OF inv, of i] by simp
  then show ?thesis
    using ap(1) exe exe' dr by (intro graphInv_update [OF inv i key wf]) (auto simp: same)
qed

lemma revisionWf_status:
  assumes "revisionWf p es r" "mr_status r \<notin> {gs_draft, gs_rejected, gs_superseded, gs_stale}" "st \<notin> {gs_draft, gs_rejected}"
  shows "revisionWf p es (r\<lparr>mr_status := st\<rparr>)" "revisionWf p es (r\<lparr>mr_status := st, mr_terminalEventId := te\<rparr>)"
  using assms by (auto simp: revisionWf_def revisionHash_def approvedBy_def)

lemma revisionWf_stale:
  "revisionWf p es r \<Longrightarrow> revisionWf p es (r\<lparr>mr_status := gs_stale, mr_terminalEventId := te\<rparr>)"
  by (auto simp: revisionWf_def revisionHash_def approvedBy_def)

lemma updateRevision_execution: "currentExecution s = ex \<Longrightarrow> updateRevision i f s = (updateRevision i f s)\<lparr>currentExecution := ex\<rparr>"
  by (auto simp: updateRevision_def)

lemma enqueueGraph_inv:
  assumes inv: "graphInv p es s" and step: "enqueueGraph ref s = Inr s'"
  shows "graphInv p es s'"
proof -
  obtain i where i: "exactGraph ref s = Inr i" and st: "mr_status (revisions s ! i) \<in> {gs_approved, gs_waiting_for_user}"
    and s': "s' = (updateRevision i (\<lambda>r. r\<lparr>mr_status := gs_queued\<rparr>) s)\<lparr>currentExecution := Some i\<rparr>"
    using step by (auto simp: enqueueGraph_def Let_def err_simps split: if_splits)
  note wf = revisionWf_status(1) [OF graphInv_facts(4) [OF inv exactGraph_Inr(1) [OF i]], of gs_queued]
  show ?thesis
    unfolding s' by (rule exact_inv [OF inv i]) (use st wf in \<open>auto simp: keyOf_def\<close>)
qed

lemma startGraph_inv:
  assumes inv: "graphInv p es s" and step: "startGraph ref s = Inr s'"
  shows "graphInv p es s'"
proof -
  obtain i where i: "exactGraph ref s = Inr i" and st: "mr_status (revisions s ! i) = gs_queued"
    and s': "s' = updateRevision i (\<lambda>r. r\<lparr>mr_status := gs_running\<rparr>) s"
    using step by (auto simp: startGraph_def err_simps split: if_splits)
  note wf = revisionWf_status(1) [OF graphInv_facts(4) [OF inv exactGraph_Inr(1) [OF i]], of gs_running]
  show ?thesis
    unfolding s' by (subst updateRevision_execution [OF refl], rule exact_inv [OF inv i]) (use st wf in \<open>auto simp: keyOf_def\<close>)
qed

lemma waitGraph_inv:
  assumes inv: "graphInv p es s" and step: "waitGraph ref s = Inr s'"
  shows "graphInv p es s'"
proof -
  obtain i where i: "exactGraph ref s = Inr i" and st: "mr_status (revisions s ! i) \<in> {gs_queued, gs_running}"
    and s': "s' = updateRevision i (\<lambda>r. r\<lparr>mr_status := gs_waiting_for_user\<rparr>) s"
    using step by (auto simp: waitGraph_def err_simps split: if_splits)
  note wf = revisionWf_status(1) [OF graphInv_facts(4) [OF inv exactGraph_Inr(1) [OF i]], of gs_waiting_for_user]
  show ?thesis
    unfolding s' by (subst updateRevision_execution [OF refl], rule exact_inv [OF inv i]) (use st wf in \<open>auto simp: keyOf_def\<close>)
qed

lemma terminalStatus_open: "terminalStatus st \<notin> {gs_draft, gs_rejected, gs_superseded}"
  by (cases st) simp_all

lemma terminalGraph_inv:
  assumes inv: "graphInv p es s" and step: "terminalGraph event ref st s = Inr s'"
  shows "graphInv p es s'"
proof -
  obtain i where i: "exactGraph ref s = Inr i" and a: "mr_status (revisions s ! i) \<in> activeStatuses"
    and s': "s' = (updateRevision i (\<lambda>r. r\<lparr>mr_status := terminalStatus st, mr_terminalEventId := Some (eventId event)\<rparr>) s)
      \<lparr>currentExecution := None\<rparr>"
    using step by (auto simp: terminalGraph_def err_simps split: if_splits)
  note wf = revisionWf_status(2) [OF graphInv_facts(4) [OF inv exactGraph_Inr(1) [OF i]], of "terminalStatus st" "Some (eventId event)"]
  show ?thesis
    unfolding s' by (rule exact_inv [OF inv i]) (use a wf terminalStatus_open [of st] in \<open>auto simp: keyOf_def activeStatuses_def\<close>)
qed

lemma retryGraph_inv:
  assumes inv: "graphInv p es s" and step: "retryGraph ref s = Inr s'"
  shows "graphInv p es s'"
proof -
  obtain i where i: "exactGraph ref s = Inr i" and st: "mr_status (revisions s ! i) \<in> {gs_failed, gs_cancelled}"
    and s': "s' = (updateRevision i (\<lambda>r. r\<lparr>mr_status := gs_waiting_for_user, mr_terminalEventId := None\<rparr>) s)\<lparr>currentExecution := Some i\<rparr>"
    using step by (auto simp: retryGraph_def err_simps split: if_splits)
  note wf = revisionWf_status(2) [OF graphInv_facts(4) [OF inv exactGraph_Inr(1) [OF i]], of gs_waiting_for_user None]
  show ?thesis
    unfolding s' by (rule exact_inv [OF inv i]) (use st wf in \<open>auto simp: keyOf_def\<close>)
qed

lemma dropRef_Some: "dropRef i ref = Some j \<longleftrightarrow> ref = Some j \<and> j \<noteq> i"
  by (auto simp: dropRef_def)

lemma staleGraph_inv:
  assumes inv: "graphInv p es s" and step: "staleGraph event ref s = Inr s'"
  shows "graphInv p es s'"
proof -
  obtain i where i: "exactGraph ref s = Inr i"
    and s': "s' = (updateRevision i (\<lambda>r. r\<lparr>mr_status := gs_stale, mr_terminalEventId := Some (eventId event)\<rparr>) s)
            \<lparr>currentDraft := dropRef i (currentDraft s), currentApproved := dropRef i (currentApproved s),
             currentExecution := dropRef i (currentExecution s)\<rparr>"
    using step by (auto simp: staleGraph_def err_simps split: if_splits)
  note idx = exactGraph_Inr(1) [OF i]
  show ?thesis
    by (rule graphInv_update [OF inv idx _ revisionWf_stale [OF graphInv_facts(4) [OF inv idx]]])
      (auto simp: s' keyOf_def dropRef_Some)
qed

lemma cancelGraph_same: "cancelGraph ref s = Inr s' \<Longrightarrow> s' = s"
  by (auto simp: cancelGraph_def err_simps split: if_splits)

lemmas graph_cases_inv = proposeGraph_inv replaceGraph_inv rejectGraph_inv staleGraph_inv enqueueGraph_inv
  startGraph_inv waitGraph_inv terminalGraph_inv retryGraph_inv

lemma graphStep_inv:
  assumes inv: "graphInv p es s" and step: "graphStep p s event = Inr s'"
  shows "graphInv p (es @ [event]) s'"
proof -
  have inv: "graphInv p (es @ [event]) s"
    by (rule graphInv_mono [OF inv]) auto
  show ?thesis
  proof (cases "scope event = SessionScope")
    case True
    then show ?thesis
      using step by (cases "edata event")
        (simp_all add: graphStep_def inv, (erule graph_cases_inv [OF inv] | drule cancelGraph_same, simp add: inv |
          erule approveGraph_inv [OF inv _ True], simp, simp | use inv in simp)+)
  next
    case False
    with step inv show ?thesis by (simp add: graphStep_def)
  qed
qed

interpretation graph_log: log_projector "graphStep p" graph_projector_init "graphInv p" for p
proof
  show "graphInv p [] graph_projector_init"
    by (simp add: graphInv_def graph_projector_init_def)
qed (rule graphStep_inv)

section \<open>The life of a revision\<close>

text \<open>
  \<open>lifecycle\<close> is the abstract state machine of one revision, without the log and without the
  other revisions.  Every step of the projector moves every revision along one of its edges or
  leaves it alone, keeps what identifies it and keeps a decision once made.
\<close>

inductive lifecycle :: "graph_status \<Rightarrow> graph_status \<Rightarrow> bool" where
  approve: "lifecycle gs_draft gs_approved"
| reject: "lifecycle gs_draft gs_rejected"
| supersede: "st \<in> {gs_draft, gs_approved} \<Longrightarrow> lifecycle st gs_superseded"
| enqueue: "st \<in> {gs_approved, gs_waiting_for_user} \<Longrightarrow> lifecycle st gs_queued"
| start: "lifecycle gs_queued gs_running"
| wait: "st \<in> {gs_queued, gs_running} \<Longrightarrow> lifecycle st gs_waiting_for_user"
| finish: "st \<in> activeStatuses \<Longrightarrow> lifecycle st (terminalStatus how)"
| retry: "st \<in> {gs_failed, gs_cancelled} \<Longrightarrow> lifecycle st gs_waiting_for_user"
| stale: "st \<notin> {gs_completed, gs_cancelled, gs_failed, gs_rejected, gs_superseded} \<Longrightarrow> lifecycle st gs_stale"

inductive_cases lifecycle_from: "lifecycle st st'"

lemma lifecycle_final: "lifecycle st st' \<Longrightarrow> st \<in> {gs_completed, gs_rejected, gs_superseded, gs_stale} \<Longrightarrow> st' = st"
  by (elim lifecycle_from) (auto simp: activeStatuses_def)

lemma lifecycle_run_final:
  "lifecycle\<^sup>*\<^sup>* st st' \<Longrightarrow> st \<in> {gs_completed, gs_rejected, gs_superseded, gs_stale} \<Longrightarrow> st' = st"
  by (induction rule: rtranclp_induct) (auto dest: lifecycle_final)

definition revisionMoves :: "mutable_revision \<Rightarrow> mutable_revision \<Rightarrow> bool" where
  "revisionMoves r r' \<longleftrightarrow> keyOf r' = keyOf r \<and> lifecycle\<^sup>*\<^sup>* (mr_status r) (mr_status r') \<and>
     (mr_decisionEventId r \<noteq> None \<longrightarrow> mr_decisionEventId r' = mr_decisionEventId r \<and> mr_approvedEventId r' = mr_approvedEventId r)"

definition graphMoves :: "graph_projector \<Rightarrow> graph_projector \<Rightarrow> bool" where
  "graphMoves s s' \<longleftrightarrow> grows revisionMoves (revisions s) (revisions s')"

lemma revisionMoves_refl: "revisionMoves r r"
  by (simp add: revisionMoves_def)

lemma revisionMoves_trans: "revisionMoves r q \<Longrightarrow> revisionMoves q u \<Longrightarrow> revisionMoves r u"
  unfolding revisionMoves_def by (metis rtranclp_trans)

lemma graphMoves_push: "graphMoves s s1 \<Longrightarrow> graphMoves s (pushRevision r s1)"
  by (simp add: graphMoves_def grows_append)

lemma graphMoves_refs [simp]:
  "graphMoves s (t\<lparr>currentDraft := x\<rparr>) \<longleftrightarrow> graphMoves s t" "graphMoves s (t\<lparr>currentApproved := x\<rparr>) \<longleftrightarrow> graphMoves s t"
  "graphMoves s (t\<lparr>currentExecution := x\<rparr>) \<longleftrightarrow> graphMoves s t"
  by (simp_all add: graphMoves_def)

lemma graphMoves_update: "revisionMoves (revisions s ! i) (f (revisions s ! i)) \<Longrightarrow> graphMoves s (updateRevision i f s)"
  by (simp add: graphMoves_def grows_update revisionMoves_refl)

lemma graphMoves_refl: "graphMoves s s"
  by (simp add: graphMoves_def grows_refl revisionMoves_refl)

lemma graphMoves_trans: "graphMoves s t \<Longrightarrow> graphMoves t u \<Longrightarrow> graphMoves s u"
  unfolding graphMoves_def by (erule (1) grows_trans) (rule revisionMoves_trans)

lemma revisionMoves_status:
  "lifecycle (mr_status r) st \<Longrightarrow> revisionMoves r (r\<lparr>mr_status := st\<rparr>)"
  "lifecycle (mr_status r) st \<Longrightarrow> revisionMoves r (r\<lparr>mr_status := st, mr_terminalEventId := te\<rparr>)"
  "lifecycle (mr_status r) st \<Longrightarrow> mr_decisionEventId r = None \<Longrightarrow> revisionMoves r (r\<lparr>mr_status := st, mr_decisionEventId := de\<rparr>)"
  "lifecycle (mr_status r) st \<Longrightarrow> mr_decisionEventId r = None \<Longrightarrow>
     revisionMoves r (r\<lparr>mr_status := st, mr_approvedEventId := ae, mr_decisionEventId := de\<rparr>)"
  by (simp_all add: revisionMoves_def keyOf_def)

lemma proposeGraph_moves: "proposeGraph p event d s = Inr s' \<Longrightarrow> graphMoves s s'"
  by (auto simp: proposeGraph_def Let_def err_simps graphMoves_push graphMoves_refl split: if_splits)

lemma replaceGraph_moves: "replaceGraph p event d s = Inr s' \<Longrightarrow> graphMoves s s'"
  by (auto simp: replaceGraph_def Let_def err_simps split: if_splits option.splits
      intro!: graphMoves_push graphMoves_update revisionMoves_status intro: lifecycle.intros)

lemma currentDraftDecision_open:
  "currentDraftDecision ref rid s = Inr i \<Longrightarrow> mr_status (revisions s ! i) = gs_draft \<and> mr_decisionEventId (revisions s ! i) = None"
  using currentDraftDecision_Inr by blast

lemma decideGraph_moves:
  "approveGraph event ref rid s = Inr s' \<Longrightarrow> graphMoves s s'" "rejectGraph event ref rid s = Inr s' \<Longrightarrow> graphMoves s s'"
  by (auto simp: approveGraph_def rejectGraph_def err_simps dest!: currentDraftDecision_open
      intro!: graphMoves_update revisionMoves_status simp: lifecycle.approve lifecycle.reject)

lemma runGraph_moves:
  "enqueueGraph ref s = Inr s' \<Longrightarrow> graphMoves s s'" "startGraph ref s = Inr s' \<Longrightarrow> graphMoves s s'"
  "waitGraph ref s = Inr s' \<Longrightarrow> graphMoves s s'"
  by (auto simp: enqueueGraph_def startGraph_def waitGraph_def Let_def err_simps split: if_splits
      intro!: graphMoves_update revisionMoves_status intro: lifecycle.intros)

lemma endGraph_moves:
  "terminalGraph event ref st s = Inr s' \<Longrightarrow> graphMoves s s'" "retryGraph ref s = Inr s' \<Longrightarrow> graphMoves s s'"
  "staleGraph event ref s = Inr s' \<Longrightarrow> graphMoves s s'" "cancelGraph ref s = Inr s' \<Longrightarrow> graphMoves s s'"
  by (auto simp: terminalGraph_def retryGraph_def staleGraph_def cancelGraph_def graphMoves_refl err_simps split: if_splits
      intro!: graphMoves_update revisionMoves_status intro: lifecycle.intros)

lemmas graph_cases_moves = proposeGraph_moves replaceGraph_moves decideGraph_moves runGraph_moves endGraph_moves

lemma graphStep_moves: "graphStep p s event = Inr s' \<Longrightarrow> graphMoves s s'"
  by (cases "scope event = SessionScope"; cases "edata event")
    (simp_all add: graphStep_def graphMoves_refl, (erule graph_cases_moves | use graphMoves_refl in simp)+)

interpretation graph_life: projector_evolution "graphStep p" graph_projector_init "\<lambda>_. True" graphMoves for p
  by unfold_locales (auto intro: graphMoves_refl graphMoves_trans graphStep_moves)

end
