(* ===== verification/TaskExecutionHistory.thy ===== *)
theory TaskExecutionHistory
  imports TaskExecutionInvariants TaskGraphLifecycle
begin

text \<open>
  How an execution may change: a succeeded node stays succeeded, a terminal attempt keeps its
  record and no attempt is forgotten; the number of attempts, when every event passed its schema;
  and the link between the two projections of the log, a revision is completed only by a terminal
  event that the execution projector accepted with every node succeeded.
\<close>

section \<open>The projector's invariant on every log\<close>

lemma accepted_positive:
  assumes "taskGraphRevisionContentSchema p content = Some []"
  shows "graphPositive content"
proof -
  have "taskGraphBudgetSchema (graphBudget content)" "distinct (map nodeId (gc_nodes content))"
    using assms by (auto simp: taskGraphSchema_accepts_iff taskGraphFieldsOk_def)
  moreover from this(1) have "0 \<le> m" if "counterAt (limits (graphBudget content)) c = Some m" for c m
    using that by (cases c) (auto simp: taskGraphBudgetSchema_def limits_def)
  ultimately show ?thesis
    by (simp add: graphPositive_def)
qed

definition positiveInv :: "mutable_revision \<Rightarrow> execution_state \<Rightarrow> bool" where
  "positiveInv graph s \<longleftrightarrow> (graphPositive (mr_content graph) \<longrightarrow> executionInv (mr_content graph) s)"

lemma positiveInv_step: "positiveInv graph s \<Longrightarrow> executionStep graph s event = Inr s' \<Longrightarrow> positiveInv graph s'"
  unfolding positiveInv_def using executionStep_inv by blast

section \<open>What one event may change\<close>

definition attemptMoves :: "mutable_attempt \<Rightarrow> mutable_attempt \<Rightarrow> bool" where
  "attemptMoves t t' \<longleftrightarrow> sameAttempt t t' \<and> (ma_status t = as_terminal \<longrightarrow> t' = t)"

definition executionMoves :: "mutable_revision \<Rightarrow> execution_state \<Rightarrow> execution_state \<Rightarrow> bool" where
  "executionMoves graph s s' \<longleftrightarrow> graphPositive (mr_content graph) \<longrightarrow>
     grows attemptMoves (x_attempts s) (x_attempts s') \<and> (\<forall>i. succeeded s i \<longrightarrow> succeeded s' i) \<and>
     (x_cancelRequested s \<longrightarrow> x_cancelRequested s') \<and> (x_enqueue s \<noteq> None \<longrightarrow> x_enqueue s' \<noteq> None)"

lemma attemptMoves_refl: "attemptMoves t t"
  by (simp add: attemptMoves_def sameAttempt_def)

lemma attemptMoves_trans: "attemptMoves t u \<Longrightarrow> attemptMoves u v \<Longrightarrow> attemptMoves t v"
  by (auto simp: attemptMoves_def sameAttempt_def)

lemma executionMoves_refl: "executionMoves graph s s"
  by (simp add: executionMoves_def grows_refl attemptMoves_refl)

lemma attempts_trans: "grows attemptMoves xs ys \<Longrightarrow> grows attemptMoves ys zs \<Longrightarrow> grows attemptMoves xs zs"
  by (erule (1) grows_trans) (rule attemptMoves_trans)

lemma executionMoves_trans: "executionMoves graph s t \<Longrightarrow> executionMoves graph t u \<Longrightarrow> executionMoves graph s u"
  unfolding executionMoves_def using attempts_trans by blast

lemma succeeded_setNode:
  assumes "succeeded s d" "nodeAt s i = Some n0" "xn_status n0 \<noteq> ns_succeeded"
  shows "succeeded (setNode i f s) d"
  using assms by (cases "d = i") (auto simp: succeeded_def nodeAt_setNode)

lemma succeeded_cong: "x_nodes s' = x_nodes s \<Longrightarrow> succeeded s' = succeeded s"
  by (simp add: succeeded_def nodeAt_def fun_eq_iff)

text \<open>The three parts of \<open>executionMoves\<close> for a change of one open node.\<close>

lemma executionMovesI:
  assumes "nodeAt s i = Some n0" "xn_status n0 \<noteq> ns_succeeded" "x_nodes s' = x_nodes (setNode i f s)"
    "grows attemptMoves (x_attempts s) (x_attempts s')" "x_cancelRequested s' = x_cancelRequested s" "x_enqueue s' = x_enqueue s"
  shows "executionMoves graph s s'"
  using assms succeeded_setNode [OF _ assms(1,2), of _ f] succeeded_cong [OF assms(3)] by (simp add: executionMoves_def)

lemma active_moves:
  assumes inv: "executionInv content s" and act: "activeMatches aid i s = Some a"
    and s': "x_nodes s' = x_nodes (setNode i f s)" "x_attempts s' = (x_attempts s)[a := t']"
      "x_cancelRequested s' = x_cancelRequested s" "x_enqueue s' = x_enqueue s"
    and t': "sameAttempt (x_attempts s ! a) t'"
  shows "executionMoves graph s s'"
proof -
  obtain n0 where n0: "nodeAt s i = Some n0" "xn_status n0 \<noteq> ns_succeeded" and st: "ma_status (x_attempts s ! a) \<noteq> as_terminal"
    by (rule active_node [OF inv act]) blast
  have "grows attemptMoves (x_attempts s) (x_attempts s')"
    unfolding s'(2) using st t' by (intro grows_update) (simp_all add: attemptMoves_refl, simp add: attemptMoves_def)
  then show ?thesis
    by (rule executionMovesI [OF n0 s'(1) _ s'(3,4)])
qed

lemma xAttemptRequested_moves: "xAttemptRequested b event d s = Inr s' \<Longrightarrow> executionMoves graph s s'"
  by (auto simp: xAttemptRequested_def Let_def isReady_def setNode_def split: option.splits if_splits
      intro!: executionMovesI grows_append grows_refl attemptMoves_refl)

lemma xSkipped_moves: "xSkipped event i roots s = Inr s' \<Longrightarrow> executionMoves graph s s'"
  by (auto simp: xSkipped_def setNode_def split: option.splits if_splits intro!: executionMovesI grows_refl attemptMoves_refl)

lemma xRetryRequested_moves: "xRetryRequested d s = Inr s' \<Longrightarrow> executionMoves graph s s'"
  by (auto simp: xRetryRequested_def setNode_def Let_def split: option.splits if_splits
      intro!: executionMovesI grows_refl attemptMoves_refl)

lemma open_attempt_moves:
  assumes inv: "executionInv content s"
  shows "xAttemptStarted event aid i run nonce s = Inr s' \<Longrightarrow> executionMoves graph s s'"
    "xAttemptWaiting aid i s = Inr s' \<Longrightarrow> executionMoves graph s s'"
    "xAttemptTerminal event d s = Inr s' \<Longrightarrow> executionMoves graph s s'"
  by (auto simp: xAttemptStarted_def xAttemptWaiting_def xAttemptTerminal_def setNode_def setAttempt_def sameAttempt_def Let_def
      split: option.splits if_splits intro!: active_moves [OF inv])

lemma quiet_moves:
  "xLeaseAcquired nonce s = Inr s' \<Longrightarrow> executionMoves graph s s'" "xLeaseRecovered nonce s = Inr s' \<Longrightarrow> executionMoves graph s s'"
  "xStarted nonce s = Inr s' \<Longrightarrow> executionMoves graph s s'" "xTerminal event status code s = Inr s' \<Longrightarrow> executionMoves graph s s'"
  "executionMoves graph s (xEnqueued event e r pr s)" "executionMoves graph s (setBlocker event bc nd s)"
  "executionMoves graph s (s\<lparr>x_cancelRequested := True\<rparr>)"
  by (auto simp: xLeaseAcquired_def xLeaseRecovered_def xStarted_def xTerminal_def Let_def executionMoves_def succeeded_def nodeAt_def
      xEnqueued_def setBlocker_def split: if_splits option.splits intro!: grows_refl attemptMoves_refl)

lemmas execution_cases_moves = xAttemptRequested_moves xSkipped_moves xRetryRequested_moves quiet_moves(1-4)

lemma executionEvent_moves:
  assumes inv: "executionInv content s" and step: "executionEvent b event s = Inr s'"
  shows "executionMoves graph s s'"
  using step by (cases "edata event") (simp_all add: executionEvent_def,
    (erule execution_cases_moves open_attempt_moves [OF inv] | use executionMoves_refl quiet_moves(5-7) in force)+)

lemma executionStep_moves:
  assumes "positiveInv graph s" "executionStep graph s event = Inr s'"
  shows "executionMoves graph s s'"
proof (cases "graphPositive (mr_content graph) \<and> exactGraphEvent event graph")
  case True
  with assms show ?thesis
    by (auto simp: executionStep_def positiveInv_def intro: executionEvent_moves)
next
  case False
  then show ?thesis
  proof (cases "graphPositive (mr_content graph)")
    case True
    with False assms show ?thesis by (simp add: executionStep_def executionMoves_refl)
  qed (simp add: executionMoves_def)
qed

interpretation execution: projector_evolution "executionStep graph" "execution_init (mr_content graph)" "positiveInv graph" "executionMoves graph"
  for graph
proof
  show "positiveInv graph (execution_init (mr_content graph))"
    by (simp add: positiveInv_def execution_init_inv)
qed (fact positiveInv_step executionMoves_refl executionStep_moves | erule (1) executionMoves_trans positiveInv_step)+

section \<open>The number of attempts\<close>

text \<open>The schemas of the attempt events (\<^verbatim>\<open>src/src/task-graph/task-graph-event-schema.ts\<close>).\<close>

definition nonnegative :: "int \<Rightarrow> bool" where
  "nonnegative n \<longleftrightarrow> 0 \<le> n \<and> n \<le> MAX_SAFE_INTEGER"

definition reservationSchema :: "task_budget_counters \<Rightarrow> bool" where
  "reservationSchema c \<longleftrightarrow> 0 < attempts c \<and> attempts c \<le> 1 \<and> nonnegative (durationMs c) \<and> nonnegative (modelSteps c) \<and>
     nonnegative (commandExecutions c) \<and> nonnegative (commandOutputBytes c) \<and> nonnegative (changedFiles c) \<and>
     nonnegative (changedBytes c) \<and> nonnegative (artifactBytes c) \<and>
     (case reportedTokens c of None \<Rightarrow> True | Some t \<Rightarrow> nonnegative t)"

fun attemptEventSchema :: "platform \<Rightarrow> event_data \<Rightarrow> bool" where
  "attemptEventSchema p (TaskNodeAttemptRequested _ d) \<longleftrightarrow> isUuid p (ar_attempt_id d) \<and>
     1 \<le> ar_attempt_number d \<and> ar_attempt_number d \<le> 3 \<and> nodeIdOk (ar_node_id d) \<and> reservationSchema (ar_reservation d)"
| "attemptEventSchema p (TaskNodeAttemptStarted _ attempt_id node_id run_id nonce) \<longleftrightarrow>
     isUuid p attempt_id \<and> nodeIdOk node_id \<and> isUuid p run_id \<and> sha256Ok nonce"
| "attemptEventSchema p (TaskNodeAttemptWaiting _ attempt_id node_id) \<longleftrightarrow> isUuid p attempt_id \<and> nodeIdOk node_id"
| "attemptEventSchema p (TaskNodeAttemptTerminal _ d) \<longleftrightarrow>
     isUuid p (atd_attempt_id d) \<and> reservationSchema (atd_budget d) \<and> nodeIdOk (atd_node_id d)"
| "attemptEventSchema p (TaskNodeRetryRequested _ d) \<longleftrightarrow> 1 \<le> rr_attempt_number d \<and> rr_attempt_number d \<le> 3 \<and>
     nodeIdOk (rr_node_id d) \<and> isUuid p (rr_terminal_event_id d) \<and>
     (case rr_previous_terminal d of None \<Rightarrow> True
      | Some t \<Rightarrow> t \<in> {at_known_failed, at_pre_effect_infrastructure_failure, at_cancelled_clean})"
| "attemptEventSchema p (TaskNodeSkipped _ node_id roots) \<longleftrightarrow> nodeIdOk node_id \<and> list_all nodeIdOk roots \<and>
     1 \<le> length roots \<and> length roots \<le> 32"
| "attemptEventSchema p _ \<longleftrightarrow> True"

definition countsOk :: "execution_state \<Rightarrow> bool" where
  "countsOk s \<longleftrightarrow> attempts (x_consumed s) + attempts (x_reserved s) = int (length (x_attempts s)) \<and>
     (\<forall>k n. nodeAt s k = Some n \<longrightarrow> length (xn_attempts n) \<le> 3) \<and>
     (\<forall>t\<in>set (x_attempts s). attempts (ma_reservation t) = 1)"

lemma countsOk_frame [simp]:
  "countsOk (s\<lparr>x_active := v1\<rparr>) \<longleftrightarrow> countsOk s" "countsOk (s\<lparr>x_blocker := v2\<rparr>) \<longleftrightarrow> countsOk s"
  "countsOk (s\<lparr>x_enqueue := v3\<rparr>) \<longleftrightarrow> countsOk s" "countsOk (s\<lparr>x_lease := v4\<rparr>) \<longleftrightarrow> countsOk s"
  "countsOk (s\<lparr>x_completeness := v5\<rparr>) \<longleftrightarrow> countsOk s" "countsOk (s\<lparr>x_cancelRequested := v6\<rparr>) \<longleftrightarrow> countsOk s"
  by (simp_all add: countsOk_def nodeAt_def)

lemma countsOk_setNode:
  assumes "countsOk s" "\<And>n. xn_attempts (f n) = xn_attempts n"
  shows "countsOk (setNode i f s)"
  using assms by (auto simp: countsOk_def nodeAt_setNode split: if_splits)

lemma countsOk_setAttempt:
  assumes "countsOk s" "ma_reservation (g (x_attempts s ! a)) = ma_reservation (x_attempts s ! a)"
  shows "countsOk (setAttempt a g s)"
proof (cases "a < length (x_attempts s)")
  case True
  with assms show ?thesis
    by (auto simp: countsOk_def nodeAt_def dest!: set_update_subset_insert [THEN subsetD])
next
  case False
  with assms(1) show ?thesis by (simp add: countsOk_def nodeAt_def list_update_beyond)
qed

lemma xAttemptRequested_counts:
  assumes "countsOk s" "xAttemptRequested b event d s = Inr s'" "reservationSchema (ar_reservation d)" "ar_attempt_number d \<le> 3"
  shows "countsOk s'"
proof -
  have one: "attempts (ar_reservation d) = 1" using assms(3) by (simp add: reservationSchema_def)
  then show ?thesis
    using assms by (auto simp: xAttemptRequested_def Let_def countsOk_def setNode_def nodeAt_def map_of_map_key newAttempt_def budgetAdd_def
      split: option.splits if_splits)
qed

lemma xAttemptTerminal_counts:
  assumes inv: "executionInv content s" and c: "countsOk s" and step: "xAttemptTerminal event d s = Inr s'"
    and r: "reservationSchema (atd_budget d)"
  shows "countsOk s'"
proof -
  obtain a where act: "activeMatches (atd_attempt_id d) (atd_node_id d) s = Some a"
    using step by (auto simp: xAttemptTerminal_def split: option.splits)
  then have a: "a < length (x_attempts s)" by (rule active_node [OF inv])
  have one: "attempts (atd_budget d) = 1" "attempts (ma_reservation (x_attempts s ! a)) = 1"
    using r c a by (auto simp: reservationSchema_def countsOk_def)
  let ?s = "s\<lparr>x_reserved := budgetRelease (x_reserved s) (ma_reservation (x_attempts s ! a)),
     x_consumed := budgetAdd (x_consumed s) (atd_budget d),
     x_completeness := mergeCompleteness (x_completeness s) (atd_usage_completeness d)\<rparr>"
  have "countsOk ?s"
    using c one by (simp add: countsOk_def nodeAt_def budgetAdd_def budgetRelease_def)
  then have "countsOk (setNode i (settleNode event t w) (setAttempt a (\<lambda>t. t\<lparr>ma_status := as_terminal, ma_terminal := Some (atd_terminal d),
       ma_terminalEventId := Some (eventId event)\<rparr>) ?s))" for i t w
    by (intro countsOk_setNode countsOk_setAttempt) simp_all
  then show ?thesis
    using step act by (auto simp: xAttemptTerminal_def Let_def simp del: mergeCompleteness.simps split: if_splits)
qed

lemma other_counts:
  assumes c: "countsOk s"
  shows "xAttemptStarted event aid i run nonce s = Inr s' \<Longrightarrow> countsOk s'" "xAttemptWaiting aid i s = Inr s' \<Longrightarrow> countsOk s'"
    "xSkipped event i roots s = Inr s' \<Longrightarrow> countsOk s'"
    "xLeaseAcquired nonce s = Inr s' \<Longrightarrow> countsOk s'" "xLeaseRecovered nonce s = Inr s' \<Longrightarrow> countsOk s'"
    "xStarted nonce s = Inr s' \<Longrightarrow> countsOk s'"
  using c by (auto simp: xAttemptStarted_def xAttemptWaiting_def xSkipped_def
      xLeaseAcquired_def xLeaseRecovered_def xStarted_def countsOk_setNode countsOk_setAttempt
      split: option.splits if_splits)

lemma quiet_counts:
  assumes c: "countsOk s"
  shows "xRetryRequested rd s = Inr s' \<Longrightarrow> countsOk s'" "xTerminal event status code s = Inr s' \<Longrightarrow> countsOk s'"
    "countsOk (xEnqueued event e r pr s)" "countsOk (setBlocker event bc nd s)" "countsOk (s\<lparr>x_cancelRequested := True\<rparr>)"
  using c by (auto simp: xRetryRequested_def xTerminal_def Let_def xEnqueued_def setBlocker_def countsOk_setNode
      split: option.splits if_splits)

lemmas counts_cases = other_counts quiet_counts(1,2)

lemma executionEvent_counts:
  assumes inv: "executionInv content s" and c: "countsOk s" and step: "executionEvent b event s = Inr s'"
    and schema: "attemptEventSchema p (edata event)"
  shows "countsOk s'"
proof (cases "edata event")
  case (TaskNodeAttemptRequested ref d)
  with step schema c show ?thesis by (auto simp: executionEvent_def intro: xAttemptRequested_counts)
next
  case (TaskNodeAttemptTerminal ref d)
  with step schema show ?thesis by (auto simp: executionEvent_def intro: xAttemptTerminal_counts [OF inv c])
qed (insert step c, simp_all add: executionEvent_def, (erule counts_cases [OF c] | use quiet_counts(3-5) [OF c] in force)+)

definition countInv :: "platform \<Rightarrow> mutable_revision \<Rightarrow> stored_event list \<Rightarrow> execution_state \<Rightarrow> bool" where
  "countInv p graph es s \<longleftrightarrow> positiveInv graph s \<and>
     (graphPositive (mr_content graph) \<and> (\<forall>e\<in>set es. attemptEventSchema p (edata e)) \<longrightarrow> countsOk s)"

interpretation execution_count: log_projector "executionStep graph" "execution_init (mr_content graph)" "countInv p graph" for p graph
proof
  have "countsOk (execution_init (mr_content graph))" if "graphPositive (mr_content graph)"
    using that by (auto simp: countsOk_def execution_init_def Let_def budgetZero_def nodeAt_def graphPositive_def
        initialNodes_distinct initialNode_def dest!: map_of_SomeD)
  then show "countInv p graph [] (execution_init (mr_content graph))"
    by (simp add: countInv_def positiveInv_def execution_init_inv)
next
  fix es s event s' assume inv: "countInv p graph es s" and step: "executionStep graph s event = Inr s'"
  have "countsOk s'" if "graphPositive (mr_content graph)" "\<forall>e\<in>set (es @ [event]). attemptEventSchema p (edata e)"
    using inv step that executionEvent_counts [of "mr_content graph" s _ event s' p]
    by (auto simp: countInv_def positiveInv_def executionStep_def split: if_splits)
  with inv step show "countInv p graph (es @ [event]) s'"
    by (auto simp: countInv_def intro: positiveInv_step)
qed

section \<open>Completion\<close>

definition completesGraph :: "mutable_revision \<Rightarrow> stored_event \<Rightarrow> bool" where
  "completesGraph graph e \<longleftrightarrow> exactGraphEvent e graph \<and> (\<exists>ref code. edata e = TaskGraphTerminal ref gt_completed code)"

definition completedInv :: "stored_event list \<Rightarrow> graph_projector \<Rightarrow> bool" where
  "completedInv es s \<longleftrightarrow> (\<forall>r\<in>set (revisions s). mr_status r = gs_completed \<longrightarrow> (\<exists>e\<in>set es. completesGraph r e))"

lemma completedInv_mono: "completedInv es s \<Longrightarrow> set es \<subseteq> set fs \<Longrightarrow> completedInv fs s"
  by (auto simp: completedInv_def)

lemma completedInv_refs [simp]:
  "completedInv es (s\<lparr>currentDraft := x\<rparr>) \<longleftrightarrow> completedInv es s" "completedInv es (s\<lparr>currentApproved := x\<rparr>) \<longleftrightarrow> completedInv es s"
  "completedInv es (s\<lparr>currentExecution := x\<rparr>) \<longleftrightarrow> completedInv es s"
  by (simp_all add: completedInv_def)

lemma completedInv_push: "completedInv es s \<Longrightarrow> mr_status r \<noteq> gs_completed \<Longrightarrow> completedInv es (pushRevision r s)"
  by (auto simp: completedInv_def)

lemma completedInv_update:
  "completedInv es s \<Longrightarrow> (mr_status (f (revisions s ! i)) = gs_completed \<Longrightarrow> \<exists>e\<in>set es. completesGraph (f (revisions s ! i)) e) \<Longrightarrow>
   completedInv es (updateRevision i f s)"
  by (auto simp: completedInv_def dest!: set_update_subset_insert [THEN subsetD])

lemma terminalGraph_completed:
  assumes inv: "completedInv es s" and step: "terminalGraph event ref st s = Inr s'"
    and ev: "event \<in> set es" "scope event = SessionScope" "edata event = TaskGraphTerminal ref st code"
  shows "completedInv es s'"
proof -
  obtain i where i: "exactGraph ref s = Inr i"
    and s': "s' = (updateRevision i (\<lambda>r. r\<lparr>mr_status := terminalStatus st, mr_terminalEventId := Some (eventId event)\<rparr>) s)
      \<lparr>currentExecution := None\<rparr>"
    using step by (auto simp: terminalGraph_def err_simps split: if_splits)
  have "st = gt_completed" if "terminalStatus st = gs_completed"
    using that by (cases st) simp_all
  moreover have "completesGraph ((revisions s ! i)\<lparr>mr_status := gs_completed, mr_terminalEventId := Some (eventId event)\<rparr>) event"
    if "st = gt_completed"
    using that ev exactGraph_Inr(2-4) [OF i] by (cases ref) (simp add: completesGraph_def exactGraphEvent_def)
  ultimately show ?thesis
    unfolding s' using inv ev(1) by (auto intro!: completedInv_update)
qed

lemma other_completed:
  assumes inv: "completedInv es s"
  shows "proposeGraph p event d s = Inr s' \<Longrightarrow> completedInv es s'" "replaceGraph p event dr s = Inr s' \<Longrightarrow> completedInv es s'"
    "approveGraph event ref rid s = Inr s' \<Longrightarrow> completedInv es s'" "rejectGraph event ref rid s = Inr s' \<Longrightarrow> completedInv es s'"
    "staleGraph event ref s = Inr s' \<Longrightarrow> completedInv es s'" "enqueueGraph ref s = Inr s' \<Longrightarrow> completedInv es s'"
    "startGraph ref s = Inr s' \<Longrightarrow> completedInv es s'" "waitGraph ref s = Inr s' \<Longrightarrow> completedInv es s'"
    "cancelGraph ref s = Inr s' \<Longrightarrow> completedInv es s'" "retryGraph ref s = Inr s' \<Longrightarrow> completedInv es s'"
  using inv by (auto simp: proposeGraph_def replaceGraph_def approveGraph_def rejectGraph_def staleGraph_def enqueueGraph_def
      startGraph_def waitGraph_def cancelGraph_def retryGraph_def createdRevision_def Let_def err_simps
      split: if_splits option.splits intro!: completedInv_push completedInv_update)

lemma graphStep_completed:
  assumes inv: "completedInv es s" and step: "graphStep p s event = Inr s'"
  shows "completedInv (es @ [event]) s'"
proof -
  have inv: "completedInv (es @ [event]) s"
    by (rule completedInv_mono [OF inv]) auto
  show ?thesis
  proof (cases "scope event = SessionScope")
    case True
    then show ?thesis
      using step by (cases "edata event")
        (simp_all add: graphStep_def inv, (erule other_completed [OF inv] |
          erule terminalGraph_completed [OF inv _ _ True], simp, simp | use inv in simp)+)
  next
    case False
    with step inv show ?thesis by (simp add: graphStep_def)
  qed
qed

interpretation completed: log_projector "graphStep p" graph_projector_init completedInv for p
  by unfold_locales (simp add: completedInv_def graph_projector_init_def, rule graphStep_completed)

definition doneInv :: "mutable_revision \<Rightarrow> stored_event list \<Rightarrow> execution_state \<Rightarrow> bool" where
  "doneInv graph es s \<longleftrightarrow> positiveInv graph s \<and>
     (graphPositive (mr_content graph) \<and> (\<exists>e\<in>set es. completesGraph graph e) \<longrightarrow>
       (\<forall>n\<in>set (gc_nodes (mr_content graph)). succeeded s (nodeId n)))"

lemma nodesOk_entry:
  assumes "nodesOk content s" "n \<in> set (gc_nodes content)"
  obtains m where "(nodeId n, m) \<in> set (x_nodes s)" "xn_node m = n"
proof -
  have "(nodeId n, n) \<in> set (map (\<lambda>(k, n). (k, xn_node n)) (x_nodes s))"
    using assms unfolding nodesOk_def by simp
  then show thesis using that by auto
qed

lemma nodesOk_keys: "nodesOk content s \<Longrightarrow> map fst (x_nodes s) = map nodeId (gc_nodes content)"
proof -
  assume "nodesOk content s"
  then have "map fst (map (\<lambda>(k, n). (k, xn_node n)) (x_nodes s)) = map fst (map (\<lambda>n. (nodeId n, n)) (gc_nodes content))"
    unfolding nodesOk_def by simp
  then show ?thesis by (simp add: split_def comp_def)
qed

lemma nodeAt_entry:
  assumes "graphPositive content" "nodesOk content s" "n \<in> set (gc_nodes content)"
  obtains m where "nodeAt s (nodeId n) = Some m" "xn_node m = n" "(nodeId n, m) \<in> set (x_nodes s)"
proof -
  obtain m where m: "(nodeId n, m) \<in> set (x_nodes s)" "xn_node m = n"
    using assms(2,3) by (rule nodesOk_entry)
  moreover have "distinct (map fst (x_nodes s))"
    using assms(1) nodesOk_keys [OF assms(2)] by (simp add: graphPositive_def)
  ultimately show thesis
    using that by (simp add: nodeAt_def)
qed

lemma completes_all:
  assumes "graphPositive (mr_content graph)" "executionInv (mr_content graph) s" "completesGraph graph event"
    and step: "executionStep graph s event = Inr s'" and n: "n \<in> set (gc_nodes (mr_content graph))"
  shows "succeeded s' (nodeId n)"
proof -
  obtain ref code where "edata event = TaskGraphTerminal ref gt_completed code" "exactGraphEvent event graph"
    using assms(3) by (auto simp: completesGraph_def)
  with step have all: "\<not> list_ex (\<lambda>(_, n). xn_status n \<noteq> ns_succeeded) (x_nodes s)" and same: "x_nodes s' = x_nodes s"
    by (auto simp: executionStep_def executionEvent_def xTerminal_def setBlocker_def Let_def split: if_splits option.splits)
  obtain m where "nodeAt s (nodeId n) = Some m" "(nodeId n, m) \<in> set (x_nodes s)"
    using nodeAt_entry [OF assms(1) executionInvD(1) [OF assms(2)] n] by blast
  with all show ?thesis
    unfolding succeeded_cong [OF same] by (auto simp: succeeded_def list_ex_iff)
qed

interpretation completion: log_projector "executionStep graph" "execution_init (mr_content graph)" "doneInv graph" for graph
proof
  show "doneInv graph [] (execution_init (mr_content graph))"
    by (simp add: doneInv_def positiveInv_def execution_init_inv)
next
  fix es s event s' assume inv: "doneInv graph es s" and step: "executionStep graph s event = Inr s'"
  have "succeeded s' (nodeId n)"
    if "graphPositive (mr_content graph)" "\<exists>e\<in>set (es @ [event]). completesGraph graph e" "n \<in> set (gc_nodes (mr_content graph))" for n
  proof (cases "completesGraph graph event")
    case True
    with inv step that show ?thesis by (auto simp: doneInv_def positiveInv_def intro: completes_all)
  next
    case False
    with inv that have "succeeded s (nodeId n)" by (auto simp: doneInv_def)
    moreover have "executionMoves graph s s'" using inv step by (auto simp: doneInv_def intro: executionStep_moves)
    ultimately show ?thesis using that(1) by (simp add: executionMoves_def)
  qed
  with inv step show "doneInv graph (es @ [event]) s'"
    by (auto simp: doneInv_def intro: positiveInv_step)
qed

end
