(* ===== verification/TaskExecutionView.thy ===== *)
theory TaskExecutionView
  imports TaskExecutionHistory
begin

text \<open>
  From the execution projection \<^verbatim>\<open>TaskExecutionProjector.project\<close> back to the projector's state:
  every node of the projection is a node of the state, with the ready nodes marked.
\<close>

section \<open>Marking the ready nodes\<close>

lemma markReady_simps [simp]:
  "x_attempts (markReady ready s) = x_attempts s" "x_active (markReady ready s) = x_active s" "x_blocker (markReady ready s) = x_blocker s"
  "x_consumed (markReady ready s) = x_consumed s" "x_reserved (markReady ready s) = x_reserved s" "x_lease (markReady ready s) = x_lease s"
  "x_completeness (markReady ready s) = x_completeness s"
  by (induction ready arbitrary: s) (simp_all add: markReady_def)

lemma nodeAt_markReady:
  "nodeAt (markReady ready s) j = map_option (\<lambda>n. if j \<in> set ready then n\<lparr>xn_status := ns_ready\<rparr> else n) (nodeAt s j)"
proof (induction ready arbitrary: s)
  case (Cons i ready)
  have "markReady (i # ready) s = markReady ready (setNode i (\<lambda>n. n\<lparr>xn_status := ns_ready\<rparr>) s)"
    by (simp add: markReady_def)
  with Cons show ?case
    by (cases "nodeAt s j") (auto simp: nodeAt_setNode)
qed (simp add: markReady_def option.map_ident)

section \<open>The projection and its state\<close>

lemma executionGraph_member: "executionGraph events revs = Some graph \<Longrightarrow> graph \<in> set revs"
  by (auto simp: executionGraph_def split: option.splits dest: find_eq_Some)

lemma projectTaskGraph_Inr:
  assumes "projectTaskGraph p events = Inr g"
  obtains s where "efold (graphStep p) graph_projector_init events = Inr s" "graphInv p events s" "tg_revisions g = revisions s"
    "tg_currentDraft g = graphRef s (currentDraft s)" "tg_currentApproved g = graphRef s (currentApproved s)"
    "tg_currentExecution g = graphRef s (currentExecution s)"
proof -
  obtain s where s: "efold (graphStep p) graph_projector_init events = Inr s"
    using assms by (auto simp: projectTaskGraph_def err_simps)
  with assms that graph_log.log_run [OF s] show thesis
    by (auto simp: projectTaskGraph_def)
qed

definition executes :: "platform \<Rightarrow> stored_event list \<Rightarrow> task_graph_projection \<Rightarrow> task_execution_projection \<Rightarrow> bool" where
  "executes p events g x \<longleftrightarrow> projectTaskGraph p events = Inr g \<and> projectExecution events (tg_revisions g) = Inr (Some x)"

lemma executes_state:
  assumes "executes p events g x"
  obtains s where "tx_graph x \<in> set (tg_revisions g)" "graphPositive (mr_content (tx_graph x))"
    "distinct (map sequence (gc_nodes (mr_content (tx_graph x))))"
    "\<And>n d. n \<in> set (gc_nodes (mr_content (tx_graph x))) \<Longrightarrow> d \<in> set (dependsOn n) \<Longrightarrow> d \<in> nodeId ` set (gc_nodes (mr_content (tx_graph x)))"
    "efold (executionStep (tx_graph x)) (execution_init (mr_content (tx_graph x))) events = Inr s"
    "executionInv (mr_content (tx_graph x)) s" "executionProjection events (tx_graph x) s = Inr x"
proof -
  obtain gs where gs: "graphInv p events gs" "tg_revisions g = revisions gs"
    using assms projectTaskGraph_Inr unfolding executes_def by blast
  obtain graph s where graph: "executionGraph events (tg_revisions g) = Some graph"
    and s: "efold (executionStep graph) (execution_init (mr_content graph)) events = Inr s"
    and x: "executionProjection events graph s = Inr x"
    using assms by (auto simp: executes_def projectExecution_def err_simps split: option.splits)
  have eq: "tx_graph x = graph"
    using x by (auto simp: executionProjection_def Let_def err_simps split: option.splits)
  have mem: "graph \<in> set (tg_revisions g)" by (rule executionGraph_member [OF graph])
  then have wf: "taskGraphRevisionContentSchema p (mr_content graph) = Some []"
    using graphInv_facts(5) [OF gs(1)] gs(2) by (auto simp: list_all_iff revisionWf_def revisionHash_def)
  have inv: "executionInv (mr_content graph) s"
    using execution.inv_run [OF s] accepted_positive [OF wf] by (simp add: positiveInv_def)
  show thesis
    using that [unfolded eq, OF mem accepted_positive [OF wf] _ _ s inv x] wf by (auto simp: taskGraphSchema_accepts_iff)
qed

lemma executionProjection_Inr:
  assumes "executionProjection events graph s = Inr x"
  shows "tx_nodes x = map (projectedNode (markReady (readyNodes graph s) s)) (gc_nodes (mr_content graph))"
    "tx_readyNodeIds x = readyNodes graph s" "tx_activeAttempt x = map_option (\<lambda>a. x_attempts s ! a) (x_active s)"
    "tx_status x = mr_status graph" "tx_blocker x = x_blocker s" "tb_consumed (tx_budget x) = x_consumed s"
    "tb_reserved (tx_budget x) = x_reserved s" "tb_limits (tx_budget x) = limits (graphBudget (mr_content graph))"
    "budgetSubtract (limits (graphBudget (mr_content graph))) (x_consumed s) (x_reserved s) = Inr (tb_remaining (tx_budget x))"
  using assms by (auto simp: executionProjection_def Let_def err_simps split: option.splits)

lemma projected_node:
  assumes pos: "graphPositive (mr_content graph)" and inv: "executionInv (mr_content graph) s"
    and x: "executionProjection events graph s = Inr x" and np: "np \<in> set (tx_nodes x)"
  obtains m where "nodeAt s (np_nodeId np) = Some m" "xn_node m = np_node np" "np_nodeId np = nodeId (np_node np)"
    "np_node np \<in> set (gc_nodes (mr_content graph))" "np_attempts np = map (\<lambda>a. x_attempts s ! a) (xn_attempts m)"
    "np_status np = (if np_nodeId np \<in> set (readyNodes graph s) then ns_ready else xn_status m)"
proof -
  obtain n where n: "n \<in> set (gc_nodes (mr_content graph))" and np': "np = projectedNode (markReady (readyNodes graph s) s) n"
    using np executionProjection_Inr(1) [OF x] by auto
  obtain m where "nodeAt s (nodeId n) = Some m" "xn_node m = n"
    using nodeAt_entry [OF pos executionInvD(1) [OF inv] n] by blast
  with that n show thesis
    by (simp add: np' projectedNode_def nodeAt_markReady Let_def)
qed

lemma node_projected:
  assumes pos: "graphPositive (mr_content graph)" and inv: "executionInv (mr_content graph) s"
    and x: "executionProjection events graph s = Inr x" and n: "n \<in> set (gc_nodes (mr_content graph))"
  obtains np where "np \<in> set (tx_nodes x)" "np_node np = n" "np_nodeId np = nodeId n"
  using that [of "projectedNode (markReady (readyNodes graph s) s) n"] n
  by (simp add: executionProjection_Inr(1) [OF x] projectedNode_def Let_def)

lemma isReady_pending: "isReady s n \<Longrightarrow> xn_status n = ns_pending"
  by (simp add: isReady_def)

lemma ready_node:
  assumes pos: "graphPositive (mr_content graph)" and inv: "executionInv (mr_content graph) s"
    and i: "i \<in> set (readyNodes graph s)"
  shows "\<exists>n. nodeAt s i = Some n \<and> isReady s n \<and> canQueue graph s"
proof -
  obtain k n where n: "(k, n) \<in> set (x_nodes s)" "isReady s n" "nodeId (xn_node n) = i" "canQueue graph s"
    using i by (auto simp: readyNodes_def split: if_splits)
  have keys: "nodesOk (mr_content graph) s" by (rule executionInvD(1) [OF inv])
  have "(k, xn_node n) \<in> set (map (\<lambda>(k, n). (k, xn_node n)) (x_nodes s))" using n(1) by force
  then have "k = i" using keys n(3) unfolding nodesOk_def by auto
  moreover have "distinct (map fst (x_nodes s))" using nodesOk_keys [OF keys] pos by (simp add: graphPositive_def)
  ultimately show ?thesis using n by (auto simp: nodeAt_def)
qed

lemma succeeded_not_ready:
  assumes "graphPositive (mr_content graph)" "executionInv (mr_content graph) s" "succeeded s i"
  shows "i \<notin> set (readyNodes graph s)"
  using ready_node [OF assms(1,2), of i] assms(3) by (auto simp: succeeded_def isReady_def)

lemma succeeded_projected:
  assumes pos: "graphPositive (mr_content graph)" and inv: "executionInv (mr_content graph) s"
    and x: "executionProjection events graph s = Inr x" and "succeeded s (nodeId n)" "n \<in> set (gc_nodes (mr_content graph))"
  shows "\<exists>np\<in>set (tx_nodes x). np_nodeId np = nodeId n \<and> np_status np = ns_succeeded"
proof -
  obtain np where np: "np \<in> set (tx_nodes x)" "np_nodeId np = nodeId n"
    using node_projected [OF pos inv x assms(5)] by blast
  obtain m where "nodeAt s (np_nodeId np) = Some m"
    "np_status np = (if np_nodeId np \<in> set (readyNodes graph s) then ns_ready else xn_status m)"
    by (rule projected_node [OF pos inv x np(1)]) blast
  with np succeeded_not_ready [OF pos inv assms(4)] assms(4) show ?thesis
    by (auto simp: succeeded_def)
qed

section \<open>The ready queue\<close>

lemma map_insort_key: "map f (insort_key (\<lambda>x. k (f x)) x xs) = insort_key k (f x) (map f xs)"
  by (induction xs) auto

lemma map_sort_key: "map f (sort_key (\<lambda>x. k (f x)) xs) = sort_key k (map f xs)"
  by (induction xs) (auto simp: map_insort_key)

lemma queue_nodes:
  "map np_node (sort_key (\<lambda>n. sequence (np_node n)) (filter (\<lambda>n. np_nodeId n \<in> R) (map (projectedNode s) ns))) =
   sort_key sequence (filter (\<lambda>n. nodeId n \<in> R) ns)"
proof -
  have "map np_node (filter (\<lambda>n. np_nodeId n \<in> R) (map (projectedNode s) ns)) = filter (\<lambda>n. nodeId n \<in> R) ns"
    by (induction ns) (simp_all add: projectedNode_def Let_def)
  then show ?thesis by (simp add: map_sort_key)
qed

lemma nodesOk_nodes: "nodesOk content s \<Longrightarrow> gc_nodes content = map xn_node (map snd (x_nodes s))"
proof -
  assume "nodesOk content s"
  then have "map snd (map (\<lambda>(k, n). (k, xn_node n)) (x_nodes s)) = map snd (map (\<lambda>n. (nodeId n, n)) (gc_nodes content))"
    unfolding nodesOk_def by simp
  then show ?thesis by (simp add: split_def comp_def)
qed

lemma readyNodes_nodes:
  assumes pos: "graphPositive (mr_content graph)" and inv: "executionInv (mr_content graph) s"
  shows "readyNodes graph s = map nodeId (sort_key sequence (filter (\<lambda>n. nodeId n \<in> set (readyNodes graph s)) (gc_nodes (mr_content graph))))"
proof (cases "canQueue graph s")
  case True
  let ?ns = "map snd (x_nodes s)"
  have keys: "nodesOk (mr_content graph) s" by (rule executionInvD(1) [OF inv])
  have mem: "nodeId (xn_node n) \<in> set (readyNodes graph s) \<longleftrightarrow> isReady s n" if n: "n \<in> set ?ns" for n
  proof
    obtain k where k: "(k, n) \<in> set (x_nodes s)" using n by auto
    have "(k, xn_node n) \<in> set (map (\<lambda>(k, n). (k, xn_node n)) (x_nodes s))" using k by force
    then have "k = nodeId (xn_node n)" using keys unfolding nodesOk_def by auto
    moreover have "distinct (map fst (x_nodes s))" using nodesOk_keys [OF keys] pos by (simp add: graphPositive_def)
    ultimately have "nodeAt s (nodeId (xn_node n)) = Some n" using k by (simp add: nodeAt_def)
    moreover assume "nodeId (xn_node n) \<in> set (readyNodes graph s)"
    ultimately show "isReady s n" using ready_node [OF pos inv] by fastforce
  next
    assume "isReady s n"
    with n True show "nodeId (xn_node n) \<in> set (readyNodes graph s)" by (auto simp: readyNodes_def)
  qed
  have "filter (\<lambda>n. nodeId n \<in> set (readyNodes graph s)) (gc_nodes (mr_content graph)) = map xn_node (filter (isReady s) ?ns)"
    unfolding nodesOk_nodes [OF keys] filter_map comp_def
    by (intro arg_cong [of _ _ "map xn_node"] arg_cong [of _ _ "map snd"] filter_cong) (auto simp: mem)
  moreover have "readyNodes graph s = map nodeId (sort_key sequence (map xn_node (filter (isReady s) ?ns)))"
    using True by (simp add: readyNodes_def flip: map_sort_key)
  ultimately show ?thesis by simp
qed (simp add: readyNodes_def)

section \<open>All attempts\<close>

text \<open>The attempts of different nodes are different entries of the attempt list.\<close>

lemma xn_attempts_distinct:
  assumes inv: "executionInv content s" and n: "nodeAt s k = Some n"
  shows "distinct (xn_attempts n)"
proof (unfold distinct_conv_nth, intro allI impI)
  fix i j assume ij: "i < length (xn_attempts n)" "j < length (xn_attempts n)" "i \<noteq> j"
  have "ma_attemptNumber (x_attempts s ! (xn_attempts n ! i)) = i + 1" "ma_attemptNumber (x_attempts s ! (xn_attempts n ! j)) = j + 1"
    using executionInvD(2) [OF inv n] ij unfolding nodeInv_def by blast+
  with ij(3) show "xn_attempts n ! i \<noteq> xn_attempts n ! j" by auto
qed

lemma attempts_of_nodes:
  assumes pos: "graphPositive (mr_content graph)" and inv: "executionInv (mr_content graph) s"
    and x: "executionProjection events graph s = Inr x"
  shows "sum_list (map (\<lambda>np. length (np_attempts np)) (tx_nodes x)) \<le> length (x_attempts s)"
proof -
  let ?ns = "gc_nodes (mr_content graph)"
  define at where "at = (\<lambda>n :: task_node_spec. xn_attempts (the (nodeAt s (nodeId n))))"
  have node: "\<exists>m. nodeAt s (nodeId n) = Some m" if "n \<in> set ?ns" for n
    using nodeAt_entry [OF pos executionInvD(1) [OF inv] that] by blast
  have len: "map (\<lambda>np. length (np_attempts np)) (tx_nodes x) = map (\<lambda>n. length (at n)) ?ns"
    using node by (fastforce simp: executionProjection_Inr(1) [OF x] projectedNode_def Let_def nodeAt_markReady at_def)
  have dist: "distinct (map nodeId ?ns)" using pos by (simp add: graphPositive_def)
  have each: "distinct (at n)" "set (at n) \<subseteq> {a. a < length (x_attempts s) \<and> ma_nodeId (x_attempts s ! a) = nodeId n}" if "n \<in> set ?ns" for n
    using node [OF that] xn_attempts_distinct [OF inv] node_attempt [OF inv] by (auto simp: at_def)
  have "distinct (concat (map at ns)) \<and> set (concat (map at ns)) \<subseteq> {..<length (x_attempts s)}"
    if "set ns \<subseteq> set ?ns" "distinct (map nodeId ns)" for ns
    using that
  proof (induction ns)
    case (Cons n ns)
    have "set (at n) \<inter> set (concat (map at ns)) = {}"
    proof -
      have "ma_nodeId (x_attempts s ! a) \<noteq> nodeId n" if "a \<in> set (at q)" "q \<in> set ns" for a q
      proof -
        have "ma_nodeId (x_attempts s ! a) = nodeId q" using Cons.prems(1) that each(2) [of q] by auto
        moreover have "nodeId q \<in> nodeId ` set ns" using that(2) by simp
        ultimately show ?thesis using Cons.prems(2) by auto
      qed
      then show ?thesis using each(2) [of n] Cons.prems(1) by fastforce
    qed
    with Cons each [of n] show ?case by auto
  qed simp
  from this [OF subset_refl dist] have "length (concat (map at ?ns)) \<le> length (x_attempts s)"
    by (metis card_lessThan card_mono distinct_card finite_lessThan)
  then show ?thesis unfolding len by (simp add: length_concat comp_def)
qed

end
