(* ===== verification/DemoExecution.thy ===== *)
theory DemoExecution
  imports DemoGraph TaskExecutionHistory
begin

text \<open>
  A concrete execution: the Graph of \<open>DemoGraph\<close> is proposed, approved, enqueued and started,
  its first node succeeds (\<open>demoRun\<close>), then the second, and the Graph completes (\<open>demoDone\<close>).
\<close>

definition demoRef :: graph_ref where
  "demoRef = \<lparr>gr_graph_id = ''u'', gr_graph_revision = 1, gr_graph_sha256 = ''h''\<rparr>"

definition demoArtifact :: graph_artifact where
  "demoArtifact = \<lparr>ga_artifact_id = ''x'', ga_bytes = 1, ga_object_ref = ''o'', ga_sha256 = ''h''\<rparr>"

definition demoNonce :: string where
  "demoNonce = replicate 64 CHR ''a''"

definition demoCounters :: "int \<Rightarrow> task_budget_counters" where
  "demoCounters n = \<lparr>attempts = 1, durationMs = n, modelSteps = 1, commandExecutions = 0, commandOutputBytes = 0,
     changedFiles = 0, changedBytes = 0, artifactBytes = 0, reportedTokens = None\<rparr>"

definition demoWorkspace :: workspace_binding where
  "demoWorkspace = \<lparr>wb_managed_path_sha256 = demoNonce, wb_repository_id = demoNonce, wb_source_snapshot_sha256 = demoNonce,
     wb_workspace_baseline_sha256 = demoNonce, wb_workspace_id = ''w''\<rparr>"

definition demoRequest :: "string \<Rightarrow> string \<Rightarrow> workspace_binding option \<Rightarrow> event_data" where
  "demoRequest aid nid wb = TaskNodeAttemptRequested demoRef \<lparr>ar_attempt_id = aid, ar_attempt_number = 1, ar_node_id = nid,
     ar_reservation = demoCounters 100, ar_retry_origin = retry_initial, ar_workspace_binding = wb\<rparr>"

definition demoFinish :: "string \<Rightarrow> string \<Rightarrow> event_data" where
  "demoFinish aid nid = TaskNodeAttemptTerminal demoRef \<lparr>atd_attempt_id = aid, atd_budget = demoCounters 10, atd_node_id = nid,
     atd_terminal = at_succeeded, atd_usage_completeness = usage_complete\<rparr>"

definition demoStart :: "stored_event list" where
  "demoStart =
    [demoEvent 1 ''e1'' SessionScope (TaskGraphProposed \<lparr>gp_artifact = demoArtifact, gp_binding = demoBinding,
        gp_content = demoGraph, gp_ref = demoRef\<rparr>),
     demoEvent 2 ''e2'' SessionScope (TaskGraphApproved demoRef ''e1''),
     demoEvent 3 ''e3'' SessionScope (TaskGraphEnqueued demoRef ''q'' exec_foreground ''f''),
     demoEvent 4 ''e4'' SessionScope (TaskSchedulerLeaseAcquired demoRef demoNonce),
     demoEvent 5 ''e5'' SessionScope (TaskGraphStarted demoRef demoNonce)]"

definition demoRun :: "stored_event list" where
  "demoRun = demoStart @
    [demoEvent 6 ''e6'' SessionScope (demoRequest ''x1'' ''a'' None),
     demoEvent 7 ''e7'' SessionScope (TaskNodeAttemptStarted demoRef ''x1'' ''a'' ''r'' demoNonce),
     demoEvent 8 ''e8'' SessionScope (demoFinish ''x1'' ''a'')]"

definition demoDone :: "stored_event list" where
  "demoDone = demoRun @
    [demoEvent 9 ''e9'' SessionScope (demoRequest ''x2'' ''b'' (Some demoWorkspace)),
     demoEvent 10 ''e10'' SessionScope (TaskNodeAttemptStarted demoRef ''x2'' ''b'' ''r2'' demoNonce),
     demoEvent 11 ''e11'' SessionScope (demoFinish ''x2'' ''b''),
     demoEvent 12 ''e12'' SessionScope (TaskGraphTerminal demoRef gt_completed None)]"

section \<open>The Graph projection\<close>

lemma demo_identity:
  obtains bytes n where "graphIdentity demoPlatform demoGraph =
    Inr \<lparr>gi_bytes = bytes, gi_byteLength = n, gi_content = demoGraph, gi_graphSha256 = ''h''\<rparr>"
proof -
  have norm: "map (normalizeNode demoPlatform) ns = ns" for ns
    by (simp add: map_idI normalizeNode_def demoPlatform_def)
  have sorted: "sort_key sequence (gc_nodes demoGraph) = gc_nodes demoGraph"
    unfolding demoGraph_nodes by (simp add: demoNode_def)
  obtain s where "canonicalJson (graphJson demoGraph) = Inr s" using graphJson_total by blast
  moreover have "sha256 demoPlatform s = ''h''" by (simp add: demoPlatform_def)
  ultimately show thesis
    using that demoGraph_accepted
    by (simp add: graphIdentity_def canonicalTaskGraphIdentity_def normalizeTaskGraphRevision_def parseGraph_def norm sorted)
qed

definition demoRevision :: "graph_status \<Rightarrow> string option \<Rightarrow> mutable_revision" where
  "demoRevision st te = \<lparr>mr_approvedEventId = Some ''e2'', mr_artifact = demoArtifact, mr_binding = demoBinding,
     mr_content = demoGraph, mr_createdEventId = ''e1'', mr_decisionEventId = Some ''e2'', mr_graphId = ''u'',
     mr_graphSha256 = ''h'', mr_revision = 1, mr_status = st, mr_terminalEventId = te\<rparr>"

lemmas graph_step_eval = graphStep_def proposeGraph_def approveGraph_def enqueueGraph_def startGraph_def terminalGraph_def
  currentDraftDecision_def exactGraph_def byKey_def pushRevision_def updateRevision_def createdRevision_def
  graph_projector_init_def demoEvent_def demoRef_def demoRequest_def demoFinish_def activeStatuses_def

lemma demoBinding_session: "b_sessionId demoBinding = ''s''"
  by (simp add: demoBinding_def)

lemma demo_graph_start:
  "efold (graphStep demoPlatform) graph_projector_init demoStart =
     Inr \<lparr>revisions = [demoRevision gs_running None], currentDraft = None, currentApproved = Some 0, currentExecution = Some 0\<rparr>"
proof -
  obtain bytes n where i: "graphIdentity demoPlatform demoGraph =
      Inr \<lparr>gi_bytes = bytes, gi_byteLength = n, gi_content = demoGraph, gi_graphSha256 = ''h''\<rparr>"
    by (rule demo_identity)
  show ?thesis
    by (simp add: demoStart_def graph_step_eval Let_def i demoBinding_session demoRevision_def)
qed

lemma demo_graph_run:
  "efold (graphStep demoPlatform) graph_projector_init demoRun =
     Inr \<lparr>revisions = [demoRevision gs_running None], currentDraft = None, currentApproved = Some 0, currentExecution = Some 0\<rparr>"
  unfolding demoRun_def efold_append demo_graph_start by (simp add: graph_step_eval)

lemma demo_graph_done:
  "efold (graphStep demoPlatform) graph_projector_init demoDone =
     Inr \<lparr>revisions = [demoRevision gs_completed (Some ''e12'')], currentDraft = None, currentApproved = Some 0, currentExecution = None\<rparr>"
  unfolding demoDone_def efold_append demo_graph_run by (simp add: graph_step_eval demoRevision_def)

section \<open>The execution projection\<close>

lemmas execution_eval = executionStep_def exactGraphEvent_def executionEvent_def xEnqueued_def xLeaseAcquired_def xStarted_def
  xAttemptRequested_def xAttemptStarted_def xAttemptTerminal_def xTerminal_def newAttempt_def activeMatches_def
  settleNode_def automaticRetry_def isReady_def nodeAt_def setNode_def setAttempt_def initialNode_def
  within_def TASK_BUDGET_COUNTERS_def budgetAdd_def budgetRelease_def budgetZero_def limits_def demoBudget_def demoCounters_def
  demoEvent_def demoRef_def demoRequest_def demoFinish_def both_def

lemma demo_init: "execution_init demoGraph =
  \<lparr>x_nodes = [(''a'', initialNode (demoNode ''a'' 1 [] origin_read_only)), (''b'', initialNode (demoNode ''b'' 2 [''a''] managed_worktree))],
   x_attempts = [], x_active = None, x_blocker = None, x_enqueue = None, x_lease = None, x_consumed = budgetZero None,
   x_reserved = budgetZero None, x_completeness = usage_complete, x_cancelRequested = False\<rparr>"
  by (simp add: execution_init_def initialNodes_def demoGraph_def graphOf_def demoBudget_def demoNode_def)

lemma demoRevision_simps [simp]:
  "mr_content (demoRevision st te) = demoGraph" "mr_status (demoRevision st te) = st" "mr_graphId (demoRevision st te) = ''u''"
  "mr_graphSha256 (demoRevision st te) = ''h''" "mr_revision (demoRevision st te) = 1"
  by (simp_all add: demoRevision_def)

lemma demoGraph_budget [simp]: "graphBudget demoGraph = demoBudget"
  by (simp add: demoGraph_def graphOf_def)

lemma demo_execution_start:
  "efold (executionStep (demoRevision st te)) (execution_init demoGraph) demoStart =
     Inr ((execution_init demoGraph)\<lparr>x_lease := Some demoNonce, x_enqueue := Some \<lparr>nq_enqueueId = ''q'', nq_eventId = ''e3'',
       nq_requestedExecution = exec_foreground, nq_runtimeProfileId = ''f''\<rparr>\<rparr>)"
  by (simp add: demoStart_def execution_eval demo_init)

lemma demo_execution_run:
  "\<exists>s. efold (executionStep (demoRevision st te)) (execution_init demoGraph) demoRun = Inr s \<and>
     x_nodes s = [(''a'', \<lparr>xn_attempts = [0], xn_nextAttemptOrigin = None, xn_node = demoNode ''a'' 1 [] origin_read_only,
         xn_status = ns_succeeded, xn_terminalEventId = Some ''e8''\<rparr>),
       (''b'', initialNode (demoNode ''b'' 2 [''a''] managed_worktree))] \<and>
     x_active s = None \<and> x_blocker s = None \<and> x_enqueue s \<noteq> None \<and> x_lease s = Some demoNonce \<and> \<not> x_cancelRequested s \<and>
     x_consumed s = demoCounters 10 \<and> x_reserved s = budgetZero None \<and> length (x_attempts s) = 1 \<and>
     ma_attemptId (x_attempts s ! 0) = ''x1''"
  unfolding demoRun_def efold_append demo_execution_start
  by (simp add: demo_init execution_eval demoNode_def Let_def del: mergeCompleteness.simps)

end
