(* ===== verification/TaskGraphProperties.thy ===== *)
theory TaskGraphProperties
  imports TaskExecutionView DemoExecution
begin

text \<open>
  What the projection of Task Graph revisions guarantees, for every log it accepts.
\<close>

lemma demo_projectTaskGraph:
  "\<exists>g. projectTaskGraph demoPlatform demoRun = Inr g \<and> tg_revisions g = [demoRevision gs_running None] \<and>
     tg_currentExecution g = Some (refOf (demoRevision gs_running None))"
  by (simp add: projectTaskGraph_def demo_graph_run graphRef_def)

text \<open>
  C14: Nothing runs without approval: a revision that is approved, queued, running, waiting, or ended
  in any way other than being rejected, superseded or stale was approved by an event of this log that
  names its Graph id, its revision number, the hash of its content and the event that created it.
\<close>

theorem execution_needs_approval:
  assumes g: "projectTaskGraph p events = Inr g" and r: "r \<in> set (tg_revisions g)"
    and st: "mr_status r \<notin> {gs_draft, gs_rejected, gs_superseded, gs_stale}"
  shows "\<exists>e\<in>set events. mr_approvedEventId r = Some (eventId e) \<and> scope e = SessionScope \<and>
     edata e = TaskGraphApproved \<lparr>gr_graph_id = mr_graphId r, gr_graph_revision = mr_revision r,
       gr_graph_sha256 = mr_graphSha256 r\<rparr> (mr_createdEventId r)"
proof -
  obtain s where s: "graphInv p events s" "tg_revisions g = revisions s"
    by (rule projectTaskGraph_Inr [OF g]) blast
  have "revisionWf p events r"
    using graphInv_facts(5) [OF s(1)] r s(2) by (simp add: list_all_iff)
  with st show ?thesis
    by (auto simp: revisionWf_def approvedBy_def)
qed

theorem execution_needs_approval_witness:
  "\<exists>e\<in>set demoRun. mr_approvedEventId (demoRevision gs_running None) = Some (eventId e)"
proof -
  obtain g where g: "projectTaskGraph demoPlatform demoRun = Inr g" "tg_revisions g = [demoRevision gs_running None]"
    using demo_projectTaskGraph by blast
  show ?thesis
    using execution_needs_approval [OF g(1), of "demoRevision gs_running None"] g(2) by auto
qed

text \<open>
  C30: Revisions are identified: no two have the same Graph id and revision number; the content of
  each passes the schema and its hash is the SHA-256 of the canonical JSON of that content; and all
  revisions of one Graph carry the same authority binding.
\<close>

theorem revisions_identified:
  assumes g: "projectTaskGraph p events = Inr g"
  shows "distinct (map (\<lambda>r. (mr_graphId r, mr_revision r)) (tg_revisions g)) \<and>
    (\<forall>r\<in>set (tg_revisions g). taskGraphRevisionContentSchema p (mr_content r) = Some [] \<and>
       (\<exists>bytes. canonicalJson (graphJson (mr_content r)) = Inr bytes \<and> mr_graphSha256 r = sha256 p bytes)) \<and>
    (\<forall>r\<in>set (tg_revisions g). \<forall>q\<in>set (tg_revisions g). mr_graphId r = mr_graphId q \<longrightarrow> mr_binding r = mr_binding q)"
proof -
  obtain s where s: "graphInv p events s" "tg_revisions g = revisions s"
    by (rule projectTaskGraph_Inr [OF g]) blast
  have "\<forall>r\<in>set (revisions s). taskGraphRevisionContentSchema p (mr_content r) = Some [] \<and>
       (\<exists>bytes. canonicalJson (graphJson (mr_content r)) = Inr bytes \<and> mr_graphSha256 r = sha256 p bytes)"
    using graphInv_facts(5) [OF s(1)] by (simp add: list_all_iff revisionWf_def revisionHash_def)
  then show ?thesis
    unfolding s(2) using graphInv_facts(6,7) [OF s(1)] by blast
qed

theorem revisions_identified_witness:
  "\<exists>g. projectTaskGraph demoPlatform demoRun = Inr g \<and> distinct (map (\<lambda>r. (mr_graphId r, mr_revision r)) (tg_revisions g)) \<and>
     tg_revisions g \<noteq> []"
  using demo_projectTaskGraph revisions_identified [of demoPlatform demoRun] by auto

text \<open>
  The current references mean what they say: the current draft is a draft without a decision,
  the current execution is queued, running or waiting, and the current approved revision carries an
  approval and is neither rejected nor superseded.
\<close>

lemma current_references:
  assumes g: "projectTaskGraph p events = Inr g"
  shows "(\<forall>ref. tg_currentDraft g = Some ref \<longrightarrow> (\<exists>r\<in>set (tg_revisions g). refOf r = ref \<and> mr_status r = gs_draft \<and>
      mr_decisionEventId r = None)) \<and>
    (\<forall>ref. tg_currentExecution g = Some ref \<longrightarrow> (\<exists>r\<in>set (tg_revisions g). refOf r = ref \<and>
      mr_status r \<in> {gs_queued, gs_running, gs_waiting_for_user} \<and> mr_approvedEventId r \<noteq> None)) \<and>
    (\<forall>ref. tg_currentApproved g = Some ref \<longrightarrow> (\<exists>r\<in>set (tg_revisions g). refOf r = ref \<and> mr_approvedEventId r \<noteq> None \<and>
      mr_status r \<notin> {gs_draft, gs_rejected, gs_superseded}))"
proof -
  obtain s where inv: "graphInv p events s" and s: "tg_revisions g = revisions s" "tg_currentDraft g = graphRef s (currentDraft s)"
    "tg_currentApproved g = graphRef s (currentApproved s)" "tg_currentExecution g = graphRef s (currentExecution s)"
    by (rule projectTaskGraph_Inr [OF g]) blast
  have "\<exists>r\<in>set (revisions s). refOf r = ref \<and> mr_status r = gs_draft \<and> mr_decisionEventId r = None"
    if ref: "graphRef s (currentDraft s) = Some ref" for ref
  proof -
    obtain i where i: "currentDraft s = Some i" "ref = refOf (revisions s ! i)" using ref by (auto simp: graphRef_def)
    have "i < length (revisions s)" "mr_status (revisions s ! i) = gs_draft" using graphInv_facts(1) [OF inv i(1)] by auto
    with graphInv_facts(4) [OF inv this(1)] i(2) show ?thesis by (auto simp: revisionWf_def)
  qed
  moreover have "\<exists>r\<in>set (revisions s). refOf r = ref \<and> mr_status r \<in> {gs_queued, gs_running, gs_waiting_for_user} \<and> mr_approvedEventId r \<noteq> None"
    if ref: "graphRef s (currentExecution s) = Some ref" for ref
  proof -
    obtain i where i: "currentExecution s = Some i" "ref = refOf (revisions s ! i)" using ref by (auto simp: graphRef_def)
    have "i < length (revisions s)" "mr_status (revisions s ! i) \<in> {gs_queued, gs_running, gs_waiting_for_user}"
      using graphInv_facts(3) [OF inv i(1)] by auto
    with graphInv_facts(4) [OF inv this(1)] i(2) show ?thesis unfolding revisionWf_def by (intro bexI [of _ "revisions s ! i"]) auto
  qed
  moreover have "\<exists>r\<in>set (revisions s). refOf r = ref \<and> mr_approvedEventId r \<noteq> None \<and> mr_status r \<notin> {gs_draft, gs_rejected, gs_superseded}"
    if ref: "graphRef s (currentApproved s) = Some ref" for ref
  proof -
    obtain i where i: "currentApproved s = Some i" "ref = refOf (revisions s ! i)" using ref by (auto simp: graphRef_def)
    with graphInv_facts(2) [OF inv i(1)] show ?thesis by (intro bexI [of _ "revisions s ! i"]) auto
  qed
  ultimately show ?thesis unfolding s by blast
qed

lemma current_references_example:
  "\<exists>g r. projectTaskGraph demoPlatform demoRun = Inr g \<and> r \<in> set (tg_revisions g) \<and> mr_status r \<in> {gs_queued, gs_running, gs_waiting_for_user}"
proof -
  obtain g where g: "projectTaskGraph demoPlatform demoRun = Inr g" "tg_currentExecution g = Some (refOf (demoRevision gs_running None))"
    using demo_projectTaskGraph by blast
  with current_references [OF g(1)] show ?thesis by blast
qed

text \<open>
  C25: Every revision lives by the state machine \<open>lifecycle\<close>: an accepted longer log keeps each
  revision of the shorter one at its place, with its identity, binding and content, moved along
  edges of that machine; a decision, once made, is kept, and a revision that was completed, rejected,
  superseded or stale stays so.
\<close>

theorem revision_lifecycle:
  assumes run: "efold (graphStep p) graph_projector_init (es @ fs) = Inr t"
  shows "\<exists>s. efold (graphStep p) graph_projector_init es = Inr s \<and> length (revisions s) \<le> length (revisions t) \<and>
    (\<forall>i<length (revisions s). let r = revisions s ! i; r' = revisions t ! i in
       mr_graphId r' = mr_graphId r \<and> mr_revision r' = mr_revision r \<and> mr_graphSha256 r' = mr_graphSha256 r \<and>
       mr_binding r' = mr_binding r \<and> mr_content r' = mr_content r \<and> lifecycle\<^sup>*\<^sup>* (mr_status r) (mr_status r') \<and>
       (mr_decisionEventId r \<noteq> None \<longrightarrow> mr_decisionEventId r' = mr_decisionEventId r \<and> mr_approvedEventId r' = mr_approvedEventId r) \<and>
       (mr_status r \<in> {gs_completed, gs_rejected, gs_superseded, gs_stale} \<longrightarrow> mr_status r' = mr_status r))"
proof -
  obtain s where s: "efold (graphStep p) graph_projector_init es = Inr s" and mv: "graphMoves s t"
    by (rule graph_life.evolves_prefix [OF run])
  have "length (revisions s) \<le> length (revisions t)" "\<forall>i<length (revisions s). revisionMoves (revisions s ! i) (revisions t ! i)"
    using mv by (auto simp: graphMoves_def grows_def)
  moreover have "lifecycle\<^sup>*\<^sup>* st st' \<longrightarrow> st \<in> {gs_completed, gs_rejected, gs_superseded, gs_stale} \<longrightarrow> st' = st" for st st'
    using lifecycle_run_final by blast
  ultimately show ?thesis
    using s unfolding revisionMoves_def keyOf_def Let_def by (intro exI [of _ s]) auto
qed

theorem revision_lifecycle_witness:
  "\<exists>s. efold (graphStep demoPlatform) graph_projector_init demoRun = Inr s \<and> length (revisions s) \<le> 1"
proof -
  have "efold (graphStep demoPlatform) graph_projector_init (demoRun @ drop 8 demoDone) =
     Inr \<lparr>revisions = [demoRevision gs_completed (Some ''e12'')], currentDraft = None, currentApproved = Some 0, currentExecution = None\<rparr>"
    using demo_graph_done by (simp add: demoDone_def demoRun_def demoStart_def)
  from revision_lifecycle [OF this] show ?thesis by auto
qed

end
