(* ===== verification/TaskExecutionProperties.thy ===== *)
theory TaskExecutionProperties
  imports TaskExecutionView DemoExecution
begin

text \<open>
  What the projection of a Task Graph execution guarantees, for every log that both projectors
  accept, and what the scheduler's ledger decides.  \<open>executes p events g x\<close> says that the log
  \<open>events\<close> projects to the Graph state \<open>g\<close> and the execution \<open>x\<close>.
\<close>

section \<open>The demo\<close>

lemma demo_executes_run:
  "\<exists>g x. executes demoPlatform demoRun g x \<and> tx_readyNodeIds x = [''b''] \<and> tx_graph x = demoRevision gs_running None \<and>
     (\<exists>np\<in>set (tx_nodes x). np_attempts np \<noteq> []) \<and> (\<exists>np\<in>set (deterministicReadyQueue x). np_nodeId np = ''b'')"
proof -
  obtain s where s: "efold (executionStep (demoRevision gs_running None)) (execution_init demoGraph) demoRun = Inr s"
    "x_nodes s = [(''a'', \<lparr>xn_attempts = [0], xn_nextAttemptOrigin = None, xn_node = demoNode ''a'' 1 [] origin_read_only,
         xn_status = ns_succeeded, xn_terminalEventId = Some ''e8''\<rparr>),
       (''b'', initialNode (demoNode ''b'' 2 [''a''] managed_worktree))]"
    "x_active s = None" "x_blocker s = None" "x_enqueue s \<noteq> None" "\<not> x_cancelRequested s"
    "x_consumed s = demoCounters 10" "x_reserved s = budgetZero None"
    using demo_execution_run [of gs_running None] by blast
  have graph: "executionGraph demoRun [demoRevision gs_running None] = Some (demoRevision gs_running None)"
    by (simp add: executionGraph_def demoRun_def demoStart_def demoEvent_def demoRef_def demoRequest_def demoFinish_def)
  have ready: "readyNodes (demoRevision gs_running None) s = [''b'']"
    using s by (simp add: readyNodes_def canQueue_def isReady_def nodeAt_def initialNode_def demoNode_def)
  have "\<exists>x. executionProjection demoRun (demoRevision gs_running None) s = Inr x"
    using s by (auto simp: executionProjection_def Let_def err_simps budgetSubtract_def TASK_BUDGET_COUNTERS_def
        limits_def demoBudget_def budgetRelease_def demoCounters_def budgetZero_def)
  then obtain x where x: "executionProjection demoRun (demoRevision gs_running None) s = Inr x" by blast
  define g where "g = \<lparr>tg_phase19 = True, tg_currentApproved = Some (refOf (demoRevision gs_running None)), tg_currentDraft = None,
    tg_currentExecution = Some (refOf (demoRevision gs_running None)), tg_lastSessionSeq = 8, tg_revisions = [demoRevision gs_running None]\<rparr>"
  have g: "projectTaskGraph demoPlatform demoRun = Inr g"
    by (simp add: projectTaskGraph_def demo_graph_run g_def graphRef_def) (simp add: demoRun_def demoEvent_def)
  have ex: "executes demoPlatform demoRun g x"
    using g s(1) x graph by (simp add: executes_def projectExecution_def g_def)
  have nodes: "tx_nodes x = map (projectedNode (markReady [''b''] s)) (gc_nodes demoGraph)"
    using executionProjection_Inr(1) [OF x] by (simp add: ready)
  have "projectedNode (markReady [''b''] s) (demoNode ''a'' 1 [] origin_read_only) \<in> set (tx_nodes x)"
    "projectedNode (markReady [''b''] s) (demoNode ''b'' 2 [''a''] managed_worktree) \<in> set (tx_nodes x)"
    by (simp_all add: nodes demoGraph_nodes)
  moreover have "np_attempts (projectedNode (markReady [''b''] s) (demoNode ''a'' 1 [] origin_read_only)) \<noteq> []"
    using s(2) by (simp add: projectedNode_def Let_def nodeAt_markReady) (simp add: nodeAt_def demoNode_def)
  moreover have "np_nodeId (projectedNode (markReady [''b''] s) (demoNode ''b'' 2 [''a''] managed_worktree)) = ''b''"
    by (simp add: projectedNode_def Let_def demoNode_def)
  ultimately have "\<exists>np\<in>set (tx_nodes x). np_attempts np \<noteq> []" "\<exists>np\<in>set (deterministicReadyQueue x). np_nodeId np = ''b''"
    using executionProjection_Inr(2) [OF x] ready unfolding deterministicReadyQueue_def set_sort set_filter by force+
  moreover have "tx_graph x = demoRevision gs_running None"
    using x by (auto simp: executionProjection_def Let_def err_simps split: option.splits)
  ultimately show ?thesis
    using ex executionProjection_Inr(2) [OF x] unfolding ready by blast
qed

section \<open>Safety of the execution\<close>

text \<open>
  C12: The ledger never exceeds an approved ceiling: for every counter the Graph limits, what is
  consumed and what is reserved are defined, the remainder is exactly the limit minus both and not
  negative, and what is reserved is the reservation of the active attempt, nothing when none is
  active.
\<close>

theorem execution_budget_within:
  assumes ex: "executes p events g x" and m: "counterAt (tb_limits (tx_budget x)) c = Some m"
  shows "\<exists>u h. counterAt (tb_consumed (tx_budget x)) c = Some u \<and> counterAt (tb_reserved (tx_budget x)) c = Some h \<and>
     counterAt (tb_remaining (tx_budget x)) c = Some (m - u - h) \<and> 0 \<le> m - u - h \<and>
     (case tx_activeAttempt x of None \<Rightarrow> h = 0 | Some t \<Rightarrow> counterAt (ma_reservation t) c = Some h)"
proof -
  obtain s where inv: "executionInv (mr_content (tx_graph x)) s" and x: "executionProjection events (tx_graph x) s = Inr x"
    by (rule executes_state [OF ex]) blast
  note v = executionProjection_Inr [OF x]
  let ?b = "graphBudget (mr_content (tx_graph x))"
  have L: "ledgerInv (mr_content (tx_graph x)) s" by (rule executionInvD(4) [OF inv])
  then have w: "within (x_consumed s) (x_reserved s) (limits ?b)" unfolding ledgerInv_def by blast
  obtain u h where uh: "counterAt (x_consumed s) c = Some u" "counterAt (x_reserved s) c = Some h" "u + h \<le> m"
    using within_at [OF w m [unfolded v(8)]] by blast
  obtain r where "budgetSubtract (limits ?b) (x_consumed s) (x_reserved s) = Inr r" "r = budgetRelease (budgetRelease (limits ?b) (x_consumed s)) (x_reserved s)"
    by (rule budgetSubtract_defined [OF w]) blast
  then have "counterAt (tb_remaining (tx_budget x)) c = Some (m - u - h)"
    using v(8,9) m uh by (simp add: counterAt_release)
  moreover have "case tx_activeAttempt x of None \<Rightarrow> h = 0 | Some t \<Rightarrow> counterAt (ma_reservation t) c = Some h"
    using L uh(2) unfolding ledgerInv_def v(3)
    by (cases "x_active s"; cases c) (auto simp: budgetAdd_def budgetZero_def zeroTokens_def split: if_splits)
  ultimately show ?thesis
    using uh v(6,7) by auto
qed

theorem execution_budget_within_witness:
  "\<exists>g x u h. executes demoPlatform demoRun g x \<and> counterAt (tb_remaining (tx_budget x)) FAttempts = Some (3 - u - h) \<and> 0 \<le> 3 - u - h"
proof -
  obtain g x where ex: "executes demoPlatform demoRun g x" and gr: "tx_graph x = demoRevision gs_running None"
    using demo_executes_run by blast
  obtain s where "executionProjection demoRun (tx_graph x) s = Inr x" by (rule executes_state [OF ex]) blast
  then have "counterAt (tb_limits (tx_budget x)) FAttempts = Some 3"
    by (simp add: executionProjection_Inr(8) gr limits_def demoBudget_def)
  from execution_budget_within [OF ex this] ex show ?thesis by blast
qed

text \<open>
  C13: Work starts only on finished foundations: a node that has ever been attempted has every one
  of its dependencies succeeded, and so has every node offered as ready.
\<close>

theorem attempts_after_dependencies:
  assumes ex: "executes p events g x" and np: "np \<in> set (tx_nodes x)"
    and some: "np_attempts np \<noteq> [] \<or> np_status np = ns_ready" and d: "d \<in> set (dependsOn (np_node np))"
  shows "\<exists>dp\<in>set (tx_nodes x). np_nodeId dp = d \<and> np_status dp = ns_succeeded"
proof -
  let ?c = "mr_content (tx_graph x)"
  obtain s where pos: "graphPositive ?c" and inv: "executionInv ?c s" and x: "executionProjection events (tx_graph x) s = Inr x"
    and closed: "\<And>n d. n \<in> set (gc_nodes ?c) \<Longrightarrow> d \<in> set (dependsOn n) \<Longrightarrow> d \<in> nodeId ` set (gc_nodes ?c)"
    by (rule executes_state [OF ex]) blast
  obtain m where m: "nodeAt s (np_nodeId np) = Some m" "xn_node m = np_node np" "np_node np \<in> set (gc_nodes ?c)"
    "np_attempts np = map (\<lambda>a. x_attempts s ! a) (xn_attempts m)"
    "np_status np = (if np_nodeId np \<in> set (readyNodes (tx_graph x) s) then ns_ready else xn_status m)"
    by (rule projected_node [OF pos inv x np]) blast
  note N = executionInvD(2) [OF inv m(1), unfolded nodeInv_def]
  have "list_all (succeeded s) (dependsOn (np_node np))"
  proof (cases "np_attempts np = []")
    case True
    with some m(5) N have "np_nodeId np \<in> set (readyNodes (tx_graph x) s)" by (auto split: if_splits)
    with ready_node [OF pos inv this] m(1,2) show ?thesis by (auto simp: isReady_def succeeded_def [abs_def])
  next
    case False
    with N m(2,4) show ?thesis by auto
  qed
  then have "succeeded s d" using d by (simp add: list_all_iff)
  moreover obtain n where "n \<in> set (gc_nodes ?c)" "nodeId n = d" using closed [OF m(3) d] by blast
  ultimately show ?thesis using succeeded_projected [OF pos inv x] by blast
qed

theorem attempts_after_dependencies_witness:
  "\<exists>g x np. executes demoPlatform demoRun g x \<and> np \<in> set (tx_nodes x) \<and> ''a'' \<in> set (dependsOn (np_node np)) \<and>
     (\<exists>dp\<in>set (tx_nodes x). np_nodeId dp = ''a'' \<and> np_status dp = ns_succeeded)"
proof -
  obtain g x where ex: "executes demoPlatform demoRun g x" and gr: "tx_graph x = demoRevision gs_running None"
    and rd: "tx_readyNodeIds x = [''b'']"
    using demo_executes_run by blast
  obtain s where pos: "graphPositive (mr_content (tx_graph x))" and inv: "executionInv (mr_content (tx_graph x)) s"
    and x: "executionProjection demoRun (tx_graph x) s = Inr x"
    by (rule executes_state [OF ex]) blast
  obtain np where np: "np \<in> set (tx_nodes x)" "np_node np = demoNode ''b'' 2 [''a''] managed_worktree" "np_nodeId np = ''b''"
    using node_projected [OF pos inv x, of "demoNode ''b'' 2 [''a''] managed_worktree"] by (auto simp: gr demoGraph_nodes demoNode_def)
  have "np_status np = ns_ready"
    by (rule projected_node [OF pos inv x np(1)]) (use np(3) rd executionProjection_Inr(2) [OF x] in simp)
  moreover have a: "''a'' \<in> set (dependsOn (np_node np))" using np(2) by (simp add: demoNode_def)
  ultimately show ?thesis
    using attempts_after_dependencies [OF ex np(1) _ a] np(1) ex by blast
qed

text \<open>
  C26: At most one attempt is open: an attempt of any node is not terminal exactly when it is the
  active attempt, and the attempts of a node are numbered 1, 2, 3 and so on in order.
\<close>

theorem one_open_attempt:
  assumes ex: "executes p events g x" and np: "np \<in> set (tx_nodes x)"
  shows "map ma_attemptNumber (np_attempts np) = [1..<Suc (length (np_attempts np))] \<and>
    (\<forall>t\<in>set (np_attempts np). ma_nodeId t = np_nodeId np \<and> (ma_status t \<noteq> as_terminal \<longleftrightarrow> tx_activeAttempt x = Some t))"
proof -
  let ?c = "mr_content (tx_graph x)"
  obtain s where pos: "graphPositive ?c" and inv: "executionInv ?c s" and x: "executionProjection events (tx_graph x) s = Inr x"
    by (rule executes_state [OF ex]) blast
  obtain m where m: "nodeAt s (np_nodeId np) = Some m" "np_attempts np = map (\<lambda>a. x_attempts s ! a) (xn_attempts m)"
    by (rule projected_node [OF pos inv x np]) blast
  note N = executionInvD(2) [OF inv m(1), unfolded nodeInv_def]
  note A = executionInvD(3) [OF inv, unfolded attemptInv_def]
  have "ma_attemptNumber (np_attempts np ! j) = 1 + j" if "j < length (np_attempts np)" for j
    using N that by (simp add: m(2))
  then have "map ma_attemptNumber (np_attempts np) = [1..<Suc (length (np_attempts np))]"
    by (intro nth_equalityI) (simp_all add: nth_upt del: upt_Suc)
  moreover have "ma_nodeId t = np_nodeId np \<and> (ma_status t \<noteq> as_terminal \<longleftrightarrow> tx_activeAttempt x = Some t)"
    if t: "t \<in> set (np_attempts np)" for t
  proof -
    obtain a where a: "a \<in> set (xn_attempts m)" "t = x_attempts s ! a" using t unfolding m(2) by auto
    note b = node_attempt [OF inv m(1) a(1)]
    have open_a: "ma_status t \<noteq> as_terminal \<longleftrightarrow> x_active s = Some a" using A b(1) a(2) by blast
    moreover have "ma_status t \<noteq> as_terminal" if "tx_activeAttempt x = Some t"
    proof -
      obtain k where k: "x_active s = Some k" "t = x_attempts s ! k"
        using \<open>tx_activeAttempt x = Some t\<close> executionProjection_Inr(3) [OF x] by auto
      with A show ?thesis by blast
    qed
    ultimately show ?thesis
      using b(2) a(2) executionProjection_Inr(3) [OF x] by auto
  qed
  ultimately show ?thesis by blast
qed

theorem one_open_attempt_witness:
  "\<exists>g x np. executes demoPlatform demoRun g x \<and> np \<in> set (tx_nodes x) \<and> np_attempts np \<noteq> [] \<and>
     map ma_attemptNumber (np_attempts np) = [1..<Suc (length (np_attempts np))]"
proof -
  obtain g x np where ex: "executes demoPlatform demoRun g x" and np: "np \<in> set (tx_nodes x)" "np_attempts np \<noteq> []"
    using demo_executes_run by blast
  with one_open_attempt [OF ex np(1)] show ?thesis by blast
qed

text \<open>
  C15: The two projections of one log agree on completion: when the Graph projector reports the
  executed revision completed, the execution projector has every node of it succeeded, and each
  succeeded node's last attempt ended with success.
\<close>

theorem completed_graph_all_succeeded:
  assumes ex: "executes p events g x" and st: "tx_status x = gs_completed" and np: "np \<in> set (tx_nodes x)"
  shows "np_status np = ns_succeeded \<and> np_attempts np \<noteq> [] \<and> ma_terminal (last (np_attempts np)) = Some at_succeeded"
proof -
  let ?c = "mr_content (tx_graph x)"
  obtain s where mem: "tx_graph x \<in> set (tg_revisions g)" and pos: "graphPositive ?c"
    and run: "efold (executionStep (tx_graph x)) (execution_init ?c) events = Inr s"
    and inv: "executionInv ?c s" and x: "executionProjection events (tx_graph x) s = Inr x"
    by (rule executes_state [OF ex]) blast
  obtain gs where gs: "efold (graphStep p) graph_projector_init events = Inr gs" "tg_revisions g = revisions gs"
    by (rule projectTaskGraph_Inr [of p events g]) (use ex in \<open>auto simp: executes_def\<close>)
  have "\<exists>e\<in>set events. completesGraph (tx_graph x) e"
    using completed.log_run [OF gs(1)] mem gs(2) st executionProjection_Inr(4) [OF x] by (simp add: completedInv_def)
  then have all_ok: "succeeded s (nodeId n)" if "n \<in> set (gc_nodes ?c)" for n
    using completion.log_run [OF run] pos that by (simp add: doneInv_def)
  obtain m where m: "nodeAt s (np_nodeId np) = Some m" "np_nodeId np = nodeId (np_node np)" "np_node np \<in> set (gc_nodes ?c)"
    "np_attempts np = map (\<lambda>a. x_attempts s ! a) (xn_attempts m)"
    "np_status np = (if np_nodeId np \<in> set (readyNodes (tx_graph x) s) then ns_ready else xn_status m)"
    by (rule projected_node [OF pos inv x np]) blast
  have ok: "succeeded s (np_nodeId np)" using all_ok [OF m(3)] m(2) by simp
  then have "xn_status m = ns_succeeded" using m(1) by (simp add: succeeded_def)
  with executionInvD(2) [OF inv m(1)] succeeded_not_ready [OF pos inv ok] m(4,5) show ?thesis
    by (simp add: nodeInv_def last_map)
qed

lemma demo_executes_done:
  "\<exists>g x np. executes demoPlatform demoDone g x \<and> tx_status x = gs_completed \<and> np \<in> set (tx_nodes x)"
proof -
  let ?r = "demoRevision gs_completed (Some ''e12'')"
  obtain s where s: "efold (executionStep ?r) (execution_init demoGraph) demoRun = Inr s"
    "x_nodes s = [(''a'', \<lparr>xn_attempts = [0], xn_nextAttemptOrigin = None, xn_node = demoNode ''a'' 1 [] origin_read_only,
         xn_status = ns_succeeded, xn_terminalEventId = Some ''e8''\<rparr>),
       (''b'', initialNode (demoNode ''b'' 2 [''a''] managed_worktree))]"
    "x_active s = None" "x_enqueue s \<noteq> None" "x_lease s = Some demoNonce" "\<not> x_cancelRequested s"
    "x_consumed s = demoCounters 10" "x_reserved s = budgetZero None" "length (x_attempts s) = 1" "ma_attemptId (x_attempts s ! 0) = ''x1''"
    using demo_execution_run [of gs_completed "Some ''e12''"] by blast
  obtain a where a: "x_attempts s = [a]" "ma_attemptId a = ''x1''"
    using s(9,10) by (cases "x_attempts s") auto
  have "\<exists>t. efold (executionStep ?r) s (drop 8 demoDone) = Inr t \<and> x_enqueue t \<noteq> None \<and> x_consumed t = budgetAdd (demoCounters 10) (demoCounters 10) \<and>
      x_reserved t = budgetZero None"
    using s a by (simp add: demoDone_def demoRun_def demoStart_def execution_eval demoNode_def Let_def del: mergeCompleteness.simps)
  moreover have "demoDone = demoRun @ drop 8 demoDone"
    by (simp add: demoDone_def demoRun_def demoStart_def)
  ultimately obtain t where t: "efold (executionStep ?r) (execution_init demoGraph) demoDone = Inr t" "x_enqueue t \<noteq> None"
    "x_consumed t = budgetAdd (demoCounters 10) (demoCounters 10)" "x_reserved t = budgetZero None"
    using s(1) by (metis efold_append ebind_Inr)
  have graph: "executionGraph demoDone [?r] = Some ?r"
    by (simp add: executionGraph_def demoDone_def demoRun_def demoStart_def demoEvent_def demoRef_def demoRequest_def demoFinish_def)
  obtain x where x: "executionProjection demoDone ?r t = Inr x"
    using t by (auto simp: executionProjection_def Let_def err_simps budgetSubtract_def TASK_BUDGET_COUNTERS_def
        limits_def demoBudget_def budgetRelease_def budgetAdd_def demoCounters_def budgetZero_def)
  obtain g where g: "projectTaskGraph demoPlatform demoDone = Inr g" "tg_revisions g = [?r]"
    by (simp add: projectTaskGraph_def demo_graph_done)
  have "executes demoPlatform demoDone g x"
    using g t(1) x graph by (simp add: executes_def projectExecution_def)
  moreover have "tx_nodes x \<noteq> []"
    using executionProjection_Inr(1) [OF x] by (simp add: demoGraph_nodes)
  ultimately show ?thesis
    using executionProjection_Inr(4) [OF x] hd_in_set by fastforce
qed

theorem completed_graph_all_succeeded_witness:
  "\<exists>g x np. executes demoPlatform demoDone g x \<and> np \<in> set (tx_nodes x) \<and> np_status np = ns_succeeded"
proof -
  obtain g x np where "executes demoPlatform demoDone g x" "tx_status x = gs_completed" "np \<in> set (tx_nodes x)"
    using demo_executes_done by blast
  with completed_graph_all_succeeded [OF this] show ?thesis by blast
qed

section \<open>Scheduling\<close>

text \<open>
  C27: The scheduler's queue is the projection's list of ready nodes: the same nodes in the same
  order, by strictly increasing sequence, each marked ready; and nodes are offered only when no
  attempt is active, nothing blocks the Graph and it is queued or running.
\<close>

theorem ready_queue_deterministic:
  assumes ex: "executes p events g x"
  shows "map np_nodeId (deterministicReadyQueue x) = tx_readyNodeIds x \<and>
    sorted_wrt (\<lambda>a b. sequence (np_node a) < sequence (np_node b)) (deterministicReadyQueue x) \<and>
    (\<forall>np\<in>set (deterministicReadyQueue x). np_status np = ns_ready) \<and>
    (tx_readyNodeIds x = [] \<or> (tx_activeAttempt x = None \<and> tx_blocker x = None \<and> tx_status x \<in> {gs_queued, gs_running}))"
proof -
  let ?c = "mr_content (tx_graph x)"
  obtain s where pos: "graphPositive ?c" and seq: "distinct (map sequence (gc_nodes ?c))" and inv: "executionInv ?c s"
    and x: "executionProjection events (tx_graph x) s = Inr x"
    by (rule executes_state [OF ex]) blast
  note v = executionProjection_Inr [OF x]
  have q: "map np_node (deterministicReadyQueue x) = sort_key sequence (filter (\<lambda>n. nodeId n \<in> set (readyNodes (tx_graph x) s)) (gc_nodes ?c))"
    unfolding deterministicReadyQueue_def v(1,2) by (rule queue_nodes)
  have ids: "map np_nodeId (deterministicReadyQueue x) = map nodeId (map np_node (deterministicReadyQueue x))"
    using v(1) by (auto simp: deterministicReadyQueue_def projectedNode_def Let_def)
  have "sorted_wrt (<) (map sequence (map np_node (deterministicReadyQueue x)))"
    unfolding q strict_sorted_iff using seq by (simp add: distinct_map inj_on_def)
  then have "sorted_wrt (\<lambda>a b. sequence (np_node a) < sequence (np_node b)) (deterministicReadyQueue x)"
    by (simp add: sorted_wrt_map)
  moreover have "map np_nodeId (deterministicReadyQueue x) = tx_readyNodeIds x"
    unfolding ids q v(2) by (rule readyNodes_nodes [OF pos inv, symmetric])
  moreover have "np_status np = ns_ready" if "np \<in> set (deterministicReadyQueue x)" for np
  proof -
    have np: "np \<in> set (tx_nodes x)" "np_nodeId np \<in> set (readyNodes (tx_graph x) s)"
      using that v(2) by (auto simp: deterministicReadyQueue_def)
    show ?thesis by (rule projected_node [OF pos inv x np(1)]) (use np(2) in simp)
  qed
  moreover have "tx_readyNodeIds x = [] \<or> (tx_activeAttempt x = None \<and> tx_blocker x = None \<and> tx_status x \<in> {gs_queued, gs_running})"
    unfolding v(2,3,4,5) by (auto simp: readyNodes_def canQueue_def)
  ultimately show ?thesis by blast
qed

theorem ready_queue_deterministic_witness:
  "\<exists>g x. executes demoPlatform demoRun g x \<and> map np_nodeId (deterministicReadyQueue x) = [''b'']"
proof -
  obtain g x where ex: "executes demoPlatform demoRun g x" and rd: "tx_readyNodeIds x = [''b'']"
    using demo_executes_run by blast
  have "map np_nodeId (deterministicReadyQueue x) = [''b'']"
    using ready_queue_deterministic [OF ex] unfolding rd by blast
  with ex show ?thesis by (intro exI conjI)
qed

lemma attempt_projected:
  assumes pos: "graphPositive (mr_content graph)" and inv: "executionInv (mr_content graph) s"
    and x: "executionProjection events graph s = Inr x" and t: "t \<in> set (x_attempts s)"
  shows "\<exists>np\<in>set (tx_nodes x). t \<in> set (np_attempts np)"
proof -
  obtain a where a: "a < length (x_attempts s)" "t = x_attempts s ! a" using t by (auto simp: in_set_conv_nth)
  obtain n where n: "nodeAt s (ma_nodeId t) = Some n" "a \<in> set (xn_attempts n)"
    using attempt_of_node [OF inv a(1)] a(2) by blast
  have "ma_nodeId t \<in> set (map fst (x_nodes s))" using map_of_SomeD [OF n(1) [unfolded nodeAt_def]] by force
  then obtain spec where spec: "spec \<in> set (gc_nodes (mr_content graph))" "nodeId spec = ma_nodeId t"
    unfolding nodesOk_keys [OF executionInvD(1) [OF inv]] by auto
  obtain np where np: "np \<in> set (tx_nodes x)" "np_nodeId np = ma_nodeId t"
    using node_projected [OF pos inv x spec(1)] spec(2) by metis
  obtain m where "nodeAt s (np_nodeId np) = Some m" "np_attempts np = map (\<lambda>a. x_attempts s ! a) (xn_attempts m)"
    by (rule projected_node [OF pos inv x np(1)]) blast
  with n np a(2) have "t \<in> set (np_attempts np)" by auto
  with np(1) show ?thesis by blast
qed

text \<open>
  C17: The scheduler's ledger and the projector's admission agree: for a node of the ready queue,
  the next attempt event with a fresh attempt id, the next attempt number and the workspace binding
  its mode asks for is accepted by the projector exactly when the ledger says that the remaining
  budget can take the reservation.
\<close>

theorem ready_node_admitted:
  assumes ex: "executes p events g x" and np: "np \<in> set (deterministicReadyQueue x)"
    and e: "exactGraphEvent e (tx_graph x)" "edata e = TaskNodeAttemptRequested ref d"
    and d: "ar_node_id d = np_nodeId np" "ar_attempt_number d = length (np_attempts np) + 1"
      "(ar_workspace_binding d = None) = (w_mode (n_workspace (np_node np)) = origin_read_only)"
    and fresh: "\<forall>q\<in>set (tx_nodes x). \<forall>t\<in>set (np_attempts q). ma_attemptId t \<noteq> ar_attempt_id d"
  shows "(\<exists>s'. efold (executionStep (tx_graph x)) (execution_init (mr_content (tx_graph x))) (events @ [e]) = Inr s') \<longleftrightarrow>
     taskBudgetCanReserve (tb_remaining (tx_budget x)) (ar_reservation d)"
proof -
  let ?c = "mr_content (tx_graph x)"
  obtain s where pos: "graphPositive ?c" and run: "efold (executionStep (tx_graph x)) (execution_init ?c) events = Inr s"
    and inv: "executionInv ?c s" and x: "executionProjection events (tx_graph x) s = Inr x"
    by (rule executes_state [OF ex]) blast
  note v = executionProjection_Inr [OF x]
  have q: "np \<in> set (tx_nodes x)" "np_nodeId np \<in> set (readyNodes (tx_graph x) s)"
    using np v(2) by (auto simp: deterministicReadyQueue_def)
  obtain n where n: "nodeAt s (np_nodeId np) = Some n" "isReady s n" "canQueue (tx_graph x) s"
    using ready_node [OF pos inv q(2)] by blast
  obtain m where m: "nodeAt s (np_nodeId np) = Some m" "xn_node m = np_node np" "np_attempts np = map (\<lambda>a. x_attempts s ! a) (xn_attempts m)"
    by (rule projected_node [OF pos inv x q(1)]) blast
  have eq: "m = n" using m(1) n(1) by simp
  have new: "\<not> list_ex (\<lambda>t. ma_attemptId t = ar_attempt_id d) (x_attempts s)"
    using fresh attempt_projected [OF pos inv x] by (fastforce simp: list_ex_iff)
  have step: "executionStep (tx_graph x) s e = xAttemptRequested (graphBudget ?c) e d s"
    using e by (simp add: executionStep_def executionEvent_def)
  have "(\<exists>s'. executionStep (tx_graph x) s e = Inr s') \<longleftrightarrow>
      within (x_consumed s) (budgetAdd (x_reserved s) (ar_reservation d)) (limits (graphBudget ?c))"
    unfolding step xAttemptRequested_def using n m(2,3) d new eq by (simp add: canQueue_def Let_def)
  moreover have "within (x_consumed s) (x_reserved s) (limits (graphBudget ?c))"
    using executionInvD(4) [OF inv] unfolding ledgerInv_def by blast
  ultimately show ?thesis
    using canReserve_iff_within v(9) run by (simp add: efold_append ebind_eq_Inr)
qed

theorem ready_node_admitted_witness:
  "\<exists>g x e s'. executes demoPlatform demoRun g x \<and> efold (executionStep (tx_graph x)) (execution_init (mr_content (tx_graph x))) (demoRun @ [e]) = Inr s'"
proof -
  obtain g x np where ex: "executes demoPlatform demoRun g x" and gr: "tx_graph x = demoRevision gs_running None"
    and np: "np \<in> set (deterministicReadyQueue x)" "np_nodeId np = ''b''"
    using demo_executes_run by blast
  obtain s where pos: "graphPositive (mr_content (tx_graph x))"
    and run: "efold (executionStep (tx_graph x)) (execution_init (mr_content (tx_graph x))) demoRun = Inr s"
    and inv: "executionInv (mr_content (tx_graph x)) s" and x: "executionProjection demoRun (tx_graph x) s = Inr x"
    by (rule executes_state [OF ex]) blast
  have nodes: "x_nodes s = [(''a'', \<lparr>xn_attempts = [0], xn_nextAttemptOrigin = None, xn_node = demoNode ''a'' 1 [] origin_read_only,
         xn_status = ns_succeeded, xn_terminalEventId = Some ''e8''\<rparr>), (''b'', initialNode (demoNode ''b'' 2 [''a''] managed_worktree))]"
    and led: "x_consumed s = demoCounters 10" "x_reserved s = budgetZero None" "length (x_attempts s) = 1" "ma_attemptId (x_attempts s ! 0) = ''x1''"
    using demo_execution_run [of gs_running None] run unfolding gr by auto
  have mem: "np \<in> set (tx_nodes x)" using np(1) by (simp add: deterministicReadyQueue_def)
  obtain m where m: "nodeAt s (np_nodeId np) = Some m" "xn_node m = np_node np" "np_attempts np = map (\<lambda>a. x_attempts s ! a) (xn_attempts m)"
    by (rule projected_node [OF pos inv x mem]) blast
  have b: "m = initialNode (demoNode ''b'' 2 [''a''] managed_worktree)" using m(1) np(2) by (simp add: nodeAt_def nodes)
  have ids: "ma_attemptId t \<noteq> ''x2''" if q: "q \<in> set (tx_nodes x)" and t: "t \<in> set (np_attempts q)" for q t
  proof -
    obtain k where k: "nodeAt s (np_nodeId q) = Some k" "np_attempts q = map (\<lambda>a. x_attempts s ! a) (xn_attempts k)"
      by (rule projected_node [OF pos inv x q]) blast
    obtain a where "a \<in> set (xn_attempts k)" "t = x_attempts s ! a" using t k(2) by auto
    with node_attempt(1) [OF inv k(1), of a] led(3,4) show ?thesis by (simp add: less_Suc_eq)
  qed
  have rem: "taskBudgetCanReserve (tb_remaining (tx_budget x)) (demoCounters 100)"
  proof -
    have "tb_remaining (tx_budget x) = budgetRelease (budgetRelease (limits demoBudget) (demoCounters 10)) (budgetZero None)"
      using executionProjection_Inr(9) [OF x] unfolding gr led by (auto simp: budgetSubtract_def Let_def split: if_splits)
    then show ?thesis
      by (simp add: TASK_BUDGET_COUNTERS_def taskBudgetCanReserve_def limits_def demoBudget_def budgetRelease_def demoCounters_def budgetZero_def)
  qed
  let ?d = "\<lparr>ar_attempt_id = ''x2'', ar_attempt_number = 1, ar_node_id = ''b'', ar_reservation = demoCounters 100,
    ar_retry_origin = retry_initial, ar_workspace_binding = Some demoWorkspace\<rparr>"
  let ?e = "demoEvent 9 ''e9'' SessionScope (TaskNodeAttemptRequested demoRef ?d)"
  have "\<exists>s'. efold (executionStep (tx_graph x)) (execution_init (mr_content (tx_graph x))) (demoRun @ [?e]) = Inr s'"
  proof -
    have "np_attempts np = []" "w_mode (n_workspace (np_node np)) = managed_worktree"
      using m(2,3) b by (simp_all add: initialNode_def demoNode_def flip: m(2))
    then show ?thesis
      using ready_node_admitted [OF ex np(1), of ?e demoRef ?d] rem ids np(2)
      by (simp add: gr demoEvent_def exactGraphEvent_def demoRef_def)
  qed
  with ex show ?thesis by blast
qed

lemma attempts_within:
  assumes "executes p events g x" "list_all (\<lambda>e. attemptEventSchema p (edata e)) events"
  obtains s where "efold (executionStep (tx_graph x)) (execution_init (mr_content (tx_graph x))) events = Inr s"
    "int (length (x_attempts s)) \<le> maxAttempts (graphBudget (mr_content (tx_graph x)))"
    "countsOk s" "executionInv (mr_content (tx_graph x)) s" "graphPositive (mr_content (tx_graph x))"
    "executionProjection events (tx_graph x) s = Inr x"
proof -
  let ?c = "mr_content (tx_graph x)"
  obtain s where pos: "graphPositive ?c" and run: "efold (executionStep (tx_graph x)) (execution_init ?c) events = Inr s"
    and inv: "executionInv ?c s" and x: "executionProjection events (tx_graph x) s = Inr x"
    by (rule executes_state [OF assms(1)]) blast
  have c: "countsOk s"
    using execution_count.log_run [OF run, of p] pos assms(2) by (simp add: countInv_def list_all_iff)
  have w: "within (x_consumed s) (x_reserved s) (limits (graphBudget ?c))"
    using executionInvD(4) [OF inv] unfolding ledgerInv_def by blast
  have "attempts (x_consumed s) + attempts (x_reserved s) \<le> maxAttempts (graphBudget ?c)"
    using within_at [OF w, of FAttempts] by (simp add: limits_def)
  then have "int (length (x_attempts s)) \<le> maxAttempts (graphBudget ?c)" using c by (simp add: countsOk_def)
  from that [OF run this c inv pos x] show thesis .
qed

text \<open>
  C28: Attempts are bounded: when the attempt events passed their schemas (one attempt per
  reservation, attempt numbers up to three), the attempts of all nodes together are at most the
  Graph's \<^verbatim>\<open>maxAttempts\<close> and no node has more than three.
\<close>

theorem attempts_bounded:
  assumes ex: "executes p events g x" and schema: "list_all (\<lambda>e. attemptEventSchema p (edata e)) events"
  shows "int (sum_list (map (\<lambda>np. length (np_attempts np)) (tx_nodes x))) \<le> maxAttempts (graphBudget (mr_content (tx_graph x))) \<and>
    list_all (\<lambda>np. length (np_attempts np) \<le> 3) (tx_nodes x)"
proof -
  obtain s where s: "int (length (x_attempts s)) \<le> maxAttempts (graphBudget (mr_content (tx_graph x)))" "countsOk s"
    "executionInv (mr_content (tx_graph x)) s" "graphPositive (mr_content (tx_graph x))" "executionProjection events (tx_graph x) s = Inr x"
    using attempts_within [OF ex schema] by blast
  moreover have "sum_list (map (\<lambda>np. length (np_attempts np)) (tx_nodes x)) \<le> length (x_attempts s)"
    by (rule attempts_of_nodes [OF s(4,3,5)])
  moreover have "length (np_attempts np) \<le> 3" if "np \<in> set (tx_nodes x)" for np
    by (rule projected_node [OF s(4,3,5) that]) (use s(2) in \<open>auto simp: countsOk_def\<close>)
  ultimately show ?thesis by (auto simp: list_all_iff)
qed

theorem attempts_bounded_witness:
  "\<exists>g x. executes demoPlatform demoRun g x \<and> int (sum_list (map (\<lambda>np. length (np_attempts np)) (tx_nodes x))) \<le> 3"
proof -
  obtain g x where ex: "executes demoPlatform demoRun g x" and gr: "tx_graph x = demoRevision gs_running None"
    using demo_executes_run by blast
  have "list_all (\<lambda>e. attemptEventSchema demoPlatform (edata e)) demoRun"
    using demo_planItemId(2)
    by (simp add: demoRun_def demoStart_def demoEvent_def demoRequest_def demoFinish_def demoPlatform_def reservationSchema_def
        nonnegative_def demoCounters_def sha256Ok_def demoNonce_def list_all_iff char_class_defs)
  from attempts_bounded [OF ex this] ex show ?thesis by (auto simp: gr demoBudget_def)
qed

text \<open>
  C29: Nothing that happened is undone: after a longer log every attempt of the shorter one is still
  recorded at its place with its id, number, node and reservation, a terminal attempt is unchanged,
  and a node that had succeeded has still succeeded.
\<close>

theorem execution_append_only:
  assumes graph: "taskGraphRevisionContentSchema p (mr_content graph) = Some []"
    and run: "efold (executionStep graph) (execution_init (mr_content graph)) (es @ fs) = Inr t"
  shows "\<exists>s. efold (executionStep graph) (execution_init (mr_content graph)) es = Inr s \<and>
     length (x_attempts s) \<le> length (x_attempts t) \<and>
     (\<forall>a<length (x_attempts s). ma_attemptId (x_attempts t ! a) = ma_attemptId (x_attempts s ! a) \<and>
        ma_attemptNumber (x_attempts t ! a) = ma_attemptNumber (x_attempts s ! a) \<and>
        ma_nodeId (x_attempts t ! a) = ma_nodeId (x_attempts s ! a) \<and>
        ma_reservation (x_attempts t ! a) = ma_reservation (x_attempts s ! a) \<and>
        (ma_status (x_attempts s ! a) = as_terminal \<longrightarrow> x_attempts t ! a = x_attempts s ! a)) \<and>
     (\<forall>i. map_option xn_status (nodeAt s i) = Some ns_succeeded \<longrightarrow> map_option xn_status (nodeAt t i) = Some ns_succeeded)"
proof -
  obtain s where s: "efold (executionStep graph) (execution_init (mr_content graph)) es = Inr s" and mv: "executionMoves graph s t"
    by (rule execution.evolves_prefix [OF run])
  have "grows attemptMoves (x_attempts s) (x_attempts t)" "\<forall>i. succeeded s i \<longrightarrow> succeeded t i"
    using mv accepted_positive [OF graph] by (simp_all add: executionMoves_def)
  then show ?thesis
    using s by (auto simp: grows_def attemptMoves_def sameAttempt_def succeeded_def)
qed

theorem execution_append_only_witness:
  "\<exists>s t. efold (executionStep (demoRevision gs_running None)) (execution_init demoGraph) demoStart = Inr s \<and>
     efold (executionStep (demoRevision gs_running None)) (execution_init demoGraph) demoRun = Inr t \<and>
     length (x_attempts s) \<le> length (x_attempts t)"
proof -
  obtain t where t: "efold (executionStep (demoRevision gs_running None)) (execution_init demoGraph) demoRun = Inr t"
    using demo_execution_run by blast
  from execution_append_only [of demoPlatform "demoRevision gs_running None" demoStart "drop 5 demoRun" t] t demoGraph_accepted
  show ?thesis by (auto simp: demoRun_def demoStart_def)
qed

end
