(* ===== verification/DelegationLedger.thy ===== *)
theory DelegationLedger
  imports TaskBudget
begin

text \<open>
  The budget ledger of delegated children
  (\<^verbatim>\<open>src/src/delegation/delegation-budget-ledger.ts\<close>).

  A ledger is a record; \<open>reserve\<close> and \<open>settle\<close> return the new ledger or the error that
  was thrown, after which the program's ledger is unchanged.  The hashes of a reservation and of a
  ledger state are functions of the other fields and are left out.  The law of \<open>TaskBudget\<close> is
  shared: a budget is read as counters by \<open>limits\<close>, and \<open>fits\<close> is \<open>within\<close>.
\<close>

section \<open>Budgets\<close>

datatype delegation_error_code =
    delegation_invalid | delegation_too_large | delegation_parent_not_active | delegation_binding_stale
  | delegation_revision_conflict | delegation_decision_mismatch | delegation_decision_unauthorized
  | delegation_authority_expansion | delegation_context_unavailable | delegation_context_too_large
  | delegation_model_unqualified | delegation_budget_exhausted | delegation_parallel_limit
  | delegation_workspace_conflict | delegation_lease_busy | delegation_handshake_failed
  | delegation_child_protocol_invalid | delegation_effect_reconciliation_required | delegation_receipt_invalid
  | delegation_receipt_stale | delegation_cancelled | delegation_unsupported_depth | delegation_artifact_invalid
  | delegation_busy

definition zeroBudget :: task_graph_budget where
  "zeroBudget = \<lparr>maxAttempts = 0, maxDurationMs = 0, maxModelSteps = 0, maxCommandExecutions = 0, maxCommandOutputBytes = 0,
     maxChangedFiles = 0, maxChangedBytes = 0, maxArtifactBytes = 0, maxReportedTokens = Some 0\<rparr>"

definition plusBudget :: "task_graph_budget \<Rightarrow> task_graph_budget \<Rightarrow> task_graph_budget" where
  "plusBudget l r = \<lparr>maxAttempts = maxAttempts l + maxAttempts r, maxDurationMs = maxDurationMs l + maxDurationMs r,
     maxModelSteps = maxModelSteps l + maxModelSteps r, maxCommandExecutions = maxCommandExecutions l + maxCommandExecutions r,
     maxCommandOutputBytes = maxCommandOutputBytes l + maxCommandOutputBytes r,
     maxChangedFiles = maxChangedFiles l + maxChangedFiles r, maxChangedBytes = maxChangedBytes l + maxChangedBytes r,
     maxArtifactBytes = maxArtifactBytes l + maxArtifactBytes r,
     maxReportedTokens = both (+) (maxReportedTokens l) (maxReportedTokens r)\<rparr>"

definition minusBudget :: "task_graph_budget \<Rightarrow> task_graph_budget \<Rightarrow> task_graph_budget" where
  "minusBudget l r = \<lparr>maxAttempts = maxAttempts l - maxAttempts r, maxDurationMs = maxDurationMs l - maxDurationMs r,
     maxModelSteps = maxModelSteps l - maxModelSteps r, maxCommandExecutions = maxCommandExecutions l - maxCommandExecutions r,
     maxCommandOutputBytes = maxCommandOutputBytes l - maxCommandOutputBytes r,
     maxChangedFiles = maxChangedFiles l - maxChangedFiles r, maxChangedBytes = maxChangedBytes l - maxChangedBytes r,
     maxArtifactBytes = maxArtifactBytes l - maxArtifactBytes r,
     maxReportedTokens = both (-) (maxReportedTokens l) (maxReportedTokens r)\<rparr>"

text \<open>\<open>numericKeys\<close>: every field but the reported tokens; \<^verbatim>\<open>budget[key]\<close> is then a number.\<close>

definition numericKeys :: "budget_field list" where
  "numericKeys = [FAttempts, FDurationMs, FModelSteps, FCommandExecutions, FCommandOutputBytes, FChangedFiles,
     FChangedBytes, FArtifactBytes]"

definition fits :: "task_graph_budget \<Rightarrow> task_graph_budget \<Rightarrow> task_graph_budget \<Rightarrow> bool" where
  "fits maximum held requested =
     (if list_ex (\<lambda>k. the (budgetAt held k) + the (budgetAt requested k) > the (budgetAt maximum k)) numericKeys then False
      else case maxReportedTokens maximum of
        None \<Rightarrow> True
      | Some m \<Rightarrow> (case (maxReportedTokens held, maxReportedTokens requested) of
          (Some h, Some r) \<Rightarrow> h + r \<le> m | _ \<Rightarrow> False))"

definition usageToBudget :: "task_budget_counters \<Rightarrow> task_graph_budget" where
  "usageToBudget u = \<lparr>maxAttempts = attempts u, maxDurationMs = durationMs u, maxModelSteps = modelSteps u,
     maxCommandExecutions = commandExecutions u, maxCommandOutputBytes = commandOutputBytes u,
     maxChangedFiles = changedFiles u, maxChangedBytes = changedBytes u, maxArtifactBytes = artifactBytes u,
     maxReportedTokens = reportedTokens u\<rparr>"

section \<open>The ledger\<close>

datatype reservation_status = rv_held | rv_settled | rv_blocked

record budget_reservation =
  rv_reservationId :: string
  rv_delegationId :: string
  rv_childAttemptId :: string
  parentBudgetLedgerRevision :: nat
  graphBudgetLedgerRevision :: "nat option"
  rv_reserved :: task_graph_budget
  rv_status :: reservation_status

record budget_ledger =
  lg_revision :: nat
  lg_maximum :: task_graph_budget
  lg_held :: task_graph_budget
  lg_used :: task_budget_counters
  lg_reservations :: "budget_reservation list"

definition newLedger :: "task_graph_budget \<Rightarrow> budget_ledger" where
  "newLedger m = \<lparr>lg_revision = 0, lg_maximum = m, lg_held = zeroBudget, lg_used = budgetZero (Some 0), lg_reservations = []\<rparr>"

record reserve_input =
  ri_expectedRevision :: nat
  ri_reservationId :: string
  ri_delegationId :: string
  ri_childAttemptId :: string
  ri_graphBudgetLedgerRevision :: "nat option"
  ri_requested :: task_graph_budget

definition reserve :: "reserve_input \<Rightarrow> budget_ledger \<Rightarrow> delegation_error_code + budget_ledger \<times> budget_reservation" where
  "reserve input s =
     (if ri_expectedRevision input \<noteq> lg_revision s then Inl delegation_lease_busy
      else if list_ex (\<lambda>item. rv_reservationId item = ri_reservationId input \<or> rv_childAttemptId item = ri_childAttemptId input) (lg_reservations s)
      then Inl delegation_budget_exhausted
      else if \<not> fits (lg_maximum s) (plusBudget (lg_held s) (usageToBudget (lg_used s))) (ri_requested input)
      then Inl delegation_budget_exhausted
      else
        let reservation = \<lparr>rv_reservationId = ri_reservationId input, rv_delegationId = ri_delegationId input,
              rv_childAttemptId = ri_childAttemptId input, parentBudgetLedgerRevision = lg_revision s,
              graphBudgetLedgerRevision = ri_graphBudgetLedgerRevision input, rv_reserved = ri_requested input, rv_status = rv_held\<rparr>
        in Inr (s\<lparr>lg_revision := lg_revision s + 1, lg_held := plusBudget (lg_held s) (ri_requested input),
                  lg_reservations := lg_reservations s @ [reservation]\<rparr>, reservation))"

record settle_input =
  si_expectedRevision :: nat
  si_reservationId :: string
  si_usage :: task_budget_counters
  si_unresolvedEffect :: bool

definition settle :: "settle_input \<Rightarrow> budget_ledger \<Rightarrow> delegation_error_code + budget_ledger \<times> budget_reservation" where
  "settle input s =
     (if si_expectedRevision input \<noteq> lg_revision s then Inl delegation_lease_busy
      else case findIndex (\<lambda>item. rv_reservationId item = si_reservationId input) (lg_reservations s) of
        None \<Rightarrow> Inl delegation_budget_exhausted
      | Some i \<Rightarrow>
          let current = lg_reservations s ! i in
          if rv_status current \<noteq> rv_held then Inl delegation_budget_exhausted
          else if si_unresolvedEffect input then
            let blocked = current\<lparr>rv_status := rv_blocked\<rparr>
            in Inr (s\<lparr>lg_revision := lg_revision s + 1, lg_reservations := (lg_reservations s)[i := blocked]\<rparr>, blocked)
          else
            let actual = usageToBudget (si_usage input) in
            if \<not> fits (rv_reserved current) zeroBudget actual then Inl delegation_budget_exhausted
            else
              let settled = current\<lparr>rv_status := rv_settled\<rparr>
              in Inr (s\<lparr>lg_revision := lg_revision s + 1, lg_held := minusBudget (lg_held s) (rv_reserved current),
                        lg_used := budgetAdd (lg_used s) (si_usage input),
                        lg_reservations := (lg_reservations s)[i := settled]\<rparr>, settled))"

section \<open>Budgets as counters\<close>

lemma limits_plus: "limits (plusBudget l r) = budgetAdd (limits l) (limits r)"
  by (simp add: plusBudget_def limits_def budgetAdd_def)

lemma limits_minus: "limits (minusBudget l r) = budgetRelease (limits l) (limits r)"
  by (simp add: minusBudget_def limits_def budgetRelease_def)

lemma limits_usage: "limits (usageToBudget u) = u"
  by (simp add: usageToBudget_def limits_def)

lemma limits_zero: "limits zeroBudget = budgetZero (Some 0)"
  by (simp add: zeroBudget_def limits_def budgetZero_def)

lemma counterAt_limits: "counterAt (limits b) f = budgetAt b f"
  by (cases f) (simp_all add: limits_def)

lemma fits_within: "fits m h r \<longleftrightarrow> within (limits h) (limits r) (limits m)"
  by (auto simp: fits_def within_def numericKeys_def TASK_BUDGET_COUNTERS_def limits_def not_less split: option.splits)

lemma within_assoc: "within (budgetAdd x y) z m \<longleftrightarrow> within y (budgetAdd x z) m"
  unfolding within_iff counterAt_add by (intro all_cong1 imp_cong refl) (auto simp: algebra_simps)

lemma counterAt_zero [simp]: "counterAt (budgetZero (Some 0)) f = Some 0"
  by (cases f) (simp_all add: budgetZero_def)

section \<open>The invariant\<close>

text \<open>
  \<open>openReserved\<close> is the sum of the reservations that still hold budget: those held, and those
  blocked by an effect whose outcome is unknown.
\<close>

definition open_counter :: "budget_field \<Rightarrow> budget_reservation \<Rightarrow> int" where
  "open_counter f r = (if rv_status r = rv_settled then 0 else the (budgetAt (rv_reserved r) f))"

definition openReserved :: "budget_field \<Rightarrow> budget_reservation list \<Rightarrow> int" where
  "openReserved f rs = sum_list (map (open_counter f) rs)"

definition ledgerOk :: "budget_ledger \<Rightarrow> bool" where
  "ledgerOk s \<longleftrightarrow> within (lg_used s) (limits (lg_held s)) (limits (lg_maximum s)) \<and>
     distinct (map rv_reservationId (lg_reservations s)) \<and> distinct (map rv_childAttemptId (lg_reservations s)) \<and>
     (\<forall>f m. budgetAt (lg_maximum s) f = Some m \<longrightarrow> budgetAt (lg_held s) f = Some (openReserved f (lg_reservations s)) \<and>
        (\<forall>r\<in>set (lg_reservations s). budgetAt (rv_reserved r) f \<noteq> None))"

lemma openReserved_append: "openReserved f (rs @ [r]) = openReserved f rs + open_counter f r"
  by (simp add: openReserved_def)

lemma openReserved_update:
  "i < length rs \<Longrightarrow> openReserved f (rs[i := r]) = openReserved f rs - open_counter f (rs ! i) + open_counter f r"
proof (induction rs arbitrary: i)
  case (Cons x xs)
  then show ?case by (cases i) (simp_all add: openReserved_def)
qed simp

text \<open>An update that changes only the status of one reservation keeps the identities.\<close>

lemma map_update_id: "i < length rs \<Longrightarrow> h v = h (rs ! i) \<Longrightarrow> map h (rs[i := v]) = map h rs"
  by (metis list_update_id map_update nth_map)

lemma newLedger_ok:
  assumes "\<And>f m. budgetAt b f = Some m \<Longrightarrow> 0 \<le> m"
  shows "ledgerOk (newLedger b)"
proof -
  have "within (budgetZero (Some 0)) (limits zeroBudget) (limits b)"
    unfolding within_iff limits_zero counterAt_limits using assms by simp
  moreover have "budgetAt zeroBudget f = Some 0" for f
    by (cases f) (simp_all add: zeroBudget_def)
  ultimately show ?thesis
    by (simp add: ledgerOk_def newLedger_def openReserved_def)
qed

lemma reserve_cases:
  assumes "reserve i s = Inr (s', r)"
  shows "ri_expectedRevision i = lg_revision s" "\<forall>x\<in>set (lg_reservations s). rv_reservationId x \<noteq> ri_reservationId i \<and> rv_childAttemptId x \<noteq> ri_childAttemptId i"
    "fits (lg_maximum s) (plusBudget (lg_held s) (usageToBudget (lg_used s))) (ri_requested i)"
    "s' = s\<lparr>lg_revision := lg_revision s + 1, lg_held := plusBudget (lg_held s) (ri_requested i), lg_reservations := lg_reservations s @ [r]\<rparr>"
    "rv_reservationId r = ri_reservationId i" "rv_delegationId r = ri_delegationId i" "rv_childAttemptId r = ri_childAttemptId i"
    "rv_reserved r = ri_requested i" "rv_status r = rv_held"
  using assms by (auto simp: reserve_def Let_def list_ex_iff split: if_splits)

lemma budgetAt_plus: "budgetAt (plusBudget l r) f = both (+) (budgetAt l f) (budgetAt r f)"
  by (cases f) (simp_all add: plusBudget_def)

lemma budgetAt_minus: "budgetAt (minusBudget l r) f = both (-) (budgetAt l f) (budgetAt r f)"
  by (cases f) (simp_all add: minusBudget_def)

lemma reserve_ok:
  assumes inv: "ledgerOk s" and r: "reserve i s = Inr (s', r)"
  shows "ledgerOk s'"
proof -
  note c = reserve_cases [OF r]
  have w: "within (lg_used s) (limits (plusBudget (lg_held s) (ri_requested i))) (limits (lg_maximum s))"
    using c(3) by (simp add: fits_within limits_plus limits_usage within_assoc)
  have "\<exists>v. budgetAt (ri_requested i) f = Some v" if "budgetAt (lg_maximum s) f = Some m" for f m
    using within_at [OF w, of f m] that by (auto simp: counterAt_limits budgetAt_plus)
  with inv c w show ?thesis
    by (fastforce simp: ledgerOk_def budgetAt_plus openReserved_append open_counter_def)
qed

lemma settle_cases:
  assumes "settle i s = Inr (s', r)"
  obtains n where "n < length (lg_reservations s)" "rv_reservationId (lg_reservations s ! n) = si_reservationId i"
    "rv_status (lg_reservations s ! n) = rv_held" "si_expectedRevision i = lg_revision s"
    "r = (lg_reservations s ! n)\<lparr>rv_status := rv_blocked\<rparr>" "si_unresolvedEffect i"
    "s' = s\<lparr>lg_revision := lg_revision s + 1, lg_reservations := (lg_reservations s)[n := r]\<rparr>"
  | n where "n < length (lg_reservations s)" "rv_reservationId (lg_reservations s ! n) = si_reservationId i"
    "rv_status (lg_reservations s ! n) = rv_held" "si_expectedRevision i = lg_revision s"
    "r = (lg_reservations s ! n)\<lparr>rv_status := rv_settled\<rparr>" "\<not> si_unresolvedEffect i"
    "fits (rv_reserved (lg_reservations s ! n)) zeroBudget (usageToBudget (si_usage i))"
    "s' = s\<lparr>lg_revision := lg_revision s + 1, lg_held := minusBudget (lg_held s) (rv_reserved (lg_reservations s ! n)),
        lg_used := budgetAdd (lg_used s) (si_usage i), lg_reservations := (lg_reservations s)[n := r]\<rparr>"
  using assms by (auto simp: settle_def Let_def split: if_splits option.splits dest!: findIndex_Some)

lemma settle_ok:
  assumes inv: "ledgerOk s" and r: "settle i s = Inr (s', r)"
  shows "ledgerOk s'"
  using r
proof (cases rule: settle_cases)
  case (1 n)
  then have "r \<in> set (lg_reservations s') \<Longrightarrow> rv_reserved r = rv_reserved (lg_reservations s ! n)" by simp
  then show ?thesis
    using inv 1 by (auto simp: ledgerOk_def map_update_id openReserved_update open_counter_def dest!: list_update_set)
next
  case (2 n)
  let ?c = "lg_reservations s ! n"
  have mem: "?c \<in> set (lg_reservations s)" using 2(1) by simp
  have def: "\<exists>v. budgetAt (rv_reserved ?c) f = Some v" if "budgetAt (lg_maximum s) f = Some m" for f m
    using inv mem that by (auto simp: ledgerOk_def)
  have u: "within (si_usage i) (budgetZero (Some 0)) (limits (rv_reserved ?c))"
    using 2(7) unfolding fits_within limits_usage limits_zero within_iff by (fastforce simp: algebra_simps)
  have "within (lg_used s') (limits (lg_held s')) (limits (lg_maximum s'))"
    unfolding 2(8) using within_settle [OF _ u, of "lg_used s" "limits (lg_held s)" "limits (lg_maximum s)"] inv def [of FReportedTokens]
    by (simp add: limits_minus ledgerOk_def) (simp add: limits_def)
  moreover have "budgetAt (lg_held s') f = Some (openReserved f (lg_reservations s'))"
    if "budgetAt (lg_maximum s) f = Some m" for f m
    using inv def [OF that] that 2 by (auto simp: ledgerOk_def budgetAt_minus openReserved_update open_counter_def)
  ultimately show ?thesis
    using inv 2 mem by (auto simp: ledgerOk_def map_update_id dest!: list_update_set)
qed

section \<open>A ledger in use\<close>

text \<open>
  A call that throws leaves the private field \<^verbatim>\<open>#state\<close> as it was; the ledger then goes on
  serving calls.
\<close>

datatype ledger_call = CallReserve reserve_input | CallSettle settle_input

fun ledgerCall :: "budget_ledger \<Rightarrow> ledger_call \<Rightarrow> delegation_error_code + budget_ledger \<times> budget_reservation" where
  "ledgerCall s (CallReserve i) = reserve i s"
| "ledgerCall s (CallSettle i) = settle i s"

definition afterCall :: "budget_ledger \<Rightarrow> ledger_call \<Rightarrow> delegation_error_code + budget_ledger" where
  "afterCall s c = Inr (case ledgerCall s c of Inl _ \<Rightarrow> s | Inr (s', _) \<Rightarrow> s')"

text \<open>
  What the ledger may do over time: its ceilings stay, its revision grows, and a reservation keeps
  its identity and amount, its status changing only from held.
\<close>

definition reservationMoves :: "budget_reservation \<Rightarrow> budget_reservation \<Rightarrow> bool" where
  "reservationMoves r q \<longleftrightarrow> q\<lparr>rv_status := rv_status r\<rparr> = r \<and> (rv_status r = rv_held \<or> rv_status q = rv_status r)"

definition ledgerMoves :: "budget_ledger \<Rightarrow> budget_ledger \<Rightarrow> bool" where
  "ledgerMoves s t \<longleftrightarrow> lg_maximum t = lg_maximum s \<and> lg_revision s \<le> lg_revision t \<and> (lg_revision s = lg_revision t \<longrightarrow> t = s) \<and>
     grows reservationMoves (lg_reservations s) (lg_reservations t)"

lemma reservationMoves_refl: "reservationMoves r r"
  by (simp add: reservationMoves_def)

lemma reservationMoves_trans: "reservationMoves r q \<Longrightarrow> reservationMoves q x \<Longrightarrow> reservationMoves r x"
  by (cases r; cases q; cases x) (auto simp: reservationMoves_def)

lemma ledgerMoves_trans: "ledgerMoves s t \<Longrightarrow> ledgerMoves t u \<Longrightarrow> ledgerMoves s u"
  using grows_trans [of reservationMoves "lg_reservations s" "lg_reservations t" "lg_reservations u"] reservationMoves_trans
  by (auto simp: ledgerMoves_def)

lemma ledgerCall_ok: "ledgerCall s c = Inr (s', r) \<Longrightarrow> ledgerOk s \<Longrightarrow> ledgerOk s'"
  by (cases c) (auto intro: reserve_ok settle_ok)

lemma ledgerCall_moves: "ledgerCall s c = Inr (s', r) \<Longrightarrow> lg_revision s' = Suc (lg_revision s) \<and> ledgerMoves s s'"
  by (cases c) (auto dest!: reserve_cases(4) elim!: settle_cases simp: reservationMoves_def ledgerMoves_def
      intro!: grows_append grows_refl grows_update)

definition childLedgerInv :: "task_graph_budget \<Rightarrow> budget_ledger \<Rightarrow> bool" where
  "childLedgerInv b s \<longleftrightarrow> lg_maximum s = b \<and> ((\<forall>f m. budgetAt b f = Some m \<longrightarrow> 0 \<le> m) \<longrightarrow> ledgerOk s)"

lemma afterCall_cases:
  assumes "afterCall s c = Inr s'"
  obtains "s' = s" | r where "ledgerCall s c = Inr (s', r)"
  using assms by (auto simp: afterCall_def split: sum.splits)

interpretation ledger: projector_evolution afterCall "newLedger b" "childLedgerInv b" ledgerMoves for b
proof
  show "childLedgerInv b (newLedger b)"
    by (auto simp: childLedgerInv_def intro: newLedger_ok) (simp add: newLedger_def)
  show "ledgerMoves s s" for s
    by (simp add: ledgerMoves_def grows_refl reservationMoves_refl)
  show "childLedgerInv b s'" if "childLedgerInv b s" "afterCall s c = Inr s'" for s c s'
    using that(2) by (cases rule: afterCall_cases) (use that(1) in \<open>auto simp: childLedgerInv_def ledgerMoves_def dest: ledgerCall_ok ledgerCall_moves\<close>)
  show "ledgerMoves s s'" if "childLedgerInv b s" "afterCall s c = Inr s'" for s c s'
    using that(2) by (cases rule: afterCall_cases) (auto simp: ledgerMoves_def grows_refl reservationMoves_refl dest: ledgerCall_moves)
qed (rule ledgerMoves_trans)

end
