(* ===== verification/DelegationSchema.thy ===== *)
theory DelegationSchema
  imports DelegationLedger "HOL-Library.Multiset"
begin

text \<open>
  The content of a delegation revision: its schema, its normal form and its identity
  (\<^verbatim>\<open>src/src/delegation/delegation-schema.ts\<close>, \<^verbatim>\<open>delegation-identity.ts\<close>,
  \<^verbatim>\<open>delegation-errors.ts\<close>).

  A zod object schema is a predicate on the record of the object's fields; a strict object has no
  other fields, and an enumeration is a datatype.  Normalisation sorts the lists whose order has no
  meaning by UTF-16 code units, so that the identity of a revision does not depend on the order a
  client listed them in.
\<close>

section \<open>Errors\<close>

fun exitCode :: "delegation_error_code \<Rightarrow> nat" where
  "exitCode delegation_invalid = 2"
| "exitCode delegation_too_large = 2"
| "exitCode delegation_revision_conflict = 2"
| "exitCode delegation_decision_mismatch = 2"
| "exitCode delegation_decision_unauthorized = 2"
| "exitCode delegation_authority_expansion = 2"
| "exitCode delegation_unsupported_depth = 2"
| "exitCode delegation_child_protocol_invalid = 3"
| "exitCode delegation_handshake_failed = 3"
| "exitCode delegation_budget_exhausted = 7"
| "exitCode delegation_artifact_invalid = 1"
| "exitCode _ = 8"

text \<open>A zod parse may fail, canonical JSON may throw a \<^verbatim>\<open>TypeError\<close>, the code throws its own errors.\<close>

datatype delegation_failure = DelegationFailure delegation_error_code | ZodFailure | TypeFailure

section \<open>Data\<close>

definition MAX_DELEGATIONS_PER_PARENT :: nat where "MAX_DELEGATIONS_PER_PARENT = 8"
definition MAX_DELEGATION_REVISION_BYTES :: nat where "MAX_DELEGATION_REVISION_BYTES = 128 * 1024"
definition MAX_DELEGATION_CONTEXT_REFS :: nat where "MAX_DELEGATION_CONTEXT_REFS = 32"
definition MAX_DELEGATION_TOOL_IDS :: nat where "MAX_DELEGATION_TOOL_IDS = 32"
definition MAX_DELEGATION_CAPABILITY_IDS :: nat where "MAX_DELEGATION_CAPABILITY_IDS = 16"
definition MAX_DELEGATION_PATH_PREFIXES :: nat where "MAX_DELEGATION_PATH_PREFIXES = 32"
definition MAX_DELEGATION_CLAIMS :: nat where "MAX_DELEGATION_CLAIMS = 16"
definition MIN_DELEGATION_CAPSULE_BYTES :: nat where "MIN_DELEGATION_CAPSULE_BYTES = 16 * 1024"
definition MAX_DELEGATION_CAPSULE_BYTES :: nat where "MAX_DELEGATION_CAPSULE_BYTES = 256 * 1024"

lemmas delegation_bounds = MAX_DELEGATIONS_PER_PARENT_def MAX_DELEGATION_REVISION_BYTES_def
  MAX_DELEGATION_CONTEXT_REFS_def MAX_DELEGATION_TOOL_IDS_def MAX_DELEGATION_CAPABILITY_IDS_def
  MAX_DELEGATION_PATH_PREFIXES_def MAX_DELEGATION_CLAIMS_def MIN_DELEGATION_CAPSULE_BYTES_def
  MAX_DELEGATION_CAPSULE_BYTES_def

record delegation_binding =
  db_sessionId :: string
  db_parentRunId :: string
  db_parentActorId :: string
  db_goalId :: string
  db_goalRevision :: nat
  db_planId :: string
  db_planRevision :: nat
  db_planSha256 :: string
  db_graphId :: "string option"
  db_graphRevision :: "nat option"
  db_graphSha256 :: "string option"
  db_nodeId :: "string option"
  db_nodeAttemptId :: "string option"
  db_parentWorkspaceLineageId :: string

datatype claim_kind = answer_claim | file_observation | symbol_observation | change_bundle | verification_result

record expected_claim =
  ec_claimId :: string
  ec_kind :: claim_kind
  ec_description :: jsstring
  ec_required :: bool

datatype receipt_kind = analysis_receipt | change_receipt | verification_receipt

record expected_receipt =
  er_kind :: receipt_kind
  er_requiredClaims :: "expected_claim list"

datatype fact_kind = receipt_fact | artifact_fact | repository_snapshot_fact | rule_manifest_fact

record context_fact =
  cf_kind :: fact_kind
  cf_ref :: jsstring
  cf_sha256 :: string
  cf_required :: bool

record context_request =
  includeApprovedPlanItems :: "string list"
  includeParentFacts :: "context_fact list"
  requestedPaths :: "jsstring list"
  maximumCapsuleBytes :: nat

record authority_request =
  taskProfile :: task_profile
  toolIds :: "string list"
  capabilityIds :: "string list"

text \<open>The union on \<^verbatim>\<open>mode\<close>: \<^verbatim>\<open>managedWorkspaceId\<close> is null exactly in mode \<^verbatim>\<open>origin_read_only\<close>.\<close>

record workspace_request =
  sourceSnapshotSha256 :: string
  managedWorkspaceId :: "string option"
  wr_declaredPathPrefixes :: "jsstring list"

datatype model_request = SameAsParent | ExactQualifiedModel string string jsstring \<comment> \<open>profile, provider, model\<close>

record delegation_content =
  dc_sequence :: nat
  dc_title :: jsstring
  dc_objective :: jsstring
  expectedReceipt :: expected_receipt
  contextRequest :: context_request
  authorityRequest :: authority_request
  dc_budget :: task_graph_budget
  dc_workspace :: workspace_request
  dc_model :: model_request
  dc_retry :: task_node_retry
  dc_delegationId :: string
  dc_binding :: delegation_binding

section \<open>The schemas\<close>

definition stableIdOk :: "string \<Rightarrow> bool" where
  "stableIdOk s \<longleftrightarrow> (case s of [] \<Rightarrow> False | c # r \<Rightarrow> lowerAlnum c \<and>
     list_all (\<lambda>d. lowerAlnum d \<or> d = CHR ''.'' \<or> d = CHR ''_'' \<or> d = CHR ''-'') r \<and> length r \<le> 127)"

definition toolIdOk :: "string \<Rightarrow> bool" where
  "toolIdOk s \<longleftrightarrow> (case s of [] \<Rightarrow> False | c # r \<Rightarrow> isLower c \<and>
     list_all (\<lambda>d. lowerAlnum d \<or> d = CHR ''_'') r \<and> length r \<le> 63)"

definition relativePathOk :: "jsstring \<Rightarrow> bool" where
  "relativePathOk value =
     (if value = [0x2e] then True
      else if value = [] \<or> length value > 1024 \<or> hd value = 0x2f \<or> 0x5c \<in> set value \<or> startsWithDrive value \<or>
              containsControlCharacter value
      then False
      else list_all (\<lambda>segment. segment \<noteq> [] \<and> segment \<noteq> [0x2e] \<and> segment \<noteq> [0x2e, 0x2e] \<and>
             \<not> containsControlCharacter segment) (splitUnits 0x2f value))"

definition pathArray :: "platform \<Rightarrow> nat \<Rightarrow> jsstring list \<Rightarrow> bool" where
  "pathArray p maximum values \<longleftrightarrow> length values \<le> maximum \<and> list_all relativePathOk values \<and>
     distinct (map (lowerEnUs p) values)"

definition delegationParentBindingSchema :: "platform \<Rightarrow> delegation_binding \<Rightarrow> bool" where
  "delegationParentBindingSchema p b \<longleftrightarrow>
     isUuid p (db_sessionId b) \<and> isUuid p (db_parentRunId b) \<and> isUuid p (db_parentActorId b) \<and>
     isUuid p (db_goalId b) \<and> positiveSafeInteger (db_goalRevision b) \<and> isUuid p (db_planId b) \<and>
     positiveSafeInteger (db_planRevision b) \<and> sha256Ok (db_planSha256 b) \<and>
     pred_option (isUuid p) (db_graphId b) \<and> pred_option positiveSafeInteger (db_graphRevision b) \<and>
     pred_option sha256Ok (db_graphSha256 b) \<and> pred_option nodeIdOk (db_nodeId b) \<and>
     pred_option (isUuid p) (db_nodeAttemptId b) \<and> sha256Ok (db_parentWorkspaceLineageId b) \<and>
     (let present = length (filter id [db_graphId b \<noteq> None, db_graphRevision b \<noteq> None, db_graphSha256 b \<noteq> None,
            db_nodeId b \<noteq> None, db_nodeAttemptId b \<noteq> None])
      in present = 0 \<or> present = 5)"

definition delegationExpectedClaimSchema :: "expected_claim \<Rightarrow> bool" where
  "delegationExpectedClaimSchema c \<longleftrightarrow> nodeIdOk (ec_claimId c) \<and> textOk 1024 (ec_description c)"

definition requiredOfKind :: "claim_kind \<Rightarrow> expected_receipt \<Rightarrow> expected_claim list" where
  "requiredOfKind k r = filter (\<lambda>c. ec_required c \<and> ec_kind c = k) (er_requiredClaims r)"

definition delegationExpectedReceiptSchema :: "expected_receipt \<Rightarrow> bool" where
  "delegationExpectedReceiptSchema r \<longleftrightarrow>
     1 \<le> length (er_requiredClaims r) \<and> length (er_requiredClaims r) \<le> MAX_DELEGATION_CLAIMS \<and>
     list_all delegationExpectedClaimSchema (er_requiredClaims r) \<and>
     noDuplicates (map ec_claimId (er_requiredClaims r)) \<and> list_ex ec_required (er_requiredClaims r) \<and>
     (er_kind r = analysis_receipt \<longrightarrow> length (requiredOfKind change_bundle r) = 0) \<and>
     (er_kind r = change_receipt \<longrightarrow> length (requiredOfKind change_bundle r) = 1) \<and>
     (er_kind r = verification_receipt \<longrightarrow> length (requiredOfKind verification_result r) \<noteq> 0)"

definition delegationContextFactRequestSchema :: "context_fact \<Rightarrow> bool" where
  "delegationContextFactRequestSchema f \<longleftrightarrow> 1 \<le> length (cf_ref f) \<and> length (cf_ref f) \<le> 1024 \<and> sha256Ok (cf_sha256 f)"

fun factKindName :: "fact_kind \<Rightarrow> string" where
  "factKindName receipt_fact = ''receipt''"
| "factKindName artifact_fact = ''artifact''"
| "factKindName repository_snapshot_fact = ''repository_snapshot''"
| "factKindName rule_manifest_fact = ''rule_manifest''"

definition factKey :: "context_fact \<Rightarrow> jsstring" where
  "factKey f = js (factKindName (cf_kind f)) @ [0] @ cf_ref f @ [0] @ js (cf_sha256 f)"

definition delegationContextRequestSchema :: "platform \<Rightarrow> context_request \<Rightarrow> bool" where
  "delegationContextRequestSchema p c \<longleftrightarrow>
     length (includeApprovedPlanItems c) \<le> 16 \<and> list_all planItemIdOk (includeApprovedPlanItems c) \<and>
     noDuplicates (includeApprovedPlanItems c) \<and>
     length (includeParentFacts c) \<le> MAX_DELEGATION_CONTEXT_REFS \<and>
     list_all delegationContextFactRequestSchema (includeParentFacts c) \<and>
     pathArray p MAX_DELEGATION_PATH_PREFIXES (requestedPaths c) \<and>
     MIN_DELEGATION_CAPSULE_BYTES \<le> maximumCapsuleBytes c \<and> maximumCapsuleBytes c \<le> MAX_DELEGATION_CAPSULE_BYTES \<and>
     noDuplicates (map factKey (includeParentFacts c))"

definition delegationAuthorityRequestSchema :: "authority_request \<Rightarrow> bool" where
  "delegationAuthorityRequestSchema a \<longleftrightarrow>
     length (toolIds a) \<le> MAX_DELEGATION_TOOL_IDS \<and> list_all toolIdOk (toolIds a) \<and> noDuplicates (toolIds a) \<and>
     length (capabilityIds a) \<le> MAX_DELEGATION_CAPABILITY_IDS \<and> list_all (\<lambda>v. length v \<le> 512) (capabilityIds a) \<and>
     noDuplicates (capabilityIds a) \<and> list_all (\<lambda>v. \<not> isl (parseQualifiedCapabilityId v)) (capabilityIds a)"

definition delegationWorkspaceRequestSchema :: "platform \<Rightarrow> workspace_request \<Rightarrow> bool" where
  "delegationWorkspaceRequestSchema p w \<longleftrightarrow> sha256Ok (sourceSnapshotSha256 w) \<and>
     pred_option (isUuid p) (managedWorkspaceId w) \<and> pathArray p MAX_DELEGATION_PATH_PREFIXES (wr_declaredPathPrefixes w)"

fun delegationModelRequestSchema :: "model_request \<Rightarrow> bool" where
  "delegationModelRequestSchema SameAsParent = True"
| "delegationModelRequestSchema (ExactQualifiedModel prof provider model) =
     (stableIdOk prof \<and> stableIdOk provider \<and> 1 \<le> length model \<and> length model \<le> 500)"

definition delegationRetrySchema :: "task_node_retry \<Rightarrow> bool" where
  "delegationRetrySchema r \<longleftrightarrow> (r_maxAttempts r = 1 \<or> r_maxAttempts r = 2) \<and>
     length (automaticOn r) \<le> 1 \<and> noDuplicates (automaticOn r) \<and>
     (r_maxAttempts r = 1 \<longrightarrow> automaticOn r = [])"

definition pathCovers :: "jsstring \<Rightarrow> jsstring \<Rightarrow> bool" where
  "pathCovers pre requested \<longleftrightarrow> pre = [0x2e] \<or> requested = pre \<or> take (length pre + 1) requested = pre @ [0x2f]"

definition validateRevisionSemantics :: "delegation_content \<Rightarrow> bool" where
  "validateRevisionSemantics v \<longleftrightarrow>
     (er_kind (expectedReceipt v) = analysis_receipt \<longrightarrow> taskProfile (authorityRequest v) = read_only_profile) \<and>
     (taskProfile (authorityRequest v) = read_only_profile \<longrightarrow> managedWorkspaceId (dc_workspace v) = None) \<and>
     (taskProfile (authorityRequest v) = coding_profile \<longrightarrow> managedWorkspaceId (dc_workspace v) \<noteq> None) \<and>
     (taskProfile (authorityRequest v) = coding_profile \<longrightarrow> ''finish_task'' \<in> set (toolIds (authorityRequest v))) \<and>
     list_all (\<lambda>requested. list_ex (\<lambda>pre. pathCovers pre requested) (wr_declaredPathPrefixes (dc_workspace v)))
       (requestedPaths (contextRequest v))"

definition delegationRevisionContentSchema :: "platform \<Rightarrow> delegation_content \<Rightarrow> bool" where
  "delegationRevisionContentSchema p v \<longleftrightarrow>
     1 \<le> dc_sequence v \<and> dc_sequence v \<le> MAX_DELEGATIONS_PER_PARENT \<and>
     textOk 256 (dc_title v) \<and> textOk (8 * 1024) (dc_objective v) \<and>
     delegationExpectedReceiptSchema (expectedReceipt v) \<and> delegationContextRequestSchema p (contextRequest v) \<and>
     delegationAuthorityRequestSchema (authorityRequest v) \<and> taskGraphBudgetSchema (dc_budget v) \<and>
     delegationWorkspaceRequestSchema p (dc_workspace v) \<and> delegationModelRequestSchema (dc_model v) \<and>
     delegationRetrySchema (dc_retry v) \<and> isUuid p (dc_delegationId v) \<and>
     delegationParentBindingSchema p (dc_binding v) \<and> validateRevisionSemantics v"

section \<open>The JSON of a revision\<close>

definition JOpt :: "('a \<Rightarrow> json) \<Rightarrow> 'a option \<Rightarrow> json" where
  "JOpt f x = (case x of None \<Rightarrow> JNull | Some v \<Rightarrow> f v)"

definition delegationBindingJson :: "delegation_binding \<Rightarrow> json" where
  "delegationBindingJson b = JObject
     [(js ''sessionId'', JText (db_sessionId b)), (js ''parentRunId'', JText (db_parentRunId b)),
      (js ''parentActorId'', JText (db_parentActorId b)), (js ''goalId'', JText (db_goalId b)),
      (js ''goalRevision'', JNat (db_goalRevision b)), (js ''planId'', JText (db_planId b)),
      (js ''planRevision'', JNat (db_planRevision b)), (js ''planSha256'', JText (db_planSha256 b)),
      (js ''graphId'', JOpt JText (db_graphId b)), (js ''graphRevision'', JOpt JNat (db_graphRevision b)),
      (js ''graphSha256'', JOpt JText (db_graphSha256 b)), (js ''nodeId'', JOpt JText (db_nodeId b)),
      (js ''nodeAttemptId'', JOpt JText (db_nodeAttemptId b)),
      (js ''parentWorkspaceLineageId'', JText (db_parentWorkspaceLineageId b))]"

fun claimKindName :: "claim_kind \<Rightarrow> string" where
  "claimKindName answer_claim = ''answer''"
| "claimKindName file_observation = ''file_observation''"
| "claimKindName symbol_observation = ''symbol_observation''"
| "claimKindName change_bundle = ''change_bundle''"
| "claimKindName verification_result = ''verification_result''"

fun receiptKindName :: "receipt_kind \<Rightarrow> string" where
  "receiptKindName analysis_receipt = ''analysis''"
| "receiptKindName change_receipt = ''change''"
| "receiptKindName verification_receipt = ''verification''"

definition expectedReceiptJson :: "expected_receipt \<Rightarrow> json" where
  "expectedReceiptJson r = JObject
     [(js ''kind'', JText (receiptKindName (er_kind r))),
      (js ''requiredClaims'', JArray (map (\<lambda>c. JObject
         [(js ''claimId'', JText (ec_claimId c)), (js ''kind'', JText (claimKindName (ec_kind c))),
          (js ''description'', JString (ec_description c)), (js ''required'', JBool (ec_required c))]) (er_requiredClaims r)))]"

definition contextRequestJson :: "context_request \<Rightarrow> json" where
  "contextRequestJson c = JObject
     [(js ''includeGoal'', JBool True), (js ''includeApprovedPlanItems'', JArray (map JText (includeApprovedPlanItems c))),
      (js ''includeParentFacts'', JArray (map (\<lambda>f. JObject
         [(js ''kind'', JText (factKindName (cf_kind f))), (js ''ref'', JString (cf_ref f)),
          (js ''sha256'', JText (cf_sha256 f)), (js ''required'', JBool (cf_required f))]) (includeParentFacts c))),
      (js ''requestedPaths'', JArray (map JString (requestedPaths c))),
      (js ''maximumCapsuleBytes'', JNat (maximumCapsuleBytes c))]"

definition authorityRequestJson :: "authority_request \<Rightarrow> json" where
  "authorityRequestJson a = JObject
     [(js ''taskProfile'', JText (if taskProfile a = read_only_profile then ''read-only'' else ''coding'')),
      (js ''toolIds'', JArray (map JText (toolIds a))), (js ''capabilityIds'', JArray (map JText (capabilityIds a)))]"

definition workspaceRequestJson :: "workspace_request \<Rightarrow> json" where
  "workspaceRequestJson w = JObject
     [(js ''mode'', JText (if managedWorkspaceId w = None then ''origin_read_only'' else ''managed_worktree'')),
      (js ''sourceSnapshotSha256'', JText (sourceSnapshotSha256 w)),
      (js ''managedWorkspaceId'', JOpt JText (managedWorkspaceId w)),
      (js ''declaredPathPrefixes'', JArray (map JString (wr_declaredPathPrefixes w)))]"

fun modelRequestJson :: "model_request \<Rightarrow> json" where
  "modelRequestJson SameAsParent = JObject [(js ''strategy'', JText ''same_as_parent''), (js ''exactProfileId'', JNull),
     (js ''exactProviderId'', JNull), (js ''exactModelId'', JNull)]"
| "modelRequestJson (ExactQualifiedModel prof provider model) = JObject [(js ''strategy'', JText ''exact_qualified_model''),
     (js ''exactProfileId'', JText prof), (js ''exactProviderId'', JText provider), (js ''exactModelId'', JString model)]"

definition retryJson :: "task_node_retry \<Rightarrow> json" where
  "retryJson r = JObject [(js ''maxAttempts'', JNat (r_maxAttempts r)),
     (js ''automaticOn'', JArray (map (\<lambda>_. JText ''pre_effect_infrastructure_failure'') (automaticOn r)))]"

definition delegationJson :: "delegation_content \<Rightarrow> json" where
  "delegationJson v = JObject
     [(js ''schemaVersion'', JNat 1), (js ''sequence'', JNat (dc_sequence v)), (js ''title'', JString (dc_title v)),
      (js ''objective'', JString (dc_objective v)), (js ''expectedReceipt'', expectedReceiptJson (expectedReceipt v)),
      (js ''contextRequest'', contextRequestJson (contextRequest v)),
      (js ''authorityRequest'', authorityRequestJson (authorityRequest v)), (js ''budget'', budgetJson (dc_budget v)),
      (js ''workspace'', workspaceRequestJson (dc_workspace v)), (js ''model'', modelRequestJson (dc_model v)),
      (js ''retry'', retryJson (dc_retry v)), (js ''delegationId'', JText (dc_delegationId v)),
      (js ''binding'', delegationBindingJson (dc_binding v))]"

section \<open>Normalisation and identity\<close>

text \<open>
  \<open>codePointCompare\<close> compares with \<^verbatim>\<open><\<close>, that is by code units; \<open>js\<close> gives the code units of an
  identifier.  The one retry class needs no sorting.
\<close>

definition sortIds :: "string list \<Rightarrow> string list" where
  "sortIds = sort_key js"

definition canonicalized :: "delegation_content \<Rightarrow> delegation_content" where
  "canonicalized v = v
     \<lparr>expectedReceipt := (expectedReceipt v)\<lparr>er_requiredClaims :=
        sort_key (\<lambda>c. js (ec_claimId c)) (er_requiredClaims (expectedReceipt v))\<rparr>,
      contextRequest := (contextRequest v)
        \<lparr>includeApprovedPlanItems := sortIds (includeApprovedPlanItems (contextRequest v)),
         includeParentFacts := sort_key factKey (includeParentFacts (contextRequest v)),
         requestedPaths := sort (requestedPaths (contextRequest v))\<rparr>,
      authorityRequest := (authorityRequest v)
        \<lparr>toolIds := sortIds (toolIds (authorityRequest v)), capabilityIds := sortIds (capabilityIds (authorityRequest v))\<rparr>,
      dc_workspace := (dc_workspace v)\<lparr>wr_declaredPathPrefixes := sort (wr_declaredPathPrefixes (dc_workspace v))\<rparr>\<rparr>"

definition parseDelegation :: "platform \<Rightarrow> delegation_content \<Rightarrow> delegation_failure + delegation_content" where
  "parseDelegation p v = (if delegationRevisionContentSchema p v then Inr v else Inl ZodFailure)"

definition encodeDelegation :: "delegation_content \<Rightarrow> delegation_failure + jsstring" where
  "encodeDelegation v = (case canonicalJson (delegationJson v) of Inl _ \<Rightarrow> Inl TypeFailure | Inr s \<Rightarrow> Inr s)"

definition normalizeDelegationRevision :: "platform \<Rightarrow> delegation_content \<Rightarrow> delegation_failure + delegation_content" where
  "normalizeDelegationRevision p value =
     ebind (parseDelegation p value) (\<lambda>parsed.
     ebind (parseDelegation p (canonicalized parsed)) (\<lambda>normalized.
     ebind (encodeDelegation normalized) (\<lambda>bytes.
       if byteLength bytes > MAX_DELEGATION_REVISION_BYTES then Inl (DelegationFailure delegation_too_large)
       else Inr normalized)))"

record delegation_identity =
  di_byteLength :: nat
  di_bytes :: jsstring
  di_content :: delegation_content
  di_delegationSha256 :: string

definition canonicalDelegationIdentity :: "platform \<Rightarrow> delegation_content \<Rightarrow> delegation_failure + delegation_identity" where
  "canonicalDelegationIdentity p value =
     ebind (normalizeDelegationRevision p value) (\<lambda>content.
     ebind (encodeDelegation content) (\<lambda>bytes.
       Inr \<lparr>di_byteLength = byteLength bytes, di_bytes = bytes, di_content = content, di_delegationSha256 = sha256 p bytes\<rparr>))"

definition hashJson :: "platform \<Rightarrow> json \<Rightarrow> delegation_failure + string" where
  "hashJson p v = (case sha256Canonical (sha256 p) v of Inl _ \<Rightarrow> Inl TypeFailure | Inr s \<Rightarrow> Inr s)"

definition delegationApprovalIdentity ::
  "platform \<Rightarrow> string \<Rightarrow> delegation_binding \<Rightarrow> string \<Rightarrow> nat \<Rightarrow> string \<Rightarrow> string \<Rightarrow> delegation_failure + string" where
  "delegationApprovalIdentity p approvalRequestId binding delegationId delegationRevision delegationSha256 displaySha256 =
     hashJson p (JObject
       [(js ''approval_request_id'', JText approvalRequestId), (js ''binding'', delegationBindingJson binding),
        (js ''delegation_id'', JText delegationId), (js ''delegation_revision'', JNat delegationRevision),
        (js ''delegation_sha256'', JText delegationSha256), (js ''display_sha256'', JText displaySha256),
        (js ''kind'', JText ''delegation_revision_v1'')])"

definition delegationAuthorityRequestPreviewIdentity :: "platform \<Rightarrow> delegation_content \<Rightarrow> delegation_failure + string" where
  "delegationAuthorityRequestPreviewIdentity p content =
     hashJson p (JObject
       [(js ''authority_request'', authorityRequestJson (authorityRequest content)), (js ''budget'', budgetJson (dc_budget content)),
        (js ''context_maximum_bytes'', JNat (maximumCapsuleBytes (contextRequest content))),
        (js ''kind'', JText ''delegation_requested_authority_preview_v1''), (js ''model'', modelRequestJson (dc_model content)),
        (js ''retry'', retryJson (dc_retry content)), (js ''workspace'', workspaceRequestJson (dc_workspace content))])"

definition delegationWorkspaceLineageIdentity ::
  "platform \<Rightarrow> string \<Rightarrow> string \<Rightarrow> string option \<Rightarrow> string option \<Rightarrow> delegation_failure + string" where
  "delegationWorkspaceLineageIdentity p parentRunId repositoryIdentity sourceStateSha256 workspaceFingerprint =
     hashJson p (JObject
       [(js ''kind'', JText ''delegation_parent_workspace_lineage_v1''), (js ''parent_run_id'', JText parentRunId),
        (js ''repository_identity'', JText repositoryIdentity), (js ''source_state_sha256'', JOpt JText sourceStateSha256),
        (js ''workspace_fingerprint'', JOpt JText workspaceFingerprint)])"

section \<open>The encoding never throws\<close>

fun jsonDefined :: "json \<Rightarrow> bool" where
  "jsonDefined JUndefined = False"
| "jsonDefined JNonFinite = False"
| "jsonDefined (JArray vs) = list_all jsonDefined vs"
| "jsonDefined (JObject fs) = list_all (\<lambda>(k, v). jsonDefined v) fs"
| "jsonDefined _ = True"

lemma canonicalJson_defined: "jsonDefined v \<Longrightarrow> \<exists>s. canonicalJson v = Inr s"
proof (induction v rule: jsonDefined.induct)
  case (3 vs)
  then show ?case by (intro canonicalJson_array_total) (auto simp: list_all_iff)
next
  case (4 fs)
  then show ?case by (intro canonicalJson_object_total) (auto simp: list_all_iff)
qed auto

lemma jsonDefined_JOpt [simp]: "(\<And>x. jsonDefined (f x)) \<Longrightarrow> jsonDefined (JOpt f v)"
  by (simp add: JOpt_def split: option.splits)

lemma json_defined:
  "jsonDefined (delegationBindingJson b)" "jsonDefined (modelRequestJson m)" "jsonDefined (delegationJson v)"
proof -
  show b: "jsonDefined (delegationBindingJson b)" for b by (simp add: delegationBindingJson_def)
  show m: "jsonDefined (modelRequestJson m)" for m by (cases m) simp_all
  have "jsonDefined (budgetJson x)" for x by (simp add: budgetJson_def split: option.splits)
  then show "jsonDefined (delegationJson v)"
    by (simp add: delegationJson_def expectedReceiptJson_def contextRequestJson_def authorityRequestJson_def
        workspaceRequestJson_def retryJson_def list_all_iff b m)
qed

lemma encodeDelegation_total: obtains s where "encodeDelegation v = Inr s"
  using canonicalJson_defined [OF json_defined(3), of v] that by (auto simp: encodeDelegation_def)

section \<open>The order of the lists does not matter\<close>

text \<open>\<open>sameContent\<close>: two revisions that differ only in the order of their lists.\<close>

definition bare :: "delegation_content \<Rightarrow> delegation_content" where
  "bare v = v
     \<lparr>expectedReceipt := (expectedReceipt v)\<lparr>er_requiredClaims := []\<rparr>,
      contextRequest := (contextRequest v)\<lparr>includeApprovedPlanItems := [], includeParentFacts := [], requestedPaths := []\<rparr>,
      authorityRequest := (authorityRequest v)\<lparr>toolIds := [], capabilityIds := []\<rparr>,
      dc_workspace := (dc_workspace v)\<lparr>wr_declaredPathPrefixes := []\<rparr>\<rparr>"

definition sameContent :: "delegation_content \<Rightarrow> delegation_content \<Rightarrow> bool" where
  "sameContent v w \<longleftrightarrow> bare v = bare w \<and>
     mset (er_requiredClaims (expectedReceipt v)) = mset (er_requiredClaims (expectedReceipt w)) \<and>
     mset (includeApprovedPlanItems (contextRequest v)) = mset (includeApprovedPlanItems (contextRequest w)) \<and>
     mset (includeParentFacts (contextRequest v)) = mset (includeParentFacts (contextRequest w)) \<and>
     mset (requestedPaths (contextRequest v)) = mset (requestedPaths (contextRequest w)) \<and>
     mset (toolIds (authorityRequest v)) = mset (toolIds (authorityRequest w)) \<and>
     mset (capabilityIds (authorityRequest v)) = mset (capabilityIds (authorityRequest w)) \<and>
     mset (wr_declaredPathPrefixes (dc_workspace v)) = mset (wr_declaredPathPrefixes (dc_workspace w))"

lemma unit_of_char: "unat (of_nat (of_char c) :: code_unit) = of_char c"
  by (simp add: unat_of_nat) (rule mod_less, rule less_trans [OF nat_of_char_less_256], simp)

lemma inj_js: "inj js"
proof (rule injI)
  fix s t :: string assume "js s = js t"
  then have "map (\<lambda>c. unat (of_nat (of_char c) :: code_unit)) s = map (\<lambda>c. unat (of_nat (of_char c) :: code_unit)) t"
    unfolding js_def by (metis (mono_tags, lifting) list.map_comp comp_apply map_eq_conv)
  then have "map (of_char :: char \<Rightarrow> nat) s = map of_char t" by (simp only: unit_of_char)
  then show "s = t" by (rule map_injective) (simp add: inj_def)
qed

lemma sort_key_mset:
  "mset xs = mset ys \<Longrightarrow> inj_on f (set xs) \<Longrightarrow> sort_key f xs = sort_key (f :: _ \<Rightarrow> 'b :: linorder) ys"
  by (rule sort_key_inj_key_eq) simp_all

lemma noDuplicates_distinct: "noDuplicates xs \<longleftrightarrow> distinct xs"
  by (auto simp: noDuplicates_def card_distinct distinct_card)

lemma mset_list_eqs:
  assumes "mset xs = mset ys"
  shows "length xs = length ys" "set xs = set ys" "list_all P xs = list_all P ys" "list_ex P xs = list_ex P ys"
    "distinct (map f xs) = distinct (map f ys)" "distinct xs = distinct ys" "length (filter P xs) = length (filter P ys)"
proof -
  show "length xs = length ys" "set xs = set ys" "distinct xs = distinct ys"
    using assms by (auto dest: mset_eq_length mset_eq_setD mset_eq_imp_distinct_iff)
  then show "list_all P xs = list_all P ys" "list_ex P xs = list_ex P ys" by (simp_all add: list_all_iff list_ex_iff)
  show "distinct (map f xs) = distinct (map f ys)" using assms by (intro mset_eq_imp_distinct_iff) simp
  show "length (filter P xs) = length (filter P ys)" by (rule mset_eq_length) (simp add: assms mset_filter)
qed

lemma sameContent_fields:
  assumes "sameContent v w"
  shows "dc_sequence w = dc_sequence v" "dc_title w = dc_title v" "dc_objective w = dc_objective v" "dc_budget w = dc_budget v"
    "dc_model w = dc_model v" "dc_retry w = dc_retry v" "dc_delegationId w = dc_delegationId v" "dc_binding w = dc_binding v"
    "er_kind (expectedReceipt w) = er_kind (expectedReceipt v)" "maximumCapsuleBytes (contextRequest w) = maximumCapsuleBytes (contextRequest v)"
    "taskProfile (authorityRequest w) = taskProfile (authorityRequest v)"
    "sourceSnapshotSha256 (dc_workspace w) = sourceSnapshotSha256 (dc_workspace v)"
    "managedWorkspaceId (dc_workspace w) = managedWorkspaceId (dc_workspace v)"
proof -
  have b: "bare w = bare v" using assms by (simp add: sameContent_def)
  note e = arg_cong [OF b, of "dc_sequence"]
    arg_cong [OF b, of "dc_title"]
    arg_cong [OF b, of "dc_objective"]
    arg_cong [OF b, of "dc_budget"]
    arg_cong [OF b, of "dc_model"]
    arg_cong [OF b, of "dc_retry"]
    arg_cong [OF b, of "dc_delegationId"]
    arg_cong [OF b, of "dc_binding"]
    arg_cong [OF b, of "\<lambda>x. er_kind (expectedReceipt x)"]
    arg_cong [OF b, of "\<lambda>x. maximumCapsuleBytes (contextRequest x)"]
    arg_cong [OF b, of "\<lambda>x. taskProfile (authorityRequest x)"]
    arg_cong [OF b, of "\<lambda>x. sourceSnapshotSha256 (dc_workspace x)"]
    arg_cong [OF b, of "\<lambda>x. managedWorkspaceId (dc_workspace x)"]
  from e show "dc_sequence w = dc_sequence v" "dc_title w = dc_title v" "dc_objective w = dc_objective v" "dc_budget w = dc_budget v"
    "dc_model w = dc_model v" "dc_retry w = dc_retry v" "dc_delegationId w = dc_delegationId v" "dc_binding w = dc_binding v"
    "er_kind (expectedReceipt w) = er_kind (expectedReceipt v)" "maximumCapsuleBytes (contextRequest w) = maximumCapsuleBytes (contextRequest v)"
    "taskProfile (authorityRequest w) = taskProfile (authorityRequest v)"
    "sourceSnapshotSha256 (dc_workspace w) = sourceSnapshotSha256 (dc_workspace v)"
    "managedWorkspaceId (dc_workspace w) = managedWorkspaceId (dc_workspace v)"
    by (simp_all add: bare_def)
qed

lemma sameContent_schemas:
  assumes "sameContent v w"
  shows "delegationExpectedReceiptSchema (expectedReceipt w) = delegationExpectedReceiptSchema (expectedReceipt v)"
    "delegationContextRequestSchema p (contextRequest w) = delegationContextRequestSchema p (contextRequest v)"
    "delegationAuthorityRequestSchema (authorityRequest w) = delegationAuthorityRequestSchema (authorityRequest v)"
    "delegationWorkspaceRequestSchema p (dc_workspace w) = delegationWorkspaceRequestSchema p (dc_workspace v)"
    "validateRevisionSemantics w = validateRevisionSemantics v"
proof -
  note f = sameContent_fields [OF assms]
  from assms have m: "mset (er_requiredClaims (expectedReceipt w)) = mset (er_requiredClaims (expectedReceipt v))"
    "mset (includeApprovedPlanItems (contextRequest w)) = mset (includeApprovedPlanItems (contextRequest v))"
    "mset (includeParentFacts (contextRequest w)) = mset (includeParentFacts (contextRequest v))"
    "mset (requestedPaths (contextRequest w)) = mset (requestedPaths (contextRequest v))"
    "mset (toolIds (authorityRequest w)) = mset (toolIds (authorityRequest v))"
    "mset (capabilityIds (authorityRequest w)) = mset (capabilityIds (authorityRequest v))"
    "mset (wr_declaredPathPrefixes (dc_workspace w)) = mset (wr_declaredPathPrefixes (dc_workspace v))"
    by (simp_all add: sameContent_def)
  show "delegationExpectedReceiptSchema (expectedReceipt w) = delegationExpectedReceiptSchema (expectedReceipt v)"
    unfolding delegationExpectedReceiptSchema_def requiredOfKind_def noDuplicates_distinct f mset_list_eqs [OF m(1)] ..
  show "delegationContextRequestSchema p (contextRequest w) = delegationContextRequestSchema p (contextRequest v)"
    unfolding delegationContextRequestSchema_def pathArray_def noDuplicates_distinct f mset_list_eqs [OF m(2)] mset_list_eqs [OF m(3)]
      mset_list_eqs [OF m(4)] ..
  show "delegationAuthorityRequestSchema (authorityRequest w) = delegationAuthorityRequestSchema (authorityRequest v)"
    unfolding delegationAuthorityRequestSchema_def noDuplicates_distinct f mset_list_eqs [OF m(5)] mset_list_eqs [OF m(6)] ..
  show "delegationWorkspaceRequestSchema p (dc_workspace w) = delegationWorkspaceRequestSchema p (dc_workspace v)"
    unfolding delegationWorkspaceRequestSchema_def pathArray_def f mset_list_eqs [OF m(7)] ..
  show "validateRevisionSemantics w = validateRevisionSemantics v"
    unfolding validateRevisionSemantics_def f mset_list_eqs [OF m(4)] mset_list_eqs [OF m(5)] mset_list_eqs [OF m(7)] ..
qed

lemma sameContent_schema: "sameContent v w \<Longrightarrow> delegationRevisionContentSchema p w = delegationRevisionContentSchema p v"
  by (simp add: delegationRevisionContentSchema_def sameContent_fields sameContent_schemas [of v w])

lemma sameContent_canonicalized: "sameContent v (canonicalized v)"
  by (simp add: sameContent_def bare_def canonicalized_def sortIds_def)

lemma sameContent_normal:
  assumes "sameContent v w" "delegationRevisionContentSchema p v"
  shows "canonicalized v = canonicalized w"
proof -
  have d: "inj_on (\<lambda>c. js (ec_claimId c)) (set (er_requiredClaims (expectedReceipt v)))"
    "inj_on factKey (set (includeParentFacts (contextRequest v)))"
    using assms(2) inj_js
    by (auto simp: delegationRevisionContentSchema_def delegationExpectedReceiptSchema_def delegationContextRequestSchema_def
        noDuplicates_distinct distinct_map inj_on_def dest: injD)
  have ids: "inj_on js (set xs)" for xs by (rule inj_on_subset [OF inj_js]) simp
  from assms(1) have "sort_key (\<lambda>c. js (ec_claimId c)) (er_requiredClaims (expectedReceipt v)) = sort_key (\<lambda>c. js (ec_claimId c)) (er_requiredClaims (expectedReceipt w))"
    "sort_key factKey (includeParentFacts (contextRequest v)) = sort_key factKey (includeParentFacts (contextRequest w))"
    "sortIds (includeApprovedPlanItems (contextRequest v)) = sortIds (includeApprovedPlanItems (contextRequest w))"
    "sortIds (toolIds (authorityRequest v)) = sortIds (toolIds (authorityRequest w))"
    "sortIds (capabilityIds (authorityRequest v)) = sortIds (capabilityIds (authorityRequest w))"
    "sort (requestedPaths (contextRequest v)) = sort (requestedPaths (contextRequest w))"
    "sort (wr_declaredPathPrefixes (dc_workspace v)) = sort (wr_declaredPathPrefixes (dc_workspace w))"
    unfolding sameContent_def sortIds_def by (blast intro: sort_key_mset d ids inj_on_id2)+
  then show ?thesis
    using sameContent_fields [OF assms(1)] unfolding canonicalized_def by simp
qed

lemma sort_key_idem: "sort_key f (sort_key f xs) = sort_key (f :: _ \<Rightarrow> 'b :: linorder) xs"
  by (simp add: sort_key_id_if_sorted)

lemma canonicalized_idem: "canonicalized (canonicalized v) = canonicalized v"
  by (simp add: canonicalized_def sortIds_def sort_key_idem)

text \<open>Normalising can fail only on a revision the schema refuses or one that is too large.\<close>

lemma normalize_Inr:
  assumes "normalizeDelegationRevision p v = Inr n"
  shows "n = canonicalized v" "delegationRevisionContentSchema p v" "delegationRevisionContentSchema p n"
    "normalizeDelegationRevision p n = Inr n"
  using assms by (auto simp: normalizeDelegationRevision_def parseDelegation_def err_simps canonicalized_idem split: if_splits)

lemma sameContent_identity:
  assumes "sameContent v w" "delegationRevisionContentSchema p v"
  shows "canonicalDelegationIdentity p v = canonicalDelegationIdentity p w"
  using assms sameContent_schema [OF assms(1), of p] sameContent_normal [OF assms]
  by (simp add: canonicalDelegationIdentity_def normalizeDelegationRevision_def parseDelegation_def)

end
