(* ===== verification/DelegationProjector.thy ===== *)
theory DelegationProjector
  imports DelegationSchema
begin

text \<open>
  The delegation projector (\<^verbatim>\<open>src/src/delegation/delegation-projector.ts\<close>) with the payloads
  it reads (\<^verbatim>\<open>delegation-event-schema.ts\<close>).

  A \<open>delegation_event\<close> is a stored event whose delegation payload, if its type is one of the
  projector's, is \<open>ddata\<close>; a \<^verbatim>\<open>run.started\<close> event of a delegated child carries its
  \<^verbatim>\<open>delegated_child_binding\<close> there.  The closure variables of \<^verbatim>\<open>project\<close> are the record
  \<open>dg_state\<close>; a revision object, shared by \<^verbatim>\<open>revisions\<close> and \<^verbatim>\<open>byKey\<close>, is its position in
  the list.  A \<^verbatim>\<open>Map\<close> whose order is observed is an association list.  Each \<^verbatim>\<open>case\<close> of
  the loop is one definition.
\<close>

section \<open>Payloads\<close>

record dg_target =
  tg_delegation_id :: string
  tg_delegation_revision :: nat
  tg_delegation_sha256 :: string
  tg_parent_actor_id :: string
  tg_parent_run_id :: string

datatype origin_kind = origin_model | origin_host
datatype origin_surface = surface_tool | surface_internal

text \<open>An origin: the model or the host, or a persisted user action, kept as its JSON object.\<close>

datatype dg_origin = HostOrigin origin_kind origin_surface | UserActionOrigin json

definition originJson :: "dg_origin \<Rightarrow> json" where
  "originJson origin = (case origin of
     HostOrigin kind surface \<Rightarrow> JObject
       [(js ''kind'', JText (if kind = origin_model then ''model'' else ''host'')),
        (js ''input_surface'', JText (if surface = surface_tool then ''tool'' else ''internal''))]
   | UserActionOrigin v \<Rightarrow> v)"

record dg_revision_data =
  rd_target :: dg_target
  rd_artifact :: graph_artifact
  rd_authority_preview_sha256 :: string
  rd_binding :: delegation_binding
  rd_content :: delegation_content

record dg_decision_data =
  dd_target :: dg_target
  dd_approval_identity_sha256 :: string
  dd_authority_preview_sha256 :: string
  dd_approved :: bool
  dd_decision_request_id :: string
  dd_display_artifact :: graph_artifact
  dd_revision_event_id :: string

record dg_pre_effect_data =
  pe_target :: dg_target
  pe_cancel_request_event_id :: string
  pe_cancel_request_id :: string
  pe_child :: "(string \<times> string) option" \<comment> \<open>child_attempt_id with operation_id\<close>
  pe_origin :: dg_origin
  pe_action_kind :: string

record dg_envelope =
  contextCapsule :: graph_artifact
  contextCapsuleSha256 :: string
  envelope :: graph_artifact
  envelopeSha256 :: string

record dg_launch_data =
  la_target :: dg_target
  la_child_actor_id :: string
  la_child_attempt_id :: string
  la_child_attempt_number :: nat
  la_envelope_sha256 :: string
  la_prepared_envelope_sha256 :: string
  la_operation_id :: string
  la_operation_nonce_sha256 :: string

record dg_started_data =
  sd_target :: dg_target
  sd_child_actor_id :: string
  sd_child_attempt_id :: string
  sd_child_attempt_number :: nat
  sd_child_run_id :: string
  sd_envelope_sha256 :: string
  sd_operation_id :: string

record dg_approval =
  ap_actionDigest :: string
  ap_actionKind :: string
  ap_approvalRequestId :: string
  ap_childActorId :: string
  ap_childAttemptId :: string
  ap_delegationId :: string
  ap_workspaceId :: "string option"

datatype child_terminal = ct_succeeded | ct_known_failed | ct_pre_effect_infrastructure_failure | ct_cancelled_clean |
  ct_blocked_unknown_effect

record dg_terminal_data =
  td_target :: dg_target
  td_budget_usage :: task_budget_counters
  td_child_actor_id :: string
  td_child_attempt_id :: string
  td_child_run_id :: string
  td_operation_id :: string
  td_terminal :: child_terminal
  td_unresolved_effect_ids :: "jsstring list"

datatype effect_observed = observed_applied | observed_not_applied | observed_unknown
datatype receipt_status = receipt_succeeded | receipt_failed | receipt_blocked | receipt_cancelled
datatype claim_status = claim_verified | claim_unverified | claim_stale

record dg_receipt_data =
  rc_target :: dg_target
  rc_child_attempt_id :: string
  rc_claim_statuses :: "(string \<times> claim_status) list"
  rc_receipt_artifact :: graph_artifact
  rc_receipt_sha256 :: string
  rc_status :: receipt_status
  rc_terminal_event_id :: string

record dg_settlement =
  st_held :: task_budget_counters
  st_released :: task_budget_counters
  st_used :: task_budget_counters

datatype actor_kind = parent_actor | child_actor

record actor_slot =
  sl_actorId :: string
  sl_actorKind :: actor_kind
  sl_claimId :: string
  sl_groupId :: string
  sl_slot :: nat

datatype claim_access = access_read | access_write

record conflict_claim =
  cc_access :: claim_access
  cc_actorId :: string
  cc_claimId :: string
  cc_groupId :: string
  cc_pathPrefixes :: "jsstring list"
  cc_repositoryId :: string
  cc_sourceLineageId :: string
  cc_sourceSnapshotSha256 :: string
  cc_workspaceId :: "string option"

datatype barrier_outcome = barrier_completed | barrier_blocked | barrier_cancelled

record child_binding =
  bi_delegation_id :: string
  bi_delegation_revision :: nat
  bi_delegation_sha256 :: string
  bi_actor_id :: string
  bi_child_attempt_id :: string
  bi_child_attempt_number :: nat
  bi_parent_actor_id :: string
  bi_parent_run_id :: string
  bi_envelope_sha256 :: string
  bi_operation_nonce_sha256 :: string

datatype (plugins only: code size) delegation_data =
    RevisionProposed dg_revision_data
  | RevisionReplaced dg_revision_data nat string \<comment> \<open>base_revision, base_sha256\<close>
  | DecisionRecorded dg_decision_data
  | Queued dg_target
  | CancelRequested dg_target string "string option" dg_origin \<comment> \<open>request id, root event, origin\<close>
  | Cancelled dg_target string
  | OwnerPreEffectTerminal dg_pre_effect_data
  | Stale dg_target
  | EnvelopePrepared dg_target dg_envelope
  | ResumeRequested dg_target
  | BarrierRequested string string string "string list" \<comment> \<open>barrier, parent actor, parent run, required\<close>
  | BarrierSuspended string string string
  | BarrierReleased string string string "string list" barrier_outcome
  | BudgetReserved dg_target string string task_budget_counters \<comment> \<open>attempt, reservation, reserved\<close>
  | ChildLaunchRequested dg_launch_data
  | ChildStarted dg_started_data
  | ChildApprovalWaiting dg_target dg_approval
  | ChildTerminal dg_terminal_data
  | EffectReconciled dg_target string jsstring effect_observed \<comment> \<open>attempt, effect\<close>
  | ReceiptReady dg_receipt_data
  | ReceiptAccepted dg_target string string string \<comment> \<open>receipt artifact, sha256, ready event\<close>
  | BudgetSettled dg_target string string dg_settlement \<comment> \<open>attempt, reservation\<close>
  | ActorSlotClaimed actor_slot
  | ActorSlotReleased string string string \<comment> \<open>actor, claim, group\<close>
  | ConflictClaimGranted conflict_claim
  | ConflictClaimReleased string string string
  | GroupLeaseAcquired string string \<comment> \<open>group, nonce\<close>
  | GroupTakeover string string string \<comment> \<open>group, new nonce, previous nonce\<close>
  | Blocked dg_target string
  | DelegatedRunStarted child_binding

record delegation_event = stored_event +
  ddata :: "delegation_data option"

section \<open>State\<close>

datatype dg_status =
    dg_draft | dg_approved | dg_queued | dg_active | dg_waiting_approval | dg_cancelling | dg_reconciling
  | dg_receipt_ready | dg_accepted | dg_failed | dg_blocked | dg_cancelled | dg_stale | dg_rejected | dg_superseded

record dg_attempt =
  dat_attemptId :: string
  dat_attemptNumber :: "nat option"
  dat_actorId :: "string option"
  dat_childRunId :: "string option"
  dat_executableEnvelopeSha256 :: "string option"
  dat_operationId :: "string option"
  dat_reservationId :: string
  dat_budgetUsage :: "task_budget_counters option"
  dat_budgetSettlementEventId :: "string option"
  dat_startedEventId :: "string option"
  dat_terminalEventId :: "string option"
  dat_terminal :: "child_terminal option"
  dat_unresolvedEffectIds :: "jsstring list"

record dg_receipt =
  rp_acceptedEventId :: "string option"
  rp_artifact :: graph_artifact
  rp_claimStatuses :: "(string \<times> claim_status) list"
  rp_readyEventId :: string
  rp_sha256 :: string
  rp_status :: receipt_status

record dg_revision =
  dr_artifact :: graph_artifact
  dr_attempts :: "dg_attempt list"
  dr_blockerCodes :: "string list"
  dr_authorityPreviewSha256 :: string
  dr_binding :: delegation_binding
  dr_content :: delegation_content
  dr_createdEventId :: string
  dr_decisionEventId :: "string option"
  dr_delegationId :: string
  dr_delegationRevision :: nat
  dr_delegationSha256 :: string
  dr_envelope :: "dg_envelope option"
  dr_envelopePreparationCount :: nat
  dr_parentActorId :: string
  dr_parentRunId :: string
  dr_receipt :: "dg_receipt option"
  dr_status :: dg_status
  dr_terminalEventId :: "string option"

datatype barrier_status = bs_requested | bs_suspended | bs_released

record dg_barrier =
  ba_barrierId :: string
  ba_parentActorId :: string
  ba_parentRunId :: string
  ba_requiredDelegationIds :: "string list"
  ba_receiptSha256s :: "string list"
  ba_status :: barrier_status
  ba_terminalStatus :: "barrier_outcome option"

record cancel_record =
  cq_delegationKey :: "string \<times> nat"
  cq_eventId :: string
  cq_origin :: dg_origin
  cq_rootEventId :: "string option"

record dg_state =
  ds_revisions :: "dg_revision list"
  ds_slots :: "(string \<times> actor_slot) list"
  ds_claims :: "(string \<times> conflict_claim) list"
  ds_barriers :: "(string \<times> dg_barrier) list"
  ds_leases :: "string \<rightharpoonup> string"
  ds_waiting :: "(string \<times> dg_approval) list"
  ds_reservations :: "(string \<times> task_budget_counters) list"
  ds_cancels :: "string \<rightharpoonup> cancel_record"
  ds_settlements :: "string \<rightharpoonup> dg_settlement"
  ds_maxChildren :: nat
  ds_takeovers :: nat

definition dg_init :: dg_state where
  "dg_init = \<lparr>ds_revisions = [], ds_slots = [], ds_claims = [], ds_barriers = [], ds_leases = Map.empty, ds_waiting = [],
     ds_reservations = [], ds_cancels = Map.empty, ds_settlements = Map.empty, ds_maxChildren = 0, ds_takeovers = 0\<rparr>"

type_synonym dg_result = "delegation_failure + dg_state"

abbreviation dfail :: "delegation_error_code \<Rightarrow> delegation_failure + 'a" where
  "dfail c \<equiv> Inl (DelegationFailure c)"

section \<open>Helpers\<close>

definition updateRev :: "nat \<Rightarrow> (dg_revision \<Rightarrow> dg_revision) \<Rightarrow> dg_state \<Rightarrow> dg_state" where
  "updateRev i f s = s\<lparr>ds_revisions := (ds_revisions s)[i := f (ds_revisions s ! i)]\<rparr>"

definition updateAtt :: "nat \<Rightarrow> (dg_attempt \<Rightarrow> dg_attempt) \<Rightarrow> dg_revision \<Rightarrow> dg_revision" where
  "updateAtt j f r = r\<lparr>dr_attempts := (dr_attempts r)[j := f (dr_attempts r ! j)]\<rparr>"

text \<open>
  \<^verbatim>\<open>byKey\<close> is set together with every push, and only for keys it does not hold; a lookup is the
  position of the revision with that key.
\<close>

definition revAt :: "dg_state \<Rightarrow> string \<Rightarrow> nat \<Rightarrow> nat option" where
  "revAt s i n = findIndex (\<lambda>r. dr_delegationId r = i \<and> dr_delegationRevision r = n) (ds_revisions s)"

definition exact :: "dg_target \<Rightarrow> dg_state \<Rightarrow> delegation_failure + nat" where
  "exact target s = (case revAt s (tg_delegation_id target) (tg_delegation_revision target) of
     None \<Rightarrow> dfail delegation_revision_conflict
   | Some i \<Rightarrow>
       let found = ds_revisions s ! i in
       if dr_delegationSha256 found \<noteq> tg_delegation_sha256 target \<or> dr_parentActorId found \<noteq> tg_parent_actor_id target \<or>
          dr_parentRunId found \<noteq> tg_parent_run_id target
       then dfail delegation_revision_conflict else Inr i)"

definition exactAttempt :: "dg_revision \<Rightarrow> string \<Rightarrow> delegation_failure + nat" where
  "exactAttempt revision attemptId =
     orelse_throw (findIndex (\<lambda>a. dat_attemptId a = attemptId) (dr_attempts revision)) (DelegationFailure delegation_child_protocol_invalid)"

text \<open>The hash of a binding never throws: its JSON has no undefined and no non-finite value.\<close>

definition sameBinding :: "platform \<Rightarrow> delegation_binding \<Rightarrow> delegation_binding \<Rightarrow> bool" where
  "sameBinding p l r \<longleftrightarrow> hashJson p (delegationBindingJson l) = hashJson p (delegationBindingJson r)"

definition pathOverlap :: "jsstring \<Rightarrow> jsstring \<Rightarrow> bool" where
  "pathOverlap a b \<longleftrightarrow> a = [0x2e] \<or> b = [0x2e] \<or> a = b \<or> take (length b + 1) a = b @ [0x2f] \<or> take (length a + 1) b = a @ [0x2f]"

definition prefixesOverlap :: "jsstring list \<Rightarrow> jsstring list \<Rightarrow> bool" where
  "prefixesOverlap l r \<longleftrightarrow> list_ex (\<lambda>a. list_ex (pathOverlap a) r) l"

definition budgetCountersBalance ::
  "task_budget_counters \<Rightarrow> task_budget_counters \<Rightarrow> task_budget_counters \<Rightarrow> task_budget_counters \<Rightarrow> bool" where
  "budgetCountersBalance reserved used released held =
     (let ok = (\<lambda>key. key reserved = key used + key released + key held) in
      if \<not> (ok artifactBytes \<and> ok attempts \<and> ok changedBytes \<and> ok changedFiles \<and> ok commandExecutions \<and>
            ok commandOutputBytes \<and> ok durationMs \<and> ok modelSteps) then False
      else case reportedTokens reserved of
        None \<Rightarrow> reportedTokens used = None \<and> reportedTokens released = None \<and> reportedTokens held = None
      | Some r \<Rightarrow> (case reportedTokens used of
            None \<Rightarrow> reportedTokens released = Some 0 \<and> reportedTokens held = Some r
          | Some u \<Rightarrow> (case (reportedTokens released, reportedTokens held) of
                (Some l, Some h) \<Rightarrow> r = u + l + h | _ \<Rightarrow> False)))"

definition closedStatuses :: "dg_status set" where
  "closedStatuses = {dg_accepted, dg_failed, dg_blocked, dg_cancelled, dg_stale, dg_rejected, dg_superseded}"

definition automaticRetries :: "dg_revision \<Rightarrow> bool" where
  "automaticRetries r \<longleftrightarrow> length (dr_attempts r) < r_maxAttempts (dc_retry (dr_content r)) \<and>
     pre_effect_infrastructure_failure_class \<in> set (automaticOn (dc_retry (dr_content r)))"

section \<open>Revisions and decisions\<close>

definition newRevision :: "string \<Rightarrow> dg_revision_data \<Rightarrow> delegation_content \<Rightarrow> dg_revision" where
  "newRevision eid value content = \<lparr>dr_artifact = rd_artifact value, dr_attempts = [], dr_blockerCodes = [],
     dr_authorityPreviewSha256 = rd_authority_preview_sha256 value, dr_binding = dc_binding content, dr_content = content,
     dr_createdEventId = eid, dr_decisionEventId = None, dr_delegationId = tg_delegation_id (rd_target value),
     dr_delegationRevision = tg_delegation_revision (rd_target value), dr_delegationSha256 = tg_delegation_sha256 (rd_target value),
     dr_envelope = None, dr_envelopePreparationCount = 0, dr_parentActorId = tg_parent_actor_id (rd_target value),
     dr_parentRunId = tg_parent_run_id (rd_target value), dr_receipt = None, dr_status = dg_draft, dr_terminalEventId = None\<rparr>"

definition pushRev :: "dg_revision \<Rightarrow> dg_state \<Rightarrow> dg_state" where
  "pushRev r s = s\<lparr>ds_revisions := ds_revisions s @ [r]\<rparr>"

definition onProposed :: "platform \<Rightarrow> delegation_event \<Rightarrow> dg_revision_data \<Rightarrow> dg_state \<Rightarrow> dg_result" where
  "onProposed p event value s =
     (let t = rd_target value in
      if tg_delegation_revision t \<noteq> 1 \<or> revAt s (tg_delegation_id t) (tg_delegation_revision t) \<noteq> None \<or>
         list_ex (\<lambda>r. dr_delegationId r = tg_delegation_id t) (ds_revisions s)
      then dfail delegation_revision_conflict
      else ebind (canonicalDelegationIdentity p (rd_content value)) (\<lambda>identity.
        if di_delegationSha256 identity \<noteq> tg_delegation_sha256 t \<or> dc_delegationId (di_content identity) \<noteq> tg_delegation_id t \<or>
           \<not> sameBinding p (dc_binding (di_content identity)) (rd_binding value) \<or>
           db_sessionId (rd_binding value) \<noteq> sessionId event \<or> tg_parent_actor_id t \<noteq> db_parentActorId (rd_binding value) \<or>
           tg_parent_run_id t \<noteq> db_parentRunId (rd_binding value) \<or> ga_sha256 (rd_artifact value) \<noteq> tg_delegation_sha256 t \<or>
           ga_bytes (rd_artifact value) \<noteq> di_byteLength identity
        then dfail delegation_artifact_invalid
        else
          let sameParent = filter (\<lambda>r. dr_parentActorId r = tg_parent_actor_id t) (ds_revisions s) in
          if length sameParent \<ge> 8 \<or> list_ex (\<lambda>r. dc_sequence (dr_content r) = dc_sequence (di_content identity)) sameParent
          then dfail delegation_parallel_limit
          else Inr (pushRev (newRevision (eventId event) value (di_content identity)) s)))"

definition onReplaced :: "platform \<Rightarrow> delegation_event \<Rightarrow> dg_revision_data \<Rightarrow> nat \<Rightarrow> string \<Rightarrow> dg_state \<Rightarrow> dg_result" where
  "onReplaced p event value base_revision base_sha256 s =
     (let t = rd_target value in
      case revAt s (tg_delegation_id t) base_revision of
        None \<Rightarrow> dfail delegation_revision_conflict
      | Some i \<Rightarrow>
          let base = ds_revisions s ! i in
          if dr_delegationSha256 base \<noteq> base_sha256 \<or> dr_status base \<noteq> dg_draft \<or>
             tg_delegation_revision t \<noteq> dr_delegationRevision base + 1 \<or>
             revAt s (tg_delegation_id t) (tg_delegation_revision t) \<noteq> None
          then dfail delegation_revision_conflict
          else ebind (canonicalDelegationIdentity p (rd_content value)) (\<lambda>identity.
            if di_delegationSha256 identity \<noteq> tg_delegation_sha256 t \<or> dc_delegationId (di_content identity) \<noteq> dr_delegationId base \<or>
               \<not> sameBinding p (dc_binding (di_content identity)) (dr_binding base) \<or>
               \<not> sameBinding p (rd_binding value) (dr_binding base) \<or>
               tg_parent_actor_id t \<noteq> dr_parentActorId base \<or> tg_parent_run_id t \<noteq> dr_parentRunId base \<or>
               ga_sha256 (rd_artifact value) \<noteq> tg_delegation_sha256 t \<or> ga_bytes (rd_artifact value) \<noteq> di_byteLength identity
            then dfail delegation_binding_stale
            else Inr (pushRev (newRevision (eventId event) value (di_content identity))
                   (updateRev i (\<lambda>r. r\<lparr>dr_status := dg_superseded\<rparr>) s))))"

definition onDecision :: "platform \<Rightarrow> delegation_event \<Rightarrow> dg_decision_data \<Rightarrow> dg_state \<Rightarrow> dg_result" where
  "onDecision p event value s =
     ebind (exact (dd_target value) s) (\<lambda>i.
       let revision = ds_revisions s ! i in
       if dr_status revision \<noteq> dg_draft \<or> dr_decisionEventId revision \<noteq> None \<or>
          dd_revision_event_id value \<noteq> dr_createdEventId revision \<or>
          dd_authority_preview_sha256 value \<noteq> dr_authorityPreviewSha256 revision
       then dfail delegation_decision_mismatch
       else ebind (delegationApprovalIdentity p (dd_decision_request_id value) (dr_binding revision) (dr_delegationId revision)
              (dr_delegationRevision revision) (dr_delegationSha256 revision) (ga_sha256 (dd_display_artifact value))) (\<lambda>expected.
         if expected \<noteq> dd_approval_identity_sha256 value then dfail delegation_decision_mismatch
         else Inr (updateRev i (\<lambda>r. r\<lparr>dr_decisionEventId := Some (eventId event),
                dr_status := (if dd_approved value then dg_approved else dg_rejected),
                dr_terminalEventId := (if dd_approved value then dr_terminalEventId r else Some (eventId event))\<rparr>) s)))"

definition onQueued :: "dg_target \<Rightarrow> dg_state \<Rightarrow> dg_result" where
  "onQueued t s = ebind (exact t s) (\<lambda>i.
     if dr_status (ds_revisions s ! i) \<noteq> dg_approved then dfail delegation_revision_conflict
     else Inr (updateRev i (\<lambda>r. r\<lparr>dr_status := dg_queued\<rparr>) s))"

definition lastOpt :: "'a list \<Rightarrow> 'a option" where
  "lastOpt xs = (if xs = [] then None else Some (last xs))"

definition retryPreparation :: "dg_revision \<Rightarrow> bool" where
  "retryPreparation r \<longleftrightarrow> dr_status r = dg_queued \<and> dr_envelope r \<noteq> None \<and> dr_envelopePreparationCount r = 1 \<and>
     (case lastOpt (dr_attempts r) of None \<Rightarrow> False
      | Some a \<Rightarrow> dat_terminal a = Some ct_pre_effect_infrastructure_failure \<and> dat_budgetSettlementEventId a \<noteq> None) \<and>
     automaticRetries r"

definition initialPreparation :: "dg_revision \<Rightarrow> bool" where
  "initialPreparation r \<longleftrightarrow> (dr_status r = dg_approved \<or> dr_status r = dg_queued) \<and> dr_envelope r = None \<and>
     dr_envelopePreparationCount r = 0"

definition onEnvelope :: "dg_target \<Rightarrow> dg_envelope \<Rightarrow> dg_state \<Rightarrow> dg_result" where
  "onEnvelope t value s = ebind (exact t s) (\<lambda>i.
     let revision = ds_revisions s ! i in
     if \<not> initialPreparation revision \<and> \<not> retryPreparation revision then dfail delegation_revision_conflict
     else if retryPreparation revision \<and>
         (map_option envelopeSha256 (dr_envelope revision) = Some (envelopeSha256 value) \<or>
          map_option contextCapsuleSha256 (dr_envelope revision) = Some (contextCapsuleSha256 value))
     then dfail delegation_binding_stale
     else Inr (updateRev i (\<lambda>r. r\<lparr>dr_envelope := Some value, dr_envelopePreparationCount := dr_envelopePreparationCount r + 1\<rparr>) s))"

section \<open>Attempts\<close>

definition reservedAttempt :: "string \<Rightarrow> string \<Rightarrow> dg_attempt" where
  "reservedAttempt attemptId reservationId = \<lparr>dat_attemptId = attemptId, dat_attemptNumber = None, dat_actorId = None,
     dat_childRunId = None, dat_executableEnvelopeSha256 = None, dat_operationId = None, dat_reservationId = reservationId,
     dat_budgetUsage = None, dat_budgetSettlementEventId = None, dat_startedEventId = None, dat_terminalEventId = None,
     dat_terminal = None, dat_unresolvedEffectIds = []\<rparr>"

definition onReserved :: "dg_target \<Rightarrow> string \<Rightarrow> string \<Rightarrow> task_budget_counters \<Rightarrow> dg_state \<Rightarrow> dg_result" where
  "onReserved t attemptId reservationId amount s = ebind (exact t s) (\<lambda>i.
     let revision = ds_revisions s ! i in
     if dr_status revision \<noteq> dg_queued \<or> dr_envelope revision = None \<or>
        length (dr_attempts revision) \<ge> r_maxAttempts (dc_retry (dr_content revision))
     then dfail delegation_budget_exhausted
     else if list_ex (\<lambda>a. dat_terminal a = None) (dr_attempts revision) then dfail delegation_parallel_limit
     else if map_of (ds_reservations s) reservationId \<noteq> None then dfail delegation_budget_exhausted
     else Inr (updateRev i (\<lambda>r. r\<lparr>dr_attempts := dr_attempts r @ [reservedAttempt attemptId reservationId]\<rparr>)
            (s\<lparr>ds_reservations := AList.update reservationId amount (ds_reservations s)\<rparr>)))"

definition onLaunch :: "dg_launch_data \<Rightarrow> dg_state \<Rightarrow> dg_result" where
  "onLaunch value s = ebind (exact (la_target value) s) (\<lambda>i.
     let revision = ds_revisions s ! i in
     ebind (exactAttempt revision (la_child_attempt_id value)) (\<lambda>j.
       let attempt = dr_attempts revision ! j in
       if dr_status revision \<noteq> dg_queued \<or> map_option envelopeSha256 (dr_envelope revision) \<noteq> Some (la_prepared_envelope_sha256 value) \<or>
          dat_operationId attempt \<noteq> None \<or> la_child_attempt_number value \<noteq> j + 1
       then dfail delegation_child_protocol_invalid
       else Inr (updateRev i (updateAtt j (\<lambda>a. a\<lparr>dat_actorId := Some (la_child_actor_id value),
              dat_attemptNumber := Some (la_child_attempt_number value),
              dat_executableEnvelopeSha256 := Some (la_envelope_sha256 value), dat_operationId := Some (la_operation_id value)\<rparr>)) s)))"

definition onStarted :: "delegation_event \<Rightarrow> dg_started_data \<Rightarrow> dg_state \<Rightarrow> dg_result" where
  "onStarted event value s = ebind (exact (sd_target value) s) (\<lambda>i.
     let revision = ds_revisions s ! i in
     ebind (exactAttempt revision (sd_child_attempt_id value)) (\<lambda>j.
       let attempt = dr_attempts revision ! j in
       if dr_status revision \<noteq> dg_queued \<or> dat_startedEventId attempt \<noteq> None \<or>
          dat_operationId attempt \<noteq> Some (sd_operation_id value) \<or> dat_actorId attempt \<noteq> Some (sd_child_actor_id value) \<or>
          dat_attemptNumber attempt \<noteq> Some (sd_child_attempt_number value) \<or>
          dat_executableEnvelopeSha256 attempt \<noteq> Some (sd_envelope_sha256 value)
       then dfail delegation_child_protocol_invalid
       else Inr (updateRev i (\<lambda>r. (updateAtt j (\<lambda>a. a\<lparr>dat_childRunId := Some (sd_child_run_id value),
              dat_startedEventId := Some (eventId event)\<rparr>) r)\<lparr>dr_status := dg_active\<rparr>) s)))"

definition onWaiting :: "dg_target \<Rightarrow> dg_approval \<Rightarrow> dg_state \<Rightarrow> dg_result" where
  "onWaiting t value s = ebind (exact t s) (\<lambda>i.
     let revision = ds_revisions s ! i in
     ebind (exactAttempt revision (ap_childAttemptId value)) (\<lambda>j.
       let attempt = dr_attempts revision ! j in
       if (dr_status revision \<noteq> dg_active \<and> dr_status revision \<noteq> dg_waiting_approval) \<or>
          dat_actorId attempt \<noteq> Some (ap_childActorId value) \<or> dat_startedEventId attempt = None
       then dfail delegation_child_protocol_invalid
       else if map_of (ds_waiting s) (ap_approvalRequestId value) \<noteq> None then dfail delegation_decision_mismatch
       else Inr (updateRev i (\<lambda>r. r\<lparr>dr_status := dg_waiting_approval\<rparr>)
              (s\<lparr>ds_waiting := AList.update (ap_approvalRequestId value) value (ds_waiting s)\<rparr>))))"

definition zeroExceptAttempt :: "task_budget_counters \<Rightarrow> bool" where
  "zeroExceptAttempt usage \<longleftrightarrow> attempts usage = 1 \<and> artifactBytes usage = 0 \<and> changedBytes usage = 0 \<and>
     changedFiles usage = 0 \<and> commandExecutions usage = 0 \<and> commandOutputBytes usage = 0 \<and> durationMs usage = 0 \<and>
     modelSteps usage = 0 \<and> (reportedTokens usage = Some 0 \<or> reportedTokens usage = None)"

definition terminalStatusOf :: "dg_terminal_data \<Rightarrow> dg_revision \<Rightarrow> dg_status" where
  "terminalStatusOf value r =
     (let preEffect = td_terminal value = ct_pre_effect_infrastructure_failure in
      if preEffect \<and> automaticRetries r then dg_queued
      else if preEffect then dg_failed
      else if td_terminal value = ct_blocked_unknown_effect \<or> td_unresolved_effect_ids value \<noteq> [] then dg_reconciling
      else if td_terminal value = ct_cancelled_clean then dg_cancelled
      else if td_terminal value = ct_known_failed then dg_failed
      else dg_reconciling)"

definition childTerminalOk :: "dg_terminal_data \<Rightarrow> dg_revision \<Rightarrow> dg_attempt \<Rightarrow> bool" where
  "childTerminalOk value revision attempt =
     (if td_terminal value = ct_pre_effect_infrastructure_failure
      then dr_status revision = dg_queued \<and> dat_startedEventId attempt = None \<and> dat_terminalEventId attempt = None \<and>
           dat_actorId attempt = Some (td_child_actor_id value) \<and> dat_childRunId attempt = None \<and>
           dat_operationId attempt = Some (td_operation_id value) \<and> td_unresolved_effect_ids value = [] \<and>
           zeroExceptAttempt (td_budget_usage value)
      else dr_status revision \<in> {dg_active, dg_waiting_approval, dg_cancelling, dg_reconciling} \<and>
           dat_startedEventId attempt \<noteq> None \<and> dat_terminalEventId attempt = None \<and>
           dat_actorId attempt = Some (td_child_actor_id value) \<and> dat_childRunId attempt = Some (td_child_run_id value) \<and>
           dat_operationId attempt = Some (td_operation_id value))"

text \<open>
  In the accepted case the child's run id is the payload's: it was null before a pre-effect failure
  and is set, and it is equal otherwise.
\<close>

definition onChildTerminal :: "delegation_event \<Rightarrow> dg_terminal_data \<Rightarrow> dg_state \<Rightarrow> dg_result" where
  "onChildTerminal event value s = ebind (exact (td_target value) s) (\<lambda>i.
     let revision = ds_revisions s ! i in
     ebind (exactAttempt revision (td_child_attempt_id value)) (\<lambda>j.
       if \<not> childTerminalOk value revision (dr_attempts revision ! j) then dfail delegation_child_protocol_invalid
       else Inr (updateRev i (\<lambda>r. (updateAtt j (\<lambda>a. a\<lparr>dat_childRunId := Some (td_child_run_id value),
                dat_terminal := Some (td_terminal value), dat_terminalEventId := Some (eventId event),
                dat_budgetUsage := Some (td_budget_usage value), dat_unresolvedEffectIds := td_unresolved_effect_ids value\<rparr>) r)
              \<lparr>dr_terminalEventId := Some (eventId event), dr_status := terminalStatusOf value r\<rparr>)
            (s\<lparr>ds_waiting := filter (\<lambda>(_, w). ap_childAttemptId w \<noteq> td_child_attempt_id value) (ds_waiting s)\<rparr>))))"

definition onReconciled :: "dg_target \<Rightarrow> string \<Rightarrow> jsstring \<Rightarrow> effect_observed \<Rightarrow> dg_state \<Rightarrow> dg_result" where
  "onReconciled t attemptId effectId observed s = ebind (exact t s) (\<lambda>i.
     let revision = ds_revisions s ! i in
     ebind (exactAttempt revision attemptId) (\<lambda>j.
       let attempt = dr_attempts revision ! j in
       if dat_terminalEventId attempt = None \<or> effectId \<notin> set (dat_unresolvedEffectIds attempt)
       then dfail delegation_effect_reconciliation_required
       else if observed = observed_unknown then Inr s
       else Inr (updateRev i (updateAtt j (\<lambda>a. a\<lparr>dat_unresolvedEffectIds := filter (\<lambda>e. e \<noteq> effectId) (dat_unresolvedEffectIds a)\<rparr>)) s)))"

definition onReceiptReady :: "delegation_event \<Rightarrow> dg_receipt_data \<Rightarrow> dg_state \<Rightarrow> dg_result" where
  "onReceiptReady event value s = ebind (exact (rc_target value) s) (\<lambda>i.
     let revision = ds_revisions s ! i in
     ebind (exactAttempt revision (rc_child_attempt_id value)) (\<lambda>j.
       let attempt = dr_attempts revision ! j in
       if dat_terminalEventId attempt \<noteq> Some (rc_terminal_event_id value) \<or>
          (dat_unresolvedEffectIds attempt \<noteq> [] \<and> rc_status value \<noteq> receipt_blocked) \<or> dr_receipt revision \<noteq> None
       then dfail delegation_receipt_invalid
       else Inr (updateRev i (\<lambda>r. r\<lparr>dr_receipt := Some \<lparr>rp_acceptedEventId = None, rp_artifact = rc_receipt_artifact value,
              rp_claimStatuses = rc_claim_statuses value, rp_readyEventId = eventId event, rp_sha256 = rc_receipt_sha256 value,
              rp_status = rc_status value\<rparr>, dr_status := dg_receipt_ready\<rparr>) s)))"

fun receiptOutcome :: "receipt_status \<Rightarrow> dg_status" where
  "receiptOutcome receipt_succeeded = dg_accepted"
| "receiptOutcome receipt_failed = dg_failed"
| "receiptOutcome receipt_blocked = dg_blocked"
| "receiptOutcome receipt_cancelled = dg_cancelled"

definition onReceiptAccepted :: "delegation_event \<Rightarrow> dg_target \<Rightarrow> string \<Rightarrow> string \<Rightarrow> string \<Rightarrow> dg_state \<Rightarrow> dg_result" where
  "onReceiptAccepted event t artifactId receiptSha256 readyEventId s = ebind (exact t s) (\<lambda>i.
     let revision = ds_revisions s ! i in
     case dr_receipt revision of
       None \<Rightarrow> dfail delegation_receipt_invalid
     | Some receipt \<Rightarrow>
         if dr_status revision \<noteq> dg_receipt_ready \<or> rp_readyEventId receipt \<noteq> readyEventId \<or>
            ga_artifact_id (rp_artifact receipt) \<noteq> artifactId \<or> rp_sha256 receipt \<noteq> receiptSha256
         then dfail delegation_receipt_invalid
         else Inr (updateRev i (\<lambda>r. r\<lparr>dr_receipt := Some (receipt\<lparr>rp_acceptedEventId := Some (eventId event)\<rparr>),
                dr_status := receiptOutcome (rp_status receipt)\<rparr>) s))"

definition onSettled :: "delegation_event \<Rightarrow> dg_target \<Rightarrow> string \<Rightarrow> string \<Rightarrow> dg_settlement \<Rightarrow> dg_state \<Rightarrow> dg_result" where
  "onSettled event t attemptId reservationId value s = ebind (exact t s) (\<lambda>i.
     let revision = ds_revisions s ! i in
     ebind (exactAttempt revision attemptId) (\<lambda>j.
       let attempt = dr_attempts revision ! j in
       case map_of (ds_reservations s) reservationId of
         None \<Rightarrow> dfail delegation_budget_exhausted
       | Some amount \<Rightarrow>
           if dat_reservationId attempt \<noteq> reservationId \<or> dat_terminalEventId attempt = None \<or>
              ds_settlements s reservationId \<noteq> None \<or>
              \<not> budgetCountersBalance amount (st_used value) (st_released value) (st_held value)
           then dfail delegation_budget_exhausted
           else Inr (updateRev i (updateAtt j (\<lambda>a. a\<lparr>dat_budgetSettlementEventId := Some (eventId event)\<rparr>))
                  (s\<lparr>ds_settlements := (ds_settlements s)(reservationId \<mapsto> value)\<rparr>))))"

section \<open>Cancellation and closing\<close>

definition onCancelRequested :: "delegation_event \<Rightarrow> dg_target \<Rightarrow> string \<Rightarrow> string option \<Rightarrow> dg_origin \<Rightarrow> dg_state \<Rightarrow> dg_result" where
  "onCancelRequested event t requestId rootEventId origin s = ebind (exact t s) (\<lambda>i.
     let revision = ds_revisions s ! i in
     if dr_status revision \<in> closedStatuses then dfail delegation_cancelled
     else if ds_cancels s requestId \<noteq> None then dfail delegation_cancelled
     else Inr (updateRev i (\<lambda>r. r\<lparr>dr_status := dg_cancelling\<rparr>)
            (s\<lparr>ds_cancels := (ds_cancels s)(requestId \<mapsto>
               \<lparr>cq_delegationKey = (dr_delegationId revision, dr_delegationRevision revision), cq_eventId = eventId event,
                cq_origin = origin, cq_rootEventId = rootEventId\<rparr>)\<rparr>)))"

definition internalRoot :: "delegation_event list \<Rightarrow> cancel_record \<Rightarrow> dg_revision \<Rightarrow> bool" where
  "internalRoot events request revision \<longleftrightarrow> cq_origin request = HostOrigin origin_host surface_internal \<and>
     cq_rootEventId request \<noteq> None \<and>
     list_ex (\<lambda>c. Some (eventId c) = cq_rootEventId request \<and> scope c = SessionScope \<and>
       (case edata c of TaskGraphCancelRequested g \<Rightarrow>
            Some (gr_graph_id g) = db_graphId (dr_binding revision) \<and>
            Some (gr_graph_revision g) = db_graphRevision (dr_binding revision) \<and>
            Some (gr_graph_sha256 g) = db_graphSha256 (dr_binding revision)
        | _ \<Rightarrow> False)) events"

definition isHost :: "dg_origin \<Rightarrow> bool" where
  "isHost origin = (case origin of HostOrigin kind _ \<Rightarrow> kind = origin_host | _ \<Rightarrow> False)"

definition ownerActionKinds :: "string set" where
  "ownerActionKinds = {''delegation.start'', ''delegation.resume'', ''graph.run'', ''graph.resume'', ''graph.retry''}"

definition onPreEffectTerminal ::
  "platform \<Rightarrow> delegation_event list \<Rightarrow> delegation_event \<Rightarrow> dg_pre_effect_data \<Rightarrow> dg_state \<Rightarrow> dg_result" where
  "onPreEffectTerminal p events event value s = ebind (exact (pe_target value) s) (\<lambda>i.
     let revision = ds_revisions s ! i;
         attempt = Option.bind (pe_child value) (\<lambda>(a, op). findIndex (\<lambda>c. dat_attemptId c = a \<and> dat_operationId c = Some op) (dr_attempts revision))
     in case ds_cancels s (pe_cancel_request_id value) of
       None \<Rightarrow> dfail delegation_cancelled
     | Some request \<Rightarrow>
         if dr_status revision \<noteq> dg_cancelling \<or> cq_eventId request \<noteq> pe_cancel_request_event_id value \<or>
            cq_delegationKey request \<noteq> (dr_delegationId revision, dr_delegationRevision revision) \<or>
            hashJson p (originJson (cq_origin request)) \<noteq> hashJson p (originJson (pe_origin value)) \<or>
            pe_action_kind value \<notin> ownerActionKinds \<or>
            list_ex (\<lambda>a. dat_startedEventId a \<noteq> None) (dr_attempts revision) \<or>
            (isHost (pe_origin value) \<and>
              (pe_origin value \<noteq> HostOrigin origin_host surface_internal \<or> \<not> internalRoot events request revision \<or>
               (case attempt of None \<Rightarrow> True | Some j \<Rightarrow> dat_terminalEventId (dr_attempts revision ! j) \<noteq> None)))
         then dfail delegation_cancelled
         else Inr (updateRev i (\<lambda>r.
                (case attempt of None \<Rightarrow> r
                 | Some j \<Rightarrow> updateAtt j (\<lambda>a. a\<lparr>dat_terminal := Some ct_cancelled_clean, dat_terminalEventId := Some (eventId event)\<rparr>) r)
                \<lparr>dr_status := dg_cancelled, dr_terminalEventId := Some (eventId event)\<rparr>) s))"

definition onCancelled :: "delegation_event \<Rightarrow> dg_target \<Rightarrow> string \<Rightarrow> dg_state \<Rightarrow> dg_result" where
  "onCancelled event t requestId s = ebind (exact t s) (\<lambda>i.
     let revision = ds_revisions s ! i in
     if dr_status revision \<notin> {dg_cancelling, dg_reconciling, dg_cancelled} \<or>
        map_option cq_delegationKey (ds_cancels s requestId) \<noteq> Some (dr_delegationId revision, dr_delegationRevision revision)
     then dfail delegation_cancelled
     else Inr (updateRev i (\<lambda>r. r\<lparr>dr_status := dg_cancelled, dr_terminalEventId := Some (eventId event)\<rparr>) s))"

definition onStale :: "delegation_event \<Rightarrow> dg_target \<Rightarrow> dg_state \<Rightarrow> dg_result" where
  "onStale event t s = ebind (exact t s) (\<lambda>i.
     if dr_status (ds_revisions s ! i) \<in> {dg_accepted, dg_failed, dg_blocked, dg_cancelled, dg_rejected, dg_superseded}
     then dfail delegation_binding_stale
     else Inr (updateRev i (\<lambda>r. r\<lparr>dr_status := dg_stale, dr_terminalEventId := Some (eventId event)\<rparr>) s))"

definition onBlocked :: "delegation_event \<Rightarrow> dg_target \<Rightarrow> string \<Rightarrow> dg_state \<Rightarrow> dg_result" where
  "onBlocked event t code s = ebind (exact t s) (\<lambda>i.
     if dr_status (ds_revisions s ! i) \<in> closedStatuses then dfail delegation_revision_conflict
     else Inr (updateRev i (\<lambda>r. r\<lparr>dr_blockerCodes := dr_blockerCodes r @ [code], dr_status := dg_blocked,
            dr_terminalEventId := Some (eventId event)\<rparr>) s))"

section \<open>Slots, claims, barriers and leases\<close>

definition onSlotClaimed :: "actor_slot \<Rightarrow> dg_state \<Rightarrow> dg_result" where
  "onSlotClaimed value s =
     (if length (ds_slots s) \<ge> 2 \<or> map_of (ds_slots s) (sl_claimId value) \<noteq> None \<or>
         list_ex (\<lambda>(_, c). sl_groupId c = sl_groupId value \<and> (sl_slot c = sl_slot value \<or> sl_actorId c = sl_actorId value)) (ds_slots s)
      then dfail delegation_parallel_limit
      else
        let slots = AList.update (sl_claimId value) value (ds_slots s)
        in Inr (s\<lparr>ds_slots := slots,
                  ds_maxChildren := max (ds_maxChildren s) (length (filter (\<lambda>(_, c). sl_actorKind c = child_actor) slots))\<rparr>))"

definition onSlotReleased :: "string \<Rightarrow> string \<Rightarrow> string \<Rightarrow> dg_state \<Rightarrow> dg_result" where
  "onSlotReleased actorId claimId groupId s = (case map_of (ds_slots s) claimId of
     None \<Rightarrow> dfail delegation_parallel_limit
   | Some claimed \<Rightarrow>
       if sl_actorId claimed \<noteq> actorId \<or> sl_groupId claimed \<noteq> groupId then dfail delegation_parallel_limit
       else Inr (s\<lparr>ds_slots := AList.delete claimId (ds_slots s)\<rparr>))"

definition collides :: "conflict_claim \<Rightarrow> conflict_claim \<Rightarrow> bool" where
  "collides current nxt \<longleftrightarrow> cc_repositoryId current = cc_repositoryId nxt \<and> cc_sourceLineageId current = cc_sourceLineageId nxt \<and>
     (cc_access current = access_write \<or> cc_access nxt = access_write) \<and>
     prefixesOverlap (cc_pathPrefixes current) (cc_pathPrefixes nxt)"

definition onClaimGranted :: "conflict_claim \<Rightarrow> dg_state \<Rightarrow> dg_result" where
  "onClaimGranted value s =
     (if map_of (ds_claims s) (cc_claimId value) \<noteq> None then dfail delegation_workspace_conflict
      else if list_ex (\<lambda>(_, current). collides current value) (ds_claims s) then dfail delegation_workspace_conflict
      else Inr (s\<lparr>ds_claims := AList.update (cc_claimId value) value (ds_claims s)\<rparr>))"

definition onClaimReleased :: "string \<Rightarrow> string \<Rightarrow> string \<Rightarrow> dg_state \<Rightarrow> dg_result" where
  "onClaimReleased actorId claimId groupId s = (case map_of (ds_claims s) claimId of
     None \<Rightarrow> dfail delegation_workspace_conflict
   | Some claimed \<Rightarrow>
       if cc_actorId claimed \<noteq> actorId \<or> cc_groupId claimed \<noteq> groupId then dfail delegation_workspace_conflict
       else Inr (s\<lparr>ds_claims := AList.delete claimId (ds_claims s)\<rparr>))"

definition onBarrierRequested :: "string \<Rightarrow> string \<Rightarrow> string \<Rightarrow> string list \<Rightarrow> dg_state \<Rightarrow> dg_result" where
  "onBarrierRequested barrierId actorId runId required s =
     (if map_of (ds_barriers s) barrierId \<noteq> None \<or> \<not> noDuplicates required then dfail delegation_revision_conflict
      else Inr (s\<lparr>ds_barriers := AList.update barrierId \<lparr>ba_barrierId = barrierId, ba_parentActorId = actorId, ba_parentRunId = runId,
             ba_requiredDelegationIds = required, ba_receiptSha256s = [], ba_status = bs_requested, ba_terminalStatus = None\<rparr>
             (ds_barriers s)\<rparr>))"

definition onBarrierSuspended :: "string \<Rightarrow> string \<Rightarrow> string \<Rightarrow> dg_state \<Rightarrow> dg_result" where
  "onBarrierSuspended barrierId actorId runId s = (case map_of (ds_barriers s) barrierId of
     None \<Rightarrow> dfail delegation_revision_conflict
   | Some barrier \<Rightarrow>
       if ba_status barrier \<noteq> bs_requested \<or> ba_parentActorId barrier \<noteq> actorId \<or> ba_parentRunId barrier \<noteq> runId
       then dfail delegation_revision_conflict
       else Inr (s\<lparr>ds_barriers := AList.update barrierId (barrier\<lparr>ba_status := bs_suspended\<rparr>) (ds_barriers s)\<rparr>))"

text \<open>\<open>latestRevision\<close> is the last revision of a delegation, \<^verbatim>\<open>[...revisions].reverse().find(_)\<close>.\<close>

definition latestRevision :: "dg_state \<Rightarrow> string \<Rightarrow> dg_revision option" where
  "latestRevision s i = find (\<lambda>r. dr_delegationId r = i) (rev (ds_revisions s))"

definition onBarrierReleased :: "string \<Rightarrow> string \<Rightarrow> string \<Rightarrow> string list \<Rightarrow> barrier_outcome \<Rightarrow> dg_state \<Rightarrow> dg_result" where
  "onBarrierReleased barrierId actorId runId digests status s = (case map_of (ds_barriers s) barrierId of
     None \<Rightarrow> dfail delegation_revision_conflict
   | Some barrier \<Rightarrow>
       if ba_status barrier \<noteq> bs_suspended \<or> ba_parentActorId barrier \<noteq> actorId \<or> ba_parentRunId barrier \<noteq> runId
       then dfail delegation_revision_conflict
       else
         let required = map (latestRevision s) (ba_requiredDelegationIds barrier) in
         if list_ex (\<lambda>r. r = None) required \<or>
            (status = barrier_completed \<and> list_ex (\<lambda>r. map_option dr_status r \<noteq> Some dg_accepted) required) \<or>
            list_ex (\<lambda>digest. \<not> list_ex (\<lambda>r. Option.bind r (\<lambda>r. map_option rp_sha256 (dr_receipt r)) = Some digest) required) digests
         then dfail delegation_receipt_invalid
         else Inr (s\<lparr>ds_barriers := AList.update barrierId (barrier\<lparr>ba_receiptSha256s := digests, ba_status := bs_released,
                ba_terminalStatus := Some status\<rparr>) (ds_barriers s)\<rparr>))"

definition onLeaseAcquired :: "string \<Rightarrow> string \<Rightarrow> dg_state \<Rightarrow> dg_result" where
  "onLeaseAcquired groupId nonce s =
     (if ds_leases s groupId \<noteq> None then dfail delegation_lease_busy
      else Inr (s\<lparr>ds_leases := (ds_leases s)(groupId \<mapsto> nonce)\<rparr>))"

definition onTakeover :: "string \<Rightarrow> string \<Rightarrow> string \<Rightarrow> dg_state \<Rightarrow> dg_result" where
  "onTakeover groupId newNonce previousNonce s =
     (if ds_leases s groupId \<noteq> Some previousNonce then dfail delegation_lease_busy
      else Inr (s\<lparr>ds_leases := (ds_leases s)(groupId \<mapsto> newNonce), ds_takeovers := ds_takeovers s + 1\<rparr>))"

section \<open>The projector\<close>

definition delegationEvent :: "platform \<Rightarrow> delegation_event list \<Rightarrow> delegation_event \<Rightarrow> delegation_data \<Rightarrow> dg_state \<Rightarrow> dg_result" where
  "delegationEvent p events event d s = (case d of
     RevisionProposed value \<Rightarrow> onProposed p event value s
   | RevisionReplaced value n sha \<Rightarrow> onReplaced p event value n sha s
   | DecisionRecorded value \<Rightarrow> onDecision p event value s
   | Queued t \<Rightarrow> onQueued t s
   | CancelRequested t requestId root origin \<Rightarrow> onCancelRequested event t requestId root origin s
   | Cancelled t requestId \<Rightarrow> onCancelled event t requestId s
   | OwnerPreEffectTerminal value \<Rightarrow> onPreEffectTerminal p events event value s
   | Stale t \<Rightarrow> onStale event t s
   | EnvelopePrepared t value \<Rightarrow> onEnvelope t value s
   | ResumeRequested t \<Rightarrow> ebind (exact t s) (\<lambda>_. Inr s)
   | BarrierRequested b a r required \<Rightarrow> onBarrierRequested b a r required s
   | BarrierSuspended b a r \<Rightarrow> onBarrierSuspended b a r s
   | BarrierReleased b a r digests status \<Rightarrow> onBarrierReleased b a r digests status s
   | BudgetReserved t attemptId reservationId amount \<Rightarrow> onReserved t attemptId reservationId amount s
   | ChildLaunchRequested value \<Rightarrow> onLaunch value s
   | ChildStarted value \<Rightarrow> onStarted event value s
   | ChildApprovalWaiting t value \<Rightarrow> onWaiting t value s
   | ChildTerminal value \<Rightarrow> onChildTerminal event value s
   | EffectReconciled t attemptId effectId observed \<Rightarrow> onReconciled t attemptId effectId observed s
   | ReceiptReady value \<Rightarrow> onReceiptReady event value s
   | ReceiptAccepted t artifactId sha ready \<Rightarrow> onReceiptAccepted event t artifactId sha ready s
   | BudgetSettled t attemptId reservationId value \<Rightarrow> onSettled event t attemptId reservationId value s
   | ActorSlotClaimed value \<Rightarrow> onSlotClaimed value s
   | ActorSlotReleased a c g \<Rightarrow> onSlotReleased a c g s
   | ConflictClaimGranted value \<Rightarrow> onClaimGranted value s
   | ConflictClaimReleased a c g \<Rightarrow> onClaimReleased a c g s
   | GroupLeaseAcquired g nonce \<Rightarrow> onLeaseAcquired g nonce s
   | GroupTakeover g new previous \<Rightarrow> onTakeover g new previous s
   | Blocked t code \<Rightarrow> onBlocked event t code s
   | DelegatedRunStarted _ \<Rightarrow> Inr s)"

definition delegationStep :: "platform \<Rightarrow> delegation_event list \<Rightarrow> dg_state \<Rightarrow> delegation_event \<Rightarrow> dg_result" where
  "delegationStep p events s event = (case ddata event of
     Some d \<Rightarrow> if scope event = SessionScope then delegationEvent p events event d s else Inr s
   | None \<Rightarrow> Inr s)"

definition startMatches :: "string \<Rightarrow> nat \<Rightarrow> child_binding \<Rightarrow> delegation_event \<Rightarrow> dg_started_data option" where
  "startMatches runId seq binding c = (case ddata c of
     Some (ChildStarted d) \<Rightarrow>
       if scope c = SessionScope \<and> sessionSeq c < seq \<and> tg_delegation_id (sd_target d) = bi_delegation_id binding \<and>
          tg_delegation_revision (sd_target d) = bi_delegation_revision binding \<and>
          tg_delegation_sha256 (sd_target d) = bi_delegation_sha256 binding \<and> sd_child_actor_id d = bi_actor_id binding \<and>
          sd_child_attempt_id d = bi_child_attempt_id binding \<and> sd_child_attempt_number d = bi_child_attempt_number binding \<and>
          sd_child_run_id d = runId \<and> tg_parent_actor_id (sd_target d) = bi_parent_actor_id binding \<and>
          tg_parent_run_id (sd_target d) = bi_parent_run_id binding \<and> sd_envelope_sha256 d = bi_envelope_sha256 binding
       then Some d else None
   | _ \<Rightarrow> None)"

definition launchMatches :: "nat \<Rightarrow> string \<Rightarrow> child_binding \<Rightarrow> delegation_event \<Rightarrow> bool" where
  "launchMatches seq operationId binding c = (case ddata c of
     Some (ChildLaunchRequested d) \<Rightarrow> scope c = SessionScope \<and> sessionSeq c < seq \<and> la_operation_id d = operationId \<and>
       la_child_attempt_id d = bi_child_attempt_id binding \<and> la_operation_nonce_sha256 d = bi_operation_nonce_sha256 binding
   | _ \<Rightarrow> False)"

definition lineageCheck :: "delegation_event list \<Rightarrow> delegation_event \<Rightarrow> delegation_failure + unit" where
  "lineageCheck events event = (case (scope event, ddata event) of
     (RunScope runId _, Some (DelegatedRunStarted binding)) \<Rightarrow>
       (case find (\<lambda>c. startMatches runId (sessionSeq event) binding c \<noteq> None) events of
          None \<Rightarrow> dfail delegation_child_protocol_invalid
        | Some started \<Rightarrow>
            let d = the (startMatches runId (sessionSeq event) binding started) in
            if list_ex (launchMatches (sessionSeq started) (sd_operation_id d) binding) events then Inr ()
            else dfail delegation_child_protocol_invalid)
   | _ \<Rightarrow> Inr ())"

record dg_budget_totals =
  bt_reserved :: task_budget_counters
  bt_used :: task_budget_counters
  bt_released :: task_budget_counters
  bt_held :: task_budget_counters

definition addTotals :: "dg_state \<Rightarrow> string \<times> task_budget_counters \<Rightarrow> dg_budget_totals \<Rightarrow> dg_budget_totals" where
  "addTotals s entry t = (let (reservationId, reservation) = entry in case ds_settlements s reservationId of
     None \<Rightarrow> t\<lparr>bt_reserved := budgetAdd (bt_reserved t) reservation, bt_held := budgetAdd (bt_held t) reservation\<rparr>
   | Some settlement \<Rightarrow> t\<lparr>bt_reserved := budgetAdd (bt_reserved t) reservation,
        bt_used := budgetAdd (bt_used t) (st_used settlement), bt_released := budgetAdd (bt_released t) (st_released settlement),
        bt_held := budgetAdd (bt_held t) (st_held settlement)\<rparr>)"

definition budgetTotals :: "dg_state \<Rightarrow> dg_budget_totals" where
  "budgetTotals s = fold (addTotals s) (ds_reservations s)
     \<lparr>bt_reserved = budgetZero (Some 0), bt_used = budgetZero (Some 0), bt_released = budgetZero (Some 0), bt_held = budgetZero (Some 0)\<rparr>"

record dg_projection =
  dp_tracked :: bool
  dp_revisions :: "dg_revision list"
  dp_activeActorSlots :: "actor_slot list"
  dp_activeConflictClaims :: "conflict_claim list"
  dp_barriers :: "dg_barrier list"
  dp_budget :: dg_budget_totals
  dp_maximumObservedActiveChildren :: nat
  dp_takeoverCount :: nat
  dp_waitingApprovals :: "dg_approval list"
  dp_lastSessionSeq :: nat

definition dgProjection :: "delegation_event list \<Rightarrow> dg_state \<Rightarrow> dg_projection" where
  "dgProjection events s = \<lparr>dp_tracked = (ds_revisions s \<noteq> []), dp_revisions = ds_revisions s,
     dp_activeActorSlots = map snd (ds_slots s), dp_activeConflictClaims = map snd (ds_claims s),
     dp_barriers = map snd (ds_barriers s), dp_budget = budgetTotals s, dp_maximumObservedActiveChildren = ds_maxChildren s,
     dp_takeoverCount = ds_takeovers s, dp_waitingApprovals = map snd (ds_waiting s),
     dp_lastSessionSeq = (case lastOpt events of None \<Rightarrow> 0 | Some e \<Rightarrow> sessionSeq e)\<rparr>"

definition projectDelegation :: "platform \<Rightarrow> delegation_event list \<Rightarrow> delegation_failure + dg_projection" where
  "projectDelegation p events =
     ebind (efold (delegationStep p events) dg_init events) (\<lambda>s.
     ebind (efold (\<lambda>_. lineageCheck events) () events) (\<lambda>_. Inr (dgProjection events s)))"

end
