(* ===== verification/DelegationLifecycle.thy ===== *)
theory DelegationLifecycle
  imports DelegationProjector
begin

text \<open>
  The life of a delegation revision as a step relation, and the delegation projector as its
  implementation.

  \<open>revMove\<close> has one rule per way a revision may change, with the exact effect of the change;
  \<open>dgStep\<close> lifts it to the projector's state.  \<open>delegationStep_dgStep\<close> shows that every
  event the projector accepts is such a step, so the invariants of the projector are proved by
  cases on the relation.
\<close>

section \<open>The relation\<close>

definition attemptKeeps :: "dg_attempt \<Rightarrow> dg_attempt \<Rightarrow> bool" where
  "attemptKeeps a b \<longleftrightarrow> dat_attemptId b = dat_attemptId a \<and> dat_reservationId b = dat_reservationId a \<and>
     dat_terminal b = dat_terminal a \<and> dat_terminalEventId b = dat_terminalEventId a \<and>
     dat_startedEventId b = dat_startedEventId a \<and> set (dat_unresolvedEffectIds b) \<subseteq> set (dat_unresolvedEffectIds a)"

definition decisionBinds :: "platform \<Rightarrow> dg_decision_data \<Rightarrow> dg_revision \<Rightarrow> bool" where
  "decisionBinds p v r \<longleftrightarrow> dd_revision_event_id v = dr_createdEventId r \<and>
     dd_authority_preview_sha256 v = dr_authorityPreviewSha256 r \<and>
     delegationApprovalIdentity p (dd_decision_request_id v) (dr_binding r) (dr_delegationId r) (dr_delegationRevision r)
       (dr_delegationSha256 r) (ga_sha256 (dd_display_artifact v)) = Inr (dd_approval_identity_sha256 v)"

inductive revMove :: "platform \<Rightarrow> delegation_event \<Rightarrow> dg_revision \<Rightarrow> dg_revision \<Rightarrow> bool" for p e where
  decided: "ddata e = Some (DecisionRecorded v) \<Longrightarrow> scope e = SessionScope \<Longrightarrow> dr_status r = dg_draft \<Longrightarrow> dr_decisionEventId r = None \<Longrightarrow>
    decisionBinds p v r \<Longrightarrow>
    revMove p e r (r\<lparr>dr_decisionEventId := Some (eventId e), dr_status := (if dd_approved v then dg_approved else dg_rejected),
      dr_terminalEventId := t\<rparr>)"
| queued: "dr_status r = dg_approved \<Longrightarrow> revMove p e r (r\<lparr>dr_status := dg_queued\<rparr>)"
| prepared: "initialPreparation r \<or> retryPreparation r \<Longrightarrow>
    revMove p e r (r\<lparr>dr_envelope := Some v, dr_envelopePreparationCount := Suc (dr_envelopePreparationCount r)\<rparr>)"
| reserved: "dr_status r = dg_queued \<Longrightarrow> dr_envelope r \<noteq> None \<Longrightarrow>
    length (dr_attempts r) < r_maxAttempts (dc_retry (dr_content r)) \<Longrightarrow> \<forall>a\<in>set (dr_attempts r). dat_terminal a \<noteq> None \<Longrightarrow>
    revMove p e r (r\<lparr>dr_attempts := dr_attempts r @ [reservedAttempt x y]\<rparr>)"
| noted: "j < length (dr_attempts r) \<Longrightarrow> attemptKeeps (dr_attempts r ! j) b \<Longrightarrow>
    revMove p e r (r\<lparr>dr_attempts := (dr_attempts r)[j := b]\<rparr>)"
| started: "dr_status r = dg_queued \<Longrightarrow> j < length (dr_attempts r) \<Longrightarrow> dat_startedEventId (dr_attempts r ! j) = None \<Longrightarrow>
    revMove p e r (r\<lparr>dr_attempts := (dr_attempts r)[j := (dr_attempts r ! j)\<lparr>dat_childRunId := x, dat_startedEventId := Some (eventId e)\<rparr>],
      dr_status := dg_active\<rparr>)"
| waiting: "dr_status r = dg_active \<or> dr_status r = dg_waiting_approval \<Longrightarrow> dr_attempts r \<noteq> [] \<Longrightarrow>
    revMove p e r (r\<lparr>dr_status := dg_waiting_approval\<rparr>)"
| terminated: "j < length (dr_attempts r) \<Longrightarrow> a = dr_attempts r ! j \<Longrightarrow> childTerminalOk d r a \<Longrightarrow>
    revMove p e r (r\<lparr>dr_attempts := (dr_attempts r)[j := a\<lparr>dat_childRunId := Some (td_child_run_id d),
        dat_terminal := Some (td_terminal d), dat_terminalEventId := Some (eventId e),
        dat_budgetUsage := Some (td_budget_usage d), dat_unresolvedEffectIds := td_unresolved_effect_ids d\<rparr>],
      dr_terminalEventId := Some (eventId e), dr_status := terminalStatusOf d r\<rparr>)"
| receipt: "j < length (dr_attempts r) \<Longrightarrow> dat_terminalEventId (dr_attempts r ! j) \<noteq> None \<Longrightarrow>
    dat_unresolvedEffectIds (dr_attempts r ! j) = [] \<or> rp_status rc = receipt_blocked \<Longrightarrow> dr_receipt r = None \<Longrightarrow>
    rp_acceptedEventId rc = None \<Longrightarrow> revMove p e r (r\<lparr>dr_receipt := Some rc, dr_status := dg_receipt_ready\<rparr>)"
| accepted: "dr_status r = dg_receipt_ready \<Longrightarrow> dr_receipt r = Some rc \<Longrightarrow>
    revMove p e r (r\<lparr>dr_receipt := Some (rc\<lparr>rp_acceptedEventId := Some (eventId e)\<rparr>), dr_status := receiptOutcome (rp_status rc)\<rparr>)"
| cancelling: "dr_status r \<notin> closedStatuses \<Longrightarrow> revMove p e r (r\<lparr>dr_status := dg_cancelling\<rparr>)"
| cancelled: "dr_status r \<in> {dg_cancelling, dg_reconciling, dg_cancelled} \<Longrightarrow>
    revMove p e r (r\<lparr>dr_status := dg_cancelled, dr_terminalEventId := Some (eventId e)\<rparr>)"
| pre_effect: "dr_status r = dg_cancelling \<Longrightarrow> \<forall>a\<in>set (dr_attempts r). dat_startedEventId a = None \<Longrightarrow> j < length (dr_attempts r) \<Longrightarrow>
    revMove p e r (r\<lparr>dr_attempts := (dr_attempts r)[j := (dr_attempts r ! j)\<lparr>dat_terminal := Some ct_cancelled_clean, dat_terminalEventId := Some (eventId e)\<rparr>],
      dr_status := dg_cancelled, dr_terminalEventId := Some (eventId e)\<rparr>)"
| stale: "dr_status r \<notin> {dg_accepted, dg_failed, dg_blocked, dg_cancelled, dg_rejected, dg_superseded} \<Longrightarrow>
    revMove p e r (r\<lparr>dr_status := dg_stale, dr_terminalEventId := Some (eventId e)\<rparr>)"
| blocked: "dr_status r \<notin> closedStatuses \<Longrightarrow>
    revMove p e r (r\<lparr>dr_blockerCodes := x, dr_status := dg_blocked, dr_terminalEventId := Some (eventId e)\<rparr>)"

inductive_cases revMove_elim: "revMove p e r r'"

definition freshRevision :: "platform \<Rightarrow> delegation_event \<Rightarrow> dg_revision_data \<Rightarrow> delegation_identity \<Rightarrow> bool" where
  "freshRevision p e v ident \<longleftrightarrow> canonicalDelegationIdentity p (rd_content v) = Inr ident \<and>
     di_delegationSha256 ident = tg_delegation_sha256 (rd_target v) \<and> dc_delegationId (di_content ident) = tg_delegation_id (rd_target v) \<and>
     ga_sha256 (rd_artifact v) = tg_delegation_sha256 (rd_target v) \<and> ga_bytes (rd_artifact v) = di_byteLength ident"

text \<open>The effect of an event on the state; the maps of waiting approvals and of cancel requests are left open.\<close>

inductive dgStep :: "platform \<Rightarrow> delegation_event \<Rightarrow> dg_state \<Rightarrow> dg_state \<Rightarrow> bool" for p e where
  idle: "dgStep p e s s"
| revision: "i < length (ds_revisions s) \<Longrightarrow> revMove p e (ds_revisions s ! i) r \<Longrightarrow>
    dgStep p e s (s\<lparr>ds_waiting := w, ds_cancels := c, ds_revisions := (ds_revisions s)[i := r]\<rparr>)"
| reserve: "i < length (ds_revisions s) \<Longrightarrow> revMove p e (ds_revisions s ! i) r \<Longrightarrow> map_of (ds_reservations s) k = None \<Longrightarrow>
    dgStep p e s (s\<lparr>ds_reservations := AList.update k amount (ds_reservations s), ds_revisions := (ds_revisions s)[i := r]\<rparr>)"
| settle: "i < length (ds_revisions s) \<Longrightarrow> revMove p e (ds_revisions s ! i) r \<Longrightarrow> map_of (ds_reservations s) k = Some amount \<Longrightarrow>
    ds_settlements s k = None \<Longrightarrow> budgetCountersBalance amount (st_used v) (st_released v) (st_held v) \<Longrightarrow>
    dgStep p e s (s\<lparr>ds_settlements := (ds_settlements s)(k \<mapsto> v), ds_revisions := (ds_revisions s)[i := r]\<rparr>)"
| propose: "freshRevision p e v ident \<Longrightarrow> tg_delegation_revision (rd_target v) = 1 \<Longrightarrow>
    \<forall>r\<in>set (ds_revisions s). dr_delegationId r \<noteq> tg_delegation_id (rd_target v) \<Longrightarrow>
    length (filter (\<lambda>r. dr_parentActorId r = tg_parent_actor_id (rd_target v)) (ds_revisions s)) < 8 \<Longrightarrow>
    dgStep p e s (pushRev (newRevision (eventId e) v (di_content ident)) s)"
| replace: "freshRevision p e v ident \<Longrightarrow> i < length (ds_revisions s) \<Longrightarrow> b = ds_revisions s ! i \<Longrightarrow> dr_status b = dg_draft \<Longrightarrow>
    dr_delegationId b = tg_delegation_id (rd_target v) \<Longrightarrow> tg_delegation_revision (rd_target v) = dr_delegationRevision b + 1 \<Longrightarrow>
    dr_parentActorId b = tg_parent_actor_id (rd_target v) \<Longrightarrow>
    \<forall>r\<in>set (ds_revisions s). dr_delegationId r = tg_delegation_id (rd_target v) \<longrightarrow> dr_delegationRevision r \<noteq> tg_delegation_revision (rd_target v) \<Longrightarrow>
    dgStep p e s (pushRev (newRevision (eventId e) v (di_content ident)) (s\<lparr>ds_revisions := (ds_revisions s)[i := b\<lparr>dr_status := dg_superseded\<rparr>]\<rparr>))"
| slot_claim: "length (ds_slots s) < 2 \<Longrightarrow> map_of (ds_slots s) (sl_claimId v) = None \<Longrightarrow>
    \<forall>(k, c)\<in>set (ds_slots s). sl_groupId c = sl_groupId v \<longrightarrow> sl_slot c \<noteq> sl_slot v \<and> sl_actorId c \<noteq> sl_actorId v \<Longrightarrow>
    dgStep p e s (s\<lparr>ds_slots := AList.update (sl_claimId v) v (ds_slots s),
      ds_maxChildren := max (ds_maxChildren s) (length (filter (\<lambda>(_, c). sl_actorKind c = child_actor) (AList.update (sl_claimId v) v (ds_slots s))))\<rparr>)"
| slot_release: "dgStep p e s (s\<lparr>ds_slots := AList.delete k (ds_slots s)\<rparr>)"
| claim_grant: "map_of (ds_claims s) (cc_claimId v) = None \<Longrightarrow> \<forall>(k, c)\<in>set (ds_claims s). \<not> collides c v \<Longrightarrow>
    dgStep p e s (s\<lparr>ds_claims := AList.update (cc_claimId v) v (ds_claims s)\<rparr>)"
| claim_release: "dgStep p e s (s\<lparr>ds_claims := AList.delete k (ds_claims s)\<rparr>)"
| barrier: "ba_terminalStatus b = Some barrier_completed \<Longrightarrow> ba_status b = bs_released \<Longrightarrow>
      \<forall>d\<in>set (ba_requiredDelegationIds b). map_option dr_status (latestRevision s d) = Some dg_accepted \<Longrightarrow>
    dgStep p e s (s\<lparr>ds_barriers := AList.update k b (ds_barriers s)\<rparr>)"
| barrier_open: "ba_terminalStatus b \<noteq> Some barrier_completed \<Longrightarrow> ba_status b = bs_released \<or> ba_terminalStatus b = None \<Longrightarrow>
    dgStep p e s (s\<lparr>ds_barriers := AList.update k b (ds_barriers s)\<rparr>)"
| lease: "dgStep p e s (s\<lparr>ds_leases := l, ds_takeovers := n\<rparr>)"

inductive_cases dgStep_elim: "dgStep p e s s'"

section \<open>The projector takes such steps\<close>

lemma exact_Inr:
  assumes "exact t s = Inr i"
  shows "i < length (ds_revisions s)" "dr_delegationId (ds_revisions s ! i) = tg_delegation_id t"
    "dr_delegationRevision (ds_revisions s ! i) = tg_delegation_revision t"
  using assms by (auto simp: exact_def revAt_def Let_def split: option.splits if_splits dest!: findIndex_Some)

lemma exactAttempt_Inr:
  "exactAttempt r x = Inr j \<Longrightarrow> j < length (dr_attempts r) \<and> dat_attemptId (dr_attempts r ! j) = x"
  by (auto simp: exactAttempt_def err_simps dest: findIndex_Some)

text \<open>Handlers that update one revision.\<close>

lemma stepI:
  assumes "i < length (ds_revisions s)" "revMove p e (ds_revisions s ! i) (f (ds_revisions s ! i))"
  shows "dgStep p e s (updateRev i f s)"
    and "dgStep p e s (updateRev i f (s\<lparr>ds_waiting := w\<rparr>))"
    and "dgStep p e s (updateRev i f (s\<lparr>ds_cancels := c\<rparr>))"
  using dgStep.revision [OF assms, where w = "ds_waiting s" and c = "ds_cancels s"]
    dgStep.revision [OF assms, where w = w and c = "ds_cancels s"] dgStep.revision [OF assms, where w = "ds_waiting s" and c = c]
  by (simp_all add: updateRev_def)

lemma onDecision_step:
  "onDecision p e v s = Inr s' \<Longrightarrow> ddata e = Some (DecisionRecorded v) \<Longrightarrow> scope e = SessionScope \<Longrightarrow> dgStep p e s s'"
  by (auto simp: onDecision_def err_simps Let_def decisionBinds_def dest: exact_Inr(1) intro!: stepI revMove.decided)

lemma onQueued_step: "onQueued t s = Inr s' \<Longrightarrow> dgStep p e s s'"
  by (auto simp: onQueued_def err_simps dest: exact_Inr(1) intro!: stepI revMove.queued)

lemma onEnvelope_step: "onEnvelope t v s = Inr s' \<Longrightarrow> dgStep p e s s'"
  by (auto simp: onEnvelope_def err_simps Let_def dest: exact_Inr(1) intro!: stepI revMove.prepared)

lemma onLaunch_step: "onLaunch v s = Inr s' \<Longrightarrow> dgStep p e s s'"
  by (auto simp: onLaunch_def err_simps Let_def updateAtt_def attemptKeeps_def dest!: exact_Inr(1) exactAttempt_Inr
      intro!: stepI revMove.noted)

lemma onStarted_step: "onStarted e v s = Inr s' \<Longrightarrow> dgStep p e s s'"
  by (auto simp: onStarted_def err_simps Let_def updateAtt_def dest!: exact_Inr(1) exactAttempt_Inr
      intro!: stepI revMove.started)

lemma onWaiting_step: "onWaiting t v s = Inr s' \<Longrightarrow> dgStep p e s s'"
  by (auto simp: onWaiting_def err_simps Let_def dest!: exact_Inr(1) exactAttempt_Inr intro!: stepI revMove.waiting)

lemma onChildTerminal_step: "onChildTerminal e v s = Inr s' \<Longrightarrow> dgStep p e s s'"
  by (auto simp: onChildTerminal_def err_simps Let_def updateAtt_def dest!: exact_Inr(1) exactAttempt_Inr
      intro!: stepI revMove.terminated)

lemma onReconciled_step: "onReconciled t a x obs s = Inr s' \<Longrightarrow> dgStep p e s s'"
  by (auto simp: onReconciled_def err_simps Let_def updateAtt_def attemptKeeps_def dest!: exact_Inr(1) exactAttempt_Inr
      intro!: stepI revMove.noted dgStep.idle split: if_splits)

lemma onReceiptReady_step: "onReceiptReady e v s = Inr s' \<Longrightarrow> dgStep p e s s'"
  by (auto simp: onReceiptReady_def err_simps Let_def dest!: exact_Inr(1) exactAttempt_Inr intro!: stepI revMove.receipt)

lemma onReceiptAccepted_step: "onReceiptAccepted e t a b c s = Inr s' \<Longrightarrow> dgStep p e s s'"
  by (auto simp: onReceiptAccepted_def err_simps Let_def dest!: exact_Inr(1) intro!: stepI revMove.accepted split: option.splits if_splits)

lemma onCancelRequested_step: "onCancelRequested e t q root orig s = Inr s' \<Longrightarrow> dgStep p e s s'"
  by (auto simp: onCancelRequested_def err_simps Let_def dest!: exact_Inr(1) intro!: stepI revMove.cancelling)

lemma onCancelled_step: "onCancelled e t q s = Inr s' \<Longrightarrow> dgStep p e s s'"
  by (auto simp: onCancelled_def err_simps Let_def dest!: exact_Inr(1) intro!: stepI revMove.cancelled)

lemma onStale_step: "onStale e t s = Inr s' \<Longrightarrow> dgStep p e s s'"
  by (auto simp: onStale_def err_simps Let_def dest!: exact_Inr(1) intro!: stepI revMove.stale)

lemma onBlocked_step: "onBlocked e t code s = Inr s' \<Longrightarrow> dgStep p e s s'"
  by (auto simp: onBlocked_def err_simps Let_def dest!: exact_Inr(1) intro!: stepI revMove.blocked)

lemma onPreEffectTerminal_step:
  assumes "onPreEffectTerminal p es e v s = Inr s'"
  shows "dgStep p e s s'"
proof -
  obtain i where i: "exact (pe_target v) s = Inr i" using assms by (auto simp: onPreEffectTerminal_def err_simps)
  let ?r = "ds_revisions s ! i"
  define att where "att = Option.bind (pe_child v) (\<lambda>(a, op). findIndex (\<lambda>c. dat_attemptId c = a \<and> dat_operationId c = Some op) (dr_attempts ?r))"
  have c: "dr_status ?r = dg_cancelling" "\<forall>a\<in>set (dr_attempts ?r). dat_startedEventId a = None"
    and s': "s' = updateRev i (\<lambda>r.
        (case att of None \<Rightarrow> r
         | Some j \<Rightarrow> updateAtt j (\<lambda>a. a\<lparr>dat_terminal := Some ct_cancelled_clean, dat_terminalEventId := Some (eventId e)\<rparr>) r)
        \<lparr>dr_status := dg_cancelled, dr_terminalEventId := Some (eventId e)\<rparr>) s"
    using assms unfolding onPreEffectTerminal_def i ebind_Inr Let_def att_def [symmetric]
    by (auto split: option.splits if_splits simp: list_ex_iff)
  have "j < length (dr_attempts ?r)" if "att = Some j" for j
    using that by (auto simp: att_def bind_eq_Some_conv dest: findIndex_Some)
  then show ?thesis
    unfolding s' using c exact_Inr [OF i]
    by (cases att) (auto intro!: stepI revMove.cancelled revMove.pre_effect simp: updateAtt_def)
qed

text \<open>Handlers that also touch the budget, and the handlers of revisions.\<close>

lemma onReserved_step: "onReserved t x y amount s = Inr s' \<Longrightarrow> dgStep p e s s'"
  by (auto simp: onReserved_def err_simps Let_def updateRev_def list_ex_iff dest!: exact_Inr(1) intro!: dgStep.reserve revMove.reserved)

lemma onSettled_step: "onSettled e t x y v s = Inr s' \<Longrightarrow> dgStep p e s s'"
  by (auto simp: onSettled_def err_simps Let_def updateRev_def updateAtt_def attemptKeeps_def dest!: exact_Inr(1) exactAttempt_Inr
      intro!: dgStep.settle revMove.noted split: option.splits if_splits)

lemma onProposed_step: "onProposed p e v s = Inr s' \<Longrightarrow> dgStep p e s s'"
  by (auto simp: onProposed_def err_simps Let_def list_ex_iff freshRevision_def not_le intro!: dgStep.propose)

lemma onReplaced_step: "onReplaced p e v n sha s = Inr s' \<Longrightarrow> dgStep p e s s'"
  unfolding onReplaced_def Let_def revAt_def
  by (auto simp: err_simps updateRev_def findIndex_None freshRevision_def split: option.splits if_splits
      dest!: findIndex_Some intro!: dgStep.replace)

text \<open>Handlers of slots, claims, barriers and leases.\<close>

lemma onSlotClaimed_step: "onSlotClaimed v s = Inr s' \<Longrightarrow> dgStep p e s s'"
  by (auto simp: onSlotClaimed_def Let_def list_ex_iff not_le split: if_splits intro!: dgStep.slot_claim)

lemma onSlotReleased_step: "onSlotReleased a c g s = Inr s' \<Longrightarrow> dgStep p e s s'"
  by (auto simp: onSlotReleased_def split: option.splits if_splits intro: dgStep.slot_release)

lemma onClaimGranted_step: "onClaimGranted v s = Inr s' \<Longrightarrow> dgStep p e s s'"
  by (auto simp: onClaimGranted_def list_ex_iff split: if_splits intro!: dgStep.claim_grant)

lemma onClaimReleased_step: "onClaimReleased a c g s = Inr s' \<Longrightarrow> dgStep p e s s'"
  by (auto simp: onClaimReleased_def split: option.splits if_splits intro: dgStep.claim_release)

definition barriersOpen :: "dg_state \<Rightarrow> bool" where
  "barriersOpen s \<longleftrightarrow> (\<forall>(k, b)\<in>set (ds_barriers s). ba_status b \<noteq> bs_released \<longrightarrow> ba_terminalStatus b = None)"

lemma onBarrierRequested_step: "onBarrierRequested b a r req s = Inr s' \<Longrightarrow> dgStep p e s s'"
  by (auto simp: onBarrierRequested_def split: if_splits intro!: dgStep.barrier_open)

lemma onBarrierSuspended_step: "onBarrierSuspended b a r s = Inr s' \<Longrightarrow> barriersOpen s \<Longrightarrow> dgStep p e s s'"
  by (force simp: onBarrierSuspended_def barriersOpen_def split: option.splits if_splits intro!: dgStep.barrier_open dest: map_of_SomeD)

lemma onBarrierReleased_step: "onBarrierReleased b a r ds st s = Inr s' \<Longrightarrow> dgStep p e s s'"
  by (cases "st = barrier_completed")
    (auto simp: onBarrierReleased_def Let_def list_ex_iff split: option.splits if_splits intro: dgStep.barrier dgStep.barrier_open)

lemma onLease_step: "onLeaseAcquired g n s = Inr s' \<Longrightarrow> dgStep p e s s'"
  using dgStep.lease [where s = s and l = "(ds_leases s)(g \<mapsto> n)" and n = "ds_takeovers s"] by (auto simp: onLeaseAcquired_def split: if_splits)

lemma onTakeover_step: "onTakeover g n m s = Inr s' \<Longrightarrow> dgStep p e s s'"
  by (auto simp: onTakeover_def split: if_splits intro: dgStep.lease)

lemmas handler_steps = onDecision_step onQueued_step onEnvelope_step onLaunch_step onStarted_step onWaiting_step
  onChildTerminal_step onReconciled_step onReceiptReady_step onReceiptAccepted_step onCancelRequested_step onCancelled_step
  onStale_step onBlocked_step onPreEffectTerminal_step onReserved_step onSettled_step onProposed_step onReplaced_step
  onSlotClaimed_step onSlotReleased_step onClaimGranted_step onClaimReleased_step onBarrierRequested_step
  onBarrierSuspended_step onBarrierReleased_step onLease_step onTakeover_step

lemma delegationStep_dgStep:
  assumes "delegationStep p es s e = Inr s'" "barriersOpen s"
  shows "dgStep p e s s'"
proof (cases "ddata e")
  case (Some d)
  with assms show ?thesis
    by (cases "scope e"; cases d)
      (auto simp: delegationStep_def delegationEvent_def err_simps intro: handler_steps dgStep.idle)
qed (use assms in \<open>auto simp: delegationStep_def intro: dgStep.idle\<close>)

end
