(* ===== verification/DelegationInvariants.thy ===== *)
theory DelegationInvariants
  imports DelegationLifecycle
begin

text \<open>
  The invariants of the delegation projector, proved by cases on the steps of
  \<open>DelegationLifecycle\<close>: of one revision (\<open>revOk\<close>), of the chain of revisions of a delegation
  (\<open>chainOk\<close>), of the budget (\<open>budgetOk\<close>), of slots and path claims (\<open>slotsOk\<close>,
  \<open>claimsOk\<close>) and of the parents' barriers (\<open>barriersOk\<close>).
\<close>

section \<open>One revision\<close>

definition decidedBy :: "platform \<Rightarrow> delegation_event list \<Rightarrow> dg_revision \<Rightarrow> bool" where
  "decidedBy p es r \<longleftrightarrow> (\<exists>e\<in>set es. \<exists>v. scope e = SessionScope \<and> ddata e = Some (DecisionRecorded v) \<and> dd_approved v \<and>
     dr_decisionEventId r = Some (eventId e) \<and> decisionBinds p v r)"

definition settledAttempt :: "dg_revision \<Rightarrow> bool" where
  "settledAttempt r \<longleftrightarrow> (\<exists>a\<in>set (dr_attempts r). dat_terminalEventId a \<noteq> None \<and> dat_unresolvedEffectIds a = [])"

lemma revMove_content:
  "revMove p e r r' \<Longrightarrow> dr_content r' = dr_content r \<and> dr_delegationId r' = dr_delegationId r \<and>
     dr_delegationRevision r' = dr_delegationRevision r \<and> dr_delegationSha256 r' = dr_delegationSha256 r \<and>
     dr_parentActorId r' = dr_parentActorId r \<and> dr_createdEventId r' = dr_createdEventId r \<and> dr_binding r' = dr_binding r \<and>
     dr_authorityPreviewSha256 r' = dr_authorityPreviewSha256 r"
  by (cases rule: revMove.cases) auto

lemma revMove_decision: "revMove p e r r' \<Longrightarrow> dr_decisionEventId r \<noteq> None \<Longrightarrow> dr_decisionEventId r' = dr_decisionEventId r"
  by (cases rule: revMove.cases) auto

lemma revMove_decidedBy: "revMove p e r r' \<Longrightarrow> decidedBy p es r \<Longrightarrow> decidedBy p (es @ [e]) r'"
  using revMove_content [of p e r r'] revMove_decision [of p e r r'] unfolding decidedBy_def decisionBinds_def by force

lemma settled_update:
  assumes "settledAttempt r" "j < length (dr_attempts r)"
    "dat_terminalEventId (dr_attempts r ! j) \<noteq> None \<longrightarrow> dat_terminalEventId b \<noteq> None \<and>
       (dat_unresolvedEffectIds (dr_attempts r ! j) = [] \<longrightarrow> dat_unresolvedEffectIds b = [])"
  shows "\<exists>a\<in>set ((dr_attempts r)[j := b]). dat_terminalEventId a \<noteq> None \<and> dat_unresolvedEffectIds a = []"
proof -
  obtain i where i: "i < length (dr_attempts r)" "dat_terminalEventId (dr_attempts r ! i) \<noteq> None" "dat_unresolvedEffectIds (dr_attempts r ! i) = []"
    using assms(1) by (auto simp: settledAttempt_def in_set_conv_nth)
  show ?thesis
  proof (rule bexI [of _ "(dr_attempts r)[j := b] ! i"])
    show "(dr_attempts r)[j := b] ! i \<in> set ((dr_attempts r)[j := b])" using i(1) by (intro nth_mem) simp
    show "dat_terminalEventId ((dr_attempts r)[j := b] ! i) \<noteq> None \<and> dat_unresolvedEffectIds ((dr_attempts r)[j := b] ! i) = []"
      using i assms(3) by (cases "i = j") auto
  qed
qed

lemma receiptOutcome_cases: "receiptOutcome x \<in> {dg_accepted, dg_failed, dg_blocked, dg_cancelled}"
  by (cases x) simp_all

lemma receiptOutcome_simps [simp]:
  "receiptOutcome x \<noteq> dg_approved" "receiptOutcome x \<noteq> dg_queued" "receiptOutcome x \<noteq> dg_draft" "receiptOutcome x \<noteq> dg_superseded"
  "receiptOutcome x = dg_accepted \<longleftrightarrow> x = receipt_succeeded"
  by (cases x; simp)+

lemma terminalStatusOf_cases: "terminalStatusOf d r \<in> {dg_queued, dg_failed, dg_reconciling, dg_cancelled}"
  by (simp add: terminalStatusOf_def Let_def)

lemma terminalStatusOf_simps [simp]:
  "terminalStatusOf d r \<noteq> dg_approved" "terminalStatusOf d r \<noteq> dg_accepted" "terminalStatusOf d r \<noteq> dg_draft"
  "terminalStatusOf d r \<noteq> dg_superseded"
  using terminalStatusOf_cases [of d r] by auto

lemma childTerminalOk_fresh: "childTerminalOk d r a \<Longrightarrow> dat_terminalEventId a = None"
  by (simp add: childTerminalOk_def split: if_splits)

text \<open>Approval: what a revision may do depends on a recorded decision.\<close>

lemma revMove_approval:
  assumes m: "revMove p e r r'" and ok: "dr_status r \<in> {dg_approved, dg_queued} \<or> dr_attempts r \<noteq> [] \<Longrightarrow> decidedBy p es r"
    and a: "dr_status r' \<in> {dg_approved, dg_queued} \<or> dr_attempts r' \<noteq> []"
  shows "decidedBy p (es @ [e]) r'"
proof (cases "dr_status r \<in> {dg_approved, dg_queued} \<or> dr_attempts r \<noteq> []")
  case True
  then show ?thesis using revMove_decidedBy [OF m ok] by blast
next
  case False
  with m a show ?thesis
    by (cases rule: revMove.cases)
      (auto simp: decidedBy_def decisionBinds_def initialPreparation_def retryPreparation_def receiptOutcome.simps split: if_splits)
qed

text \<open>Attempts: bounded, one at a time, and ended by an event.\<close>

definition attemptsOk :: "dg_revision \<Rightarrow> bool" where
  "attemptsOk r \<longleftrightarrow> (dr_attempts r \<noteq> [] \<longrightarrow> dr_envelope r \<noteq> None) \<and>
     length (dr_attempts r) \<le> r_maxAttempts (dc_retry (dr_content r)) \<and>
     (\<forall>a\<in>set (butlast (dr_attempts r)). dat_terminal a \<noteq> None) \<and>
     (\<forall>a\<in>set (dr_attempts r). dat_terminal a \<noteq> None \<longleftrightarrow> dat_terminalEventId a \<noteq> None)"

lemma butlast_update_ball:
  assumes "\<forall>a\<in>set (butlast xs). P a" "P b \<or> (j < length xs \<and> (P (xs ! j) \<longrightarrow> P b))"
  shows "\<forall>a\<in>set (butlast (xs[j := b])). P a"
proof -
  have "butlast (xs[j := b]) = (if j = length xs - 1 then butlast xs else (butlast xs)[j := b])"
    by (simp add: butlast_list_update)
  moreover have "P b" if "j < length (butlast xs)"
    using assms that nth_mem [OF that] by (auto simp: nth_butlast)
  ultimately show ?thesis
    using assms(1) by (cases "j < length (butlast xs)") (auto simp: list_update_beyond dest!: list_update_set)
qed

lemma attemptsOk_update:
  assumes "attemptsOk r" "j < length (dr_attempts r)" "dat_terminal b \<noteq> None \<longleftrightarrow> dat_terminalEventId b \<noteq> None"
    "dat_terminal (dr_attempts r ! j) \<noteq> None \<longrightarrow> dat_terminal b \<noteq> None"
    "dr_attempts r' = (dr_attempts r)[j := b]" "dr_envelope r' = dr_envelope r" "dr_content r' = dr_content r"
  shows "attemptsOk r'"
proof -
  have "\<forall>a\<in>set (butlast (dr_attempts r')). dat_terminal a \<noteq> None"
    unfolding assms(5) using assms(1,2,4) by (intro butlast_update_ball) (auto simp: attemptsOk_def)
  moreover have "dat_terminal a \<noteq> None \<longleftrightarrow> dat_terminalEventId a \<noteq> None" if "a \<in> set (dr_attempts r')" for a
    using that assms(1,3) unfolding assms(5) by (auto simp: attemptsOk_def dest!: list_update_set)
  moreover have "dr_attempts r \<noteq> []" using assms(2) by auto
  ultimately show ?thesis
    using assms(1,5-7) by (simp add: attemptsOk_def)
qed

lemma attemptsOk_same:
  "attemptsOk r \<Longrightarrow> dr_attempts r' = dr_attempts r \<Longrightarrow> dr_envelope r' = dr_envelope r \<or> dr_envelope r' \<noteq> None \<Longrightarrow>
   dr_content r' = dr_content r \<Longrightarrow> attemptsOk r'"
  by (auto simp: attemptsOk_def)

lemma attemptsOk_at: "attemptsOk r \<Longrightarrow> j < length (dr_attempts r) \<Longrightarrow>
    dat_terminal (dr_attempts r ! j) \<noteq> None \<longleftrightarrow> dat_terminalEventId (dr_attempts r ! j) \<noteq> None"
  by (simp add: attemptsOk_def)

lemma revMove_attempts: "revMove p e r r' \<Longrightarrow> attemptsOk r \<Longrightarrow> attemptsOk r'"
proof (induction rule: revMove.induct)
  case (reserved r x y)
  then show ?case by (auto simp: attemptsOk_def reservedAttempt_def butlast_append)
next
  case (noted j r b)
  from noted(2,3) attemptsOk_at [OF noted(3,1)] show ?case
    by (intro attemptsOk_update [OF noted(3,1), of b]) (simp_all add: attemptKeeps_def)
next
  case (started r j x)
  from attemptsOk_at [OF started(4,2)] show ?case
    by (intro attemptsOk_update [OF started(4,2)]) simp_all
next
  case (terminated j r a d)
  show ?case by (intro attemptsOk_update [OF terminated(4,1)]) simp_all
next
  case (pre_effect r j)
  show ?case by (intro attemptsOk_update [OF pre_effect(4,3)]) simp_all
qed (erule attemptsOk_same; simp)+

text \<open>Receipts: backed by an ended attempt, and an accepted delegation by an accepted successful receipt.\<close>

definition receiptsOk :: "dg_revision \<Rightarrow> bool" where
  "receiptsOk r \<longleftrightarrow> (dr_status r \<in> {dg_draft, dg_superseded} \<longrightarrow> dr_decisionEventId r = None) \<and>
     (\<forall>rc. dr_receipt r = Some rc \<longrightarrow> dr_attempts r \<noteq> [] \<and> (rp_status rc \<noteq> receipt_blocked \<longrightarrow> settledAttempt r)) \<and>
     (dr_status r = dg_accepted \<longrightarrow>
        (\<exists>rc. dr_receipt r = Some rc \<and> rp_status rc = receipt_succeeded \<and> rp_acceptedEventId rc \<noteq> None))"

lemma receiptsOk_update:
  assumes "receiptsOk r" "j < length (dr_attempts r)"
    "dat_terminalEventId (dr_attempts r ! j) \<noteq> None \<longrightarrow> dat_terminalEventId b \<noteq> None \<and>
       (dat_unresolvedEffectIds (dr_attempts r ! j) = [] \<longrightarrow> dat_unresolvedEffectIds b = [])"
    "dr_attempts r' = (dr_attempts r)[j := b]" "dr_receipt r' = dr_receipt r" "dr_decisionEventId r' = dr_decisionEventId r"
    "dr_status r' = dr_status r \<or> dr_status r' \<notin> {dg_draft, dg_superseded, dg_accepted}"
  shows "receiptsOk r'"
proof -
  have "settledAttempt r'" if "settledAttempt r"
    using settled_update [OF that assms(2,3)] assms(4) by (simp add: settledAttempt_def)
  moreover have "dr_attempts r' \<noteq> []" using assms(2,4) by auto
  ultimately show ?thesis using assms(1,5-7) by (auto simp: receiptsOk_def)
qed

lemma receiptsOk_same:
  assumes "receiptsOk r" "set (dr_attempts r) \<subseteq> set (dr_attempts r')" "dr_receipt r' = dr_receipt r"
    "dr_decisionEventId r' = dr_decisionEventId r \<or> dr_status r' \<notin> {dg_draft, dg_superseded}"
    "dr_status r' = dr_status r \<or> dr_status r' \<notin> {dg_draft, dg_superseded, dg_accepted}"
  shows "receiptsOk r'"
proof -
  have "settledAttempt r \<Longrightarrow> settledAttempt r'" "dr_attempts r \<noteq> [] \<Longrightarrow> dr_attempts r' \<noteq> []"
    using assms(2) by (auto simp: settledAttempt_def)
  then show ?thesis using assms(1,3-5) by (auto simp: receiptsOk_def)
qed

lemma revMove_receipts: "revMove p e r r' \<Longrightarrow> receiptsOk r \<Longrightarrow> receiptsOk r'"
proof (induction rule: revMove.induct)
  case (noted j r b)
  from noted(2) show ?case by (intro receiptsOk_update [OF noted(3,1), of b]) (auto simp: attemptKeeps_def)
next
  case (started r j x)
  show ?case by (intro receiptsOk_update [OF started(4,2)]) simp_all
next
  case (terminated j r a d)
  show ?case using childTerminalOk_fresh [OF terminated(3)] terminated(2)
    by (intro receiptsOk_update [OF terminated(4,1)]) simp_all
next
  case (receipt j r rc)
  have "settledAttempt r" if "rp_status rc \<noteq> receipt_blocked"
    using that receipt(1-3) nth_mem [OF receipt(1)] unfolding settledAttempt_def by blast
  moreover have "dr_attempts r \<noteq> []" using receipt(1) by auto
  ultimately show ?case by (auto simp: receiptsOk_def settledAttempt_def)
next
  case (accepted r rc)
  then show ?case by (auto simp: receiptsOk_def settledAttempt_def)
next
  case (pre_effect r j)
  show ?case by (intro receiptsOk_update [OF pre_effect(4,3)]) simp_all
next
  case (reserved r x y)
  show ?case by (rule receiptsOk_same [OF reserved(5)]) auto
qed (erule receiptsOk_same; auto)+

text \<open>All of it, with the log read so far.\<close>

definition revOk :: "platform \<Rightarrow> delegation_event list \<Rightarrow> dg_revision \<Rightarrow> bool" where
  "revOk p es r \<longleftrightarrow>
     delegationRevisionContentSchema p (dr_content r) \<and> dc_delegationId (dr_content r) = dr_delegationId r \<and>
     (dr_status r \<in> {dg_approved, dg_queued} \<or> dr_attempts r \<noteq> [] \<longrightarrow> decidedBy p es r) \<and> attemptsOk r \<and> receiptsOk r"

lemma revMove_ok:
  assumes m: "revMove p e r r'" and ok: "revOk p es r"
  shows "revOk p (es @ [e]) r'"
proof -
  have "decidedBy p (es @ [e]) r'" if "dr_status r' \<in> {dg_approved, dg_queued} \<or> dr_attempts r' \<noteq> []"
    using revMove_approval [OF m _ that] ok unfolding revOk_def by blast
  with revMove_attempts [OF m] revMove_receipts [OF m] revMove_content [OF m] ok show ?thesis
    unfolding revOk_def by metis
qed

lemma revOk_more: "revOk p es r \<Longrightarrow> revOk p (es @ [e]) r"
  by (auto simp: revOk_def decidedBy_def)

lemma schema_retry: "delegationRevisionContentSchema p c \<Longrightarrow> 1 \<le> r_maxAttempts (dc_retry c) \<and> r_maxAttempts (dc_retry c) \<le> 2"
  by (auto simp: delegationRevisionContentSchema_def delegationRetrySchema_def)

lemma identity_content: "canonicalDelegationIdentity p c = Inr ident \<Longrightarrow> delegationRevisionContentSchema p (di_content ident)"
  by (auto simp: canonicalDelegationIdentity_def normalizeDelegationRevision_def parseDelegation_def err_simps split: if_splits)

lemma newRevision_ok: "freshRevision p e v ident \<Longrightarrow> revOk p es (newRevision i v (di_content ident))"
  using schema_retry [of p "di_content ident"]
  by (auto simp: revOk_def freshRevision_def newRevision_def attemptsOk_def receiptsOk_def dest: identity_content)

lemma superseded_ok: "revOk p es b \<Longrightarrow> dr_status b = dg_draft \<Longrightarrow> revOk p es (b\<lparr>dr_status := dg_superseded\<rparr>)"
  by (auto simp: revOk_def decidedBy_def attemptsOk_def receiptsOk_def settledAttempt_def decisionBinds_def)

section \<open>The chain of revisions of a delegation\<close>

text \<open>
  All revisions of a delegation but the last are superseded; a parent actor has at most eight
  delegations.
\<close>

definition superseding :: "dg_revision \<Rightarrow> dg_revision \<Rightarrow> bool" where
  "superseding r q \<longleftrightarrow> dr_delegationId r = dr_delegationId q \<longrightarrow>
     dr_status r = dg_superseded \<and> dr_delegationRevision r \<noteq> dr_delegationRevision q \<and> dr_parentActorId r = dr_parentActorId q"

definition delegationsOf :: "string \<Rightarrow> dg_revision list \<Rightarrow> string set" where
  "delegationsOf actor rs = dr_delegationId ` {r \<in> set rs. dr_parentActorId r = actor}"

definition chainOk :: "dg_revision list \<Rightarrow> bool" where
  "chainOk rs \<longleftrightarrow> sorted_wrt superseding rs \<and> (\<forall>actor. card (delegationsOf actor rs) \<le> MAX_DELEGATIONS_PER_PARENT)"

lemma sorted_wrt_update:
  assumes "sorted_wrt R xs" "\<And>x. R x (xs ! i) \<Longrightarrow> R x y" "\<And>x. R (xs ! i) x \<Longrightarrow> R y x"
  shows "sorted_wrt R (xs[i := y])"
proof (cases "i < length xs")
  case True
  then show ?thesis using assms by (auto simp: sorted_wrt_iff_nth_less nth_list_update)
qed (use assms(1) in \<open>simp add: list_update_beyond\<close>)

lemma revMove_superseded: "revMove p e r r' \<Longrightarrow> revOk p es r \<Longrightarrow> dr_status r = dg_superseded \<Longrightarrow> dr_status r' = dg_superseded"
  by (cases rule: revMove.cases)
    (auto simp: closedStatuses_def initialPreparation_def retryPreparation_def revOk_def receiptsOk_def decidedBy_def
       childTerminalOk_def split: if_splits)

lemma delegationsOf_update:
  "i < length rs \<Longrightarrow> dr_delegationId y = dr_delegationId (rs ! i) \<Longrightarrow> dr_parentActorId y = dr_parentActorId (rs ! i) \<Longrightarrow>
   delegationsOf actor (rs[i := y]) \<subseteq> delegationsOf actor rs"
  by (fastforce simp: delegationsOf_def dest!: list_update_set)

lemma finite_delegationsOf: "finite (delegationsOf actor rs)"
  by (simp add: delegationsOf_def)

lemma chainOk_update:
  assumes ok: "chainOk rs" and i: "i < length rs" and eq: "dr_delegationId y = dr_delegationId (rs ! i)"
    "dr_parentActorId y = dr_parentActorId (rs ! i)" "dr_delegationRevision y = dr_delegationRevision (rs ! i)"
    and s: "dr_status (rs ! i) = dg_superseded \<Longrightarrow> dr_status y = dg_superseded"
  shows "chainOk (rs[i := y])"
proof -
  have "card (delegationsOf a (rs[i := y])) \<le> MAX_DELEGATIONS_PER_PARENT" for a
    using card_mono [OF finite_delegationsOf delegationsOf_update [OF i eq(1,2), of a]] ok
    by (meson chainOk_def order.trans)
  moreover have "sorted_wrt superseding (rs[i := y])"
    using ok eq s by (intro sorted_wrt_update) (auto simp: chainOk_def superseding_def)
  ultimately show ?thesis by (simp add: chainOk_def)
qed

lemma chainOk_propose:
  assumes ok: "chainOk rs" and new: "\<forall>r\<in>set rs. dr_delegationId r \<noteq> dr_delegationId q"
    and n: "length (filter (\<lambda>r. dr_parentActorId r = dr_parentActorId q) rs) < 8"
  shows "chainOk (rs @ [q])"
proof -
  have "card (delegationsOf (dr_parentActorId q) rs) \<le> length (filter (\<lambda>r. dr_parentActorId r = dr_parentActorId q) rs)"
    using card_length [of "map dr_delegationId (filter (\<lambda>r. dr_parentActorId r = dr_parentActorId q) rs)"]
    by (simp add: delegationsOf_def)
  then have "card (insert (dr_delegationId q) (delegationsOf (dr_parentActorId q) rs)) \<le> 8"
    using n finite_delegationsOf [of "dr_parentActorId q" rs] by (simp add: card_insert_if)
  moreover have "delegationsOf a (rs @ [q]) = (if a = dr_parentActorId q then insert (dr_delegationId q) (delegationsOf a rs) else delegationsOf a rs)" for a
    by (auto simp: delegationsOf_def)
  ultimately show ?thesis
    using ok new unfolding chainOk_def sorted_wrt_append superseding_def MAX_DELEGATIONS_PER_PARENT_def by simp
qed

lemma chainOk_replace:
  assumes ok: "chainOk rs" and i: "i < length rs" and b: "dr_status (rs ! i) = dg_draft"
    and q: "dr_delegationId q = dr_delegationId (rs ! i)" "dr_parentActorId q = dr_parentActorId (rs ! i)"
    and new: "\<forall>r\<in>set rs. dr_delegationId r = dr_delegationId q \<longrightarrow> dr_delegationRevision r \<noteq> dr_delegationRevision q"
  shows "chainOk (rs[i := (rs ! i)\<lparr>dr_status := dg_superseded\<rparr>] @ [q])"
proof -
  let ?rs = "rs[i := (rs ! i)\<lparr>dr_status := dg_superseded\<rparr>]"
  have u: "chainOk ?rs" by (rule chainOk_update [OF ok i]) simp_all
  have "superseding r q" if r: "r \<in> set ?rs" for r
  proof -
    obtain k where k: "k < length rs" "r = ?rs ! k" using r by (auto simp: in_set_conv_nth)
    have "superseding (rs ! k) (rs ! i)" if "k < i" using ok that i by (auto simp: chainOk_def sorted_wrt_iff_nth_less)
    moreover have "superseding (rs ! i) (rs ! k)" if "i < k" using ok that k by (auto simp: chainOk_def sorted_wrt_iff_nth_less)
    ultimately show ?thesis
      using k b q new nth_mem [OF k(1)] by (cases k i rule: linorder_cases) (auto simp: superseding_def)
  qed
  moreover have "dr_delegationId q \<in> delegationsOf (dr_parentActorId q) ?rs"
    using q nth_mem [of i ?rs] i by (simp add: delegationsOf_def image_iff) (metis dg_revision.select_convs dg_revision.update_convs(17) dg_revision.surjective)
  then have "delegationsOf a (?rs @ [q]) \<subseteq> delegationsOf a ?rs" for a
    by (auto simp: delegationsOf_def)
  then have "card (delegationsOf a (?rs @ [q])) \<le> MAX_DELEGATIONS_PER_PARENT" for a
    using card_mono [OF finite_delegationsOf, of "delegationsOf a (?rs @ [q])" a ?rs] u by (meson chainOk_def order.trans)
  ultimately show ?thesis
    using u by (auto simp: chainOk_def sorted_wrt_append)
qed

section \<open>Slots and path claims\<close>

definition slotsApart :: "actor_slot \<Rightarrow> actor_slot \<Rightarrow> bool" where
  "slotsApart a b \<longleftrightarrow> sl_claimId a \<noteq> sl_claimId b \<and>
     (sl_groupId a = sl_groupId b \<longrightarrow> sl_slot a \<noteq> sl_slot b \<and> sl_actorId a \<noteq> sl_actorId b)"

definition keyed :: "('a \<Rightarrow> string) \<Rightarrow> (string \<times> 'a) list \<Rightarrow> bool" where
  "keyed key al \<longleftrightarrow> (\<forall>(k, x)\<in>set al. k = key x)"

definition slotsOk :: "dg_state \<Rightarrow> bool" where
  "slotsOk s \<longleftrightarrow> length (ds_slots s) \<le> 2 \<and> ds_maxChildren s \<le> 2 \<and> keyed sl_claimId (ds_slots s) \<and>
     sorted_wrt (\<lambda>a b. slotsApart (snd a) (snd b)) (ds_slots s)"

definition claimsOk :: "dg_state \<Rightarrow> bool" where
  "claimsOk s \<longleftrightarrow> keyed cc_claimId (ds_claims s) \<and>
     sorted_wrt (\<lambda>a b. cc_claimId (snd a) \<noteq> cc_claimId (snd b) \<and> \<not> collides (snd a) (snd b)) (ds_claims s)"

lemma delete_keeps:
  "keyed key al \<Longrightarrow> keyed key (AList.delete k al)" "sorted_wrt R al \<Longrightarrow> sorted_wrt R (AList.delete k al)"
  "length (AList.delete k al) \<le> length al"
  by (auto simp: AList.delete_eq keyed_def intro: sorted_wrt_filter)

lemma keyed_append: "keyed key (al @ [(k, v)]) \<longleftrightarrow> keyed key al \<and> k = key v"
  by (auto simp: keyed_def)

lemma fresh_key: "keyed key al \<Longrightarrow> map_of al k = None \<Longrightarrow> x \<in> set al \<Longrightarrow> key (snd x) \<noteq> k"
  by (fastforce simp: keyed_def map_of_eq_None_iff image_iff)

lemma slotsOk_claim:
  assumes "slotsOk s" "length (ds_slots s) < 2" "map_of (ds_slots s) (sl_claimId v) = None"
    and apart: "\<forall>(k, c)\<in>set (ds_slots s). sl_groupId c = sl_groupId v \<longrightarrow> sl_slot c \<noteq> sl_slot v \<and> sl_actorId c \<noteq> sl_actorId v"
    and s': "ds_slots s' = AList.update (sl_claimId v) v (ds_slots s)"
      "ds_maxChildren s' = max (ds_maxChildren s) (length (filter (\<lambda>(_, c). sl_actorKind c = child_actor) (ds_slots s')))"
  shows "slotsOk s'"
proof -
  have "length (ds_slots s') \<le> 2" using assms(2,3) by (simp add: s'(1) update_fresh map_of_eq_None_iff)
  then have "length (filter (\<lambda>(_, c). sl_actorKind c = child_actor) (ds_slots s')) \<le> 2"
    by (rule order_trans [OF length_filter_le])
  moreover have "slotsApart (snd a) v" if "a \<in> set (ds_slots s)" for a
    using that apart fresh_key [of sl_claimId "ds_slots s" "sl_claimId v" a] assms(1,3) by (auto simp: slotsApart_def slotsOk_def)
  ultimately show ?thesis
    using assms(1-3) by (simp add: slotsOk_def s' update_fresh map_of_eq_None_iff keyed_append sorted_wrt_append)
qed

lemma claimsOk_grant:
  assumes "claimsOk s" "map_of (ds_claims s) (cc_claimId v) = None" "\<forall>(k, c)\<in>set (ds_claims s). \<not> collides c v"
    and s': "ds_claims s' = AList.update (cc_claimId v) v (ds_claims s)"
  shows "claimsOk s'"
  using assms fresh_key [of cc_claimId "ds_claims s" "cc_claimId v"]
  by (fastforce simp: claimsOk_def update_fresh map_of_eq_None_iff keyed_append sorted_wrt_append)

section \<open>The budget\<close>

definition budgetOk :: "dg_state \<Rightarrow> bool" where
  "budgetOk s \<longleftrightarrow> distinct (map fst (ds_reservations s)) \<and> (\<forall>k v. ds_settlements s k = Some v \<longrightarrow>
     (\<exists>amount. map_of (ds_reservations s) k = Some amount \<and> budgetCountersBalance amount (st_used v) (st_released v) (st_held v)))"

definition totalsBalance :: "dg_budget_totals \<Rightarrow> bool" where
  "totalsBalance t \<longleftrightarrow> (\<forall>c. c \<noteq> FReportedTokens \<longrightarrow>
     the (counterAt (bt_reserved t) c) = the (counterAt (bt_used t) c) + the (counterAt (bt_released t) c) + the (counterAt (bt_held t) c))"

lemma counterAt_numeric: "c \<noteq> FReportedTokens \<Longrightarrow> \<exists>v. counterAt x c = Some v"
  by (cases c) auto

lemma balance_numeric:
  "budgetCountersBalance r u l h \<Longrightarrow> c \<noteq> FReportedTokens \<Longrightarrow> the (counterAt r c) = the (counterAt u c) + the (counterAt l c) + the (counterAt h c)"
  by (cases c) (auto simp: budgetCountersBalance_def Let_def split: if_splits)

lemma the_add: "c \<noteq> FReportedTokens \<Longrightarrow> the (counterAt (budgetAdd x y) c) = the (counterAt x c) + the (counterAt y c)"
  using counterAt_numeric [of c x] counterAt_numeric [of c y] by (auto simp: counterAt_add)

lemma addTotals_balance:
  assumes "totalsBalance t" "\<And>v. ds_settlements s (fst x) = Some v \<Longrightarrow> budgetCountersBalance (snd x) (st_used v) (st_released v) (st_held v)"
  shows "totalsBalance (addTotals s x t)"
  using assms balance_numeric
  by (cases x; cases "ds_settlements s (fst x)") (auto simp: totalsBalance_def addTotals_def the_add)

lemma budgetTotals_balance:
  assumes "budgetOk s"
  shows "totalsBalance (budgetTotals s)"
proof -
  have "totalsBalance (fold (addTotals s) xs t)" if "totalsBalance t" "set xs \<subseteq> set (ds_reservations s)" for xs t
    using that
  proof (induction xs arbitrary: t)
    case (Cons x xs)
    have "map_of (ds_reservations s) (fst x) = Some (snd x)"
      using Cons.prems(2) assms by (auto simp: budgetOk_def intro: map_of_is_SomeI)
    then have "totalsBalance (addTotals s x t)"
      using Cons.prems(1) assms unfolding budgetOk_def by (intro addTotals_balance) fastforce+
    then show ?case using Cons by simp
  qed simp
  then show ?thesis
    by (simp add: budgetTotals_def totalsBalance_def)
qed

section \<open>Barriers\<close>

definition acceptedNow :: "dg_state \<Rightarrow> string \<Rightarrow> bool" where
  "acceptedNow s d \<longleftrightarrow> map_option dr_status (latestRevision s d) = Some dg_accepted"

definition barriersOk :: "dg_state \<Rightarrow> bool" where
  "barriersOk s \<longleftrightarrow> barriersOpen s \<and> (\<forall>(k, b)\<in>set (ds_barriers s). ba_terminalStatus b = Some barrier_completed \<longrightarrow>
     (\<forall>d\<in>set (ba_requiredDelegationIds b). acceptedNow s d))"

lemma revMove_accepted: "revMove p e r r' \<Longrightarrow> revOk p es r \<Longrightarrow> dr_status r = dg_accepted \<Longrightarrow> dr_status r' = dg_accepted"
  by (cases rule: revMove.cases)
    (auto simp: closedStatuses_def initialPreparation_def retryPreparation_def revOk_def receiptsOk_def childTerminalOk_def split: if_splits)

lemma find_rev_update:
  assumes "find P (rev xs) = Some r" "Q r" "P y = P (xs ! i)" "Q (xs ! i) \<Longrightarrow> Q y" "i < length xs"
  shows "\<exists>r'. find P (rev (xs[i := y])) = Some r' \<and> Q r'"
  using assms by (induction xs arbitrary: r rule: rev_induct) (auto simp: nth_append list_update_append less_Suc_eq split: if_splits nat.splits)

lemma acceptedNow_update:
  assumes "acceptedNow s d" "i < length (ds_revisions s)" "dr_delegationId y = dr_delegationId (ds_revisions s ! i)"
    "dr_status (ds_revisions s ! i) = dg_accepted \<Longrightarrow> dr_status y = dg_accepted" "ds_revisions s' = (ds_revisions s)[i := y]"
  shows "acceptedNow s' d"
proof -
  obtain r where "find (\<lambda>r. dr_delegationId r = d) (rev (ds_revisions s)) = Some r" "dr_status r = dg_accepted"
    using assms(1) by (auto simp: acceptedNow_def latestRevision_def)
  from find_rev_update [where Q = "\<lambda>r. dr_status r = dg_accepted", OF this, of y i] assms(2-5) show ?thesis
    by (auto simp: acceptedNow_def latestRevision_def)
qed

lemma acceptedNow_member:
  assumes "acceptedNow s d"
  obtains k where "k < length (ds_revisions s)" "dr_delegationId (ds_revisions s ! k) = d" "dr_status (ds_revisions s ! k) = dg_accepted"
  using assms that by (auto simp: acceptedNow_def latestRevision_def dest!: find_eq_Some) (auto simp: in_set_conv_nth)

lemma acceptedNow_push: "acceptedNow s d \<Longrightarrow> dr_delegationId q \<noteq> d \<Longrightarrow> ds_revisions s' = ds_revisions s @ [q] \<Longrightarrow> acceptedNow s' d"
  by (auto simp: acceptedNow_def latestRevision_def)

lemma accepted_not_draft:
  assumes "chainOk (ds_revisions s)" "acceptedNow s d" "i < length (ds_revisions s)" "dr_status (ds_revisions s ! i) = dg_draft"
  shows "dr_delegationId (ds_revisions s ! i) \<noteq> d"
proof
  assume d: "dr_delegationId (ds_revisions s ! i) = d"
  obtain k where k: "k < length (ds_revisions s)" "dr_delegationId (ds_revisions s ! k) = d" "dr_status (ds_revisions s ! k) = dg_accepted"
    using acceptedNow_member [OF assms(2)] .
  have "superseding (ds_revisions s ! i) (ds_revisions s ! k)" if "i < k"
    using assms(1) that k(1) by (auto simp: chainOk_def sorted_wrt_iff_nth_less)
  moreover have "superseding (ds_revisions s ! k) (ds_revisions s ! i)" if "k < i"
    using assms(1) that assms(3) by (auto simp: chainOk_def sorted_wrt_iff_nth_less)
  ultimately show False
    using k d assms(4) by (cases i k rule: linorder_cases) (auto simp: superseding_def)
qed

section \<open>The invariant of the projector\<close>

definition dgInv :: "platform \<Rightarrow> delegation_event list \<Rightarrow> dg_state \<Rightarrow> bool" where
  "dgInv p es s \<longleftrightarrow> (\<forall>r\<in>set (ds_revisions s). revOk p es r) \<and> chainOk (ds_revisions s) \<and> slotsOk s \<and> claimsOk s \<and>
     budgetOk s \<and> barriersOk s"

lemma revs_update:
  "\<forall>r\<in>set rs. revOk p es r \<Longrightarrow> revOk p (es @ [e]) y \<Longrightarrow> \<forall>r\<in>set (rs[i := y]). revOk p (es @ [e]) r"
  by (auto dest!: list_update_set intro: revOk_more)

lemma revisions_step:
  "dgStep p e s s' \<Longrightarrow> \<forall>r\<in>set (ds_revisions s). revOk p es r \<Longrightarrow> \<forall>r\<in>set (ds_revisions s'). revOk p (es @ [e]) r"
proof (induction rule: dgStep.induct)
  case (replace v ident i s b)
  then have "revOk p (es @ [e]) (b\<lparr>dr_status := dg_superseded\<rparr>)"
    by (intro superseded_ok revOk_more) auto
  with replace show ?case using revs_update [of "ds_revisions s" p es e] by (auto simp: pushRev_def newRevision_ok)
qed (auto simp: pushRev_def newRevision_ok intro: revMove_ok revOk_more dest!: list_update_set)

lemma chain_move:
  assumes "chainOk rs" "\<forall>r\<in>set rs. revOk p es r" "i < length rs" "revMove p e (rs ! i) y"
  shows "chainOk (rs[i := y])"
  using revMove_content [OF assms(4)] revMove_superseded [OF assms(4), of es] assms(2,3)
  by (intro chainOk_update [OF assms(1,3)]) auto

lemma newRevision_simps [simp]:
  "dr_delegationId (newRevision i v c) = tg_delegation_id (rd_target v)" "dr_delegationRevision (newRevision i v c) = tg_delegation_revision (rd_target v)"
  "dr_parentActorId (newRevision i v c) = tg_parent_actor_id (rd_target v)" "dr_status (newRevision i v c) = dg_draft"
  by (simp_all add: newRevision_def)

lemma chain_step:
  "dgStep p e s s' \<Longrightarrow> \<forall>r\<in>set (ds_revisions s). revOk p es r \<Longrightarrow> chainOk (ds_revisions s) \<Longrightarrow> chainOk (ds_revisions s')"
proof (induction rule: dgStep.induct)
  case (propose v ident s)
  then show ?case by (auto simp: pushRev_def intro!: chainOk_propose)
next
  case (replace v ident i s b)
  then show ?case using chainOk_replace [of "ds_revisions s" i "newRevision (eventId e) v (di_content ident)"] by (simp add: pushRev_def)
qed (auto intro: chain_move)

lemma frames:
  "slotsOk s \<Longrightarrow> ds_slots s' = ds_slots s \<Longrightarrow> ds_maxChildren s' = ds_maxChildren s \<Longrightarrow> slotsOk s'"
  "claimsOk s \<Longrightarrow> ds_claims s' = ds_claims s \<Longrightarrow> claimsOk s'"
  "budgetOk s \<Longrightarrow> ds_reservations s' = ds_reservations s \<Longrightarrow> ds_settlements s' = ds_settlements s \<Longrightarrow> budgetOk s'"
  "acceptedNow s d \<Longrightarrow> ds_revisions s' = ds_revisions s \<Longrightarrow> acceptedNow s' d"
  unfolding slotsOk_def claimsOk_def budgetOk_def acceptedNow_def latestRevision_def by metis+

lemma slots_step: "dgStep p e s s' \<Longrightarrow> slotsOk s \<Longrightarrow> slotsOk s'"
proof (induction rule: dgStep.induct)
  case (slot_claim s v)
  then show ?case by - (rule slotsOk_claim [of s v], simp_all)
next
  case (slot_release s k)
  then show ?case
    using le_trans [OF delete_keeps(3) [of k "ds_slots s"], of 2] delete_keeps(1) [of sl_claimId "ds_slots s" k]
      delete_keeps(2) [of "\<lambda>a b. slotsApart (snd a) (snd b)" "ds_slots s" k] by (simp add: slotsOk_def)
qed (erule frames(1); simp add: pushRev_def)+

lemma claims_step: "dgStep p e s s' \<Longrightarrow> claimsOk s \<Longrightarrow> claimsOk s'"
proof (induction rule: dgStep.induct)
  case (claim_grant s v)
  then show ?case by - (rule claimsOk_grant [of s v], simp_all)
next
  case (claim_release s k)
  then show ?case
    using delete_keeps(1) [of cc_claimId "ds_claims s" k]
      delete_keeps(2) [of "\<lambda>a b. cc_claimId (snd a) \<noteq> cc_claimId (snd b) \<and> \<not> collides (snd a) (snd b)" "ds_claims s" k]
    by (simp add: claimsOk_def)
qed (erule frames(2); simp add: pushRev_def)+

lemma budget_step: "dgStep p e s s' \<Longrightarrow> budgetOk s \<Longrightarrow> budgetOk s'"
proof (induction rule: dgStep.induct)
  case (reserve i s r k amount)
  have "v \<noteq> None \<Longrightarrow> j \<noteq> k" if "map_of (ds_reservations s) j = v" for j v using reserve(3) that by auto
  with reserve(4) show ?case by (fastforce simp: budgetOk_def distinct_update)
next
  case (settle i s r k amount v)
  then show ?case by (auto simp: budgetOk_def)
qed (erule frames(3); simp add: pushRev_def)+

lemma accepted_move:
  assumes "i < length (ds_revisions s)" "revMove p e (ds_revisions s ! i) r" "\<forall>r\<in>set (ds_revisions s). revOk p es r"
    "acceptedNow s d" "ds_revisions s' = (ds_revisions s)[i := r]"
  shows "acceptedNow s' d"
  using revMove_content [OF assms(2)] revMove_accepted [OF assms(2), of es] assms(1,3,5)
  by - (rule acceptedNow_update [OF assms(4,1)], auto)

lemma accepted_step:
  assumes "dgStep p e s s'" "\<forall>r\<in>set (ds_revisions s). revOk p es r" "chainOk (ds_revisions s)" "acceptedNow s d"
  shows "acceptedNow s' d"
  using assms
proof (induction rule: dgStep.induct)
  case (propose v ident s)
  obtain k where "k < length (ds_revisions s)" "dr_delegationId (ds_revisions s ! k) = d"
    using acceptedNow_member [OF propose(7)] by blast
  with propose(3) have "tg_delegation_id (rd_target v) \<noteq> d" by auto
  then show ?case
    by - (rule acceptedNow_push [OF propose(7), of "newRevision (eventId e) v (di_content ident)"], simp_all add: pushRev_def)
next
  case (replace v ident i s b)
  let ?u = "s\<lparr>ds_revisions := (ds_revisions s)[i := b\<lparr>dr_status := dg_superseded\<rparr>]\<rparr>"
  have "tg_delegation_id (rd_target v) \<noteq> d" using accepted_not_draft [OF replace(10,11,2)] replace(3-5) by simp
  moreover have "acceptedNow ?u d" using replace by - (rule acceptedNow_update [OF replace(11,2)], simp_all)
  ultimately show ?case
    by - (rule acceptedNow_push [of ?u d "newRevision (eventId e) v (di_content ident)"], simp_all add: pushRev_def)
next
  case (revision i s r w c)
  then show ?case using accepted_move [OF revision(1,2)] by simp
next
  case (reserve i s r k amount)
  then show ?case using accepted_move [OF reserve(1,2)] by simp
next
  case (settle i s r k amount v)
  then show ?case using accepted_move [OF settle(1,2)] by simp
qed (erule frames(4); simp)+

lemma barriers_step:
  assumes "dgStep p e s s'" "dgInv p es s"
  shows "barriersOk s'"
proof -
  have keep: "acceptedNow s' d" if "acceptedNow s d" for d
    using accepted_step [OF assms(1) _ _ that, of es] assms(2) by (simp add: dgInv_def)
  from assms(1) have "ds_barriers s' = ds_barriers s \<or> (\<exists>k b. ds_barriers s' = AList.update k b (ds_barriers s) \<and>
      (ba_status b = bs_released \<or> ba_terminalStatus b = None) \<and>
      (ba_terminalStatus b = Some barrier_completed \<longrightarrow> (\<forall>d\<in>set (ba_requiredDelegationIds b). acceptedNow s d)))"
    by (cases rule: dgStep.cases) (auto simp: acceptedNow_def pushRev_def)
  then show ?thesis
    using assms(2) keep unfolding dgInv_def barriersOk_def barriersOpen_def by (fastforce dest!: in_set_AList_update)
qed

lemma dgInv_step:
  assumes "dgInv p es s" "delegationStep p events s e = Inr s'"
  shows "dgInv p (es @ [e]) s'"
proof -
  have st: "dgStep p e s s'"
    using delegationStep_dgStep [OF assms(2)] assms(1) by (simp add: dgInv_def barriersOk_def)
  with revisions_step [OF st] chain_step [OF st] slots_step [OF st] claims_step [OF st] budget_step [OF st]
    barriers_step [OF st assms(1)] assms(1) show ?thesis
    unfolding dgInv_def by blast
qed

interpretation delegation: log_projector "delegationStep p events" dg_init "dgInv p" for p events
proof
  show "dgInv p [] dg_init"
    by (simp add: dgInv_def dg_init_def chainOk_def slotsOk_def claimsOk_def budgetOk_def barriersOk_def barriersOpen_def
        delegationsOf_def keyed_def)
qed (rule dgInv_step)

lemma projectDelegation_state:
  assumes "projectDelegation p events = Inr d"
  obtains s where "efold (delegationStep p events) dg_init events = Inr s" "dgInv p events s" "d = dgProjection events s"
  using assms that by (auto simp: projectDelegation_def err_simps dest: delegation.log_run)

end
