(* ===== verification/DelegationScheduler.thy ===== *)
theory DelegationScheduler
  imports DelegationProjector "HOL-Library.Product_Lexorder"
begin

text \<open>
  Admission of delegated children: path claims, the bounded scheduler and the budget of a retry
  (\<^verbatim>\<open>src/src/delegation/delegation-conflict-claim.ts\<close>, \<^verbatim>\<open>bounded-delegation-scheduler.ts\<close>,
  \<^verbatim>\<open>delegation-retry.ts\<close>).

  The environment of a scheduler is the record \<open>scheduler_env\<close>: the platform, Unicode
  normalisation, the group id and \<^verbatim>\<open>randomUuid\<close>, whose \<open>n\<close>-th result is \<open>randomUuid env n\<close>.
  The ledger the scheduler shares with its owner is threaded through the loop, and is part of the
  result also when the loop throws.  The hash of a claim, a function of its other fields, is left out.
\<close>

section \<open>Path claims\<close>

record scheduler_env =
  env_platform :: platform
  nfc :: "jsstring \<Rightarrow> jsstring"
  env_groupId :: string
  randomUuid :: "nat \<Rightarrow> string"

definition foldPath :: "scheduler_env \<Rightarrow> jsstring \<Rightarrow> jsstring" where
  "foldPath env v = lowerEnUs (env_platform env) (nfc env v)"

definition overlap :: "scheduler_env \<Rightarrow> jsstring \<Rightarrow> jsstring \<Rightarrow> bool" where
  "overlap env l r = (let a = foldPath env l; b = foldPath env r in
     a = [0x2e] \<or> b = [0x2e] \<or> a = b \<or> take (length b + 1) a = b @ [0x2f] \<or> take (length a + 1) b = a @ [0x2f])"

definition createDelegationConflictClaim :: "scheduler_env \<Rightarrow> conflict_claim \<Rightarrow> delegation_error_code + conflict_claim" where
  "createDelegationConflictClaim env input =
     (let prefixes = sort (remdups (map (nfc env) (cc_pathPrefixes input))) in
      if length prefixes = 0 \<or> length prefixes > 32 then Inl delegation_workspace_conflict
      else Inr (input\<lparr>cc_pathPrefixes := prefixes\<rparr>))"

definition delegationConflict :: "scheduler_env \<Rightarrow> conflict_claim \<Rightarrow> conflict_claim \<Rightarrow> bool" where
  "delegationConflict env l r =
     (if cc_repositoryId l \<noteq> cc_repositoryId r \<or> cc_sourceLineageId l \<noteq> cc_sourceLineageId r then False
      else if cc_access l = access_read \<and> cc_access r = access_read then False
      else
        let rd = (if cc_access l = access_read then Some l else if cc_access r = access_read then Some r else None);
            wr = (if cc_access l = access_write then Some l else if cc_access r = access_write then Some r else None)
        in if (case (rd, wr) of (Some rd, Some wr) \<Rightarrow> cc_workspaceId rd = None \<and> cc_workspaceId wr \<noteq> None \<and>
                   cc_sourceSnapshotSha256 rd = cc_sourceSnapshotSha256 wr | _ \<Rightarrow> False)
           then False
           else list_ex (\<lambda>a. list_ex (overlap env a) (cc_pathPrefixes r)) (cc_pathPrefixes l))"

definition assertConflictClaimAdmissible :: "scheduler_env \<Rightarrow> conflict_claim \<Rightarrow> conflict_claim list \<Rightarrow> delegation_error_code + unit" where
  "assertConflictClaimAdmissible env candidate active =
     (if list_ex (delegationConflict env candidate) active then Inl delegation_workspace_conflict else Inr ())"

section \<open>Admission\<close>

record ready_delegation =
  rdy_revision :: dg_revision
  rdy_childActorId :: string
  rdy_childAttemptId :: string
  rdy_requestedBudget :: task_graph_budget
  rdy_access :: claim_access
  rdy_repositoryId :: string
  rdy_workspaceId :: "string option"
  rdy_sourceLineageId :: string
  rdy_sourceSnapshotSha256 :: string
  rdy_pathPrefixes :: "jsstring list"

record delegation_admission =
  ad_actorSlot :: nat
  ad_candidate :: ready_delegation
  ad_conflictClaim :: conflict_claim
  ad_reservation :: budget_reservation

datatype deferral = actor_limit | budget_deferral | workspace_conflict_deferral

record admit_input =
  ai_ready :: "ready_delegation list"
  ai_parentModelActive :: bool
  ai_maximumChildren :: "nat option"
  ai_activeClaims :: "conflict_claim list"
  ai_activeChildCount :: nat
  ai_activeActorSlots :: "nat list option"

record admit_state =
  as_ledger :: budget_ledger
  as_uuids :: nat
  as_claims :: "conflict_claim list"
  as_admitted :: "delegation_admission list"
  as_deferred :: "(string \<times> deferral) list"
  as_active :: nat
  as_slots :: "nat set"

definition candidateClaim :: "scheduler_env \<Rightarrow> string \<Rightarrow> ready_delegation \<Rightarrow> conflict_claim" where
  "candidateClaim env claimId c = \<lparr>cc_access = rdy_access c, cc_actorId = rdy_childActorId c, cc_claimId = claimId,
     cc_groupId = env_groupId env, cc_pathPrefixes = rdy_pathPrefixes c, cc_repositoryId = rdy_repositoryId c,
     cc_sourceLineageId = rdy_sourceLineageId c, cc_sourceSnapshotSha256 = rdy_sourceSnapshotSha256 c,
     cc_workspaceId = rdy_workspaceId c\<rparr>"

definition deferChild :: "ready_delegation \<Rightarrow> deferral \<Rightarrow> admit_state \<Rightarrow> admit_state" where
  "deferChild c reason s = s\<lparr>as_deferred := as_deferred s @ [(dr_delegationId (rdy_revision c), reason)]\<rparr>"

definition freeSlot :: "nat set \<Rightarrow> nat option" where
  "freeSlot occupied = find (\<lambda>slot. slot \<notin> occupied) [1, 2]"

text \<open>One round of the loop: the error it throws, if any, and the state it leaves.\<close>

definition admitOne :: "scheduler_env \<Rightarrow> nat \<Rightarrow> ready_delegation \<Rightarrow> admit_state \<Rightarrow> delegation_error_code option \<times> admit_state" where
  "admitOne env maximumChildren c s =
     (if as_active s \<ge> maximumChildren then (None, deferChild c actor_limit s)
      else case freeSlot (as_slots s) of
        None \<Rightarrow> (None, deferChild c actor_limit s)
      | Some actorSlot \<Rightarrow>
          let claimId = randomUuid env (as_uuids s); s = s\<lparr>as_uuids := as_uuids s + 1\<rparr> in
          case createDelegationConflictClaim env (candidateClaim env claimId c) of
            Inl e \<Rightarrow> (Some e, s)
          | Inr claim \<Rightarrow>
              (case assertConflictClaimAdmissible env claim (as_claims s) of
                 Inl e \<Rightarrow> if e = delegation_workspace_conflict then (None, deferChild c workspace_conflict_deferral s) else (Some e, s)
               | Inr _ \<Rightarrow>
                   let reservationId = randomUuid env (as_uuids s); s = s\<lparr>as_uuids := as_uuids s + 1\<rparr> in
                   case reserve \<lparr>ri_expectedRevision = lg_revision (as_ledger s), ri_reservationId = reservationId,
                          ri_delegationId = dr_delegationId (rdy_revision c), ri_childAttemptId = rdy_childAttemptId c,
                          ri_graphBudgetLedgerRevision = db_graphRevision (dr_binding (rdy_revision c)),
                          ri_requested = rdy_requestedBudget c\<rparr> (as_ledger s) of
                     Inl e \<Rightarrow> if e = delegation_budget_exhausted then (None, deferChild c budget_deferral s) else (Some e, s)
                   | Inr (ledger, reservation) \<Rightarrow>
                       (None, s\<lparr>as_ledger := ledger,
                          as_admitted := as_admitted s @ [\<lparr>ad_actorSlot = actorSlot, ad_candidate = c, ad_conflictClaim = claim,
                            ad_reservation = reservation\<rparr>],
                          as_claims := as_claims s @ [claim], as_slots := insert actorSlot (as_slots s),
                          as_active := as_active s + 1\<rparr>)))"

fun admitLoop :: "scheduler_env \<Rightarrow> nat \<Rightarrow> ready_delegation list \<Rightarrow> admit_state \<Rightarrow> delegation_error_code option \<times> admit_state" where
  "admitLoop env maximumChildren [] s = (None, s)"
| "admitLoop env maximumChildren (c # cs) s = (case admitOne env maximumChildren c s of
     (Some e, s) \<Rightarrow> (Some e, s)
   | (None, s) \<Rightarrow> admitLoop env maximumChildren cs s)"

text \<open>
  The candidates in order of sequence number and delegation id.  (Two candidates of one delegation
  with one sequence number would make the comparison inconsistent; they cannot both be admitted.)
\<close>

definition orderedReady :: "ready_delegation list \<Rightarrow> ready_delegation list" where
  "orderedReady ready = sort_key (\<lambda>c. (dc_sequence (dr_content (rdy_revision c)), js (dr_delegationId (rdy_revision c))))
     (filter (\<lambda>c. dr_status (rdy_revision c) = dg_queued \<and> dr_envelope (rdy_revision c) \<noteq> None) ready)"

definition childLimit :: "admit_input \<Rightarrow> nat" where
  "childLimit input = min (case ai_maximumChildren input of None \<Rightarrow> 2 | Some m \<Rightarrow> m) (if ai_parentModelActive input then 1 else 2)"

definition occupiedSlots :: "admit_input \<Rightarrow> nat set" where
  "occupiedSlots input = (case ai_activeActorSlots input of
     None \<Rightarrow> set [1..<ai_activeChildCount input + 1] | Some slots \<Rightarrow> set slots)"

definition startState :: "admit_input \<Rightarrow> budget_ledger \<Rightarrow> nat \<Rightarrow> admit_state" where
  "startState input ledger uuids = \<lparr>as_ledger = ledger, as_uuids = uuids, as_claims = ai_activeClaims input, as_admitted = [],
     as_deferred = [], as_active = ai_activeChildCount input, as_slots = occupiedSlots input\<rparr>"

definition admit :: "scheduler_env \<Rightarrow> admit_input \<Rightarrow> budget_ledger \<Rightarrow> nat \<Rightarrow> delegation_error_code option \<times> admit_state" where
  "admit env input ledger uuids =
     (let s = startState input ledger uuids in
      if (case ai_activeActorSlots input of None \<Rightarrow> False
          | Some slots \<Rightarrow> card (occupiedSlots input) \<noteq> length slots \<or> card (occupiedSlots input) \<noteq> ai_activeChildCount input)
      then (Some delegation_lease_busy, s)
      else admitLoop env (childLimit input) (orderedReady (ai_ready input)) s)"

definition execute :: "delegation_admission list \<Rightarrow> (delegation_admission \<Rightarrow> 'a) \<Rightarrow> delegation_error_code + 'a list" where
  "execute admissions runner = (if length admissions > 2 then Inl delegation_parallel_limit else Inr (map runner admissions))"

section \<open>Retries\<close>

definition preEffectInfrastructureUsage :: task_budget_counters where
  "preEffectInfrastructureUsage = (budgetZero (Some 0))\<lparr>attempts := 1\<rparr>"

definition isAutomaticPreEffectRetryEligible :: "dg_revision \<Rightarrow> bool" where
  "isAutomaticPreEffectRetryEligible r \<longleftrightarrow> dr_status r = dg_queued \<and> dr_receipt r = None \<and>
     r_maxAttempts (dc_retry (dr_content r)) = 2 \<and>
     pre_effect_infrastructure_failure_class \<in> set (automaticOn (dc_retry (dr_content r))) \<and>
     length (dr_attempts r) < r_maxAttempts (dc_retry (dr_content r)) \<and>
     (case lastOpt (dr_attempts r) of None \<Rightarrow> False
      | Some a \<Rightarrow> dat_terminal a = Some ct_pre_effect_infrastructure_failure \<and> dat_unresolvedEffectIds a = [] \<and>
          map_option attempts (dat_budgetUsage a) = Some 1 \<and> dat_budgetSettlementEventId a \<noteq> None)"

definition usedBudget :: "dg_revision \<Rightarrow> task_graph_budget" where
  "usedBudget r = usageToBudget (foldl (\<lambda>total a. budgetAdd total (case dat_budgetUsage a of None \<Rightarrow> budgetZero (Some 0) | Some u \<Rightarrow> u))
     (budgetZero (Some 0)) (dr_attempts r))"

definition safeRemainder :: "int \<Rightarrow> bool" where
  "safeRemainder v \<longleftrightarrow> 0 \<le> v \<and> v \<le> MAX_SAFE_INTEGER"

definition delegationRemainingBudget :: "dg_revision \<Rightarrow> delegation_error_code + task_graph_budget" where
  "delegationRemainingBudget r =
     (let b = dc_budget (dr_content r); remaining = minusBudget b (usedBudget r) in
      if \<not> list_all (\<lambda>k. safeRemainder (the (budgetAt remaining k))) numericKeys then Inl delegation_budget_exhausted
      else case maxReportedTokens b of
        None \<Rightarrow> Inr (remaining\<lparr>maxReportedTokens := None\<rparr>)
      | Some t \<Rightarrow> (case maxReportedTokens (usedBudget r) of
            None \<Rightarrow> Inl delegation_budget_exhausted
          | Some u \<Rightarrow> if safeRemainder (t - u) then Inr (remaining\<lparr>maxReportedTokens := Some (t - u)\<rparr>)
                      else Inl delegation_budget_exhausted))"

definition requireRetryablePreviousAttempt :: "dg_revision \<Rightarrow> delegation_error_code + dg_attempt" where
  "requireRetryablePreviousAttempt r = (case lastOpt (dr_attempts r) of
     None \<Rightarrow> Inl delegation_revision_conflict
   | Some a \<Rightarrow> if isAutomaticPreEffectRetryEligible r then Inr a else Inl delegation_revision_conflict)"

section \<open>What admission guarantees\<close>

text \<open>
  \<open>admissionOk\<close> relates the state of the loop to the one it started from: the admitted children
  occupy slots that were free, no slot twice; their claims conflict neither with the claims held
  before nor with each other; each holds a reservation of what it asked for in the ledger.
\<close>

definition conflictFree :: "scheduler_env \<Rightarrow> nat \<Rightarrow> conflict_claim list \<Rightarrow> bool" where
  "conflictFree env n claims \<longleftrightarrow> (\<forall>i j. i < j \<longrightarrow> j < length claims \<longrightarrow> n \<le> j \<longrightarrow>
     \<not> delegationConflict env (claims ! j) (claims ! i))"

definition admissionOk :: "scheduler_env \<Rightarrow> nat \<Rightarrow> admit_state \<Rightarrow> admit_state \<Rightarrow> bool" where
  "admissionOk env limit s t \<longleftrightarrow>
     as_active t = as_active s + length (as_admitted t) \<and> (as_admitted t \<noteq> [] \<longrightarrow> as_active t \<le> limit) \<and>
     distinct (map ad_actorSlot (as_admitted t)) \<and> set (map ad_actorSlot (as_admitted t)) \<subseteq> {1, 2} - as_slots s \<and>
     as_slots t = as_slots s \<union> set (map ad_actorSlot (as_admitted t)) \<and>
     as_claims t = as_claims s @ map ad_conflictClaim (as_admitted t) \<and>
     conflictFree env (length (as_claims s)) (as_claims t) \<and>
     ledgerMoves (as_ledger s) (as_ledger t) \<and> (ledgerOk (as_ledger s) \<longrightarrow> ledgerOk (as_ledger t)) \<and>
     (\<forall>a\<in>set (as_admitted t). ad_reservation a \<in> set (lg_reservations (as_ledger t)) \<and> rv_status (ad_reservation a) = rv_held \<and>
        rv_reserved (ad_reservation a) = rdy_requestedBudget (ad_candidate a) \<and>
        rv_childAttemptId (ad_reservation a) = rdy_childAttemptId (ad_candidate a))"

lemma createClaim_Inr:
  "createDelegationConflictClaim env input = Inr claim \<Longrightarrow>
   claim = input\<lparr>cc_pathPrefixes := sort (remdups (map (nfc env) (cc_pathPrefixes input)))\<rparr>"
  by (simp add: createDelegationConflictClaim_def Let_def split: if_splits)

lemma admitOne_cases:
  assumes "admitOne env limit c s = (x, t)"
  obtains (deferred) n reason where "t = deferChild c reason (s\<lparr>as_uuids := n\<rparr>)" "x = None"
  | (thrown) e n where "t = s\<lparr>as_uuids := n\<rparr>" "x = Some e"
  | (admitted) n slot claim i ledger reservation where "x = None" "as_active s < limit" "slot \<in> {1, 2} - as_slots s"
      "\<not> list_ex (delegationConflict env claim) (as_claims s)" "reserve i (as_ledger s) = Inr (ledger, reservation)"
      "ri_requested i = rdy_requestedBudget c" "ri_childAttemptId i = rdy_childAttemptId c"
      "t = s\<lparr>as_uuids := n, as_ledger := ledger,
         as_admitted := as_admitted s @ [\<lparr>ad_actorSlot = slot, ad_candidate = c, ad_conflictClaim = claim, ad_reservation = reservation\<rparr>],
         as_claims := as_claims s @ [claim], as_slots := insert slot (as_slots s), as_active := as_active s + 1\<rparr>"
proof -
  show thesis
  proof (cases "as_active s \<ge> limit \<or> freeSlot (as_slots s) = None")
    case True
    then have "t = deferChild c actor_limit s" "x = None" using assms by (auto simp: admitOne_def split: if_splits)
    then show thesis using deferred [of actor_limit "as_uuids s"] by simp
  next
    case False
    then obtain slot where f: "freeSlot (as_slots s) = Some slot" by auto
    then have slot: "slot \<in> {1, 2} - as_slots s" by (auto simp: freeSlot_def split: if_splits)
    define claimed where "claimed = createDelegationConflictClaim env (candidateClaim env (randomUuid env (as_uuids s)) c)"
    define i where "i = \<lparr>ri_expectedRevision = lg_revision (as_ledger s), ri_reservationId = randomUuid env (Suc (as_uuids s)),
       ri_delegationId = dr_delegationId (rdy_revision c), ri_childAttemptId = rdy_childAttemptId c,
       ri_graphBudgetLedgerRevision = db_graphRevision (dr_binding (rdy_revision c)), ri_requested = rdy_requestedBudget c\<rparr>"
    have i: "ri_requested i = rdy_requestedBudget c" "ri_childAttemptId i = rdy_childAttemptId c" by (simp_all add: i_def)
    have lt: "as_active s < limit" using False by simp
    from assms lt show thesis
      unfolding admitOne_def f Let_def claimed_def [symmetric]
      by (auto simp: assertConflictClaimAdmissible_def i_def [symmetric] intro: deferred thrown admitted [OF _ lt slot _ _ i]
          split: sum.splits if_splits prod.splits)
  qed
qed

lemma admissionOk_refl: "as_admitted s = [] \<Longrightarrow> admissionOk env limit s s"
  by (simp add: admissionOk_def conflictFree_def ledgerMoves_def grows_refl reservationMoves_refl)

lemma admissionOk_frame:
  "admissionOk env limit s t \<Longrightarrow> as_active u = as_active t \<Longrightarrow> as_admitted u = as_admitted t \<Longrightarrow> as_slots u = as_slots t \<Longrightarrow>
   as_claims u = as_claims t \<Longrightarrow> as_ledger u = as_ledger t \<Longrightarrow> admissionOk env limit s u"
  unfolding admissionOk_def by metis

lemma conflictFree_snoc:
  "conflictFree env n cs \<Longrightarrow> \<not> list_ex (delegationConflict env c) cs \<Longrightarrow> conflictFree env n (cs @ [c])"
  by (auto simp: conflictFree_def nth_append list_ex_iff less_Suc_eq)

lemma admitOne_ok:
  assumes ok: "admissionOk env limit s t" and step: "admitOne env limit c t = (x, u)"
  shows "admissionOk env limit s u"
  using step
proof (cases rule: admitOne_cases)
  case (deferred n reason)
  then show ?thesis by (intro admissionOk_frame [OF ok]) (simp_all add: deferChild_def)
next
  case (thrown e n)
  then show ?thesis by (intro admissionOk_frame [OF ok]) simp_all
next
  case (admitted n slot claim i ledger reservation)
  note r = reserve_cases [OF admitted(5)]
  have mv: "ledgerMoves (as_ledger t) ledger"
    using ledgerCall_moves [of "as_ledger t" "CallReserve i" ledger reservation] admitted(5) by simp
  have keep: "a \<in> set (lg_reservations ledger)" if "a \<in> set (lg_reservations (as_ledger t))" for a
    using that r(4) by simp
  have "conflictFree env (length (as_claims s)) (as_claims t @ [claim])"
    by (rule conflictFree_snoc [OF _ admitted(4)]) (use ok in \<open>unfold admissionOk_def, blast\<close>)
  moreover have "ledgerMoves (as_ledger s) ledger" using ok mv by (auto simp: admissionOk_def intro: ledgerMoves_trans)
  moreover have "ledgerOk (as_ledger s) \<longrightarrow> ledgerOk ledger" using ok reserve_ok [OF _ admitted(5)] by (auto simp: admissionOk_def)
  ultimately show ?thesis
    using ok admitted keep r by (auto simp: admissionOk_def)
qed

lemma admitLoop_ok:
  "admitLoop env limit cs t = (x, u) \<Longrightarrow> admissionOk env limit s t \<Longrightarrow> admissionOk env limit s u"
proof (induction cs arbitrary: t)
  case (Cons c cs)
  then show ?case using admitOne_ok [of env limit s t c] by (auto split: prod.splits option.splits)
qed simp

text \<open>Every candidate is admitted or deferred when the loop does not throw.\<close>

definition handled :: "admit_state \<Rightarrow> string multiset" where
  "handled s = mset (map (\<lambda>a. dr_delegationId (rdy_revision (ad_candidate a))) (as_admitted s)) + mset (map fst (as_deferred s))"

lemma admitOne_handled:
  "admitOne env limit c s = (None, t) \<Longrightarrow> handled t = handled s + {#dr_delegationId (rdy_revision c)#}"
  by (cases rule: admitOne_cases, assumption) (auto simp: handled_def deferChild_def)

lemma admitLoop_handled:
  "admitLoop env limit cs s = (None, t) \<Longrightarrow> handled t = handled s + mset (map (\<lambda>c. dr_delegationId (rdy_revision c)) cs)"
proof (induction cs arbitrary: s)
  case (Cons c cs)
  then show ?case by (auto split: prod.splits option.splits dest!: admitOne_handled)
qed simp

end
