(* ===== verification/DemoDelegation.thy ===== *)
theory DemoDelegation
  imports DelegationInvariants DelegationScheduler DemoGraph
begin

text \<open>
  A concrete delegation: proposed, approved, queued and prepared; its parent waits behind a
  barrier; the child takes a slot, a path claim and a reservation, runs and succeeds; its receipt
  is accepted, the budget settled and the barrier released.
\<close>

definition demoSha :: string where
  "demoSha = replicate 64 CHR ''a''"

definition demoParent :: delegation_binding where
  "demoParent = \<lparr>db_sessionId = ''s'', db_parentRunId = ''r'', db_parentActorId = ''pa'', db_goalId = ''g'', db_goalRevision = 1,
     db_planId = ''p'', db_planRevision = 1, db_planSha256 = demoSha, db_graphId = None, db_graphRevision = None,
     db_graphSha256 = None, db_nodeId = None, db_nodeAttemptId = None, db_parentWorkspaceLineageId = demoSha\<rparr>"

definition demoDelegation :: delegation_content where
  "demoDelegation = \<lparr>dc_sequence = 1, dc_title = js ''t'', dc_objective = js ''o'',
     expectedReceipt = \<lparr>er_kind = analysis_receipt, er_requiredClaims =
       [\<lparr>ec_claimId = ''a'', ec_kind = answer_claim, ec_description = js ''t'', ec_required = True\<rparr>,
        \<lparr>ec_claimId = ''b'', ec_kind = answer_claim, ec_description = js ''t'', ec_required = False\<rparr>]\<rparr>,
     contextRequest = \<lparr>includeApprovedPlanItems = [], includeParentFacts = [], requestedPaths = [], maximumCapsuleBytes = 16384\<rparr>,
     authorityRequest = \<lparr>taskProfile = read_only_profile, toolIds = [], capabilityIds = []\<rparr>, dc_budget = demoBudget,
     dc_workspace = \<lparr>sourceSnapshotSha256 = demoSha, managedWorkspaceId = None, wr_declaredPathPrefixes = []\<rparr>,
     dc_model = SameAsParent, dc_retry = \<lparr>r_maxAttempts = 1, automaticOn = []\<rparr>, dc_delegationId = ''d'', dc_binding = demoParent\<rparr>"

definition demoDelegationReordered :: delegation_content where
  "demoDelegationReordered = demoDelegation\<lparr>expectedReceipt := (expectedReceipt demoDelegation)
     \<lparr>er_requiredClaims := rev (er_requiredClaims (expectedReceipt demoDelegation))\<rparr>\<rparr>"

lemma demoDelegation_ok: "delegationRevisionContentSchema demoPlatform demoDelegation"
  by (simp add: delegationRevisionContentSchema_def demoDelegation_def demo_text demo_planItemId delegationExpectedReceiptSchema_def
      delegationExpectedClaimSchema_def requiredOfKind_def noDuplicates_def delegationContextRequestSchema_def pathArray_def
      delegationAuthorityRequestSchema_def taskGraphBudgetSchema_def demoBudget_def delegationWorkspaceRequestSchema_def
      delegationRetrySchema_def delegationParentBindingSchema_def demoParent_def validateRevisionSemantics_def
      positiveSafeInteger_def sha256Ok_def demoSha_def list_all_iff char_class_defs delegation_bounds Let_def
      MAX_TASK_GRAPH_NODES_def MAX_TASK_GRAPH_ATTEMPTS_PER_NODE_def) (simp add: demoPlatform_def)

lemma demoDelegation_canonical: "canonicalized demoDelegation = demoDelegation"
  by (simp add: canonicalized_def demoDelegation_def sortIds_def)

definition demoBytes :: nat where
  "demoBytes = (case encodeDelegation demoDelegation of Inl _ \<Rightarrow> 0 | Inr s \<Rightarrow> byteLength s)"

lemma demoBytes_small: "demoBytes \<le> MAX_DELEGATION_REVISION_BYTES"
proof -
  have "3 * jsonBound (delegationJson demoDelegation) \<le> MAX_DELEGATION_REVISION_BYTES"
    by (simp add: delegationJson_def demoDelegation_def expectedReceiptJson_def contextRequestJson_def authorityRequestJson_def
        workspaceRequestJson_def retryJson_def budgetJson_def demoBudget_def delegationBindingJson_def demoParent_def JOpt_def
        demoSha_def MAX_DELEGATION_REVISION_BYTES_def showInt_def showNat.simps del: js_Cons js_Nil)
  then show ?thesis
    using canonicalJson_byteLength [of "delegationJson demoDelegation"]
    by (auto simp: demoBytes_def encodeDelegation_def split: sum.splits)
qed

lemma demoDelegation_identity:
  obtains bytes where "canonicalDelegationIdentity demoPlatform demoDelegation =
    Inr \<lparr>di_byteLength = demoBytes, di_bytes = bytes, di_content = demoDelegation, di_delegationSha256 = ''h''\<rparr>"
proof -
  obtain s where s: "encodeDelegation demoDelegation = Inr s" by (rule encodeDelegation_total)
  moreover have "byteLength s = demoBytes" by (simp add: demoBytes_def s)
  moreover have "sha256 demoPlatform s = ''h''" by (simp add: demoPlatform_def)
  ultimately show thesis
    using that demoBytes_small
    by (simp add: canonicalDelegationIdentity_def normalizeDelegationRevision_def parseDelegation_def demoDelegation_ok
        demoDelegation_canonical)
qed

lemma demo_json_hash: "jsonDefined v \<Longrightarrow> hashJson demoPlatform v = Inr ''h''"
  using canonicalJson_defined [of v] by (auto simp: hashJson_def sha256Canonical_def demoPlatform_def)

lemma demo_sameBinding: "sameBinding demoPlatform b c"
  by (simp add: sameBinding_def demo_json_hash json_defined)

lemma demo_approval: "delegationApprovalIdentity demoPlatform a b c n d e = Inr ''h''"
  unfolding delegationApprovalIdentity_def by (rule demo_json_hash) (simp add: json_defined)

section \<open>The log\<close>

definition demoDg :: "nat \<Rightarrow> string \<Rightarrow> delegation_data \<Rightarrow> delegation_event" where
  "demoDg n i d = \<lparr>eventId = i, sessionId = ''s'', sessionSeq = n, sourceSchemaVersion = 2, scope = SessionScope,
     edata = OtherEvent ''delegation'', ddata = Some d\<rparr>"

definition demoTg :: dg_target where
  "demoTg = \<lparr>tg_delegation_id = ''d'', tg_delegation_revision = 1, tg_delegation_sha256 = ''h'', tg_parent_actor_id = ''pa'',
     tg_parent_run_id = ''r''\<rparr>"

definition demoArt :: "nat \<Rightarrow> graph_artifact" where
  "demoArt n = \<lparr>ga_artifact_id = ''x'', ga_bytes = n, ga_object_ref = ''o'', ga_sha256 = ''h''\<rparr>"

definition demoUse :: "int \<Rightarrow> task_budget_counters" where
  "demoUse n = \<lparr>attempts = 1, durationMs = n, modelSteps = 0, commandExecutions = 0, commandOutputBytes = 0,
     changedFiles = 0, changedBytes = 0, artifactBytes = 0, reportedTokens = None\<rparr>"

definition demoZero :: "int \<Rightarrow> task_budget_counters" where
  "demoZero n = \<lparr>attempts = 0, durationMs = n, modelSteps = 0, commandExecutions = 0, commandOutputBytes = 0,
     changedFiles = 0, changedBytes = 0, artifactBytes = 0, reportedTokens = None\<rparr>"

definition demoEnvelope :: dg_envelope where
  "demoEnvelope = \<lparr>contextCapsule = demoArt 1, contextCapsuleSha256 = ''c'', envelope = demoArt 1, envelopeSha256 = ''v''\<rparr>"

definition demoSlot :: actor_slot where
  "demoSlot = \<lparr>sl_actorId = ''ca'', sl_actorKind = child_actor, sl_claimId = ''k1'', sl_groupId = ''G'', sl_slot = 1\<rparr>"

definition demoClaim :: conflict_claim where
  "demoClaim = \<lparr>cc_access = access_read, cc_actorId = ''ca'', cc_claimId = ''k2'', cc_groupId = ''G'', cc_pathPrefixes = [js ''a''],
     cc_repositoryId = ''R'', cc_sourceLineageId = ''L'', cc_sourceSnapshotSha256 = demoSha, cc_workspaceId = None\<rparr>"

definition demoProposal :: dg_revision_data where
  "demoProposal = \<lparr>rd_target = demoTg, rd_artifact = demoArt demoBytes, rd_authority_preview_sha256 = ''y'',
     rd_binding = demoParent, rd_content = demoDelegation\<rparr>"

definition demoDecision :: dg_decision_data where
  "demoDecision = \<lparr>dd_target = demoTg, dd_approval_identity_sha256 = ''h'', dd_authority_preview_sha256 = ''y'', dd_approved = True,
     dd_decision_request_id = ''q'', dd_display_artifact = demoArt 1, dd_revision_event_id = ''e1''\<rparr>"

definition demoLaunched :: "delegation_event list" where
  "demoLaunched =
    [demoDg 1 ''e1'' (RevisionProposed demoProposal),
     demoDg 2 ''e2'' (DecisionRecorded demoDecision),
     demoDg 3 ''e3'' (Queued demoTg),
     demoDg 4 ''e4'' (EnvelopePrepared demoTg demoEnvelope),
     demoDg 5 ''e5'' (BarrierRequested ''b'' ''pa'' ''r'' [''d'']),
     demoDg 6 ''e6'' (BarrierSuspended ''b'' ''pa'' ''r''),
     demoDg 7 ''e7'' (ActorSlotClaimed demoSlot),
     demoDg 8 ''e8'' (ConflictClaimGranted demoClaim),
     demoDg 9 ''e9'' (BudgetReserved demoTg ''a1'' ''k'' (demoUse 100)),
     demoDg 10 ''e10'' (ChildLaunchRequested \<lparr>la_target = demoTg, la_child_actor_id = ''ca'', la_child_attempt_id = ''a1'',
       la_child_attempt_number = 1, la_envelope_sha256 = ''w'', la_prepared_envelope_sha256 = ''v'', la_operation_id = ''o'',
       la_operation_nonce_sha256 = ''n''\<rparr>)]"

definition demoFinished :: "delegation_event list" where
  "demoFinished = demoLaunched @
    [demoDg 11 ''e11'' (ChildStarted \<lparr>sd_target = demoTg, sd_child_actor_id = ''ca'', sd_child_attempt_id = ''a1'',
       sd_child_attempt_number = 1, sd_child_run_id = ''cr'', sd_envelope_sha256 = ''w'', sd_operation_id = ''o''\<rparr>),
     demoDg 12 ''e12'' (ChildTerminal \<lparr>td_target = demoTg, td_budget_usage = demoUse 40, td_child_actor_id = ''ca'',
       td_child_attempt_id = ''a1'', td_child_run_id = ''cr'', td_operation_id = ''o'', td_terminal = ct_succeeded,
       td_unresolved_effect_ids = []\<rparr>),
     demoDg 13 ''e13'' (BudgetSettled demoTg ''a1'' ''k'' \<lparr>st_held = demoZero 0, st_released = demoZero 60, st_used = demoUse 40\<rparr>),
     demoDg 14 ''e14'' (ReceiptReady \<lparr>rc_target = demoTg, rc_child_attempt_id = ''a1'', rc_claim_statuses = [(''a'', claim_verified)],
       rc_receipt_artifact = demoArt 1, rc_receipt_sha256 = ''z'', rc_status = receipt_succeeded, rc_terminal_event_id = ''e12''\<rparr>),
     demoDg 15 ''e15'' (ReceiptAccepted demoTg ''x'' ''z'' ''e14''),
     demoDg 16 ''e16'' (BarrierReleased ''b'' ''pa'' ''r'' [''z''] barrier_completed)]"

section \<open>Its projection\<close>

lemmas dg_eval = delegationStep_def delegationEvent_def exact_def revAt_def Let_def updateRev_def updateAtt_def pushRev_def
  exactAttempt_def onProposed_def onDecision_def onQueued_def onEnvelope_def onBarrierRequested_def onBarrierSuspended_def
  onSlotClaimed_def onClaimGranted_def onReserved_def onLaunch_def onStarted_def onChildTerminal_def onSettled_def
  onReceiptReady_def onReceiptAccepted_def onBarrierReleased_def initialPreparation_def retryPreparation_def
  childTerminalOk_def terminalStatusOf_def latestRevision_def reservedAttempt_def noDuplicates_def lastOpt_def

definition demoAttempt :: dg_attempt where
  "demoAttempt = (reservedAttempt ''a1'' ''k'')\<lparr>dat_actorId := Some ''ca'', dat_attemptNumber := Some 1,
     dat_executableEnvelopeSha256 := Some ''w'', dat_operationId := Some ''o''\<rparr>"

definition demoRev :: "dg_attempt list \<Rightarrow> dg_status \<Rightarrow> dg_revision" where
  "demoRev as st = (newRevision ''e1'' demoProposal demoDelegation)\<lparr>dr_attempts := as, dr_status := st, dr_decisionEventId := Some ''e2'',
     dr_envelope := Some demoEnvelope, dr_envelopePreparationCount := 1\<rparr>"

definition demoBarrier :: "barrier_status \<Rightarrow> dg_barrier" where
  "demoBarrier st = \<lparr>ba_barrierId = ''b'', ba_parentActorId = ''pa'', ba_parentRunId = ''r'', ba_requiredDelegationIds = [''d''],
     ba_receiptSha256s = [], ba_status = st, ba_terminalStatus = None\<rparr>"

definition demoLaunchedState :: dg_state where
  "demoLaunchedState = \<lparr>ds_revisions = [demoRev [demoAttempt] dg_queued], ds_slots = [(''k1'', demoSlot)],
     ds_claims = [(''k2'', demoClaim)], ds_barriers = [(''b'', demoBarrier bs_suspended)], ds_leases = Map.empty, ds_waiting = [],
     ds_reservations = [(''k'', demoUse 100)], ds_cancels = Map.empty, ds_settlements = Map.empty, ds_maxChildren = 1,
     ds_takeovers = 0\<rparr>"

lemma demo_launched: "efold (delegationStep demoPlatform es) dg_init demoLaunched = Inr demoLaunchedState"
proof -
  obtain bytes where i: "canonicalDelegationIdentity demoPlatform demoDelegation =
    Inr \<lparr>di_byteLength = demoBytes, di_bytes = bytes, di_content = demoDelegation, di_delegationSha256 = ''h''\<rparr>"
    by (rule demoDelegation_identity)
  have b: "dc_delegationId demoDelegation = ''d''" "r_maxAttempts (dc_retry demoDelegation) = 1" "dc_binding demoDelegation = demoParent"
    "db_sessionId demoParent = ''s''" "db_parentActorId demoParent = ''pa''" "db_parentRunId demoParent = ''r''"
    by (simp_all add: demoDelegation_def demoParent_def)
  show ?thesis
    by (simp add: demoLaunched_def dg_init_def dg_eval demoDg_def demoTg_def demoArt_def demoProposal_def demoDecision_def i b
        demo_sameBinding demo_approval newRevision_def demoEnvelope_def demoSlot_def demoClaim_def demoLaunchedState_def
        demoRev_def demoAttempt_def demoBarrier_def)
qed

definition demoDoneAttempt :: dg_attempt where
  "demoDoneAttempt = demoAttempt\<lparr>dat_childRunId := Some ''cr'', dat_startedEventId := Some ''e11'', dat_terminal := Some ct_succeeded,
     dat_terminalEventId := Some ''e12'', dat_budgetUsage := Some (demoUse 40), dat_budgetSettlementEventId := Some ''e13''\<rparr>"

definition demoReceipt :: dg_receipt where
  "demoReceipt = \<lparr>rp_acceptedEventId = Some ''e15'', rp_artifact = demoArt 1, rp_claimStatuses = [(''a'', claim_verified)],
     rp_readyEventId = ''e14'', rp_sha256 = ''z'', rp_status = receipt_succeeded\<rparr>"

definition demoDoneRev :: dg_revision where
  "demoDoneRev = (demoRev [demoDoneAttempt] dg_accepted)\<lparr>dr_receipt := Some demoReceipt, dr_terminalEventId := Some ''e12''\<rparr>"

definition demoDoneBarrier :: dg_barrier where
  "demoDoneBarrier = (demoBarrier bs_released)\<lparr>ba_receiptSha256s := [''z''], ba_terminalStatus := Some barrier_completed\<rparr>"

lemma demo_finished: "efold (delegationStep demoPlatform es) dg_init demoFinished =
  Inr (demoLaunchedState\<lparr>ds_revisions := [demoDoneRev], ds_barriers := [(''b'', demoDoneBarrier)],
    ds_settlements := [''k'' \<mapsto> \<lparr>st_held = demoZero 0, st_released = demoZero 60, st_used = demoUse 40\<rparr>]\<rparr>)"
  unfolding demoFinished_def efold_append demo_launched
  by (simp add: demoLaunchedState_def dg_eval demoDg_def demoTg_def demoArt_def newRevision_def demoProposal_def demoRev_def
      demoAttempt_def demoBarrier_def demoDoneRev_def demoDoneAttempt_def demoReceipt_def demoDoneBarrier_def demoEnvelope_def
      budgetCountersBalance_def demoUse_def demoZero_def)

lemma demo_lineage: "efold (\<lambda>_. lineageCheck es) () demoFinished = Inr ()"
  by (simp add: demoFinished_def demoLaunched_def demoDg_def lineageCheck_def)

lemma demo_projected: "projectDelegation demoPlatform demoFinished =
  Inr (dgProjection demoFinished (demoLaunchedState\<lparr>ds_revisions := [demoDoneRev], ds_barriers := [(''b'', demoDoneBarrier)],
    ds_settlements := [''k'' \<mapsto> \<lparr>st_held = demoZero 0, st_released = demoZero 60, st_used = demoUse 40\<rparr>]\<rparr>))"
  by (simp add: projectDelegation_def demo_finished demo_lineage)

end
