(* ===== verification/DelegationProperties.thy ===== *)
theory DelegationProperties
  imports DemoDelegation
begin

text \<open>
  What delegation promises: a child runs only under a recorded user decision, at most two actors
  work at a time on paths that do not collide, budgets are conserved and never oversubscribed, and a
  parent is released as complete only when the work it waited for was accepted.
\<close>

definition demoReserve :: reserve_input where
  "demoReserve = \<lparr>ri_expectedRevision = 0, ri_reservationId = ''k'', ri_delegationId = ''d'', ri_childAttemptId = ''a1'',
     ri_graphBudgetLedgerRevision = None, ri_requested = demoBudget\<lparr>maxAttempts := 1\<rparr>\<rparr>"

definition demoEnv :: scheduler_env where
  "demoEnv = \<lparr>env_platform = demoPlatform, nfc = (\<lambda>s. s), env_groupId = ''G'', randomUuid = (\<lambda>n. replicate (n + 1) CHR ''u'')\<rparr>"

definition demoReady :: ready_delegation where
  "demoReady = \<lparr>rdy_revision = demoRev [] dg_queued, rdy_childActorId = ''ca'', rdy_childAttemptId = ''a1'',
     rdy_requestedBudget = demoBudget\<lparr>maxAttempts := 1\<rparr>, rdy_access = access_read, rdy_repositoryId = ''R'', rdy_workspaceId = None,
     rdy_sourceLineageId = ''L'', rdy_sourceSnapshotSha256 = demoSha, rdy_pathPrefixes = [js ''a'']\<rparr>"

definition demoInput :: admit_input where
  "demoInput = \<lparr>ai_ready = [demoReady], ai_parentModelActive = True, ai_maximumChildren = None, ai_activeClaims = [],
     ai_activeChildCount = 0, ai_activeActorSlots = None\<rparr>"

definition demoWriter :: conflict_claim where
  "demoWriter = demoClaim\<lparr>cc_access := access_write, cc_actorId := ''cb'', cc_claimId := ''k3'', cc_workspaceId := Some ''w''\<rparr>"

lemma project_revision:
  assumes "projectDelegation p es = Inr d" "r \<in> set (dp_revisions d)"
  shows "revOk p es r"
  using assms by (auto elim!: projectDelegation_state simp: dgProjection_def dgInv_def)

text \<open>
  C18: A delegation has a child attempt only if the log records a session-level decision that approved
  it, whose approval identity is the hash of exactly this revision, its parent binding and the bytes
  displayed to the user, and only after an envelope was prepared for the child.
\<close>

theorem delegated_child_approved:
  assumes "projectDelegation p es = Inr d" "r \<in> set (dp_revisions d)" "dr_attempts r \<noteq> []"
  shows "dr_envelope r \<noteq> None \<and> (\<exists>e\<in>set es. \<exists>v. scope e = SessionScope \<and> ddata e = Some (DecisionRecorded v) \<and> dd_approved v \<and>
     dr_decisionEventId r = Some (eventId e) \<and> dd_revision_event_id v = dr_createdEventId r \<and>
     dd_authority_preview_sha256 v = dr_authorityPreviewSha256 r \<and>
     delegationApprovalIdentity p (dd_decision_request_id v) (dr_binding r) (dr_delegationId r) (dr_delegationRevision r)
       (dr_delegationSha256 r) (ga_sha256 (dd_display_artifact v)) = Inr (dd_approval_identity_sha256 v))"
proof -
  have "attemptsOk r" "decidedBy p es r" using project_revision [OF assms(1,2)] assms(3) by (auto simp: revOk_def)
  then show ?thesis using assms(3) by (auto simp: attemptsOk_def decidedBy_def decisionBinds_def)
qed

theorem delegated_child_approved_witness:
  "dr_attempts demoDoneRev \<noteq> [] \<and> (\<exists>e v. e \<in> set demoFinished \<and> ddata e = Some (DecisionRecorded v) \<and> dd_approved v)"
proof -
  have a: "dr_attempts demoDoneRev \<noteq> []" by (simp add: demoDoneRev_def demoRev_def)
  have "demoDoneRev \<in> set (dp_revisions (dgProjection demoFinished (demoLaunchedState\<lparr>ds_revisions := [demoDoneRev],
      ds_barriers := [(''b'', demoDoneBarrier)],
      ds_settlements := [''k'' \<mapsto> \<lparr>st_held = demoZero 0, st_released = demoZero 60, st_used = demoUse 40\<rparr>]\<rparr>)))"
    by (simp add: dgProjection_def)
  from delegated_child_approved [OF demo_projected this a] a show ?thesis by blast
qed

text \<open>
  C22: A delegation has at most as many attempts as its retry setting allows, and never more than two;
  at most one of them is unfinished, and it is the last.
\<close>

theorem delegated_attempts_bounded:
  assumes "projectDelegation p es = Inr d" "r \<in> set (dp_revisions d)"
  shows "length (dr_attempts r) \<le> r_maxAttempts (dc_retry (dr_content r)) \<and> r_maxAttempts (dc_retry (dr_content r)) \<le> 2 \<and>
    (\<forall>i<length (dr_attempts r). dat_terminal (dr_attempts r ! i) = None \<longrightarrow> i = length (dr_attempts r) - 1)"
proof -
  have ok: "attemptsOk r" "delegationRevisionContentSchema p (dr_content r)" using project_revision [OF assms] by (auto simp: revOk_def)
  have "i = length (dr_attempts r) - 1" if "i < length (dr_attempts r)" "dat_terminal (dr_attempts r ! i) = None" for i
  proof (rule ccontr)
    assume "i \<noteq> length (dr_attempts r) - 1"
    with that(1) have "i < length (butlast (dr_attempts r))" by simp
    then have "dr_attempts r ! i \<in> set (butlast (dr_attempts r))" by (metis nth_butlast nth_mem)
    with ok(1) that(2) show False by (auto simp: attemptsOk_def)
  qed
  with ok schema_retry [OF ok(2)] show ?thesis by (auto simp: attemptsOk_def)
qed

theorem delegated_attempts_bounded_witness: 
  "length (dr_attempts demoDoneRev) = 1 \<and> length (dr_attempts demoDoneRev) \<le> r_maxAttempts (dc_retry (dr_content demoDoneRev))"
proof -
  have m: "demoDoneRev \<in> set (dp_revisions (dgProjection demoFinished (demoLaunchedState\<lparr>ds_revisions := [demoDoneRev],
      ds_barriers := [(''b'', demoDoneBarrier)],
      ds_settlements := [''k'' \<mapsto> \<lparr>st_held = demoZero 0, st_released = demoZero 60, st_used = demoUse 40\<rparr>]\<rparr>)))"
    by (simp add: dgProjection_def)
  from delegated_attempts_bounded [OF demo_projected m] show ?thesis by (simp add: demoDoneRev_def demoRev_def)
qed

text \<open>
  C21: At any point of an accepted log at most two actors hold a slot, no two of them the same slot or
  the same actor in one group, at most two children were ever active together, the path claims held
  are pairwise free of collisions, and no parent actor has more than eight delegations.
\<close>

theorem delegation_parallel_bounded:
  assumes "projectDelegation p es = Inr d"
  shows "length (dp_activeActorSlots d) \<le> 2 \<and> dp_maximumObservedActiveChildren d \<le> 2 \<and>
    sorted_wrt slotsApart (dp_activeActorSlots d) \<and> sorted_wrt (\<lambda>a b. \<not> collides a b) (dp_activeConflictClaims d) \<and>
    card (dr_delegationId ` {r. r \<in> set (dp_revisions d) \<and> dr_parentActorId r = actor}) \<le> MAX_DELEGATIONS_PER_PARENT"
proof -
  obtain s where s: "dgInv p es s" "d = dgProjection es s" using projectDelegation_state [OF assms] by blast
  have "sorted_wrt (\<lambda>a b. \<not> collides (snd a) (snd b)) (ds_claims s)"
    using s(1) by (auto simp: dgInv_def claimsOk_def elim: sorted_wrt_mono_rel [rotated])
  with s show ?thesis
    by (auto simp: dgInv_def slotsOk_def dgProjection_def sorted_wrt_map chainOk_def delegationsOf_def)
qed

theorem delegation_parallel_bounded_witness:
  "length (dp_activeActorSlots (dgProjection demoFinished demoLaunchedState)) \<le> 2 \<and>
   dp_activeActorSlots (dgProjection demoFinished demoLaunchedState) = [demoSlot]"
  using delegation_parallel_bounded [OF demo_projected] by (simp add: dgProjection_def demoLaunchedState_def)

text \<open>
  C19: Budget is conserved: in the totals of the projection, what was reserved for children is exactly
  what they used, what was released and what is still held, for every counter but the reported
  tokens, which may be unknown.
\<close>

theorem delegation_budget_conserved:
  assumes "projectDelegation p es = Inr d" "c \<noteq> FReportedTokens"
  shows "the (counterAt (bt_reserved (dp_budget d)) c) = the (counterAt (bt_used (dp_budget d)) c) +
    the (counterAt (bt_released (dp_budget d)) c) + the (counterAt (bt_held (dp_budget d)) c)"
  using assms budgetTotals_balance
  by (auto elim!: projectDelegation_state simp: dgProjection_def dgInv_def totalsBalance_def)

theorem delegation_budget_conserved_witness:
  "durationMs (bt_reserved (budgetTotals (demoLaunchedState\<lparr>ds_settlements := [''k'' \<mapsto>
     \<lparr>st_held = demoZero 0, st_released = demoZero 60, st_used = demoUse 40\<rparr>]\<rparr>))) = 40 + 60 + 0"
  using delegation_budget_conserved [OF demo_projected, of FDurationMs]
  by (simp add: dgProjection_def budgetTotals_def addTotals_def demoLaunchedState_def demoUse_def demoZero_def budgetZero_def budgetAdd_def)

text \<open>
  C20: A barrier recorded as released and completed is backed by the work it waited for: the latest
  revision of every required delegation is accepted, with a successful receipt that the host accepted
  and an ended attempt that left no unresolved effect.  This holds in the final projection, so nothing
  after the release can take the acceptance back.
\<close>

theorem barrier_completed_accepted:
  assumes "projectDelegation p es = Inr d" "b \<in> set (dp_barriers d)" "ba_terminalStatus b = Some barrier_completed"
    "i \<in> set (ba_requiredDelegationIds b)"
  shows "\<exists>r rc. find (\<lambda>r. dr_delegationId r = i) (rev (dp_revisions d)) = Some r \<and> dr_status r = dg_accepted \<and>
    dr_receipt r = Some rc \<and> rp_status rc = receipt_succeeded \<and> rp_acceptedEventId rc \<noteq> None \<and>
    (\<exists>a\<in>set (dr_attempts r). dat_terminalEventId a \<noteq> None \<and> dat_unresolvedEffectIds a = [])"
proof -
  obtain s where s: "dgInv p es s" "d = dgProjection es s" using projectDelegation_state [OF assms(1)] by blast
  have "acceptedNow s i" using s assms(2-4) by (fastforce simp: dgProjection_def dgInv_def barriersOk_def)
  then obtain r where r: "find (\<lambda>r. dr_delegationId r = i) (rev (dp_revisions d)) = Some r" "dr_status r = dg_accepted"
    by (auto simp: acceptedNow_def latestRevision_def dgProjection_def s(2))
  have "revOk p es r" using find_eq_Some [OF r(1)] s by (auto simp: dgProjection_def dgInv_def)
  then obtain rc where rc: "dr_receipt r = Some rc" "rp_status rc = receipt_succeeded" "rp_acceptedEventId rc \<noteq> None" "settledAttempt r"
    using r(2) by (auto simp: revOk_def receiptsOk_def)
  then show ?thesis using r unfolding settledAttempt_def by blast
qed

theorem barrier_completed_accepted_witness:
  "ba_terminalStatus demoDoneBarrier = Some barrier_completed \<and> dr_status demoDoneRev = dg_accepted"
proof -
  have t: "ba_terminalStatus demoDoneBarrier = Some barrier_completed" "''d'' \<in> set (ba_requiredDelegationIds demoDoneBarrier)"
    by (simp_all add: demoDoneBarrier_def demoBarrier_def)
  have m: "demoDoneBarrier \<in> set (dp_barriers (dgProjection demoFinished (demoLaunchedState\<lparr>ds_revisions := [demoDoneRev],
      ds_barriers := [(''b'', demoDoneBarrier)],
      ds_settlements := [''k'' \<mapsto> \<lparr>st_held = demoZero 0, st_released = demoZero 60, st_used = demoUse 40\<rparr>]\<rparr>)))"
    by (simp add: dgProjection_def)
  from barrier_completed_accepted [OF demo_projected m t] t show ?thesis
    by (auto simp: dgProjection_def split: if_splits)
qed

text \<open>
  C37: The identity of a delegation revision (its normal form, its canonical bytes and its hash) does
  not depend on the order in which claims, plan items, facts, paths, tools or capabilities are listed.
\<close>

theorem delegation_identity_order_independent:
  assumes "sameContent v w" "delegationRevisionContentSchema p v"
  shows "canonicalDelegationIdentity p v = canonicalDelegationIdentity p w"
  by (rule sameContent_identity [OF assms])

theorem delegation_identity_order_independent_witness:
  "canonicalDelegationIdentity demoPlatform demoDelegation = canonicalDelegationIdentity demoPlatform demoDelegationReordered \<and>
   demoDelegation \<noteq> demoDelegationReordered"
proof -
  have "sameContent demoDelegation demoDelegationReordered"
    by (simp add: sameContent_def bare_def demoDelegationReordered_def)
  moreover have "er_requiredClaims (expectedReceipt demoDelegation) \<noteq> er_requiredClaims (expectedReceipt demoDelegationReordered)"
    by (simp add: demoDelegationReordered_def demoDelegation_def)
  ultimately show ?thesis
    using delegation_identity_order_independent [OF _ demoDelegation_ok] by metis
qed

section \<open>The ledger and the scheduler\<close>

text \<open>
  C23: A ledger whose ceilings are non-negative is never oversubscribed, whatever calls are made, in
  whatever order, and whichever of them throw: for every bounded counter what was used and what is
  held together stay within the ceiling, and what is held is exactly the sum of the reservations that
  are not settled.
\<close>

theorem ledger_never_oversubscribed:
  assumes "\<forall>f m. budgetAt b f = Some m \<longrightarrow> 0 \<le> m" "efold afterCall (newLedger b) calls = Inr s" "budgetAt b f = Some m"
  shows "\<exists>u h. counterAt (lg_used s) f = Some u \<and> budgetAt (lg_held s) f = Some h \<and> u + h \<le> m \<and>
    h = sum_list (map (\<lambda>r. the (budgetAt (rv_reserved r) f)) (filter (\<lambda>r. rv_status r \<noteq> rv_settled) (lg_reservations s)))"
proof -
  have ok: "ledgerOk s" "lg_maximum s = b" using ledger.inv_run [OF assms(2)] assms(1) by (auto simp: childLedgerInv_def)
  have "openReserved f rs = sum_list (map (\<lambda>r. the (budgetAt (rv_reserved r) f)) (filter (\<lambda>r. rv_status r \<noteq> rv_settled) rs))" for rs
    by (induction rs) (auto simp: openReserved_def open_counter_def)
  then show ?thesis
    using ok within_at [of "lg_used s" "limits (lg_held s)" "limits b" f m] assms(3) by (auto simp: ledgerOk_def counterAt_limits)
qed

theorem ledger_never_oversubscribed_witness:
  "\<exists>s. efold afterCall (newLedger demoBudget) [CallReserve demoReserve] = Inr s \<and> maxAttempts (lg_held s) = 1 \<and>
     attempts (lg_used s) + maxAttempts (lg_held s) \<le> 3"
proof -
  obtain s where s: "efold afterCall (newLedger demoBudget) [CallReserve demoReserve] = Inr s" "maxAttempts (lg_held s) = 1"
    by (simp add: afterCall_def reserve_def demoReserve_def newLedger_def fits_def numericKeys_def plusBudget_def zeroBudget_def
        usageToBudget_def budgetZero_def demoBudget_def Let_def)
  have "\<forall>f m. budgetAt demoBudget f = Some m \<longrightarrow> 0 \<le> m"
  proof (intro allI impI)
    fix f m assume "budgetAt demoBudget f = Some m" then show "0 \<le> m" by (cases f) (auto simp: demoBudget_def)
  qed
  from ledger_never_oversubscribed [OF this s(1), of FAttempts 3] s show ?thesis by (auto simp: demoBudget_def)
qed

text \<open>
  C24: Admission is bounded and conflict-free.  When it returns, every queued and prepared candidate is
  admitted or deferred; the children admitted and those already active are together at most the child
  limit, itself at most two and at most one beside an active parent; they hold distinct slots that
  were free; no admitted claim conflicts with an earlier one; each child holds a reservation of what
  it asked for, and a ledger that was within its ceilings still is.
\<close>

theorem admission_bounded:
  assumes "admit env input ledger uuids = (None, s)" "ledgerOk ledger"
  shows "childLimit input \<le> (if ai_parentModelActive input then 1 else 2) \<and>
    (as_admitted s \<noteq> [] \<longrightarrow> ai_activeChildCount input + length (as_admitted s) \<le> childLimit input) \<and>
    distinct (map ad_actorSlot (as_admitted s)) \<and> set (map ad_actorSlot (as_admitted s)) \<subseteq> {1, 2} - occupiedSlots input \<and>
    conflictFree env (length (ai_activeClaims input)) (ai_activeClaims input @ map ad_conflictClaim (as_admitted s)) \<and>
    ledgerOk (as_ledger s) \<and>
    (\<forall>a\<in>set (as_admitted s). ad_reservation a \<in> set (lg_reservations (as_ledger s)) \<and> rv_status (ad_reservation a) = rv_held \<and>
       rv_reserved (ad_reservation a) = rdy_requestedBudget (ad_candidate a)) \<and>
    mset (map (\<lambda>c. dr_delegationId (rdy_revision c)) (orderedReady (ai_ready input))) =
      mset (map (\<lambda>a. dr_delegationId (rdy_revision (ad_candidate a))) (as_admitted s)) + mset (map fst (as_deferred s))"
proof -
  let ?s0 = "startState input ledger uuids"
  have run: "admitLoop env (childLimit input) (orderedReady (ai_ready input)) ?s0 = (None, s)"
    using assms(1) by (auto simp: admit_def Let_def split: if_splits)
  have "admissionOk env (childLimit input) ?s0 s"
    by (rule admitLoop_ok [OF run]) (rule admissionOk_refl, simp add: startState_def)
  moreover have "childLimit input \<le> (if ai_parentModelActive input then 1 else 2)" by (auto simp: childLimit_def)
  ultimately show ?thesis
    using admitLoop_handled [OF run] assms(2) unfolding admissionOk_def by (auto simp: startState_def handled_def)
qed

theorem admission_bounded_witness:
  "\<exists>s. admit demoEnv demoInput (newLedger demoBudget) 0 = (None, s) \<and> length (as_admitted s) = 1 \<and> ledgerOk (as_ledger s)"
proof -
  have "0 \<le> m" if "budgetAt demoBudget f = Some m" for f m using that by (cases f) (auto simp: demoBudget_def)
  then have ok: "ledgerOk (newLedger demoBudget)" by (rule newLedger_ok)
  obtain s where s: "admit demoEnv demoInput (newLedger demoBudget) 0 = (None, s)" "length (as_admitted s) = 1"
    by (simp add: admit_def demoInput_def demoEnv_def orderedReady_def demoReady_def demoRev_def childLimit_def startState_def
        occupiedSlots_def admitOne_def freeSlot_def createDelegationConflictClaim_def candidateClaim_def
        assertConflictClaimAdmissible_def reserve_def newLedger_def fits_def numericKeys_def plusBudget_def zeroBudget_def
        usageToBudget_def budgetZero_def demoBudget_def Let_def)
  from admission_bounded [OF s(1) ok] s show ?thesis by blast
qed

text \<open>
  C38: The scheduler and the projector disagree on a reader of the original snapshot beside a writer in
  a managed worktree.  The scheduler admits the two together, even with overlapping paths; the
  projector refuses the event that records the second claim.
\<close>

theorem snapshot_reader_admitted_but_refused:
  assumes "cc_repositoryId a = cc_repositoryId b" "cc_sourceLineageId a = cc_sourceLineageId b" "cc_access a = access_read"
    "cc_access b = access_write" "cc_workspaceId a = None" "cc_workspaceId b \<noteq> None"
    "cc_sourceSnapshotSha256 a = cc_sourceSnapshotSha256 b" "prefixesOverlap (cc_pathPrefixes a) (cc_pathPrefixes b)"
    "map_of (ds_claims s) (cc_claimId a) = Some a"
  shows "assertConflictClaimAdmissible env b [a] = Inr () \<and> onClaimGranted b s = Inl (DelegationFailure delegation_workspace_conflict)"
proof -
  have "collides a b" using assms(1-4,8) by (simp add: collides_def)
  moreover have "(cc_claimId a, a) \<in> set (ds_claims s)" using assms(9) by (rule map_of_SomeD)
  ultimately have "list_ex (\<lambda>(_, current). collides current b) (ds_claims s)" by (force simp: list_ex_iff)
  moreover have "\<not> delegationConflict env b a" using assms(1-7) by (simp add: delegationConflict_def)
  ultimately show ?thesis by (simp add: assertConflictClaimAdmissible_def onClaimGranted_def)
qed

theorem snapshot_reader_admitted_but_refused_witness:
  "assertConflictClaimAdmissible demoEnv demoWriter [demoClaim] = Inr () \<and>
   onClaimGranted demoWriter demoLaunchedState = Inl (DelegationFailure delegation_workspace_conflict)"
  by (rule snapshot_reader_admitted_but_refused)
    (simp_all add: demoWriter_def demoClaim_def demoLaunchedState_def prefixesOverlap_def pathOverlap_def)

end
