(* ===== verification/CompletionPolicy.thy ===== *)
theory CompletionPolicy
  imports TaskStateMachine DelegationProjector
begin

text \<open>
  When a task may be reported as finished: the verified completion policy
  (\<^verbatim>\<open>src/src/completion/completion-policy.ts\<close>, \<^verbatim>\<open>verification-snapshot.ts\<close>,
  \<^verbatim>\<open>completion-types.ts\<close>) and the collaborative policy around it
  (\<^verbatim>\<open>collaborative-completion-policy.ts\<close>), which adds the Goal, the Plan and the delegated work.

  The order of \<^verbatim>\<open>localeCompare\<close> is the platform's: \<open>collationKey\<close> is the sort key its
  collation gives a string.  Fields the policy only copies into its evidence and never reads (command
  output, durations, the execution environment) are left out of \<open>verification_evidence\<close>; the
  model evidence is an uninterpreted value.
\<close>

record completion_env =
  ce_platform :: platform
  collationKey :: "jsstring \<Rightarrow> nat list"

section \<open>Data\<close>

datatype (plugins only: code size) completion_reason =
    verification_missing | verification_failed | verification_stale | verification_inputs_unknown
  | diff_check_failed | source_state_changed | change_journal_inconsistent | pending_effect | task_blocked
  | completion_signal_required | no_changes_for_coding_task | clarification_required | plan_approval_required
  | plan_incomplete

definition COMPLETION_REASON_CODES :: "completion_reason list" where
  "COMPLETION_REASON_CODES = [verification_missing, verification_failed, verification_stale, verification_inputs_unknown,
     diff_check_failed, source_state_changed, change_journal_inconsistent, pending_effect, task_blocked,
     completion_signal_required, no_changes_for_coding_task, clarification_required, plan_approval_required, plan_incomplete]"

datatype finish_status = finish_blocked | finish_completed

record finish_task_input =
  ft_status :: finish_status
  ft_summary :: jsstring

record snapshot_file_digest =
  sfd_path :: jsstring
  sfd_sha256 :: string

record verification_snapshot =
  vs_changedFiles :: "snapshot_file_digest list"
  vs_commandInputs :: "snapshot_file_digest list"
  vs_generation :: nat
  vs_gitHeadSha256 :: string
  vs_gitIndexSha256 :: string
  vs_journalSha256 :: string
  vs_packageScriptSha256 :: "string option"
  vs_sourceStateSha256 :: string

datatype change_kind = change_create | change_modify

record changed_file_evidence =
  cf_addedLines :: nat
  cf_kind :: change_kind
  cf_path :: jsstring
  cf_postimageSha256 :: string
  cf_preimageSha256 :: "string option"
  cf_removedLines :: nat

datatype check_status = check_failed | check_passed | check_not_run

record check_evidence =
  ck_checkedPaths :: "jsstring list"
  ck_detail :: jsstring
  ck_diffSha256 :: string
  ck_status :: check_status

record verification_evidence =
  ve_actionSha256 :: string
  ve_afterSnapshot :: verification_snapshot
  ve_approved :: bool
  ve_argv :: "jsstring list"
  ve_beforeSnapshot :: verification_snapshot
  ve_completedEventPersisted :: bool
  ve_executionId :: string
  ve_exitCode :: "int option"
  ve_generationAtCompletion :: nat
  ve_generationAtStart :: nat
  ve_inputsKnown :: bool
  ve_purpose :: string
  ve_stale :: bool

record attribution_scope =
  sc_baselineEventId :: string
  sc_changeEventIds :: "string list"
  sc_goalId :: string
  sc_goalRevision :: nat
  sc_ledgerSha256 :: string
  sc_sourceRunIds :: "string list"

record completion_evidence =
  ev_attributionScope :: "attribution_scope option"
  ev_changedByRun :: "changed_file_evidence list"
  ev_diffCheck :: check_evidence
  ev_finalSnapshot :: verification_snapshot
  ev_modelEvidence :: json
  ev_modelNarrative :: jsstring
  ev_preExistingDirtyPaths :: "jsstring list"
  ev_runId :: string
  ev_sessionId :: string
  ev_verifications :: "verification_evidence list"

record completion_activity =
  activeApproval :: bool
  activeCommand :: bool
  activePatch :: bool
  mutationMutexLocked :: bool
  unknownSideEffect :: bool

record change_journal_state =
  cj_consistent :: bool
  cj_postimagesMatchDisk :: bool
  cj_readable :: bool

record completion_state =
  cs_attributionScope :: "attribution_scope option"
  cs_activity :: completion_activity
  cs_changedByRun :: "changed_file_evidence list"
  cs_diffCheck :: check_evidence
  cs_finalSnapshot :: "verification_snapshot option"
  cs_generation :: nat
  cs_journal :: change_journal_state
  cs_modelEvidence :: json
  cs_preExistingDirtyPaths :: "jsstring list"
  cs_runId :: string
  cs_sessionId :: string
  cs_verifications :: "verification_evidence list"
  cs_verificationInputsUnknown :: "bool option"

datatype completion_decision =
    Accept completion_evidence
  | Continue "completion_reason list"
  | Incomplete completion_reason

datatype completion_failure = SummaryInvalid | DigestFailure type_error

section \<open>Snapshots\<close>

definition sortedDigests :: "completion_env \<Rightarrow> snapshot_file_digest list \<Rightarrow> snapshot_file_digest list" where
  "sortedDigests env entries = sort_key (\<lambda>e. collationKey env (sfd_path e)) entries"

definition digestJson :: "snapshot_file_digest \<Rightarrow> json" where
  "digestJson e = JObject [(js ''path'', JString (sfd_path e)), (js ''sha256'', JString (js (sfd_sha256 e)))]"

definition verificationSnapshotForDigest :: "completion_env \<Rightarrow> verification_snapshot \<Rightarrow> json" where
  "verificationSnapshotForDigest env s = JObject
     [(js ''changedFiles'', JArray (map digestJson (sortedDigests env (vs_changedFiles s)))),
      (js ''commandInputs'', JArray (map digestJson (sortedDigests env (vs_commandInputs s)))),
      (js ''deletedFiles'', JArray []),
      (js ''generation'', JNumber (int (vs_generation s))),
      (js ''gitHeadSha256'', JString (js (vs_gitHeadSha256 s))),
      (js ''gitIndexSha256'', JString (js (vs_gitIndexSha256 s))),
      (js ''journalSha256'', JString (js (vs_journalSha256 s))),
      (js ''packageScriptSha256'', case vs_packageScriptSha256 s of None \<Rightarrow> JUndefined | Some h \<Rightarrow> JString (js h)),
      (js ''sourceStateSha256'', JString (js (vs_sourceStateSha256 s)))]"

definition hashVerificationSnapshot :: "completion_env \<Rightarrow> verification_snapshot \<Rightarrow> type_error + string" where
  "hashVerificationSnapshot env s = sha256Canonical (sha256 (ce_platform env)) (verificationSnapshotForDigest env s)"

definition verificationSnapshotsEqual :: "completion_env \<Rightarrow> verification_snapshot \<Rightarrow> verification_snapshot \<Rightarrow> type_error + bool" where
  "verificationSnapshotsEqual env left right =
     ebind (hashVerificationSnapshot env left) (\<lambda>l. ebind (hashVerificationSnapshot env right) (\<lambda>r. Inr (l = r)))"

section \<open>The verified policy\<close>

definition orderedReasons :: "completion_reason set \<Rightarrow> completion_reason list" where
  "orderedReasons reasons = filter (\<lambda>r. r \<in> reasons) COMPLETION_REASON_CODES"

definition isCurrentVerification :: "verification_evidence \<Rightarrow> nat \<Rightarrow> bool" where
  "isCurrentVerification v generation \<longleftrightarrow> ve_generationAtStart v = generation \<and> ve_generationAtCompletion v = generation"

definition hasPendingEffect :: "completion_state \<Rightarrow> bool" where
  "hasPendingEffect s \<longleftrightarrow> activeApproval (cs_activity s) \<or> activeCommand (cs_activity s) \<or> activePatch (cs_activity s) \<or>
     mutationMutexLocked (cs_activity s) \<or> unknownSideEffect (cs_activity s)"

definition fileKey :: "jsstring \<Rightarrow> string \<Rightarrow> jsstring" where
  "fileKey path digest = path @ 0 # js digest"

definition journalMatchesSnapshot :: "completion_state \<Rightarrow> bool" where
  "journalMatchesSnapshot s = (case cs_finalSnapshot s of None \<Rightarrow> True
   | Some f \<Rightarrow> sort (map (\<lambda>e. fileKey (cf_path e) (cf_postimageSha256 e)) (cs_changedByRun s)) =
       sort (map (\<lambda>e. fileKey (sfd_path e) (sfd_sha256 e)) (vs_changedFiles f)))"

definition candidateOk :: "finish_task_input \<Rightarrow> bool" where
  "candidateOk c \<longleftrightarrow> 1 \<le> length (codePoints (ft_summary c)) \<and> length (codePoints (ft_summary c)) \<le> 2000 \<and> 0 \<notin> set (ft_summary c)"

definition approvedVerifications :: "completion_state \<Rightarrow> verification_evidence list" where
  "approvedVerifications s = filter (\<lambda>v. ve_approved v \<and> ve_completedEventPersisted v \<and> ve_purpose v = ''verify'') (cs_verifications s)"

definition currentVerifications :: "completion_state \<Rightarrow> verification_evidence list" where
  "currentVerifications s = filter (\<lambda>v. isCurrentVerification v (cs_generation s)) (approvedVerifications s)"

definition knownVerifications :: "completion_state \<Rightarrow> verification_evidence list" where
  "knownVerifications s = filter (\<lambda>v. ve_inputsKnown v \<and> \<not> ve_stale v) (currentVerifications s)"

definition successfulVerifications :: "completion_state \<Rightarrow> verification_evidence list" where
  "successfulVerifications s = filter (\<lambda>v. ve_exitCode v = Some 0) (knownVerifications s)"

definition addReason :: "bool \<Rightarrow> completion_reason \<Rightarrow> completion_reason set \<Rightarrow> completion_reason set" where
  "addReason b r reasons = (if b then insert r reasons else reasons)"

definition collectedReasons :: "completion_state \<Rightarrow> completion_reason set" where
  "collectedReasons s =
     (let approved = approvedVerifications s; current = currentVerifications s; known = knownVerifications s;
          reasons = addReason (cs_verificationInputsUnknown s = Some True) verification_inputs_unknown {};
          reasons = addReason (ck_status (cs_diffCheck s) \<noteq> check_passed) diff_check_failed reasons;
          reasons = addReason (sort (remdups (map cf_path (cs_changedByRun s))) \<noteq> sort (remdups (ck_checkedPaths (cs_diffCheck s))))
            diff_check_failed reasons;
          reasons = addReason (approved = []) verification_missing reasons;
          reasons = addReason (approved \<noteq> [] \<and> current = []) verification_stale reasons;
          reasons = addReason (list_ex (\<lambda>v. \<not> ve_inputsKnown v) current) verification_inputs_unknown reasons;
          reasons = addReason (list_ex (\<lambda>v. vs_commandInputs (ve_beforeSnapshot v) = [] \<or> vs_commandInputs (ve_afterSnapshot v) = []) current)
            verification_inputs_unknown reasons;
          reasons = addReason (list_ex ve_stale current) verification_stale reasons
      in addReason (known \<noteq> [] \<and> successfulVerifications s = [] \<and> list_ex (\<lambda>v. ve_exitCode v \<noteq> Some 0) known)
           verification_failed reasons)"

definition evidenceReasons :: "completion_state \<Rightarrow> completion_reason set" where
  "evidenceReasons s = addReason (successfulVerifications s = [] \<and> collectedReasons s = {}) verification_missing (collectedReasons s)"

text \<open>Whether the snapshots around a successful verification and the final one disagree.\<close>

definition sourceChanged :: "completion_env \<Rightarrow> nat \<Rightarrow> verification_snapshot \<Rightarrow> verification_evidence \<Rightarrow> type_error + bool" where
  "sourceChanged env generation final v =
     ebind (verificationSnapshotsEqual env (ve_beforeSnapshot v) (ve_afterSnapshot v)) (\<lambda>same.
       if \<not> same then Inr True
       else ebind (verificationSnapshotsEqual env (ve_afterSnapshot v) final) (\<lambda>same.
         Inr (\<not> same \<or> vs_generation (ve_beforeSnapshot v) \<noteq> generation \<or> vs_generation (ve_afterSnapshot v) \<noteq> generation)))"

definition snapshotReasons :: "completion_env \<Rightarrow> completion_state \<Rightarrow> completion_reason set \<Rightarrow> type_error + completion_reason set" where
  "snapshotReasons env s reasons = (case cs_finalSnapshot s of
     None \<Rightarrow> Inr (insert source_state_changed reasons)
   | Some f \<Rightarrow> efold (\<lambda>reasons v. ebind (sourceChanged env (cs_generation s) f v) (\<lambda>changed.
         Inr (addReason changed source_state_changed reasons)))
       (addReason (vs_generation f \<noteq> cs_generation s) verification_stale reasons) (successfulVerifications s))"

definition acceptedEvidence :: "finish_task_input \<Rightarrow> completion_state \<Rightarrow> verification_snapshot \<Rightarrow> completion_evidence" where
  "acceptedEvidence c s f = \<lparr>ev_attributionScope = cs_attributionScope s, ev_changedByRun = cs_changedByRun s,
     ev_diffCheck = cs_diffCheck s, ev_finalSnapshot = f, ev_modelEvidence = cs_modelEvidence s,
     ev_modelNarrative = ft_summary c, ev_preExistingDirtyPaths = cs_preExistingDirtyPaths s, ev_runId = cs_runId s,
     ev_sessionId = cs_sessionId s, ev_verifications = successfulVerifications s\<rparr>"

definition evaluateVerified :: "completion_env \<Rightarrow> finish_task_input \<Rightarrow> completion_state \<Rightarrow> completion_failure + completion_decision" where
  "evaluateVerified env c s =
     (if \<not> candidateOk c then Inl SummaryInvalid
      else if ft_status c = finish_blocked then Inr (Incomplete task_blocked)
      else if hasPendingEffect s then Inr (Incomplete pending_effect)
      else if \<not> cj_readable (cs_journal s) \<or> \<not> cj_consistent (cs_journal s) \<or> \<not> cj_postimagesMatchDisk (cs_journal s) \<or>
        \<not> journalMatchesSnapshot s
      then Inr (Incomplete change_journal_inconsistent)
      else if cs_changedByRun s = [] then Inr (Continue [no_changes_for_coding_task])
      else case snapshotReasons env s (evidenceReasons s) of
        Inl e \<Rightarrow> Inl (DigestFailure e)
      | Inr reasons \<Rightarrow>
          if reasons \<noteq> {} then Inr (Continue (orderedReasons reasons))
          else (case cs_finalSnapshot s of
              None \<Rightarrow> Inr (Continue [source_state_changed])
            | Some f \<Rightarrow> Inr (Accept (acceptedEvidence c s f))))"

section \<open>The collaborative policy\<close>

text \<open>
  What the policy reads of the ledger of Goal changes
  (\<^verbatim>\<open>src/src/coordination/goal-change-ledger.ts\<close>).
\<close>

record goal_change_record =
  gcr_eventId :: string
  gcr_sourceRunId :: string

record goal_change_ledger_projection =
  gcl_baselineEventId :: string
  gcl_goalId :: string
  gcl_goalRevision :: nat
  gcl_ledgerSha256 :: string
  gcl_records :: "goal_change_record list"
  gcl_sourceRunIds :: "string list"

definition goalChangeAttributionScope :: "goal_change_ledger_projection \<Rightarrow> attribution_scope" where
  "goalChangeAttributionScope l = \<lparr>sc_baselineEventId = gcl_baselineEventId l, sc_changeEventIds = map gcr_eventId (gcl_records l),
     sc_goalId = gcl_goalId l, sc_goalRevision = gcl_goalRevision l, sc_ledgerSha256 = gcl_ledgerSha256 l,
     sc_sourceRunIds = gcl_sourceRunIds l\<rparr>"

definition scopeJson :: "attribution_scope \<Rightarrow> json" where
  "scopeJson s = JObject
     [(js ''baselineEventId'', JString (js (sc_baselineEventId s))),
      (js ''changeEventIds'', JArray (map (\<lambda>i. JString (js i)) (sc_changeEventIds s))),
      (js ''goalId'', JString (js (sc_goalId s))), (js ''goalRevision'', JNumber (int (sc_goalRevision s))),
      (js ''kind'', JString (js ''goal_revision'')), (js ''ledgerSha256'', JString (js (sc_ledgerSha256 s))),
      (js ''sourceRunIds'', JArray (map (\<lambda>i. JString (js i)) (sc_sourceRunIds s)))]"

record run_binding =
  rb_goal_id :: string
  rb_goal_revision :: nat
  rb_plan_id :: "string option"
  rb_plan_revision :: "nat option"
  rb_plan_sha256 :: "string option"

definition engagedStatuses :: "dg_status list" where
  "engagedStatuses = [dg_queued, dg_active, dg_waiting_approval, dg_cancelling, dg_reconciling, dg_receipt_ready, dg_accepted,
     dg_failed, dg_blocked, dg_cancelled, dg_stale]"

definition requiredDelegation :: "run_binding \<Rightarrow> dg_revision \<Rightarrow> bool" where
  "requiredDelegation rb r \<longleftrightarrow> dr_status r \<noteq> dg_superseded \<and> dr_status r \<noteq> dg_rejected \<and>
     db_goalId (dr_binding r) = rb_goal_id rb \<and> db_goalRevision (dr_binding r) = rb_goal_revision rb \<and>
     Some (db_planId (dr_binding r)) = rb_plan_id rb \<and> Some (db_planRevision (dr_binding r)) = rb_plan_revision rb \<and>
     Some (db_planSha256 (dr_binding r)) = rb_plan_sha256 rb \<and>
     (dr_envelope r \<noteq> None \<or> dr_attempts r \<noteq> [] \<or> dr_status r \<in> set engagedStatuses)"

definition unresolvedDelegation :: "dg_revision \<Rightarrow> bool" where
  "unresolvedDelegation r \<longleftrightarrow> dr_status r \<noteq> dg_accepted \<or> (case dr_receipt r of None \<Rightarrow> True
     | Some rc \<Rightarrow> rp_status rc \<noteq> receipt_succeeded \<or> rp_acceptedEventId rc = None \<or>
         list_ex (\<lambda>(_, claim). claim \<noteq> claim_verified) (rp_claimStatuses rc))"

definition heldBudget :: "dg_projection \<Rightarrow> bool" where
  "heldBudget d = list_ex (\<lambda>f. case counterAt (bt_held (dp_budget d)) f of None \<Rightarrow> False | Some v \<Rightarrow> v > 0)
     [FArtifactBytes, FAttempts, FChangedBytes, FChangedFiles, FCommandExecutions, FCommandOutputBytes, FDurationMs,
      FModelSteps, FReportedTokens]"

definition goalBound :: "run_binding \<Rightarrow> task_state_projection \<Rightarrow> bool" where
  "goalBound rb t = (case find (\<lambda>g. Some (gl_goalId (mg_content g)) = ts_activeGoalId t) (ts_goals t) of
     None \<Rightarrow> False
   | Some g \<Rightarrow> mg_status g = goal_active \<and> gl_goalId (mg_content g) = rb_goal_id rb \<and> gl_revision (mg_content g) = rb_goal_revision rb)"

definition exactPlan :: "plan_revision_ref \<Rightarrow> task_state_projection \<Rightarrow> plan_projection option" where
  "exactPlan ref t = find (\<lambda>pp. prc_goalId (mp_content (pp_plan pp)) = ref_goalId ref \<and>
     prc_goalRevision (mp_content (pp_plan pp)) = ref_goalRevision ref \<and> prc_planId (mp_content (pp_plan pp)) = ref_planId ref \<and>
     prc_revision (mp_content (pp_plan pp)) = ref_revision ref \<and> mp_planSha256 (pp_plan pp) = ref_planSha256 ref) (ts_plans t)"

definition planBound :: "run_binding \<Rightarrow> plan_revision_ref \<Rightarrow> task_state_projection \<Rightarrow> bool" where
  "planBound rb ref t \<longleftrightarrow> rb_plan_id rb = Some (ref_planId ref) \<and> rb_plan_revision rb = Some (ref_revision ref) \<and>
     rb_plan_sha256 rb = Some (ref_planSha256 ref) \<and> map_option (\<lambda>pp. mp_status (pp_plan pp)) (exactPlan ref t) = Some plan_active \<and>
     ts_readyForCompletion t"

definition delegationsResolved :: "run_binding \<Rightarrow> dg_projection \<Rightarrow> bool" where
  "delegationsResolved rb d \<longleftrightarrow> \<not> list_ex unresolvedDelegation (filter (requiredDelegation rb) (dp_revisions d)) \<and>
     \<not> heldBudget d \<and> dp_activeActorSlots d = []"

text \<open>The policy around any base policy, as the class takes it.\<close>

definition evaluateCollaborative ::
  "completion_env \<Rightarrow> (finish_task_input \<Rightarrow> completion_state \<Rightarrow> completion_failure + completion_decision) \<Rightarrow>
   dg_projection option \<Rightarrow> goal_change_ledger_projection \<Rightarrow> run_binding \<Rightarrow> task_state_projection \<Rightarrow>
   finish_task_input \<Rightarrow> completion_state \<Rightarrow> completion_failure + completion_decision" where
  "evaluateCollaborative env basePolicy delegations goalChanges rb task c s = (case cs_attributionScope s of
     None \<Rightarrow> Inr (Incomplete change_journal_inconsistent)
   | Some actual \<Rightarrow>
      (case (sha256Canonical (sha256 (ce_platform env)) (scopeJson actual),
             sha256Canonical (sha256 (ce_platform env)) (scopeJson (goalChangeAttributionScope goalChanges))) of
         (Inl e, _) \<Rightarrow> Inl (DigestFailure e)
       | (_, Inl e) \<Rightarrow> Inl (DigestFailure e)
       | (Inr l, Inr r) \<Rightarrow>
          if l \<noteq> r then Inr (Incomplete change_journal_inconsistent)
          else ebind (basePolicy c s) (\<lambda>base. case base of
            Accept evidence \<Rightarrow>
              if \<not> goalBound rb task then Inr (Incomplete plan_incomplete)
              else (case ts_currentApprovedPlan task of
                  None \<Rightarrow> Inr base
                | Some current \<Rightarrow>
                    if \<not> planBound rb current task then Inr (Incomplete plan_incomplete)
                    else if (case delegations of None \<Rightarrow> False | Some d \<Rightarrow> \<not> delegationsResolved rb d)
                    then Inr (Incomplete plan_incomplete)
                    else Inr base)
          | _ \<Rightarrow> Inr base)))"

end
