(* ===== verification/CompletionProperties.thy ===== *)
theory CompletionProperties
  imports CompletionPolicy TaskStateProperties DelegationProperties
begin

text \<open>
  A task is reported as finished only on evidence: the exact conditions of the verified policy, and
  what the collaborative policy adds over the Goal, the Plan and the delegated work of the session.
\<close>

section \<open>A concrete completion\<close>

definition demoCompletionEnv :: completion_env where
  "demoCompletionEnv = \<lparr>ce_platform = demoPlatform, collationKey = (\<lambda>_. [])\<rparr>"

definition demoSnapshot :: verification_snapshot where
  "demoSnapshot = \<lparr>vs_changedFiles = [\<lparr>sfd_path = js ''a'', sfd_sha256 = ''h''\<rparr>],
     vs_commandInputs = [\<lparr>sfd_path = js ''t'', sfd_sha256 = ''h''\<rparr>], vs_generation = 1, vs_gitHeadSha256 = ''h'',
     vs_gitIndexSha256 = ''h'', vs_journalSha256 = ''h'', vs_packageScriptSha256 = None, vs_sourceStateSha256 = ''h''\<rparr>"

definition demoVerification :: "int \<Rightarrow> verification_evidence" where
  "demoVerification code = \<lparr>ve_actionSha256 = ''h'', ve_afterSnapshot = demoSnapshot, ve_approved = True, ve_argv = [js ''t''],
     ve_beforeSnapshot = demoSnapshot, ve_completedEventPersisted = True, ve_executionId = ''x'', ve_exitCode = Some code,
     ve_generationAtCompletion = 1, ve_generationAtStart = 1, ve_inputsKnown = True, ve_purpose = ''verify'', ve_stale = False\<rparr>"

definition demoGoalChanges :: goal_change_ledger_projection where
  "demoGoalChanges = \<lparr>gcl_baselineEventId = ''e4'', gcl_goalId = ''g'', gcl_goalRevision = 1, gcl_ledgerSha256 = ''h'',
     gcl_records = [\<lparr>gcr_eventId = ''e8'', gcr_sourceRunId = ''r''\<rparr>], gcl_sourceRunIds = [''r'']\<rparr>"

definition demoCompletion :: completion_state where
  "demoCompletion = \<lparr>cs_attributionScope = Some (goalChangeAttributionScope demoGoalChanges),
     cs_activity = \<lparr>activeApproval = False, activeCommand = False, activePatch = False, mutationMutexLocked = False,
       unknownSideEffect = False\<rparr>,
     cs_changedByRun = [\<lparr>cf_addedLines = 1, cf_kind = change_create, cf_path = js ''a'', cf_postimageSha256 = ''h'',
       cf_preimageSha256 = None, cf_removedLines = 0\<rparr>],
     cs_diffCheck = \<lparr>ck_checkedPaths = [js ''a''], ck_detail = js ''d'', ck_diffSha256 = ''h'', ck_status = check_passed\<rparr>,
     cs_finalSnapshot = Some demoSnapshot, cs_generation = 1,
     cs_journal = \<lparr>cj_consistent = True, cj_postimagesMatchDisk = True, cj_readable = True\<rparr>, cs_modelEvidence = JNull,
     cs_preExistingDirtyPaths = [], cs_runId = ''r'', cs_sessionId = ''s'',
     cs_verifications = [demoVerification 0, demoVerification 1], cs_verificationInputsUnknown = None\<rparr>"

definition demoFinishTask :: finish_task_input where
  "demoFinishTask = \<lparr>ft_status = finish_completed, ft_summary = js ''o''\<rparr>"

definition demoRunBinding :: run_binding where
  "demoRunBinding = \<lparr>rb_goal_id = ''g'', rb_goal_revision = 1, rb_plan_id = Some ''p'', rb_plan_revision = Some 1,
     rb_plan_sha256 = Some ''h''\<rparr>"

definition demoReleased :: "delegation_event list" where
  "demoReleased = demoFinished @ [demoDg 17 ''e17'' (ActorSlotReleased ''ca'' ''k1'' ''G'')]"

section \<open>The digests never throw\<close>

lemma snapshot_digest_total: "\<exists>h. hashVerificationSnapshot env v = Inr h"
proof -
  let ?fs = "[(js ''changedFiles'', JArray (map digestJson (sortedDigests env (vs_changedFiles v)))),
      (js ''commandInputs'', JArray (map digestJson (sortedDigests env (vs_commandInputs v)))),
      (js ''deletedFiles'', JArray []),
      (js ''generation'', JNumber (int (vs_generation v))),
      (js ''gitHeadSha256'', JString (js (vs_gitHeadSha256 v))),
      (js ''gitIndexSha256'', JString (js (vs_gitIndexSha256 v))),
      (js ''journalSha256'', JString (js (vs_journalSha256 v))),
      (js ''packageScriptSha256'', case vs_packageScriptSha256 v of None \<Rightarrow> JUndefined | Some h \<Rightarrow> JString (js h)),
      (js ''sourceStateSha256'', JString (js (vs_sourceStateSha256 v)))]"
  have "jsonDefined (digestJson e)" for e by (simp add: digestJson_def)
  then have "\<forall>(k, j)\<in>set ?fs. j = JUndefined \<or> jsonDefined j" by (auto simp: list_all_iff split: option.splits)
  then have "\<exists>t. canonicalJson (JObject ?fs) = Inr t"
    by (intro canonicalJson_object_total) (fastforce intro: canonicalJson_defined)
  then show ?thesis by (auto simp: hashVerificationSnapshot_def verificationSnapshotForDigest_def sha256Canonical_def)
qed

definition sameSnapshot :: "completion_env \<Rightarrow> verification_snapshot \<Rightarrow> verification_snapshot \<Rightarrow> bool" where
  "sameSnapshot env a b \<longleftrightarrow> hashVerificationSnapshot env a = hashVerificationSnapshot env b"

lemma verificationSnapshotsEqual_Inr: "verificationSnapshotsEqual env a b = Inr (sameSnapshot env a b)"
  using snapshot_digest_total [of env a] snapshot_digest_total [of env b]
  by (auto simp: verificationSnapshotsEqual_def sameSnapshot_def)

text \<open>A verification confirms a snapshot when the sources were the same before it, after it and there.\<close>

definition confirms :: "completion_env \<Rightarrow> nat \<Rightarrow> verification_snapshot \<Rightarrow> verification_evidence \<Rightarrow> bool" where
  "confirms env generation final v \<longleftrightarrow> sameSnapshot env (ve_beforeSnapshot v) (ve_afterSnapshot v) \<and>
     sameSnapshot env (ve_afterSnapshot v) final \<and> vs_generation (ve_beforeSnapshot v) = generation \<and>
     vs_generation (ve_afterSnapshot v) = generation"

lemma sourceChanged_Inr: "sourceChanged env g f v = Inr (\<not> confirms env g f v)"
  by (simp add: sourceChanged_def verificationSnapshotsEqual_Inr confirms_def)

lemma snapshotReasons_Inr:
  "\<exists>reasons'. snapshotReasons env s reasons = Inr reasons' \<and>
     (reasons' = {} \<longleftrightarrow> reasons = {} \<and> (\<exists>f. cs_finalSnapshot s = Some f \<and> vs_generation f = cs_generation s \<and>
        (\<forall>v\<in>set (successfulVerifications s). confirms env (cs_generation s) f v)))"
proof (cases "cs_finalSnapshot s")
  case (Some f)
  let ?step = "\<lambda>r v. ebind (sourceChanged env (cs_generation s) f v) (\<lambda>c. Inr (addReason c source_state_changed r))"
  have "efold ?step r vs = Inr (addReason (\<not> (\<forall>v\<in>set vs. confirms env (cs_generation s) f v)) source_state_changed r)" for r vs
    by (induction vs arbitrary: r) (auto simp: sourceChanged_Inr addReason_def)
  then show ?thesis using Some by (auto simp: snapshotReasons_def addReason_def)
qed (simp add: snapshotReasons_def)

section \<open>Which reasons there are\<close>

lemma sort_remdups_iff: "sort (remdups xs) = sort (remdups ys) \<longleftrightarrow> set xs = set (ys :: jsstring list)"
proof
  assume "sort (remdups xs) = sort (remdups ys)"
  then have "set (sort (remdups xs)) = set (sort (remdups ys))" by (rule arg_cong)
  then show "set xs = set ys" by simp
next
  assume "set xs = set ys"
  then show "sort (remdups xs) = sort (remdups ys)" by (intro properties_for_sort) (simp_all add: set_eq_iff_mset_remdups_eq)
qed

lemma sort_mset_iff: "sort xs = sort ys \<longleftrightarrow> mset xs = mset (ys :: jsstring list)"
proof
  assume "sort xs = sort ys"
  then have "mset (sort xs) = mset (sort ys)" by (rule arg_cong)
  then show "mset xs = mset ys" by simp
next
  assume "mset xs = mset ys"
  then show "sort xs = sort ys" by (intro properties_for_sort) simp_all
qed

lemma addReason_empty: "addReason b r R = {} \<longleftrightarrow> \<not> b \<and> R = {}"
  by (simp add: addReason_def)

lemma verifications_nonempty:
  "successfulVerifications s \<noteq> [] \<Longrightarrow> knownVerifications s \<noteq> [] \<and> currentVerifications s \<noteq> [] \<and> approvedVerifications s \<noteq> []"
  unfolding successfulVerifications_def knownVerifications_def currentVerifications_def by (metis filter.simps(1))

lemma collectedReasons_empty:
  assumes "successfulVerifications s \<noteq> []"
  shows "collectedReasons s = {} \<longleftrightarrow> cs_verificationInputsUnknown s \<noteq> Some True \<and> ck_status (cs_diffCheck s) = check_passed \<and>
     cf_path ` set (cs_changedByRun s) = set (ck_checkedPaths (cs_diffCheck s)) \<and>
     (\<forall>v\<in>set (currentVerifications s). ve_inputsKnown v \<and> \<not> ve_stale v \<and>
        vs_commandInputs (ve_beforeSnapshot v) \<noteq> [] \<and> vs_commandInputs (ve_afterSnapshot v) \<noteq> [])"
proof -
  have ne: "approvedVerifications s \<noteq> []" "currentVerifications s \<noteq> []" using verifications_nonempty [OF assms] by simp_all
  show ?thesis
    unfolding collectedReasons_def Let_def addReason_empty sort_remdups_iff list_ex_iff set_map
    using assms ne by meson
qed

lemma evidenceReasons_empty:
  "evidenceReasons s = {} \<longleftrightarrow> cs_verificationInputsUnknown s \<noteq> Some True \<and> ck_status (cs_diffCheck s) = check_passed \<and>
     cf_path ` set (cs_changedByRun s) = set (ck_checkedPaths (cs_diffCheck s)) \<and>
     (\<forall>v\<in>set (currentVerifications s). ve_inputsKnown v \<and> \<not> ve_stale v \<and>
        vs_commandInputs (ve_beforeSnapshot v) \<noteq> [] \<and> vs_commandInputs (ve_afterSnapshot v) \<noteq> []) \<and>
     successfulVerifications s \<noteq> []"
  unfolding evidenceReasons_def addReason_empty using collectedReasons_empty by blast

lemma evaluateVerified_Accept:
  assumes "snapshotReasons env s (evidenceReasons s) = Inr rs"
  shows "evaluateVerified env c s = Inr (Accept ev) \<longleftrightarrow> candidateOk c \<and> ft_status c = finish_completed \<and> \<not> hasPendingEffect s \<and>
      cj_readable (cs_journal s) \<and> cj_consistent (cs_journal s) \<and> cj_postimagesMatchDisk (cs_journal s) \<and> journalMatchesSnapshot s \<and>
      cs_changedByRun s \<noteq> [] \<and> rs = {} \<and> (\<exists>f. cs_finalSnapshot s = Some f \<and> ev = acceptedEvidence c s f)"
  by (cases "ft_status c"; cases "cs_finalSnapshot s") (auto simp: evaluateVerified_def assms)

lemma demo_current: "currentVerifications demoCompletion = [demoVerification 0, demoVerification 1]"
  by (simp add: currentVerifications_def approvedVerifications_def demoCompletion_def demoVerification_def isCurrentVerification_def)

lemma demo_successful: "successfulVerifications demoCompletion = [demoVerification 0]"
  by (simp add: successfulVerifications_def knownVerifications_def demo_current) (simp add: demoVerification_def)

lemma demo_candidate: "candidateOk demoFinishTask" "\<not> hasPendingEffect demoCompletion"
  by (simp_all add: candidateOk_def demoFinishTask_def hasPendingEffect_def demoCompletion_def)

lemma demo_confirms: "confirms demoCompletionEnv (cs_generation demoCompletion) demoSnapshot (demoVerification n)"
  by (simp add: confirms_def sameSnapshot_def demoVerification_def demoSnapshot_def demoCompletion_def)

lemma demo_accepted: "evaluateVerified demoCompletionEnv demoFinishTask demoCompletion =
    Inr (Accept (acceptedEvidence demoFinishTask demoCompletion demoSnapshot))"
proof -
  have "evidenceReasons demoCompletion = {}"
    unfolding evidenceReasons_empty demo_successful demo_current
    by (simp add: demoCompletion_def demoVerification_def demoSnapshot_def)
  moreover have f: "cs_finalSnapshot demoCompletion = Some demoSnapshot" "vs_generation demoSnapshot = cs_generation demoCompletion"
    by (simp_all add: demoCompletion_def demoSnapshot_def)
  ultimately have "snapshotReasons demoCompletionEnv demoCompletion (evidenceReasons demoCompletion) = Inr {}"
    using snapshotReasons_Inr [of demoCompletionEnv demoCompletion "{}"] demo_confirms by (auto simp: demo_successful)
  from evaluateVerified_Accept [OF this] show ?thesis
    using demo_candidate f by (simp add: demoFinishTask_def journalMatchesSnapshot_def) (simp add: demoCompletion_def demoSnapshot_def)
qed

section \<open>Acceptance\<close>

text \<open>
  C4: The verified policy accepts exactly on evidence, and reports exactly that evidence.  It accepts
  iff the summary is lawful, the task is reported completed, no effect is pending, the journal is
  readable, consistent and on disk, it lists the files of the final snapshot and at least one, the
  difference check passed on exactly the changed paths, every approved and recorded verification of
  the current generation had known inputs and is not stale, one of them exited with 0, and every one
  that did saw the same sources before, after and at completion, at the current generation.
\<close>

theorem verified_completion_accepted_iff:
  "evaluateVerified env c s = Inr (Accept ev) \<longleftrightarrow>
     candidateOk c \<and> ft_status c = finish_completed \<and> \<not> hasPendingEffect s \<and>
     cj_readable (cs_journal s) \<and> cj_consistent (cs_journal s) \<and> cj_postimagesMatchDisk (cs_journal s) \<and>
     cs_changedByRun s \<noteq> [] \<and> cs_verificationInputsUnknown s \<noteq> Some True \<and> ck_status (cs_diffCheck s) = check_passed \<and>
     cf_path ` set (cs_changedByRun s) = set (ck_checkedPaths (cs_diffCheck s)) \<and>
     (\<forall>v\<in>set (currentVerifications s). ve_inputsKnown v \<and> \<not> ve_stale v \<and>
        vs_commandInputs (ve_beforeSnapshot v) \<noteq> [] \<and> vs_commandInputs (ve_afterSnapshot v) \<noteq> []) \<and>
     (\<exists>v\<in>set (currentVerifications s). ve_exitCode v = Some 0) \<and>
     (\<exists>f. cs_finalSnapshot s = Some f \<and> vs_generation f = cs_generation s \<and> ev = acceptedEvidence c s f \<and>
        mset (map (\<lambda>e. fileKey (cf_path e) (cf_postimageSha256 e)) (cs_changedByRun s)) =
          mset (map (\<lambda>e. fileKey (sfd_path e) (sfd_sha256 e)) (vs_changedFiles f)) \<and>
        (\<forall>v\<in>set (currentVerifications s). ve_exitCode v = Some 0 \<longrightarrow> confirms env (cs_generation s) f v))"
  (is "_ \<longleftrightarrow> ?rhs")
proof -
  from snapshotReasons_Inr [of env s "evidenceReasons s"] obtain rs where rs: "snapshotReasons env s (evidenceReasons s) = Inr rs"
    "rs = {} \<longleftrightarrow> evidenceReasons s = {} \<and> (\<exists>f. cs_finalSnapshot s = Some f \<and> vs_generation f = cs_generation s \<and>
        (\<forall>v\<in>set (successfulVerifications s). confirms env (cs_generation s) f v))"
    by (elim exE conjE)
  have j: "journalMatchesSnapshot s \<longleftrightarrow> (\<forall>f. cs_finalSnapshot s = Some f \<longrightarrow>
      mset (map (\<lambda>e. fileKey (cf_path e) (cf_postimageSha256 e)) (cs_changedByRun s)) =
      mset (map (\<lambda>e. fileKey (sfd_path e) (sfd_sha256 e)) (vs_changedFiles f)))"
    by (simp add: journalMatchesSnapshot_def sort_mset_iff split: option.splits)
  have succ: "set (successfulVerifications s) = {v \<in> set (currentVerifications s). ve_inputsKnown v \<and> \<not> ve_stale v \<and> ve_exitCode v = Some 0}"
    by (auto simp: successfulVerifications_def knownVerifications_def)
  have ne: "successfulVerifications s \<noteq> [] \<longleftrightarrow>
      (\<exists>v\<in>set (currentVerifications s). ve_inputsKnown v \<and> \<not> ve_stale v \<and> ve_exitCode v = Some 0)"
    unfolding set_empty [symmetric] succ by blast
  have "evaluateVerified env c s = Inr (Accept ev) \<longleftrightarrow> candidateOk c \<and> ft_status c = finish_completed \<and> \<not> hasPendingEffect s \<and>
      cj_readable (cs_journal s) \<and> cj_consistent (cs_journal s) \<and> cj_postimagesMatchDisk (cs_journal s) \<and> journalMatchesSnapshot s \<and>
      cs_changedByRun s \<noteq> [] \<and> rs = {} \<and> (\<exists>f. cs_finalSnapshot s = Some f \<and> ev = acceptedEvidence c s f)"
    by (rule evaluateVerified_Accept [OF rs(1)])
  also have "\<dots> \<longleftrightarrow> ?rhs"
    unfolding rs(2) evidenceReasons_empty ne succ j by (cases "cs_finalSnapshot s"; simp; meson)
  finally show ?thesis .
qed


theorem verified_completion_accepted_iff_witness:
  "evaluateVerified demoCompletionEnv demoFinishTask demoCompletion =
     Inr (Accept (acceptedEvidence demoFinishTask demoCompletion demoSnapshot)) \<and>
   ev_verifications (acceptedEvidence demoFinishTask demoCompletion demoSnapshot) = [demoVerification 0]"
  unfolding verified_completion_accepted_iff demo_current
  using demo_candidate demo_confirms
  by (simp add: demoFinishTask_def acceptedEvidence_def demo_successful)
    (simp add: demoCompletion_def demoVerification_def demoSnapshot_def)

section \<open>The collaborative policy\<close>

lemma evaluateCollaborative_Accept:
  assumes "evaluateCollaborative env base ds l rb t c s = Inr (Accept ev)"
  shows "base c s = Inr (Accept ev) \<and> goalBound rb t \<and>
    (\<exists>sc. cs_attributionScope s = Some sc \<and> sha256Canonical (sha256 (ce_platform env)) (scopeJson sc) =
       sha256Canonical (sha256 (ce_platform env)) (scopeJson (goalChangeAttributionScope l))) \<and>
    (\<forall>ref. ts_currentApprovedPlan t = Some ref \<longrightarrow> planBound rb ref t \<and> (\<forall>d. ds = Some d \<longrightarrow> delegationsResolved rb d))"
  using assms
  by (auto simp: evaluateCollaborative_def ebind_eq_Inr split: option.splits sum.splits completion_decision.splits if_splits)

text \<open>The Plan the policy looks up is the current approved one, and it is ready.\<close>

lemma bound_plan_ready:
  assumes "projectTaskState p es = Inr t" "ts_currentApprovedPlan t = Some ref" "planBound rb ref t"
  obtains pp where "pp \<in> set (ts_plans t)" "refTo (pp_plan pp) = ref" "mp_status (pp_plan pp) = plan_active"
    "planWf p (pp_plan pp)" "planAudited es (pp_plan pp)" "planReady (pp_plan pp)"
proof -
  obtain s where s: "efold (taskStep p) task_projector_init es = Inr s" "taskInv p s"
      "t = snapshot (if es = [] then 0 else sessionSeq (last es)) s"
    using projectTaskState_Inr [OF assms(1)] by blast
  obtain i where i: "planAt s (currentApprovedPlan s) = Some (i, plans s ! i)" "i < length (plans s)" "ref = refTo (plans s ! i)"
    using assms(2) s(3) by (auto simp: planRef_refTo planAt_def split: option.splits if_splits)
  obtain pp where pp: "exactPlan ref t = Some pp" "mp_status (pp_plan pp) = plan_active" using assms(3) by (auto simp: planBound_def)
  then have m: "pp \<in> set (ts_plans t)" "refTo (pp_plan pp) = ref"
    using find_eq_Some [OF pp(1) [unfolded exactPlan_def]] by (auto simp: refTo_def)
  then obtain j where j: "j < length (plans s)" "pp_plan pp = plans s ! j" using s(3) by (auto simp: in_set_conv_nth)
  then have "j = i" using plan_contents_distinct [OF s(2) j(1) i(2)] m(2) i(3) by simp
  moreover have "planReady (plans s ! i)" using assms(3) i(1) s(3) by (simp add: planBound_def snapshot_def)
  moreover have "planWf p (plans s ! i)" "planAudited es (plans s ! i)"
    using s(2) audit.log_run [OF s(1)] i(2) by (simp_all add: taskInv_def auditInv_def list_all_iff)
  ultimately show thesis using that [OF m pp(2)] j(2) by simp
qed

lemma resolved_delegation:
  assumes "projectDelegation p des = Inr d" "r \<in> set (dp_revisions d)" "\<not> unresolvedDelegation r"
  shows "dr_status r = dg_accepted \<and> decidedBy p des r \<and> settledAttempt r \<and>
    (\<exists>rc. dr_receipt r = Some rc \<and> rp_status rc = receipt_succeeded \<and> (\<forall>(_, claim)\<in>set (rp_claimStatuses rc). claim = claim_verified))"
proof -
  have ok: "revOk p des r" by (rule project_revision [OF assms(1,2)])
  obtain rc where rc: "dr_receipt r = Some rc" "rp_status rc = receipt_succeeded" "dr_status r = dg_accepted"
      "\<forall>(_, claim)\<in>set (rp_claimStatuses rc). claim = claim_verified"
    using assms(3) by (fastforce simp: unresolvedDelegation_def list_ex_iff split: option.splits)
  then have "dr_attempts r \<noteq> []" "settledAttempt r" using ok by (auto simp: revOk_def receiptsOk_def)
  then show ?thesis using ok rc by (auto simp: revOk_def)
qed

lemma no_held_budget: "\<not> heldBudget d \<Longrightarrow> counterAt (bt_held (dp_budget d)) f = Some v \<Longrightarrow> v \<le> 0"
  by (cases f) (auto simp: heldBudget_def)

lemma demo_ready: "\<exists>t. projectTaskState demoPlatform (take 11 demoLog) = Inr t \<and> goalBound demoRunBinding t \<and>
    (\<forall>ref. ts_currentApprovedPlan t = Some ref \<longrightarrow> planBound demoRunBinding ref t)"
proof -
  have "\<not> isl (assertDecodedStoredEventInvariants (take 11 demoLog))" by code_simp
  moreover have "\<exists>s. efold (taskStep demoPlatform) task_projector_init (take 11 demoLog) = Inr s \<and> goalBound demoRunBinding (snapshot n s) \<and>
      (\<forall>ref. ts_currentApprovedPlan (snapshot n s) = Some ref \<longrightarrow> planBound demoRunBinding ref (snapshot n s))" for n
    by (simp add: demoLog_def demoEvent_def demoItem_def demoTarget_def plan_eval demoRunBinding_def goalBound_def snapshot_def
        planRef_def planBound_def exactPlan_def planProjection_def)
  then obtain s where "efold (taskStep demoPlatform) task_projector_init (take 11 demoLog) = Inr s"
      "goalBound demoRunBinding (snapshot (sessionSeq (last (take 11 demoLog))) s)"
      "\<forall>ref. ts_currentApprovedPlan (snapshot (sessionSeq (last (take 11 demoLog))) s) = Some ref \<longrightarrow>
        planBound demoRunBinding ref (snapshot (sessionSeq (last (take 11 demoLog))) s)" by blast
  moreover have "take 11 demoLog \<noteq> []" by (simp add: demoLog_def)
  ultimately show ?thesis by (auto simp: projectTaskState_def taskProject_def split: sum.splits)
qed

lemma demo_released: "\<exists>d. projectDelegation demoPlatform demoReleased = Inr d \<and> delegationsResolved demoRunBinding d"
proof -
  let ?s = "demoLaunchedState\<lparr>ds_revisions := [demoDoneRev], ds_slots := [], ds_barriers := [(''b'', demoDoneBarrier)],
    ds_settlements := [''k'' \<mapsto> \<lparr>st_held = demoZero 0, st_released = demoZero 60, st_used = demoUse 40\<rparr>]\<rparr>"
  have "efold (delegationStep demoPlatform es) dg_init demoReleased = Inr ?s" for es
    by (simp add: demoReleased_def efold_append demo_finished demoDg_def delegationStep_def delegationEvent_def onSlotReleased_def
        demoLaunchedState_def demoSlot_def)
  moreover have "efold (\<lambda>_. lineageCheck es) () demoReleased = Inr ()" for es
    by (simp add: demoReleased_def efold_append demo_lineage demoDg_def lineageCheck_def)
  ultimately have "projectDelegation demoPlatform demoReleased = Inr (dgProjection demoReleased ?s)"
    by (simp add: projectDelegation_def)
  moreover have "delegationsResolved demoRunBinding (dgProjection demoReleased ?s)"
    by (simp add: delegationsResolved_def dgProjection_def unresolvedDelegation_def demoDoneRev_def demoRev_def demoReceipt_def
        heldBudget_def budgetTotals_def addTotals_def demoLaunchedState_def demoZero_def budgetZero_def budgetAdd_def)
  ultimately show ?thesis by blast
qed

lemma demo_collaborative:
  assumes "goalBound demoRunBinding t" "\<And>ref. ts_currentApprovedPlan t = Some ref \<Longrightarrow> planBound demoRunBinding ref t"
    "delegationsResolved demoRunBinding d"
  shows "evaluateCollaborative demoCompletionEnv (evaluateVerified demoCompletionEnv) (Some d) demoGoalChanges demoRunBinding t demoFinishTask
      demoCompletion = Inr (Accept (acceptedEvidence demoFinishTask demoCompletion demoSnapshot))"
proof -
  have "jsonDefined (scopeJson (goalChangeAttributionScope demoGoalChanges))"
    by (simp add: scopeJson_def list_all_iff)
  then obtain u where "canonicalJson (scopeJson (goalChangeAttributionScope demoGoalChanges)) = Inr u"
    using canonicalJson_defined by blast
  moreover have "cs_attributionScope demoCompletion = Some (goalChangeAttributionScope demoGoalChanges)"
    by (simp add: demoCompletion_def)
  ultimately show ?thesis
    using assms demo_accepted by (simp add: evaluateCollaborative_def sha256Canonical_def split: option.splits)
qed

text \<open>
  C3: A task accepted as complete in a collaborative session is complete.  The verified policy accepted
  it; its changes are those of the ledger of the Goal; the run's Goal is the active one at its current
  revision; and when there is an approved Plan, it is the Plan of the run, each of its items is
  completed with successful evidence in the log or was optional and skipped, every delegation engaged
  for it is accepted under a recorded approval with a successful receipt whose claims are all verified
  and an attempt that left no unresolved effect, no child holds a slot, and no budget is held.
\<close>

theorem collaborative_completion_sound:
  assumes "projectTaskState p es = Inr t" "projectDelegation p des = Inr d"
    "evaluateCollaborative env (evaluateVerified env) (Some d) ledger rb t c s = Inr (Accept ev)"
  shows "evaluateVerified env c s = Inr (Accept ev) \<and>
    (\<exists>sc. cs_attributionScope s = Some sc \<and> sha256Canonical (sha256 (ce_platform env)) (scopeJson sc) =
       sha256Canonical (sha256 (ce_platform env)) (scopeJson (goalChangeAttributionScope ledger))) \<and>
    (\<exists>g\<in>set (ts_goals t). ts_activeGoalId t = Some (rb_goal_id rb) \<and> mg_status g = goal_active \<and>
       gl_goalId (mg_content g) = rb_goal_id rb \<and> gl_revision (mg_content g) = rb_goal_revision rb) \<and>
    (\<forall>ref. ts_currentApprovedPlan t = Some ref \<longrightarrow>
      (\<exists>pp\<in>set (ts_plans t). mp_status (pp_plan pp) = plan_active \<and> refTo (pp_plan pp) = ref \<and>
         rb_plan_id rb = Some (ref_planId ref) \<and> rb_plan_revision rb = Some (ref_revision ref) \<and> rb_plan_sha256 rb = Some (ref_planSha256 ref) \<and>
         (\<forall>item\<in>set (mp_items (pp_plan pp)).
            (mi_status item = item_completed \<and> mi_evidenceEventIds item \<noteq> [] \<and> (\<forall>i\<in>set (mi_evidenceEventIds item). succeededIn es i)) \<or>
            (\<not> pic_required (mi_content item) \<and> mi_status item = item_skipped))) \<and>
      (\<forall>r\<in>set (dp_revisions d). requiredDelegation rb r \<longrightarrow> dr_status r = dg_accepted \<and> decidedBy p des r \<and> settledAttempt r \<and>
         (\<exists>rc. dr_receipt r = Some rc \<and> rp_status rc = receipt_succeeded \<and> (\<forall>(_, claim)\<in>set (rp_claimStatuses rc). claim = claim_verified))) \<and>
      dp_activeActorSlots d = [] \<and> (\<forall>f v. counterAt (bt_held (dp_budget d)) f = Some v \<longrightarrow> v \<le> 0))"
proof -
  have acc: "evaluateVerified env c s = Inr (Accept ev)" "goalBound rb t"
    "\<exists>sc. cs_attributionScope s = Some sc \<and> sha256Canonical (sha256 (ce_platform env)) (scopeJson sc) =
       sha256Canonical (sha256 (ce_platform env)) (scopeJson (goalChangeAttributionScope ledger))"
    and plan: "ts_currentApprovedPlan t = Some ref \<Longrightarrow> planBound rb ref t" "ts_currentApprovedPlan t = Some ref \<Longrightarrow> delegationsResolved rb d" for ref
    using evaluateCollaborative_Accept [OF assms(3)] by simp_all
  have goal: "\<exists>g\<in>set (ts_goals t). ts_activeGoalId t = Some (rb_goal_id rb) \<and> mg_status g = goal_active \<and>
      gl_goalId (mg_content g) = rb_goal_id rb \<and> gl_revision (mg_content g) = rb_goal_revision rb"
    using acc(2) by (auto simp: goalBound_def dest!: find_eq_Some split: option.splits)
  have "\<exists>pp\<in>set (ts_plans t). mp_status (pp_plan pp) = plan_active \<and> refTo (pp_plan pp) = ref \<and>
      rb_plan_id rb = Some (ref_planId ref) \<and> rb_plan_revision rb = Some (ref_revision ref) \<and> rb_plan_sha256 rb = Some (ref_planSha256 ref) \<and>
      (\<forall>item\<in>set (mp_items (pp_plan pp)).
         (mi_status item = item_completed \<and> mi_evidenceEventIds item \<noteq> [] \<and> (\<forall>i\<in>set (mi_evidenceEventIds item). succeededIn es i)) \<or>
         (\<not> pic_required (mi_content item) \<and> mi_status item = item_skipped))"
    if ref: "ts_currentApprovedPlan t = Some ref" for ref
    using bound_plan_ready [OF assms(1) ref plan(1) [OF ref]] plan(1) [OF ref, unfolded planBound_def] ready_items by metis
  moreover have "dr_status r = dg_accepted \<and> decidedBy p des r \<and> settledAttempt r \<and>
      (\<exists>rc. dr_receipt r = Some rc \<and> rp_status rc = receipt_succeeded \<and> (\<forall>(_, claim)\<in>set (rp_claimStatuses rc). claim = claim_verified))"
    if "ts_currentApprovedPlan t = Some ref" "r \<in> set (dp_revisions d)" "requiredDelegation rb r" for ref r
    using resolved_delegation [OF assms(2) that(2)] plan(2) [OF that(1)] that(2,3) by (auto simp: delegationsResolved_def list_ex_iff)
  moreover have "dp_activeActorSlots d = [] \<and> (\<forall>f v. counterAt (bt_held (dp_budget d)) f = Some v \<longrightarrow> v \<le> 0)"
    if "ts_currentApprovedPlan t = Some ref" for ref
    using plan(2) [OF that] no_held_budget by (auto simp: delegationsResolved_def)
  ultimately show ?thesis using acc goal by blast
qed

theorem collaborative_completion_sound_witness:
  "\<exists>t d. projectTaskState demoPlatform (take 11 demoLog) = Inr t \<and> projectDelegation demoPlatform demoReleased = Inr d \<and>
     evaluateCollaborative demoCompletionEnv (evaluateVerified demoCompletionEnv) (Some d) demoGoalChanges demoRunBinding t demoFinishTask
       demoCompletion = Inr (Accept (acceptedEvidence demoFinishTask demoCompletion demoSnapshot)) \<and>
     dp_activeActorSlots d = [] \<and> (\<exists>g\<in>set (ts_goals t). mg_status g = goal_active \<and> gl_goalId (mg_content g) = ''g'')"
proof -
  obtain t where t: "projectTaskState demoPlatform (take 11 demoLog) = Inr t" "goalBound demoRunBinding t"
      "\<And>ref. ts_currentApprovedPlan t = Some ref \<Longrightarrow> planBound demoRunBinding ref t"
    using demo_ready by blast
  obtain d where d: "projectDelegation demoPlatform demoReleased = Inr d" "delegationsResolved demoRunBinding d"
    using demo_released by blast
  have acc: "evaluateCollaborative demoCompletionEnv (evaluateVerified demoCompletionEnv) (Some d) demoGoalChanges demoRunBinding t demoFinishTask
      demoCompletion = Inr (Accept (acceptedEvidence demoFinishTask demoCompletion demoSnapshot))"
    by (rule demo_collaborative [OF t(2,3) d(2)])
  from collaborative_completion_sound [OF t(1) d(1) acc]
  have "\<exists>g\<in>set (ts_goals t). mg_status g = goal_active \<and> gl_goalId (mg_content g) = ''g''"
    by (auto simp: demoRunBinding_def)
  with t(1) d acc show ?thesis by (auto simp: delegationsResolved_def)
qed

end
