(* ===== verification/SessionWriter.thy ===== *)
theory SessionWriter
  imports TaskStateMachine TaskExecutionView TaskExecutionHistory
begin

text \<open>
  The durable session log as its writers see it: \<^verbatim>\<open>V2SessionWriter\<close>
  (\<^verbatim>\<open>src/src/sessions/v2-session-writer.ts\<close>), where every projector of the development meets.

  An operation of a client runs in a state with exceptions: it maps the session to a result or the
  error it throws, and to the session it leaves, since what was appended before an error stays.
  A session is opened many times; other owners (a control plane, the run of an attempt) may append
  between two openings.  \<open>otherOwners\<close> gives the events found at each opening, and an opened log is
  checked like an appended one.

  Parameters: \<open>otherChecks\<close> stands for the checks of an append whose components are not modelled
  (run-event semantics, worktrees, background jobs, delegations, change ledger, raw cancel
  bindings); \<open>uuidAt\<close> for the random identifiers; \<open>aborted\<close> for the abort signal as it is
  seen after each opening.
\<close>

section \<open>Sessions\<close>

record session_env =
  se_platform :: platform
  se_sessionId :: string
  otherChecks :: "stored_event list \<Rightarrow> bool"
  otherOwners :: "nat \<Rightarrow> stored_event list"
  uuidAt :: "nat \<Rightarrow> string"
  aborted :: "nat \<Rightarrow> bool"

record session =
  sn_log :: "stored_event list"
  sn_opens :: nat
  sn_uuids :: nat

datatype session_error =
    Thrown task_graph_error_code
  | AppendRefused
  | OpenRefused
  | ExecutorFailed
  | ReceiptFailed
  | HookFailed
  | GuardExhausted

type_synonym 'a operation = "session \<Rightarrow> (session_error + 'a) \<times> session"

definition sreturn :: "'a \<Rightarrow> 'a operation" where
  "sreturn x s = (Inr x, s)"

definition sthrow :: "session_error \<Rightarrow> 'a operation" where
  "sthrow e s = (Inl e, s)"

definition sbind :: "'a operation \<Rightarrow> ('a \<Rightarrow> 'b operation) \<Rightarrow> 'b operation" where
  "sbind m f s = (case m s of (Inl e, s) \<Rightarrow> (Inl e, s) | (Inr x, s) \<Rightarrow> f x s)"

definition sget :: "session operation" where
  "sget s = (Inr s, s)"

definition newUuid :: "session_env \<Rightarrow> string operation" where
  "newUuid env s = (Inr (uuidAt env (sn_uuids s)), s\<lparr>sn_uuids := sn_uuids s + 1\<rparr>)"

section \<open>The projections of a session\<close>

text \<open>
  \<open>taskExecution\<close>: the execution projection of \<^verbatim>\<open>reconstructMultiRunSession\<close> and of the snapshot
  an append leaves.
\<close>

definition taskExecution :: "session_env \<Rightarrow> stored_event list \<Rightarrow> session_error + task_execution_projection option" where
  "taskExecution env es = (case projectTaskGraph (se_platform env) es of
     Inl _ \<Rightarrow> Inl OpenRefused
   | Inr g \<Rightarrow> (case projectExecution es (tg_revisions g) of Inl e \<Rightarrow> Inl (Thrown e) | Inr x \<Rightarrow> Inr x))"

definition sessionOk :: "session_env \<Rightarrow> stored_event list \<Rightarrow> bool" where
  "sessionOk env es \<longleftrightarrow> \<not> isl (assertDecodedStoredEventInvariants es) \<and>
     list_all (\<lambda>e. attemptEventSchema (se_platform env) (edata e)) es \<and>
     \<not> isl (projectTaskState (se_platform env) es) \<and> \<not> isl (taskExecution env es) \<and> otherChecks env es"

section \<open>Opening and appending\<close>

definition openExisting :: "session_env \<Rightarrow> unit operation" where
  "openExisting env s =
     (let s = s\<lparr>sn_log := sn_log s @ otherOwners env (sn_opens s), sn_opens := sn_opens s + 1\<rparr>
      in if sessionOk env (sn_log s) then (Inr (), s) else (Inl OpenRefused, s))"

definition appendTaskGraphEvent :: "session_env \<Rightarrow> event_data \<Rightarrow> stored_event operation" where
  "appendTaskGraphEvent env data = sbind (newUuid env) (\<lambda>i s.
     let e = \<lparr>eventId = i, sessionId = se_sessionId env, sessionSeq = length (sn_log s) + 1, sourceSchemaVersion = 2,
           scope = SessionScope, edata = data\<rparr>
     in if sessionOk env (sn_log s @ [e]) then (Inr e, s\<lparr>sn_log := sn_log s @ [e]\<rparr>) else (Inl AppendRefused, s))"

text \<open>The projection after the last append.\<close>

definition refreshExecution :: "session_env \<Rightarrow> task_execution_projection operation" where
  "refreshExecution env s = (case taskExecution env (sn_log s) of
     Inl e \<Rightarrow> (Inl e, s) | Inr None \<Rightarrow> (Inl (Thrown task_graph_invalid), s) | Inr (Some x) \<Rightarrow> (Inr x, s))"

definition signalAborted :: "session_env \<Rightarrow> bool operation" where
  "signalAborted env s = (Inr (aborted env (sn_opens s)), s)"

section \<open>The contract of a session\<close>

text \<open>
  A contract relates the session before an operation, what it threw if it threw, and the session
  after it.  The locale states what a contract must allow: the primitives of the writer, and
  composition.  Every operation built from them then obeys it (\<open>obeys_rules\<close>).
\<close>

fun outcome :: "session_error + 'a \<Rightarrow> session_error option" where
  "outcome (Inl e) = Some e"
| "outcome (Inr _) = None"

definition obeys :: "(session \<Rightarrow> session_error option \<Rightarrow> session \<Rightarrow> bool) \<Rightarrow> 'a operation \<Rightarrow> bool" where
  "obeys R m \<longleftrightarrow> (\<forall>s. R s (outcome (fst (m s))) (snd (m s)))"

definition isEnqueue :: "event_data \<Rightarrow> bool" where
  "isEnqueue d = (case d of TaskGraphEnqueued _ _ _ _ \<Rightarrow> True | _ \<Rightarrow> False)"

lemma sbind_Inr: "sbind m f s = (Inr y, t) \<longleftrightarrow> (\<exists>x u. m s = (Inr x, u) \<and> f x u = (Inr y, t))"
  by (auto simp: sbind_def split: prod.splits sum.splits)

locale session_contract =
  fixes env :: session_env and R :: "session \<Rightarrow> session_error option \<Rightarrow> session \<Rightarrow> bool"
  assumes returns: "R s None s"
    and throws: "err \<noteq> GuardExhausted \<Longrightarrow> R s (Some err) s"
    and trans: "R s None t \<Longrightarrow> R t r u \<Longrightarrow> R s r u"
    and uuids: "R s None (s\<lparr>sn_uuids := n\<rparr>)"
    and opens: "t = s\<lparr>sn_log := sn_log s @ otherOwners env (sn_opens s), sn_opens := sn_opens s + 1\<rparr> \<Longrightarrow>
      R s (if sessionOk env (sn_log t) then None else Some OpenRefused) t"
    and appends: "\<not> isEnqueue (edata e) \<Longrightarrow> sessionOk env (sn_log s @ [e]) \<Longrightarrow> R s None (s\<lparr>sn_log := sn_log s @ [e]\<rparr>)"
begin

lemma obeys_return: "obeys R (sreturn x)"
  by (simp add: obeys_def sreturn_def returns)

lemma obeys_throw: "e \<noteq> GuardExhausted \<Longrightarrow> obeys R (sthrow e)"
  by (simp add: obeys_def sthrow_def throws)

lemma obeys_get: "obeys R sget"
  by (simp add: obeys_def sget_def returns)

lemma obeys_signal: "obeys R (signalAborted env)"
  by (simp add: obeys_def signalAborted_def returns)

lemma obeys_uuid: "obeys R (newUuid env)"
  by (simp add: obeys_def newUuid_def uuids)

lemma obeys_bind: "obeys R m \<Longrightarrow> (\<And>x. obeys R (f x)) \<Longrightarrow> obeys R (sbind m f)"
  unfolding obeys_def
proof
  fix s assume m: "\<forall>s. R s (outcome (fst (m s))) (snd (m s))" and f: "\<And>x. \<forall>s. R s (outcome (fst (f x s))) (snd (f x s))"
  show "R s (outcome (fst (sbind m f s))) (snd (sbind m f s))"
    using spec [OF m, of s] f trans by (cases "m s"; cases "fst (m s)") (auto simp: sbind_def)
qed

lemma obeys_open: "obeys R (openExisting env)"
  unfolding obeys_def
proof
  fix s show "R s (outcome (fst (openExisting env s))) (snd (openExisting env s))"
    using opens [OF HOL.refl, of s] by (simp add: openExisting_def Let_def split: if_splits)
qed

lemma obeys_refresh: "obeys R (refreshExecution env)"
  by (auto simp: obeys_def refreshExecution_def taskExecution_def returns throws split: sum.splits option.splits)

lemma obeys_append: "\<not> isEnqueue d \<Longrightarrow> obeys R (appendTaskGraphEvent env d)"
  unfolding appendTaskGraphEvent_def
  by (rule obeys_bind [OF obeys_uuid]) (simp add: obeys_def Let_def throws appends)

end

section \<open>The contract of the log\<close>

text \<open>
  The log only grows; as long as no other owner enqueues a Graph, none is enqueued; an accepted log
  is left accepted; and only the scheduler's own loop reports an exhausted guard.
\<close>

definition quiet :: "session_env \<Rightarrow> bool" where
  "quiet env \<longleftrightarrow> (\<forall>k. \<forall>e\<in>set (otherOwners env k). \<not> isEnqueue (edata e))"

definition logContract :: "session_env \<Rightarrow> session \<Rightarrow> session_error option \<Rightarrow> session \<Rightarrow> bool" where
  "logContract env s r t \<longleftrightarrow> (\<exists>es. sn_log t = sn_log s @ es \<and> (quiet env \<longrightarrow> (\<forall>e\<in>set es. \<not> isEnqueue (edata e)))) \<and>
     (sessionOk env (sn_log s) \<and> r = None \<longrightarrow> sessionOk env (sn_log t)) \<and> r \<noteq> Some GuardExhausted"

lemma logContract_trans:
  assumes "logContract env s None t" "logContract env t r u"
  shows "logContract env s r u"
proof -
  obtain es fs where "sn_log t = sn_log s @ es" "quiet env \<longrightarrow> (\<forall>e\<in>set es. \<not> isEnqueue (edata e))"
      "sn_log u = sn_log t @ fs" "quiet env \<longrightarrow> (\<forall>e\<in>set fs. \<not> isEnqueue (edata e))"
    using assms unfolding logContract_def by blast
  then have "sn_log u = sn_log s @ (es @ fs) \<and> (quiet env \<longrightarrow> (\<forall>e\<in>set (es @ fs). \<not> isEnqueue (edata e)))" by auto
  with assms show ?thesis unfolding logContract_def by blast
qed

interpretation log_contract: session_contract env "logContract env" for env
  by unfold_locales (auto simp: logContract_def quiet_def intro: logContract_trans)

end
