(* ===== verification/TaskScheduler.thy ===== *)
theory TaskScheduler
  imports SessionWriter
begin

text \<open>
  The deterministic task scheduler (\<^verbatim>\<open>src/src/scheduling/deterministic-task-scheduler.ts\<close>) and the
  control plane of executions (\<^verbatim>\<open>task-execution-control-plane.ts\<close>), the two clients of the session
  that drive an approved Graph.

  The executor of attempts is a parameter: what it supports, the workspace it prepares, whether it
  starts and what the attempt ends with, each a function of the session it sees.  So are the store
  of receipts and the hook run before a transition.  Events an attempt writes itself are events of
  other owners.  Data an event carries that no projector of the development reads (reasons, display
  data, receipt references) is left out of the event, as in \<open>StoredEvents\<close>.
\<close>

section \<open>Data\<close>

record waiting_request =
  wq_reason :: wait_reason
  wq_requestedActionRef :: string

record attempt_result =
  xr_budget :: task_budget_counters
  xr_receiptArtifactId :: "string option"
  xr_receiptSha256 :: "string option"
  xr_terminal :: attempt_terminal
  xr_usageCompleteness :: usage_completeness
  xr_waitingForUser :: "waiting_request option"

record started_attempt =
  sa_attemptStartedPersisted :: bool
  sa_result :: "unit + attempt_result"

record admitted_attempt =
  aa_attemptId :: string
  aa_attemptNumber :: nat
  aa_node :: task_node_spec
  aa_runId :: string
  aa_schedulerLeaseNonceSha256 :: string
  aa_workspace :: "workspace_binding option"

record attempt_executor =
  supports :: "task_node_spec \<Rightarrow> bool"
  prepareWorkspace :: "(session \<Rightarrow> string \<Rightarrow> task_node_spec \<Rightarrow> unit + workspace_binding option) option"
  startAttempt :: "session \<Rightarrow> admitted_attempt \<Rightarrow> unit + started_attempt"
  persistTaskNodeReceipt :: "session \<Rightarrow> admitted_attempt \<Rightarrow> attempt_result \<Rightarrow> unit + int"
  beforeTransition :: "nat \<Rightarrow> bool"
  ex_repositoryId :: string

datatype stop_reason = stop_blocked | stop_cancelled | stop_completed | stop_failed | stop_waiting_for_user

record scheduler_result =
  sr_execution :: task_execution_projection
  sr_startedAttempts :: nat
  sr_stopReason :: stop_reason

definition exactFields :: "mutable_revision \<Rightarrow> graph_ref" where
  "exactFields graph = \<lparr>gr_graph_id = mr_graphId graph, gr_graph_revision = mr_revision graph, gr_graph_sha256 = mr_graphSha256 graph\<rparr>"

definition zeroConsumption :: "task_budget_counters \<Rightarrow> task_budget_counters" where
  "zeroConsumption reservation = \<lparr>attempts = 1, durationMs = 0, modelSteps = 0, commandExecutions = 0, commandOutputBytes = 0,
     changedFiles = 0, changedBytes = 0, artifactBytes = 0,
     reportedTokens = (if reportedTokens reservation = None then None else Some 0)\<rparr>"

fun graphTerminalOf :: "attempt_terminal \<Rightarrow> graph_terminal_status" where
  "graphTerminalOf at_cancelled_clean = gt_cancelled"
| "graphTerminalOf at_blocked_reconciliation = gt_blocked"
| "graphTerminalOf at_blocked_unknown_effect = gt_blocked"
| "graphTerminalOf _ = gt_failed"

fun terminalBlocker :: "attempt_terminal \<Rightarrow> string option" where
  "terminalBlocker at_blocked_unknown_effect = Some ''task_effect_unknown''"
| "terminalBlocker at_blocked_reconciliation = Some ''task_effect_reconciliation_required''"
| "terminalBlocker _ = None"

fun stopReason :: "graph_status \<Rightarrow> stop_reason" where
  "stopReason gs_completed = stop_completed"
| "stopReason gs_cancelled = stop_cancelled"
| "stopReason gs_failed = stop_failed"
| "stopReason gs_waiting_for_user = stop_waiting_for_user"
| "stopReason _ = stop_blocked"

text \<open>The hash of a value of strings and integers, on which \<open>canonicalJson\<close> never throws.\<close>

definition digestOf :: "session_env \<Rightarrow> json \<Rightarrow> string" where
  "digestOf env v = (case sha256Canonical (sha256 (se_platform env)) v of Inl _ \<Rightarrow> [] | Inr h \<Rightarrow> h)"

section \<open>Mutations\<close>

definition mutate :: "session_env \<Rightarrow> (task_execution_projection \<Rightarrow> 'a operation) \<Rightarrow> 'a operation" where
  "mutate env op = sbind (openExisting env) (\<lambda>_ s. case taskExecution env (sn_log s) of
     Inl e \<Rightarrow> (Inl e, s)
   | Inr None \<Rightarrow> (Inl (Thrown task_graph_not_approved), s)
   | Inr (Some execution) \<Rightarrow> op execution s)"

definition executionSnapshot :: "session_env \<Rightarrow> task_execution_projection operation" where
  "executionSnapshot env = mutate env sreturn"

definition startExecution :: "session_env \<Rightarrow> attempt_executor \<Rightarrow> task_execution_projection \<Rightarrow> task_execution_projection operation" where
  "startExecution env ex execution =
    (if tx_status execution = gs_running then sreturn execution
     else if tx_status execution \<noteq> gs_queued then sthrow (Thrown task_scheduler_busy)
     else sbind (newUuid env) (\<lambda>nonce.
       let ref = exactFields (tx_graph execution);
           lease = digestOf env (JObject [(js ''graph_id'', JString (js (gr_graph_id ref))),
             (js ''graph_revision'', JNumber (int (gr_graph_revision ref))), (js ''nonce'', JString (js nonce)),
             (js ''repository_id'', JString (js (ex_repositoryId ex))), (js ''session_id'', JString (js (se_sessionId env)))])
       in sbind (appendTaskGraphEvent env (TaskSchedulerLeaseAcquired ref lease)) (\<lambda>_.
          sbind (appendTaskGraphEvent env (TaskGraphStarted ref lease)) (\<lambda>_. refreshExecution env))))"

definition ensureStarted :: "session_env \<Rightarrow> attempt_executor \<Rightarrow> task_execution_projection operation" where
  "ensureStarted env ex = mutate env (startExecution env ex)"

section \<open>Admission\<close>

definition exhaustedCounter :: "task_budget_counters \<Rightarrow> task_budget_counters \<Rightarrow> budget_field" where
  "exhaustedCounter held remaining = (case find (\<lambda>c. case (counterAt held c, counterAt remaining c) of
       (Some requested, Some left) \<Rightarrow> requested > left | _ \<Rightarrow> False) budgetFields of
     None \<Rightarrow> FAttempts | Some c \<Rightarrow> c)"

definition blockOnBudget :: "session_env \<Rightarrow> node_projection \<Rightarrow> task_budget_counters \<Rightarrow> unit operation" where
  "blockOnBudget env selected held = mutate env (\<lambda>current. let ref = exactFields (tx_graph current) in
     sbind (appendTaskGraphEvent env (TaskBudgetExhausted ref (exhaustedCounter held (tb_remaining (tx_budget current)))
       (Some (np_nodeId selected)))) (\<lambda>_.
     sbind (appendTaskGraphEvent env (TaskGraphTerminal ref gt_blocked (Some ''task_budget_exhausted''))) (\<lambda>_. sreturn ())))"

definition prepare :: "attempt_executor \<Rightarrow> string \<Rightarrow> task_node_spec \<Rightarrow> workspace_binding option operation" where
  "prepare ex attemptId node = (case prepareWorkspace ex of
     None \<Rightarrow> sreturn None
   | Some f \<Rightarrow> sbind sget (\<lambda>s. case f s attemptId node of Inl _ \<Rightarrow> sthrow ExecutorFailed | Inr b \<Rightarrow> sreturn b))"

definition firstReady :: "task_execution_projection \<Rightarrow> string option" where
  "firstReady execution = (case tx_readyNodeIds execution of [] \<Rightarrow> None | i # _ \<Rightarrow> Some i)"

text \<open>An event of the worktree of an attempt, when it has one.\<close>

definition worktreeEvent :: "session_env \<Rightarrow> string \<Rightarrow> workspace_binding option \<Rightarrow> unit operation" where
  "worktreeEvent env type binding = (case binding of None \<Rightarrow> sreturn ()
     | Some _ \<Rightarrow> sbind (appendTaskGraphEvent env (OtherEvent type)) (\<lambda>_. sreturn ()))"

definition requestAttempt :: "session_env \<Rightarrow> node_projection \<Rightarrow> admitted_attempt \<Rightarrow> task_execution_projection \<Rightarrow> bool operation" where
  "requestAttempt env selected a current = sbind (signalAborted env) (\<lambda>abort.
     if abort \<and> tx_activeAttempt current = None \<and> tx_status current = gs_cancelled then sreturn False
     else if firstReady current \<noteq> Some (np_nodeId selected) \<or> tx_activeAttempt current \<noteq> None then sthrow (Thrown task_scheduler_busy)
     else if abort then sthrow (Thrown task_waiting_for_user)
     else sbind (worktreeEvent env ''task_worktree.lease.acquired'' (aa_workspace a)) (\<lambda>_.
       case np_nextAttemptOrigin selected of
         None \<Rightarrow> sthrow (Thrown task_graph_invalid)
       | Some origin \<Rightarrow> sbind (appendTaskGraphEvent env (TaskNodeAttemptRequested (exactFields (tx_graph current))
             \<lparr>ar_attempt_id = aa_attemptId a, ar_attempt_number = aa_attemptNumber a, ar_node_id = np_nodeId selected,
              ar_reservation = reservationForTaskNode (np_node selected), ar_retry_origin = origin,
              ar_workspace_binding = aa_workspace a\<rparr>)) (\<lambda>_. sreturn True)))"

definition admitNode :: "session_env \<Rightarrow> attempt_executor \<Rightarrow> task_execution_projection \<Rightarrow> admitted_attempt option operation" where
  "admitNode env ex execution = (case deterministicReadyQueue execution of
     [] \<Rightarrow> sreturn None
   | selected # _ \<Rightarrow>
       if \<not> supports ex (np_node selected) then sthrow (Thrown task_workspace_mode_unavailable)
       else if \<not> taskBudgetCanReserve (tb_remaining (tx_budget execution)) (reservationForTaskNode (np_node selected))
       then sbind (blockOnBudget env selected (reservationForTaskNode (np_node selected))) (\<lambda>_. sreturn None)
       else sbind (newUuid env) (\<lambda>attemptId. sbind (newUuid env) (\<lambda>runId.
         case tx_schedulerLeaseNonceSha256 execution of
           None \<Rightarrow> sthrow (Thrown task_scheduler_busy)
         | Some lease \<Rightarrow> sbind (prepare ex attemptId (np_node selected)) (\<lambda>binding.
             if (w_mode (n_workspace (np_node selected)) = origin_read_only) \<noteq> (binding = None)
             then sthrow (Thrown task_workspace_mode_unavailable)
             else let a = \<lparr>aa_attemptId = attemptId, aa_attemptNumber = length (np_attempts selected) + 1, aa_node = np_node selected,
                        aa_runId = runId, aa_schedulerLeaseNonceSha256 = lease, aa_workspace = binding\<rparr>
               in sbind (mutate env (requestAttempt env selected a)) (\<lambda>ok. sreturn (if ok then Some a else None))))))"

section \<open>The end of an attempt\<close>

text \<open>
  \<^verbatim>\<open>visit\<close> follows the dependencies of a node; the dependencies of an accepted Graph have no
  cycle, so a path is no longer than the list of nodes and \<open>fuel\<close> never runs out.
\<close>

fun visitsRoot :: "nat \<Rightarrow> node_projection list \<Rightarrow> string \<Rightarrow> string \<Rightarrow> bool" where
  "visitsRoot 0 nodes root i = (i = root)"
| "visitsRoot (Suc fuel) nodes root i = (i = root \<or> (case find (\<lambda>n. np_nodeId n = i) nodes of
     None \<Rightarrow> False | Some found \<Rightarrow> list_ex (visitsRoot fuel nodes root) (dependsOn (np_node found))))"

definition rootsOf :: "task_execution_projection \<Rightarrow> string list \<Rightarrow> node_projection \<Rightarrow> string list" where
  "rootsOf execution blocked node = filter (\<lambda>root.
     list_ex (visitsRoot (length (tx_nodes execution)) (tx_nodes execution) root) (dependsOn (np_node node))) blocked"

definition blockerNodeIds :: "task_execution_projection \<Rightarrow> string list" where
  "blockerNodeIds execution = map np_nodeId
     (filter (\<lambda>n. np_status n \<in> {ns_blocked, ns_cancelled, ns_failed, ns_skipped}) (tx_nodes execution))"

fun skipNodes :: "session_env \<Rightarrow> string list \<Rightarrow> node_projection list \<Rightarrow> task_execution_projection \<Rightarrow> task_execution_projection operation" where
  "skipNodes env blocked [] execution = sreturn execution"
| "skipNodes env blocked (node # nodes) execution =
     (let roots = rootsOf execution blocked node in
      if roots = [] then skipNodes env blocked nodes execution
      else sbind (appendTaskGraphEvent env (TaskNodeSkipped (exactFields (tx_graph execution)) (np_nodeId node)
             (sort_key js (remdups roots)))) (\<lambda>_.
           sbind (refreshExecution env) (skipNodes env blocked nodes)))"

definition concludeGraph :: "session_env \<Rightarrow> attempt_result \<Rightarrow> task_execution_projection \<Rightarrow> unit operation" where
  "concludeGraph env result execution =
     (if xr_terminal result \<noteq> at_succeeded \<and> tx_readyNodeIds execution = [] then
        sbind (skipNodes env (blockerNodeIds execution)
            (filter (\<lambda>n. np_status n = ns_pending \<or> np_status n = ns_ready) (tx_nodes execution)) execution) (\<lambda>execution.
        sbind (appendTaskGraphEvent env (TaskGraphTerminal (exactFields (tx_graph execution))
            (graphTerminalOf (xr_terminal result)) (terminalBlocker (xr_terminal result)))) (\<lambda>_. sreturn ()))
      else if xr_terminal result = at_succeeded \<and> list_all (\<lambda>n. np_status n = ns_succeeded) (tx_nodes execution) then
        sbind (appendTaskGraphEvent env (TaskGraphTerminal (exactFields (tx_graph execution))
            (if list_ex (\<lambda>n. w_mode (n_workspace (np_node n)) \<noteq> origin_read_only) (tx_nodes execution)
             then gt_awaiting_integration else gt_completed) None)) (\<lambda>_. sreturn ())
      else sreturn ())"

definition receiptBytes :: "attempt_executor \<Rightarrow> admitted_attempt \<Rightarrow> attempt_result \<Rightarrow> int operation" where
  "receiptBytes ex a result = sbind sget (\<lambda>s. case persistTaskNodeReceipt ex s a result of
     Inl _ \<Rightarrow> sthrow ReceiptFailed | Inr n \<Rightarrow> sreturn n)"

definition endAttempt ::
  "session_env \<Rightarrow> graph_ref \<Rightarrow> admitted_attempt \<Rightarrow> attempt_terminal \<Rightarrow> task_budget_counters \<Rightarrow> usage_completeness \<Rightarrow>
   workspace_binding option \<Rightarrow> unit operation" where
  "endAttempt env ref a terminal budget usage binding =
     sbind (appendTaskGraphEvent env (TaskNodeAttemptTerminal ref \<lparr>atd_attempt_id = aa_attemptId a, atd_budget = budget,
       atd_node_id = nodeId (aa_node a), atd_terminal = terminal, atd_usage_completeness = usage\<rparr>)) (\<lambda>_.
     worktreeEvent env ''task_worktree.lease.released'' binding)"

definition addArtifactBytes :: "int \<Rightarrow> task_budget_counters \<Rightarrow> task_budget_counters" where
  "addArtifactBytes n b = b\<lparr>artifactBytes := artifactBytes b + n\<rparr>"

definition terminalAttempt :: "session_env \<Rightarrow> attempt_executor \<Rightarrow> admitted_attempt \<Rightarrow> attempt_result \<Rightarrow> task_execution_projection operation" where
  "terminalAttempt env ex a result = mutate env (\<lambda>execution. case tx_activeAttempt execution of
     None \<Rightarrow> sthrow (Thrown task_scheduler_busy)
   | Some active \<Rightarrow>
      if ma_attemptId active \<noteq> aa_attemptId a then sthrow (Thrown task_scheduler_busy)
      else sbind (if xr_receiptArtifactId result = None \<and> xr_receiptSha256 result = None then receiptBytes ex a result else sreturn 0) (\<lambda>bytes.
        if (xr_receiptArtifactId result = None) \<noteq> (xr_receiptSha256 result = None)
        then sthrow (Thrown task_effect_reconciliation_required)
        else sbind (endAttempt env (exactFields (tx_graph execution)) a (xr_terminal result) (addArtifactBytes bytes (xr_budget result))
               (xr_usageCompleteness result) (ma_workspaceBinding active)) (\<lambda>_.
             sbind (refreshExecution env) (\<lambda>next.
             sbind (concludeGraph env result next) (\<lambda>_. refreshExecution env)))))"

definition waitingAttempt ::
  "session_env \<Rightarrow> attempt_executor \<Rightarrow> admitted_attempt \<Rightarrow> attempt_result \<Rightarrow> waiting_request \<Rightarrow> task_execution_projection operation" where
  "waitingAttempt env ex a result waiting = mutate env (\<lambda>execution. case tx_activeAttempt execution of
     None \<Rightarrow> sthrow (Thrown task_scheduler_busy)
   | Some active \<Rightarrow>
      if ma_attemptId active \<noteq> aa_attemptId a then sthrow (Thrown task_scheduler_busy)
      else let ref = exactFields (tx_graph execution) in
        sbind (appendTaskGraphEvent env (TaskNodeAttemptWaiting ref (aa_attemptId a) (nodeId (aa_node a)))) (\<lambda>_.
        sbind (receiptBytes ex a result) (\<lambda>bytes.
        sbind (endAttempt env ref a at_pre_effect_infrastructure_failure (addArtifactBytes bytes (xr_budget result))
            (xr_usageCompleteness result) (ma_workspaceBinding active)) (\<lambda>_.
        sbind (appendTaskGraphEvent env (TaskSchedulerLeaseRecovered ref (aa_schedulerLeaseNonceSha256 a))) (\<lambda>_.
        sbind (appendTaskGraphEvent env (TaskGraphWaitingForUser ref (wq_reason waiting))) (\<lambda>_.
        sbind (refreshExecution env) (\<lambda>next.
          if tx_activeAttempt next \<noteq> None \<or> tx_status next \<noteq> gs_waiting_for_user then sthrow (Thrown task_graph_invalid)
          else sreturn next)))))))"

section \<open>The run\<close>

definition hook :: "attempt_executor \<Rightarrow> unit operation" where
  "hook ex = sbind sget (\<lambda>s. if beforeTransition ex (sn_opens s) then sreturn () else sthrow HookFailed)"

definition schedulerDone :: "task_execution_projection \<Rightarrow> nat \<Rightarrow> scheduler_result" where
  "schedulerDone execution started = \<lparr>sr_execution = execution, sr_startedAttempts = started, sr_stopReason = stopReason (tx_status execution)\<rparr>"

definition stoppedStatuses :: "graph_status list" where
  "stoppedStatuses = [gs_blocked, gs_cancelled, gs_completed, gs_failed, gs_waiting_for_user, gs_awaiting_integration]"

text \<open>
  The work on one admitted attempt: \<open>Inl\<close> the result the run returns with, \<open>Inr\<close> that the loop
  goes on.
\<close>

definition workAttempt :: "session_env \<Rightarrow> attempt_executor \<Rightarrow> admitted_attempt \<Rightarrow> nat \<Rightarrow> (scheduler_result + unit) operation" where
  "workAttempt env ex a started = sbind sget (\<lambda>s. case startAttempt ex s a of
     Inl _ \<Rightarrow> sbind (terminalAttempt env ex a \<lparr>xr_budget = zeroConsumption (reservationForTaskNode (aa_node a)), xr_receiptArtifactId = None,
         xr_receiptSha256 = None, xr_terminal = at_pre_effect_infrastructure_failure, xr_usageCompleteness = usage_none,
         xr_waitingForUser = None\<rparr>) (\<lambda>_. sreturn (Inr ()))
   | Inr running \<Rightarrow>
       sbind (if sa_attemptStartedPersisted running then sreturn ()
         else mutate env (\<lambda>current. sbind (appendTaskGraphEvent env (TaskNodeAttemptStarted (exactFields (tx_graph current)) (aa_attemptId a)
           (nodeId (aa_node a)) (aa_runId a) (aa_schedulerLeaseNonceSha256 a))) (\<lambda>_. sreturn ()))) (\<lambda>_.
       case sa_result running of
         Inl _ \<Rightarrow> sthrow ExecutorFailed
       | Inr result \<Rightarrow> sbind (hook ex) (\<lambda>_.
          case xr_waitingForUser result of
            Some waiting \<Rightarrow> sbind (waitingAttempt env ex a result waiting) (\<lambda>execution.
              sreturn (Inl \<lparr>sr_execution = execution, sr_startedAttempts = started, sr_stopReason = stop_waiting_for_user\<rparr>))
          | None \<Rightarrow> sbind (terminalAttempt env ex a result) (\<lambda>execution.
              sreturn (if tx_status execution \<in> set stoppedStatuses then Inl (schedulerDone execution started) else Inr ())))))"

text \<open>One round of the loop, with the same two outcomes.\<close>

definition runRound :: "session_env \<Rightarrow> attempt_executor \<Rightarrow> nat \<Rightarrow> (scheduler_result + unit) operation" where
  "runRound env ex started =
     sbind (hook ex) (\<lambda>_.
     sbind (executionSnapshot env) (\<lambda>execution.
     sbind (signalAborted env) (\<lambda>abort.
       if abort \<and> tx_activeAttempt execution = None \<and> tx_status execution = gs_cancelled
       then sreturn (Inl \<lparr>sr_execution = execution, sr_startedAttempts = started, sr_stopReason = stop_cancelled\<rparr>)
       else if abort \<and> tx_activeAttempt execution = None then sthrow (Thrown task_waiting_for_user)
       else sbind (admitNode env ex execution) (\<lambda>admitted. case admitted of
           None \<Rightarrow> sbind (executionSnapshot env) (\<lambda>execution. sreturn (Inl (schedulerDone execution started)))
         | Some a \<Rightarrow> workAttempt env ex a (started + 1)))))"

fun runLoop :: "session_env \<Rightarrow> attempt_executor \<Rightarrow> nat \<Rightarrow> nat \<Rightarrow> scheduler_result operation" where
  "runLoop env ex 0 started = sthrow GuardExhausted"
| "runLoop env ex (Suc guard) started = sbind (runRound env ex started) (\<lambda>next. case next of
     Inl r \<Rightarrow> sreturn r
   | Inr _ \<Rightarrow> runLoop env ex guard (started + 1))"

definition schedulerRun :: "session_env \<Rightarrow> attempt_executor \<Rightarrow> scheduler_result operation" where
  "schedulerRun env ex = sbind (ensureStarted env ex) (\<lambda>_. runLoop env ex 96 0)"

section \<open>The control plane\<close>

text \<open>
  The user's commands on an execution.  Pending effects of the session and the artifact of the
  revision are checked by other components: \<open>mutationBlocked\<close> and \<open>artifactVerified\<close>.
\<close>

record control_plane =
  mutationBlocked :: "session \<Rightarrow> bool"
  artifactVerified :: "session \<Rightarrow> mutable_revision \<Rightarrow> bool"

record mutation_result =
  mu_deduplicated :: bool
  mu_execution :: task_execution_projection
  mu_graph :: mutable_revision

definition reconstruct ::
  "session_env \<Rightarrow> (task_graph_projection \<times> task_state_projection \<times> task_execution_projection option) operation" where
  "reconstruct env s = (case (projectTaskGraph (se_platform env) (sn_log s), projectTaskState (se_platform env) (sn_log s),
       taskExecution env (sn_log s)) of
     (Inr g, Inr t, Inr x) \<Rightarrow> (Inr (g, t, x), s)
   | _ \<Rightarrow> (Inl OpenRefused, s))"

definition exactApproved :: "task_graph_projection \<Rightarrow> task_state_projection \<Rightarrow> nat \<Rightarrow> string \<Rightarrow> session_error + mutable_revision" where
  "exactApproved g t revision sha = (case tg_currentApproved g of
     None \<Rightarrow> Inl (Thrown task_graph_not_approved)
   | Some ref \<Rightarrow> (case find (\<lambda>r. mr_graphId r = rf_graphId ref \<and> mr_revision r = revision \<and> mr_graphSha256 r = sha) (tg_revisions g) of
       None \<Rightarrow> Inl (Thrown task_graph_not_approved)
     | Some graph \<Rightarrow>
         if rf_revision ref \<noteq> revision \<or> rf_graphSha256 ref \<noteq> sha then Inl (Thrown task_graph_not_approved)
         else if observeTaskGraphBinding (refOf graph) t \<noteq> binding_current then Inl (Thrown task_graph_binding_stale)
         else Inr graph))"

definition enqueueExecution ::
  "session_env \<Rightarrow> control_plane \<Rightarrow> requested_execution \<Rightarrow> nat \<Rightarrow> string \<Rightarrow> string \<Rightarrow> mutation_result operation" where
  "enqueueExecution env cp requested revision profile sha =
     sbind (openExisting env) (\<lambda>_. sbind (reconstruct env) (\<lambda>(g, t, existing).
     case exactApproved g t revision sha of Inl e \<Rightarrow> sthrow e | Inr graph \<Rightarrow>
     sbind sget (\<lambda>s.
       if mutationBlocked cp s then sthrow (Thrown task_effect_reconciliation_required)
       else if \<not> artifactVerified cp s graph then sthrow (Thrown task_graph_artifact_invalid)
       else let go = sbind (newUuid env) (\<lambda>enqueueId.
              sbind (appendTaskGraphEvent env (TaskGraphEnqueued (exactFields graph) enqueueId requested profile)) (\<lambda>_.
              sbind (refreshExecution env) (\<lambda>execution.
                sreturn \<lparr>mu_deduplicated = False, mu_execution = execution, mu_graph = graph\<rparr>)))
         in case existing of
           None \<Rightarrow> go
         | Some x \<Rightarrow>
             if mr_graphSha256 (tx_graph x) = mr_graphSha256 graph \<and> tx_status x \<noteq> gs_waiting_for_user \<and>
                nq_requestedExecution (tx_enqueue x) = requested \<and> nq_runtimeProfileId (tx_enqueue x) = profile
             then sreturn \<lparr>mu_deduplicated = True, mu_execution = x, mu_graph = graph\<rparr>
             else if mr_graphSha256 (tx_graph x) \<noteq> mr_graphSha256 graph \<or> tx_status x \<noteq> gs_waiting_for_user
             then sthrow (Thrown task_scheduler_busy)
             else go)))"

definition cancelExecution :: "session_env \<Rightarrow> nat \<Rightarrow> string \<Rightarrow> mutation_result operation" where
  "cancelExecution env revision sha = sbind (openExisting env) (\<lambda>_. sbind (reconstruct env) (\<lambda>(g, t, existing).
     case existing of None \<Rightarrow> sthrow (Thrown task_graph_revision_conflict) | Some x \<Rightarrow>
       if mr_revision (tx_graph x) \<noteq> revision \<or> mr_graphSha256 (tx_graph x) \<noteq> sha \<or>
          tx_status x \<notin> {gs_queued, gs_running, gs_waiting_for_user, gs_awaiting_integration}
       then sthrow (Thrown task_graph_revision_conflict)
       else sbind (newUuid env) (\<lambda>_. sbind (appendTaskGraphEvent env (TaskGraphCancelRequested (exactFields (tx_graph x)))) (\<lambda>_.
         sbind (if tx_activeAttempt x = None
           then sbind (appendTaskGraphEvent env (TaskGraphTerminal (exactFields (tx_graph x)) gt_cancelled None)) (\<lambda>_. sreturn ())
           else sreturn ()) (\<lambda>_.
         sbind (refreshExecution env) (\<lambda>execution.
           sreturn \<lparr>mu_deduplicated = False, mu_execution = execution, mu_graph = tx_graph execution\<rparr>))))))"

record retry_input =
  ry_attemptNumber :: nat
  ry_attemptTerminal :: attempt_terminal
  ry_authenticated :: bool
  ry_graphRevision :: nat
  ry_graphSha256 :: string
  ry_nodeId :: string
  ry_terminalEventId :: string

definition retryMatches :: "retry_input \<Rightarrow> node_projection \<Rightarrow> bool" where
  "retryMatches input node \<longleftrightarrow> 1 \<le> ry_attemptNumber input \<and> ry_attemptNumber input \<le> length (np_attempts node) \<and>
     (let attempt = np_attempts node ! (ry_attemptNumber input - 1) in
      ma_attemptNumber attempt = ry_attemptNumber input \<and> ma_terminalEventId attempt = Some (ry_terminalEventId input) \<and>
      ma_status attempt = as_terminal \<and> ma_terminal attempt = Some (ry_attemptTerminal input) \<and>
      np_status node = (if ry_attemptTerminal input = at_cancelled_clean then ns_cancelled else ns_failed) \<and>
      int (length (np_attempts node)) < maxAttempts (n_budget (np_node node)))"

definition retryExecution :: "session_env \<Rightarrow> retry_input \<Rightarrow> mutation_result operation" where
  "retryExecution env input = sbind (openExisting env) (\<lambda>_. sbind (reconstruct env) (\<lambda>(g, t, existing).
     case existing of None \<Rightarrow> sthrow (Thrown task_graph_revision_conflict) | Some x \<Rightarrow>
       if tx_status x \<notin> {gs_failed, gs_cancelled} \<or> tx_activeAttempt x \<noteq> None \<or>
          mr_revision (tx_graph x) \<noteq> ry_graphRevision input \<or> mr_graphSha256 (tx_graph x) \<noteq> ry_graphSha256 input
       then sthrow (Thrown task_graph_revision_conflict)
       else case find (\<lambda>n. np_nodeId n = ry_nodeId input) (tx_nodes x) of
         None \<Rightarrow> sthrow (Thrown task_graph_revision_conflict)
       | Some node \<Rightarrow>
           if \<not> retryMatches input node then sthrow (Thrown task_graph_revision_conflict)
           else sbind (appendTaskGraphEvent env (TaskNodeRetryRequested (exactFields (tx_graph x))
                \<lparr>rr_attempt_number = ry_attemptNumber input, rr_node_id = ry_nodeId input,
                 rr_previous_terminal = (if ry_authenticated input then Some (ry_attemptTerminal input) else None),
                 rr_terminal_event_id = ry_terminalEventId input\<rparr>)) (\<lambda>_.
              sbind (refreshExecution env) (\<lambda>execution.
                if tx_status execution \<noteq> gs_waiting_for_user then sthrow (Thrown task_graph_invalid)
                else sreturn \<lparr>mu_deduplicated = False, mu_execution = execution, mu_graph = tx_graph execution\<rparr>))))"

end
