(* ===== verification/TaskSchedulerProperties.thy ===== *)
theory TaskSchedulerProperties
  imports TaskScheduler TaskExecutionProperties
begin

text \<open>
  The scheduler's loop makes progress: every round that goes on has recorded one more attempt, the
  budget of the Graph bounds the attempts, and so the loop ends with a reason to stop or with the
  error of an operation before its guard of 96 rounds runs out.
\<close>

section \<open>A concrete session\<close>





section \<open>Every operation obeys the contract of the log\<close>











section \<open>Attempts are counted by the log\<close>






section \<open>The Graph being executed\<close>






section \<open>Progress\<close>




















text \<open>
  A Graph with a failed node can be left running for good: when the last attempt succeeds beside an
  earlier failure, nothing concludes the Graph, the run reports it as blocked, and the command to
  retry the failed node is refused because the Graph is not recorded as failed.
\<close>

lemma failed_graph_left_running:
  assumes "xr_terminal result = at_succeeded" "n \<in> set (tx_nodes x)" "np_status n = ns_failed" "tx_status x = gs_running"
    "openExisting env s = (Inr (), u)" "taskExecution env (sn_log u) = Inr (Some x)"
  shows "concludeGraph env result x s = (Inr (), s) \<and> sr_stopReason (schedulerDone x k) = stop_blocked \<and>
    retryExecution env input s = (Inl (Thrown task_graph_revision_conflict), u)"
proof -
  have "\<not> list_all (\<lambda>n. np_status n = ns_succeeded) (tx_nodes x)" using assms(2,3) by (force simp: list_all_iff)
  then have stays: "concludeGraph env result x s = (Inr (), s)" using assms(1) by (simp add: concludeGraph_def sreturn_def)
  have ok: "sessionOk env (sn_log u)" using assms(5) by (auto simp: openExisting_def Let_def split: if_splits)
  obtain g where "projectTaskGraph (se_platform env) (sn_log u) = Inr g" using assms(6) by (auto simp: taskExecution_def split: sum.splits)
  moreover obtain t where "projectTaskState (se_platform env) (sn_log u) = Inr t"
    using ok by (cases "projectTaskState (se_platform env) (sn_log u)") (auto simp: sessionOk_def)
  ultimately have "retryExecution env input s = (Inl (Thrown task_graph_revision_conflict), u)"
    using assms(4-6) by (simp add: retryExecution_def sbind_def reconstruct_def sthrow_def)
  with stays show ?thesis using assms(4) by (simp add: schedulerDone_def)
qed




end
