(* ===== verification/WorktreeSchema.thy ===== *)
theory WorktreeSchema
  imports StoredEvents DelegationSchema
begin

text \<open>
  The records of managed worktrees: allocation plans, baselines, snapshots and promotion
  bundles with the checks of their schemas (\<^verbatim>\<open>src/src/worktrees/worktree-schema.ts\<close>), and the
  Goal change a promotion records (\<^verbatim>\<open>task-promotion-goal-change.ts\<close>).

  A schema is a \<open>bool\<close>-valued function of a parsed record.  The identity fields are hashes of
  the canonical JSON of the other fields; these are strings and numbers, so the encoder does
  not throw on them, which \<open>hashed\<close> states by asking for an \<open>Inr\<close>.
\<close>

section \<open>Fields\<close>

definition gitObjectOk :: "string \<Rightarrow> bool" where
  "gitObjectOk s \<longleftrightarrow> (length s = 40 \<or> length s = 64) \<and> list_all isHex s"

definition nonnegativeUpTo :: "nat \<Rightarrow> nat \<Rightarrow> bool" where
  "nonnegativeUpTo m n \<longleftrightarrow> n \<le> m \<and> int n \<le> MAX_SAFE_INTEGER"

text \<open>\<open>relativeRef\<close>: a path without a root, a backslash, an empty segment or a dot segment.\<close>

definition relativeRef :: "jsstring \<Rightarrow> bool" where
  "relativeRef value \<longleftrightarrow> 1 \<le> length value \<and> length value \<le> 1024 \<and> take 1 value \<noteq> [0x2f] \<and> 0x5c \<notin> set value \<and>
     list_all (\<lambda>part. part \<noteq> [] \<and> part \<noteq> [0x2e] \<and> part \<noteq> [0x2e, 0x2e]) (splitUnits 0x2f value)"

definition nullableOk :: "('a \<Rightarrow> bool) \<Rightarrow> 'a option \<Rightarrow> bool" where
  "nullableOk ok v \<longleftrightarrow> (case v of None \<Rightarrow> True | Some x \<Rightarrow> ok x)"

definition hashed :: "platform \<Rightarrow> json \<Rightarrow> string \<Rightarrow> bool" where
  "hashed p v h \<longleftrightarrow> sha256Canonical (sha256 p) v = Inr h"

definition MiB :: nat where "MiB = 1024 * 1024"

datatype file_mode = mode_100644 | mode_100755
datatype object_format = format_sha1 | format_sha256

fun modeName :: "file_mode \<Rightarrow> string" where
  "modeName mode_100644 = ''100644''"
| "modeName mode_100755 = ''100755''"

section \<open>Repositories, worktrees and allocation plans\<close>

record repository_identity =
  ri_baseCommit :: string
  ri_gitCommonDirSha256 :: string
  ri_objectFormat :: object_format
  ri_originRootSha256 :: string
  ri_repositoryId :: string

definition repositoryIdentitySchema :: "repository_identity \<Rightarrow> bool" where
  "repositoryIdentitySchema v \<longleftrightarrow> gitObjectOk (ri_baseCommit v) \<and> sha256Ok (ri_gitCommonDirSha256 v) \<and>
     sha256Ok (ri_originRootSha256 v) \<and> sha256Ok (ri_repositoryId v)"

record worktree_identity =
  wi_allocationPlanSha256 :: string
  wi_baseCommit :: string
  wi_graphId :: string
  wi_managedPathSha256 :: string
  wi_managedRelativeRef :: jsstring
  wi_repositoryId :: string
  wi_sourceNodeId :: string
  wi_workspaceId :: string

definition managedWorktreeIdentitySchema :: "platform \<Rightarrow> worktree_identity \<Rightarrow> bool" where
  "managedWorktreeIdentitySchema p v \<longleftrightarrow> sha256Ok (wi_allocationPlanSha256 v) \<and> gitObjectOk (wi_baseCommit v) \<and>
     isUuid p (wi_graphId v) \<and> sha256Ok (wi_managedPathSha256 v) \<and> relativeRef (wi_managedRelativeRef v) \<and>
     sha256Ok (wi_repositoryId v) \<and> nodeIdOk (wi_sourceNodeId v) \<and> isUuid p (wi_workspaceId v)"

record allocation_plan =
  alp_baseCommit :: string
  alp_baselineManifestSha256 :: string
  alp_dirtyOverlaySha256 :: "string option"
  alp_graph :: graph_ref
  alp_managedRelativeRef :: jsstring
  alp_nodeIds :: "string list"
  alp_operationId :: string
  alp_originStatusSha256 :: string
  alp_repository :: repository_identity
  alp_repositoryRulesSha256 :: string
  alp_requestedBytes :: nat
  alp_requestedFiles :: nat
  alp_workspaceId :: string

definition graphRefSchema :: "platform \<Rightarrow> graph_ref \<Rightarrow> bool" where
  "graphRefSchema p g \<longleftrightarrow> isUuid p (gr_graph_id g) \<and> positiveSafeInteger (gr_graph_revision g) \<and> sha256Ok (gr_graph_sha256 g)"

definition workspaceAllocationPlanSchema :: "platform \<Rightarrow> allocation_plan \<Rightarrow> bool" where
  "workspaceAllocationPlanSchema p v \<longleftrightarrow> gitObjectOk (alp_baseCommit v) \<and> sha256Ok (alp_baselineManifestSha256 v) \<and>
     nullableOk sha256Ok (alp_dirtyOverlaySha256 v) \<and> graphRefSchema p (alp_graph v) \<and> relativeRef (alp_managedRelativeRef v) \<and>
     list_all nodeIdOk (alp_nodeIds v) \<and> 1 \<le> length (alp_nodeIds v) \<and> length (alp_nodeIds v) \<le> 32 \<and>
     isUuid p (alp_operationId v) \<and> sha256Ok (alp_originStatusSha256 v) \<and> repositoryIdentitySchema (alp_repository v) \<and>
     sha256Ok (alp_repositoryRulesSha256 v) \<and> nonnegativeUpTo (512 * MiB) (alp_requestedBytes v) \<and>
     nonnegativeUpTo 25000 (alp_requestedFiles v) \<and> isUuid p (alp_workspaceId v)"

section \<open>Baselines and snapshots\<close>

record baseline_entry =
  be_bytes :: nat
  be_mode :: file_mode
  be_path :: jsstring
  be_sha256 :: string

definition baselineEntrySchema :: "baseline_entry \<Rightarrow> bool" where
  "baselineEntrySchema e \<longleftrightarrow> nonnegativeUpTo (16 * MiB) (be_bytes e) \<and> relativeRef (be_path e) \<and> sha256Ok (be_sha256 e)"

definition baselineEntryJson :: "baseline_entry \<Rightarrow> json" where
  "baselineEntryJson e = JObject
     [(js ''bytes'', JNat (be_bytes e)), (js ''mode'', JText (modeName (be_mode e))), (js ''path'', JString (be_path e)),
      (js ''sha256'', JText (be_sha256 e))]"

definition noCaseFoldCollision :: "platform \<Rightarrow> jsstring list \<Rightarrow> bool" where
  "noCaseFoldCollision p paths \<longleftrightarrow> card (set (map (lowerEnUs p) paths)) = length paths"

record baseline_manifest =
  bm_baseCommit :: string
  bm_entries :: "baseline_entry list"
  bm_manifestSha256 :: string
  bm_originStatusSha256 :: string
  bm_totalBytes :: nat

definition baselineIdentityJson :: "baseline_manifest \<Rightarrow> json" where
  "baselineIdentityJson v = JObject
     [(js ''baseCommit'', JText (bm_baseCommit v)), (js ''entries'', JArray (map baselineEntryJson (bm_entries v))),
      (js ''originStatusSha256'', JText (bm_originStatusSha256 v)), (js ''schemaVersion'', JNat 1),
      (js ''totalBytes'', JNat (bm_totalBytes v))]"

definition workspaceBaselineManifestSchema :: "platform \<Rightarrow> baseline_manifest \<Rightarrow> bool" where
  "workspaceBaselineManifestSchema p v \<longleftrightarrow> gitObjectOk (bm_baseCommit v) \<and>
     list_all baselineEntrySchema (bm_entries v) \<and> length (bm_entries v) \<le> 25000 \<and>
     sha256Ok (bm_manifestSha256 v) \<and> sha256Ok (bm_originStatusSha256 v) \<and> nonnegativeUpTo (512 * MiB) (bm_totalBytes v) \<and>
     hashed p (baselineIdentityJson v) (bm_manifestSha256 v) \<and>
     bm_totalBytes v = sum_list (map be_bytes (bm_entries v)) \<and> noCaseFoldCollision p (map be_path (bm_entries v))"

record snapshot_manifest =
  sm_baselineManifestSha256 :: string
  sm_entries :: "baseline_entry list"
  sm_snapshotSha256 :: string
  sm_totalBytes :: nat
  sm_workspaceId :: string

definition snapshotIdentityJson :: "snapshot_manifest \<Rightarrow> json" where
  "snapshotIdentityJson v = JObject
     [(js ''baselineManifestSha256'', JText (sm_baselineManifestSha256 v)),
      (js ''entries'', JArray (map baselineEntryJson (sm_entries v))), (js ''schemaVersion'', JNat 1),
      (js ''totalBytes'', JNat (sm_totalBytes v)), (js ''workspaceId'', JText (sm_workspaceId v))]"

definition workspaceSnapshotManifestSchema :: "platform \<Rightarrow> snapshot_manifest \<Rightarrow> bool" where
  "workspaceSnapshotManifestSchema p v \<longleftrightarrow> sha256Ok (sm_baselineManifestSha256 v) \<and>
     list_all baselineEntrySchema (sm_entries v) \<and> length (sm_entries v) \<le> 25000 \<and> sha256Ok (sm_snapshotSha256 v) \<and>
     nonnegativeUpTo (512 * MiB) (sm_totalBytes v) \<and> isUuid p (sm_workspaceId v) \<and>
     hashed p (snapshotIdentityJson v) (sm_snapshotSha256 v) \<and>
     sm_totalBytes v = sum_list (map be_bytes (sm_entries v)) \<and> noCaseFoldCollision p (map be_path (sm_entries v))"

datatype overlay_status = tracked_modified | tracked_deleted | untracked

fun overlayStatusName :: "overlay_status \<Rightarrow> string" where
  "overlayStatusName tracked_modified = ''tracked_modified''"
| "overlayStatusName tracked_deleted = ''tracked_deleted''"
| "overlayStatusName untracked = ''untracked''"

record overlay_entry =
  oe_baseSha256 :: "string option"
  oe_bytes :: nat
  oe_currentSha256 :: "string option"
  oe_path :: jsstring
  oe_status :: overlay_status

definition baselineOverlayEntrySchema :: "overlay_entry \<Rightarrow> bool" where
  "baselineOverlayEntrySchema e \<longleftrightarrow> nullableOk sha256Ok (oe_baseSha256 e) \<and> nonnegativeUpTo (16 * MiB) (oe_bytes e) \<and>
     nullableOk sha256Ok (oe_currentSha256 e) \<and> relativeRef (oe_path e) \<and>
     \<not> (oe_status e = tracked_deleted \<and> oe_currentSha256 e \<noteq> None) \<and> \<not> (oe_status e = untracked \<and> oe_baseSha256 e \<noteq> None)"

record baseline_overlay =
  bo_baseCommit :: string
  bo_entries :: "overlay_entry list"
  bo_originSnapshotSha256 :: string
  bo_overlaySha256 :: string

definition overlayIdentityJson :: "baseline_overlay \<Rightarrow> json" where
  "overlayIdentityJson v = JObject
     [(js ''baseCommit'', JText (bo_baseCommit v)),
      (js ''entries'', JArray (map (\<lambda>e. JObject
         [(js ''baseSha256'', JOpt JText (oe_baseSha256 e)), (js ''bytes'', JNat (oe_bytes e)),
          (js ''currentSha256'', JOpt JText (oe_currentSha256 e)), (js ''path'', JString (oe_path e)),
          (js ''status'', JText (overlayStatusName (oe_status e)))]) (bo_entries v))),
      (js ''originSnapshotSha256'', JText (bo_originSnapshotSha256 v)), (js ''schemaVersion'', JNat 1)]"

definition baselineOverlaySchema :: "platform \<Rightarrow> baseline_overlay \<Rightarrow> bool" where
  "baselineOverlaySchema p v \<longleftrightarrow> gitObjectOk (bo_baseCommit v) \<and> list_all baselineOverlayEntrySchema (bo_entries v) \<and>
     length (bo_entries v) \<le> 25000 \<and> sha256Ok (bo_originSnapshotSha256 v) \<and> sha256Ok (bo_overlaySha256 v) \<and>
     hashed p (overlayIdentityJson v) (bo_overlaySha256 v)"

section \<open>Promotion bundles\<close>

datatype bundle_kind = bundle_add | bundle_delete | bundle_modify

fun bundleKindName :: "bundle_kind \<Rightarrow> string" where
  "bundleKindName bundle_add = ''add''"
| "bundleKindName bundle_delete = ''delete''"
| "bundleKindName bundle_modify = ''modify''"

record bundle_entry =
  pe_bytes :: nat
  pe_kind :: bundle_kind
  pe_mode :: file_mode
  pe_path :: jsstring
  pe_postSha256 :: "string option"
  pe_preSha256 :: "string option"

definition promotionBundleEntrySchema :: "bundle_entry \<Rightarrow> bool" where
  "promotionBundleEntrySchema e \<longleftrightarrow> nonnegativeUpTo (16 * MiB) (pe_bytes e) \<and> relativeRef (pe_path e) \<and>
     nullableOk sha256Ok (pe_postSha256 e) \<and> nullableOk sha256Ok (pe_preSha256 e) \<and>
     (pe_kind e = bundle_add) = (pe_preSha256 e = None) \<and> (pe_kind e = bundle_delete) = (pe_postSha256 e = None)"

record promotion_bundle =
  pb_attemptId :: string
  pb_baselineManifestSha256 :: string
  pb_bundleSha256 :: string
  pb_entries :: "bundle_entry list"
  pb_graph :: graph_ref
  pb_nodeId :: string
  pb_targetSnapshotSha256 :: string
  pb_totalBytes :: nat
  pb_workspaceId :: string
  pb_workspaceSnapshotSha256 :: string

definition bundleEntryJson :: "bundle_entry \<Rightarrow> json" where
  "bundleEntryJson e = JObject
     [(js ''bytes'', JNat (pe_bytes e)), (js ''kind'', JText (bundleKindName (pe_kind e))),
      (js ''mode'', JText (modeName (pe_mode e))), (js ''path'', JString (pe_path e)),
      (js ''postSha256'', JOpt JText (pe_postSha256 e)), (js ''preSha256'', JOpt JText (pe_preSha256 e))]"

definition bundleIdentityJson :: "promotion_bundle \<Rightarrow> json" where
  "bundleIdentityJson v = JObject
     [(js ''attemptId'', JText (pb_attemptId v)), (js ''baselineManifestSha256'', JText (pb_baselineManifestSha256 v)),
      (js ''entries'', JArray (map bundleEntryJson (pb_entries v))), (js ''graphId'', JText (gr_graph_id (pb_graph v))),
      (js ''graphRevision'', JNat (gr_graph_revision (pb_graph v))), (js ''graphSha256'', JText (gr_graph_sha256 (pb_graph v))),
      (js ''nodeId'', JText (pb_nodeId v)), (js ''schemaVersion'', JNat 1),
      (js ''targetSnapshotSha256'', JText (pb_targetSnapshotSha256 v)), (js ''totalBytes'', JNat (pb_totalBytes v)),
      (js ''workspaceId'', JText (pb_workspaceId v)), (js ''workspaceSnapshotSha256'', JText (pb_workspaceSnapshotSha256 v))]"

definition promotionBundleSchema :: "platform \<Rightarrow> promotion_bundle \<Rightarrow> bool" where
  "promotionBundleSchema p v \<longleftrightarrow> isUuid p (pb_attemptId v) \<and> sha256Ok (pb_baselineManifestSha256 v) \<and>
     sha256Ok (pb_bundleSha256 v) \<and> list_all promotionBundleEntrySchema (pb_entries v) \<and>
     1 \<le> length (pb_entries v) \<and> length (pb_entries v) \<le> 256 \<and> graphRefSchema p (pb_graph v) \<and> nodeIdOk (pb_nodeId v) \<and>
     sha256Ok (pb_targetSnapshotSha256 v) \<and> nonnegativeUpTo (16 * MiB) (pb_totalBytes v) \<and> isUuid p (pb_workspaceId v) \<and>
     sha256Ok (pb_workspaceSnapshotSha256 v) \<and>
     hashed p (bundleIdentityJson v) (pb_bundleSha256 v) \<and> pb_totalBytes v = sum_list (map pe_bytes (pb_entries v))"

section \<open>The Goal change of a promotion\<close>

datatype promotion_kind = promotion_add | promotion_modify

record promotion_file =
  pf_bytes :: nat
  pf_kind :: promotion_kind
  pf_mode :: file_mode
  pf_path :: jsstring
  pf_post_sha256 :: string
  pf_pre_sha256 :: "string option"

record promotion_source =
  pso_approval_event_id :: string
  pso_attempt_id :: string
  pso_bundle_sha256 :: string
  pso_graph :: graph_ref
  pso_node_id :: string
  pso_operation_id :: string
  pso_proposal_event_id :: string
  pso_request_event_id :: string
  pso_workspace_id :: string

record promotion_change =
  pch_files :: "promotion_file list"
  pch_goal_id :: string
  pch_goal_revision :: nat
  pch_source :: promotion_source

definition promotionFileOk :: "promotion_file \<Rightarrow> bool" where
  "promotionFileOk f \<longleftrightarrow> nonnegativeUpTo (16 * MiB) (pf_bytes f) \<and> relativeRef (pf_path f) \<and> sha256Ok (pf_post_sha256 f) \<and>
     nullableOk sha256Ok (pf_pre_sha256 f)"

definition withoutHashSchema :: "platform \<Rightarrow> promotion_change \<Rightarrow> bool" where
  "withoutHashSchema p v \<longleftrightarrow> list_all promotionFileOk (pch_files v) \<and> 1 \<le> length (pch_files v) \<and> length (pch_files v) \<le> 256 \<and>
     isUuid p (pch_goal_id v) \<and> positiveSafeInteger (pch_goal_revision v) \<and>
     (let s = pch_source v in isUuid p (pso_approval_event_id s) \<and> isUuid p (pso_attempt_id s) \<and> sha256Ok (pso_bundle_sha256 s) \<and>
        graphRefSchema p (pso_graph s) \<and> nodeIdOk (pso_node_id s) \<and> isUuid p (pso_operation_id s) \<and>
        isUuid p (pso_proposal_event_id s) \<and> isUuid p (pso_request_event_id s) \<and> isUuid p (pso_workspace_id s))"

fun promotionKindName :: "promotion_kind \<Rightarrow> string" where
  "promotionKindName promotion_add = ''add''"
| "promotionKindName promotion_modify = ''modify''"

definition promotionFileJson :: "promotion_file \<Rightarrow> json" where
  "promotionFileJson f = JObject
     [(js ''bytes'', JNat (pf_bytes f)), (js ''kind'', JText (promotionKindName (pf_kind f))),
      (js ''mode'', JText (modeName (pf_mode f))), (js ''path'', JString (pf_path f)),
      (js ''post_sha256'', JText (pf_post_sha256 f)), (js ''pre_sha256'', JOpt JText (pf_pre_sha256 f))]"

definition promotionChangeJson :: "promotion_change \<Rightarrow> json" where
  "promotionChangeJson v = JObject
     [(js ''files'', JArray (map promotionFileJson (pch_files v))), (js ''goal_id'', JText (pch_goal_id v)),
      (js ''goal_revision'', JNat (pch_goal_revision v)),
      (js ''source'', let s = pch_source v in JObject
         [(js ''approval_event_id'', JText (pso_approval_event_id s)), (js ''attempt_id'', JText (pso_attempt_id s)),
          (js ''bundle_sha256'', JText (pso_bundle_sha256 s)), (js ''graph_id'', JText (gr_graph_id (pso_graph s))),
          (js ''graph_revision'', JNat (gr_graph_revision (pso_graph s))),
          (js ''graph_sha256'', JText (gr_graph_sha256 (pso_graph s))), (js ''kind'', JText ''task_promotion''),
          (js ''node_id'', JText (pso_node_id s)), (js ''operation_id'', JText (pso_operation_id s)),
          (js ''proposal_event_id'', JText (pso_proposal_event_id s)), (js ''request_event_id'', JText (pso_request_event_id s)),
          (js ''workspace_id'', JText (pso_workspace_id s))])]"

definition taskPromotionGoalChangeRecordedDataSchema :: "platform \<Rightarrow> promotion_change \<times> string \<Rightarrow> bool" where
  "taskPromotionGoalChangeRecordedDataSchema p v \<longleftrightarrow> withoutHashSchema p (fst v) \<and> sha256Ok (snd v) \<and>
     hashed p (promotionChangeJson (fst v)) (snd v)"

text \<open>\<open>None\<close> is a thrown \<^verbatim>\<open>ZodError\<close> or \<^verbatim>\<open>TypeError\<close>.\<close>

definition createTaskPromotionGoalChangeRecordedData :: "platform \<Rightarrow> promotion_change \<Rightarrow> (promotion_change \<times> string) option" where
  "createTaskPromotionGoalChangeRecordedData p input =
     (if \<not> withoutHashSchema p input then None
      else case sha256Canonical (sha256 p) (promotionChangeJson input) of
          Inl _ \<Rightarrow> None
        | Inr h \<Rightarrow> if taskPromotionGoalChangeRecordedDataSchema p (input, h) then Some (input, h) else None)"

end
