(* ===== verification/WorktreeProjector.thy ===== *)
theory WorktreeProjector
  imports WorktreeSchema
begin

text \<open>
  The worktree projector (\<^verbatim>\<open>src/src/worktrees/worktree-projector.ts\<close>) with the payloads it
  reads (\<^verbatim>\<open>worktree-event-schema.ts\<close>).

  A \<open>worktree_event\<close> is a stored event whose worktree payload, if its type is one of the
  projector's, is \<open>wdata\<close>.  The local variables of \<^verbatim>\<open>project\<close> are the record \<open>wt_state\<close>.
  A \<^verbatim>\<open>Map\<close> whose order is observed is an association list, \<^verbatim>\<open>pending\<close> the list of its elements.
  \<^verbatim>\<open>requestedPromotions\<close> holds the same mutable objects as \<^verbatim>\<open>proposals\<close>, whose entries are
  never replaced, so a reference to one of them is its key.  Each \<^verbatim>\<open>case\<close> of the loop is one
  definition; the loop body also reads the whole log, \<open>events\<close>.
\<close>

section \<open>Payloads\<close>

record prepared_data =
  pd_allocation_plan :: allocation_plan
  pd_allocation_plan_sha256 :: string

record allocation_approved_data =
  aad_allocation_plan_sha256 :: string
  aad_approval_request_id :: string
  aad_workspace_id :: string

record create_requested_data =
  crd_allocation_plan_sha256 :: string
  crd_operation_id :: string
  crd_workspace_id :: string

record lease_data =
  ld_attempt_id :: string
  ld_node_id :: string
  ld_workspace_id :: string

record snapshot_accepted_data =
  sad_attempt_id :: string
  sad_changed_bytes :: nat
  sad_changed_files :: nat
  sad_node_id :: string
  sad_snapshot_sha256 :: string
  sad_workspace_id :: string

record promotion_approved_data =
  pad_approval_request_id :: string
  pad_bundle_sha256 :: string
  pad_target_snapshot_sha256 :: string

record promotion_requested_data =
  prq_approval_request_id :: string
  prq_bundle_sha256 :: string
  prq_operation_id :: string
  prq_target_snapshot_sha256 :: string

record promotion_applied_data =
  pap_bundle_sha256 :: string
  pap_changed_paths :: "jsstring list"
  pap_operation_id :: string
  pap_origin_source_snapshot_sha256 :: string
  pap_result_snapshot_sha256 :: string

text \<open>The fields shared by the three events of an origin verification.\<close>

record verification_target =
  vt_action_sha256 :: string
  vt_bundle_sha256 :: string
  vt_command_sha256 :: string
  vt_origin_source_snapshot_sha256 :: string
  vt_promotion_operation_id :: string
  vt_verification_id :: string
  vt_verification_node_id :: string
  vt_workspace_id :: string

datatype verification_outcome = vo_cancelled | vo_failed | vo_passed | vo_reconciliation_required
datatype verification_termination =
  vtm_cancelled | vtm_cleanup_failed | vtm_exit | vtm_output_limit_exceeded | vtm_signal | vtm_spawn_error | vtm_stale | vtm_timeout

record verification_completed_data =
  vc_target :: verification_target
  vc_after_source_state_sha256 :: string
  vc_before_source_state_sha256 :: string
  vc_cleanup_verified :: bool
  vc_exit_code :: "int option"
  vc_receipt_artifact_id :: string
  vc_receipt_sha256 :: string
  vc_status :: verification_outcome
  vc_termination :: verification_termination

datatype cleanup_outcome = cleanup_archived | cleanup_removed | cleanup_retained
datatype reconciled_observation = applied_divergent | applied_exact | not_applied | observed_not_known

datatype (plugins only: code size) worktree_data =
    AllocationPrepared graph_ref prepared_data
  | AllocationApproved graph_ref allocation_approved_data
  | CreateRequested graph_ref create_requested_data
  | WorktreeCreated graph_ref worktree_identity string \<comment> \<open>operation_id\<close>
  | BaselineSeeded graph_ref baseline_manifest string \<comment> \<open>workspace_id\<close>
  | LeaseAcquired graph_ref lease_data
  | LeaseReleased graph_ref lease_data string \<comment> \<open>terminal_event_id\<close>
  | SnapshotAccepted graph_ref snapshot_accepted_data
  | PromotionProposed graph_ref promotion_bundle string \<comment> \<open>bundle_sha256\<close>
  | PromotionApproved graph_ref promotion_approved_data
  | PromotionRequested graph_ref promotion_requested_data
  | PromotionApplied graph_ref promotion_applied_data
  | GoalChangeRecorded promotion_change
  | OriginVerificationApproved graph_ref verification_target string \<comment> \<open>approval_request_id\<close>
  | OriginVerificationRequested graph_ref verification_target string \<comment> \<open>approval_request_id\<close>
  | OriginVerificationCompleted graph_ref verification_completed_data
  | CleanupRequested graph_ref string string \<comment> \<open>operation_id, workspace_id\<close>
  | CleanupCompleted graph_ref string cleanup_outcome string \<comment> \<open>operation_id, status, workspace_id\<close>
  | WorktreeReconciled graph_ref reconciled_observation string string \<comment> \<open>observed, operation_id, workspace_id\<close>

record worktree_event = stored_event +
  wdata :: "worktree_data option"

section \<open>State\<close>

datatype workspace_status =
  ws_active | ws_retained_clean | ws_retained_dirty | ws_archived | ws_removed | ws_reconciliation_required

record last_snapshot =
  sn_attemptId :: string
  sn_changedBytes :: nat
  sn_changedFiles :: nat
  sn_nodeId :: string
  sn_sha256 :: string

record managed_workspace =
  mw_activeAttemptId :: "string option"
  mw_baseline :: baseline_manifest
  mw_identity :: worktree_identity
  mw_lastSnapshot :: "last_snapshot option"
  mw_nodeIds :: "string list"
  mw_operationId :: string
  mw_plan :: allocation_plan
  mw_status :: workspace_status

datatype promotion_status = ps_proposed | ps_approved | ps_requested | ps_applied

record promotion =
  pm_appliedEventId :: "string option"
  pm_approvalRequestId :: "string option"
  pm_bundle :: promotion_bundle
  pm_goalChangeEventId :: "string option"
  pm_operationId :: "string option"
  pm_originSourceSnapshotSha256 :: "string option"
  pm_proposalEventId :: string
  pm_resultSnapshotSha256 :: "string option"
  pm_status :: promotion_status

datatype origin_verification_status = ov_approved | ov_requested | OvCompleted verification_outcome

record origin_verification =
  ov_target :: verification_target
  ov_approvalRequestId :: string
  ov_approvedEventId :: string
  ov_completedEventId :: "string option"
  ov_receiptArtifactId :: "string option"
  ov_receiptSha256 :: "string option"
  ov_requestedEventId :: "string option"
  ov_status :: origin_verification_status

record create_request =
  cq_planSha256 :: string
  cq_workspaceId :: string

record wt_state =
  w_prepared :: "string \<rightharpoonup> string \<times> allocation_plan" \<comment> \<open>event id and plan\<close>
  w_approvedPlans :: "string \<rightharpoonup> string"
  w_requestedCreates :: "string \<rightharpoonup> create_request"
  w_workspaces :: "(string \<times> managed_workspace) list"
  w_attempts :: "string \<rightharpoonup> string"
  w_proposals :: "(string \<times> promotion) list"
  w_requestedPromotions :: "string \<rightharpoonup> string"
  w_originVerifications :: "(string \<times> origin_verification) list"
  w_pending :: "string list"
  w_lastSessionSeq :: nat

definition wt_init :: wt_state where
  "wt_init = \<lparr>w_prepared = Map.empty, w_approvedPlans = Map.empty, w_requestedCreates = Map.empty, w_workspaces = [],
     w_attempts = Map.empty, w_proposals = [], w_requestedPromotions = Map.empty, w_originVerifications = [],
     w_pending = [], w_lastSessionSeq = 0\<rparr>"

datatype worktree_error_code =
    worktree_approval_denied | worktree_allocation_stale | worktree_git_unavailable | worktree_identity_stale
  | worktree_operation_incomplete | worktree_origin_verification_unavailable | worktree_path_unsafe
  | worktree_promotion_stale | worktree_promotion_unsupported | worktree_source_dirty_unapproved

fun worktreeExitCode :: "worktree_error_code \<Rightarrow> nat" where
  "worktreeExitCode worktree_approval_denied = 2"
| "worktreeExitCode worktree_git_unavailable = 3"
| "worktreeExitCode _ = 8"

type_synonym wt_result = "worktree_error_code + wt_state"

definition wfail :: "worktree_error_code + 'a" where
  "wfail = Inl worktree_operation_incomplete"

definition exactGraphRef :: "graph_ref \<Rightarrow> graph_ref \<Rightarrow> bool" where
  "exactGraphRef left data \<longleftrightarrow> gr_graph_id left = gr_graph_id data \<and> gr_graph_revision left = gr_graph_revision data \<and>
     gr_graph_sha256 left = gr_graph_sha256 data"

definition setWorkspace :: "string \<Rightarrow> managed_workspace \<Rightarrow> wt_state \<Rightarrow> wt_state" where
  "setWorkspace k w s = s\<lparr>w_workspaces := AList.update k w (w_workspaces s)\<rparr>"

definition setProposal :: "string \<Rightarrow> promotion \<Rightarrow> wt_state \<Rightarrow> wt_state" where
  "setProposal k pr s = s\<lparr>w_proposals := AList.update k pr (w_proposals s)\<rparr>"

definition setVerification :: "string \<Rightarrow> origin_verification \<Rightarrow> wt_state \<Rightarrow> wt_state" where
  "setVerification k v s = s\<lparr>w_originVerifications := AList.update k v (w_originVerifications s)\<rparr>"

section \<open>Allocation\<close>

definition onPrepared :: "worktree_event \<Rightarrow> prepared_data \<Rightarrow> wt_state \<Rightarrow> wt_result" where
  "onPrepared event d s =
     (if w_prepared s (pd_allocation_plan_sha256 d) \<noteq> None then wfail
      else Inr (s\<lparr>w_prepared := (w_prepared s)(pd_allocation_plan_sha256 d \<mapsto> (eventId event, pd_allocation_plan d))\<rparr>))"

definition onAllocationApproved :: "graph_ref \<Rightarrow> allocation_approved_data \<Rightarrow> wt_state \<Rightarrow> wt_result" where
  "onAllocationApproved g d s = (case map_option snd (w_prepared s (aad_allocation_plan_sha256 d)) of
     None \<Rightarrow> wfail
   | Some plan \<Rightarrow>
       if alp_workspaceId plan \<noteq> aad_workspace_id d \<or> \<not> exactGraphRef (alp_graph plan) g \<or>
          w_approvedPlans s (aad_allocation_plan_sha256 d) \<noteq> None
       then wfail
       else Inr (s\<lparr>w_approvedPlans := (w_approvedPlans s)(aad_allocation_plan_sha256 d \<mapsto> aad_approval_request_id d)\<rparr>))"

definition onCreateRequested :: "graph_ref \<Rightarrow> create_requested_data \<Rightarrow> wt_state \<Rightarrow> wt_result" where
  "onCreateRequested g d s = (case map_option snd (w_prepared s (crd_allocation_plan_sha256 d)) of
     None \<Rightarrow> wfail
   | Some plan \<Rightarrow>
       if w_approvedPlans s (crd_allocation_plan_sha256 d) = None \<or> alp_operationId plan \<noteq> crd_operation_id d \<or>
          alp_workspaceId plan \<noteq> crd_workspace_id d \<or> \<not> exactGraphRef (alp_graph plan) g
       then wfail
       else if crd_operation_id d \<in> set (w_pending s) then wfail
       else Inr (s\<lparr>w_pending := setAdd (crd_operation_id d) (w_pending s),
                   w_requestedCreates := (w_requestedCreates s)(crd_operation_id d \<mapsto>
                     \<lparr>cq_planSha256 = crd_allocation_plan_sha256 d, cq_workspaceId = crd_workspace_id d\<rparr>)\<rparr>))"

text \<open>\<open>planOf\<close> is the request of an operation with its prepared plan.\<close>

definition planOf :: "wt_state \<Rightarrow> string \<Rightarrow> (create_request \<times> allocation_plan) option" where
  "planOf s operationId = Option.bind (w_requestedCreates s operationId) (\<lambda>request.
     map_option (\<lambda>(_, plan). (request, plan)) (w_prepared s (cq_planSha256 request)))"

definition onCreated :: "graph_ref \<Rightarrow> worktree_identity \<Rightarrow> string \<Rightarrow> wt_state \<Rightarrow> wt_result" where
  "onCreated g identity operationId s = (case planOf s operationId of
     None \<Rightarrow> wfail
   | Some (request, plan) \<Rightarrow>
       if cq_workspaceId request \<noteq> wi_workspaceId identity \<or> wi_allocationPlanSha256 identity \<noteq> cq_planSha256 request \<or>
          wi_repositoryId identity \<noteq> ri_repositoryId (alp_repository plan) \<or> wi_baseCommit identity \<noteq> alp_baseCommit plan \<or>
          wi_graphId identity \<noteq> gr_graph_id (alp_graph plan) \<or> \<not> exactGraphRef (alp_graph plan) g \<or>
          map_of (w_workspaces s) (wi_workspaceId identity) \<noteq> None
       then wfail else Inr s)"

text \<open>\<open>lastCreated\<close> is \<^verbatim>\<open>[...events].reverse().find(_)\<close> of the \<^verbatim>\<open>baseline.seeded\<close> case.\<close>

definition createdBefore :: "nat \<Rightarrow> string \<Rightarrow> worktree_event \<Rightarrow> (worktree_identity \<times> string) option" where
  "createdBefore seq workspaceId c = (case wdata c of
     Some (WorktreeCreated _ identity operationId) \<Rightarrow>
       if sessionSeq c < seq \<and> scope c = SessionScope \<and> wi_workspaceId identity = workspaceId then Some (identity, operationId) else None
   | _ \<Rightarrow> None)"

definition lastCreated :: "worktree_event list \<Rightarrow> nat \<Rightarrow> string \<Rightarrow> (worktree_identity \<times> string) option" where
  "lastCreated events seq workspaceId = Option.bind (find (\<lambda>c. createdBefore seq workspaceId c \<noteq> None) (rev events))
     (createdBefore seq workspaceId)"

definition onSeeded :: "worktree_event list \<Rightarrow> worktree_event \<Rightarrow> graph_ref \<Rightarrow> baseline_manifest \<Rightarrow> string \<Rightarrow> wt_state \<Rightarrow> wt_result" where
  "onSeeded events event g baseline workspaceId s = (case lastCreated events (sessionSeq event) workspaceId of
     None \<Rightarrow> wfail
   | Some (identity, operationId) \<Rightarrow>
       (case planOf s operationId of
          None \<Rightarrow> wfail
        | Some (request, plan) \<Rightarrow>
            if bm_manifestSha256 baseline \<noteq> alp_baselineManifestSha256 plan \<or>
               bm_originStatusSha256 baseline \<noteq> alp_originStatusSha256 plan \<or> \<not> exactGraphRef (alp_graph plan) g
            then wfail
            else Inr ((setWorkspace workspaceId
                   \<lparr>mw_activeAttemptId = None, mw_baseline = baseline, mw_identity = identity, mw_lastSnapshot = None,
                    mw_nodeIds = alp_nodeIds plan, mw_operationId = operationId, mw_plan = plan,
                    mw_status = ws_retained_clean\<rparr> s)
                   \<lparr>w_pending := setDelete operationId (w_pending s)\<rparr>)))"

section \<open>Leases and snapshots\<close>

definition onLeased :: "graph_ref \<Rightarrow> lease_data \<Rightarrow> wt_state \<Rightarrow> wt_result" where
  "onLeased g d s = (case map_of (w_workspaces s) (ld_workspace_id d) of
     None \<Rightarrow> wfail
   | Some workspace \<Rightarrow>
       if mw_activeAttemptId workspace \<noteq> None \<or> ld_node_id d \<notin> set (mw_nodeIds workspace) \<or>
          \<not> exactGraphRef (alp_graph (mw_plan workspace)) g
       then wfail
       else Inr ((setWorkspace (ld_workspace_id d)
              (workspace\<lparr>mw_activeAttemptId := Some (ld_attempt_id d), mw_status := ws_active\<rparr>) s)
              \<lparr>w_attempts := (w_attempts s)(ld_attempt_id d \<mapsto> ld_workspace_id d)\<rparr>))"

definition onSnapshot :: "snapshot_accepted_data \<Rightarrow> wt_state \<Rightarrow> wt_result" where
  "onSnapshot d s = (case map_of (w_workspaces s) (sad_workspace_id d) of
     None \<Rightarrow> wfail
   | Some workspace \<Rightarrow>
       if mw_activeAttemptId workspace \<noteq> Some (sad_attempt_id d) \<or>
          w_attempts s (sad_attempt_id d) \<noteq> Some (sad_workspace_id d) \<or> sad_node_id d \<notin> set (mw_nodeIds workspace)
       then wfail
       else Inr (setWorkspace (sad_workspace_id d) (workspace\<lparr>mw_lastSnapshot := Some
              \<lparr>sn_attemptId = sad_attempt_id d, sn_changedBytes = sad_changed_bytes d, sn_changedFiles = sad_changed_files d,
               sn_nodeId = sad_node_id d, sn_sha256 = sad_snapshot_sha256 d\<rparr>\<rparr>) s))"

fun isAttemptTerminal :: "event_data \<Rightarrow> bool" where
  "isAttemptTerminal (TaskNodeAttemptTerminal _ _) = True"
| "isAttemptTerminal _ = False"

definition onLeaseReleased :: "worktree_event list \<Rightarrow> lease_data \<Rightarrow> string \<Rightarrow> wt_state \<Rightarrow> wt_result" where
  "onLeaseReleased events d terminalEventId s =
     (let terminal = find (\<lambda>c. eventId c = terminalEventId) events in
      case map_of (w_workspaces s) (ld_workspace_id d) of
        None \<Rightarrow> wfail
      | Some workspace \<Rightarrow>
          if mw_activeAttemptId workspace \<noteq> Some (ld_attempt_id d) \<or>
             \<not> (case terminal of None \<Rightarrow> False | Some e \<Rightarrow> isAttemptTerminal (edata e))
          then wfail
          else Inr ((setWorkspace (ld_workspace_id d)
                 (workspace\<lparr>mw_activeAttemptId := None,
                    mw_status := (if (case mw_lastSnapshot workspace of None \<Rightarrow> 0 | Some sn \<Rightarrow> sn_changedFiles sn) = 0
                                  then ws_retained_clean else ws_retained_dirty)\<rparr>) s)
                 \<lparr>w_attempts := (w_attempts s)(ld_attempt_id d := None)\<rparr>))"

section \<open>Promotions\<close>

definition onPromotionProposed :: "worktree_event \<Rightarrow> graph_ref \<Rightarrow> promotion_bundle \<Rightarrow> string \<Rightarrow> wt_state \<Rightarrow> wt_result" where
  "onPromotionProposed event g bundle bundleSha256 s = (case map_of (w_workspaces s) (pb_workspaceId bundle) of
     None \<Rightarrow> wfail
   | Some workspace \<Rightarrow>
       if map_option sn_sha256 (mw_lastSnapshot workspace) \<noteq> Some (pb_workspaceSnapshotSha256 bundle) \<or>
          pb_bundleSha256 bundle \<noteq> bundleSha256 \<or> \<not> exactGraphRef (alp_graph (mw_plan workspace)) g \<or>
          map_of (w_proposals s) bundleSha256 \<noteq> None
       then wfail
       else Inr (setProposal bundleSha256
              \<lparr>pm_appliedEventId = None, pm_approvalRequestId = None, pm_bundle = bundle, pm_goalChangeEventId = None,
               pm_operationId = None, pm_originSourceSnapshotSha256 = None, pm_proposalEventId = eventId event,
               pm_resultSnapshotSha256 = None, pm_status = ps_proposed\<rparr> s))"

definition onPromotionApproved :: "promotion_approved_data \<Rightarrow> wt_state \<Rightarrow> wt_result" where
  "onPromotionApproved d s = (case map_of (w_proposals s) (pad_bundle_sha256 d) of
     None \<Rightarrow> wfail
   | Some proposal \<Rightarrow>
       if pm_status proposal \<noteq> ps_proposed \<or> pb_targetSnapshotSha256 (pm_bundle proposal) \<noteq> pad_target_snapshot_sha256 d
       then wfail
       else Inr (setProposal (pad_bundle_sha256 d)
              (proposal\<lparr>pm_approvalRequestId := Some (pad_approval_request_id d), pm_status := ps_approved\<rparr>) s))"

definition onPromotionRequested :: "promotion_requested_data \<Rightarrow> wt_state \<Rightarrow> wt_result" where
  "onPromotionRequested d s = (case map_of (w_proposals s) (prq_bundle_sha256 d) of
     None \<Rightarrow> wfail
   | Some proposal \<Rightarrow>
       if pm_status proposal \<noteq> ps_approved \<or> pm_approvalRequestId proposal \<noteq> Some (prq_approval_request_id d) \<or>
          pb_targetSnapshotSha256 (pm_bundle proposal) \<noteq> prq_target_snapshot_sha256 d \<or>
          prq_operation_id d \<in> set (w_pending s)
       then wfail
       else Inr ((setProposal (prq_bundle_sha256 d)
              (proposal\<lparr>pm_operationId := Some (prq_operation_id d), pm_status := ps_requested\<rparr>) s)
              \<lparr>w_requestedPromotions := (w_requestedPromotions s)(prq_operation_id d \<mapsto> prq_bundle_sha256 d),
               w_pending := setAdd (prq_operation_id d) (w_pending s)\<rparr>))"

definition requestedPromotion :: "wt_state \<Rightarrow> string \<Rightarrow> (string \<times> promotion) option" where
  "requestedPromotion s operationId = Option.bind (w_requestedPromotions s operationId) (\<lambda>k.
     map_option (Pair k) (map_of (w_proposals s) k))"

definition onPromotionApplied :: "worktree_event \<Rightarrow> promotion_applied_data \<Rightarrow> wt_state \<Rightarrow> wt_result" where
  "onPromotionApplied event d s = (case requestedPromotion s (pap_operation_id d) of
     None \<Rightarrow> wfail
   | Some (k, proposal) \<Rightarrow>
       if pm_status proposal \<noteq> ps_requested \<or> pm_goalChangeEventId proposal = None \<or>
          pb_bundleSha256 (pm_bundle proposal) \<noteq> pap_bundle_sha256 d \<or>
          length (pap_changed_paths d) \<noteq> length (pb_entries (pm_bundle proposal)) \<or>
          list_ex (\<lambda>(path, entry). path \<noteq> pe_path entry) (zip (pap_changed_paths d) (pb_entries (pm_bundle proposal)))
       then wfail
       else Inr ((setProposal k
              (proposal\<lparr>pm_appliedEventId := Some (eventId event),
                 pm_originSourceSnapshotSha256 := Some (pap_origin_source_snapshot_sha256 d),
                 pm_resultSnapshotSha256 := Some (pap_result_snapshot_sha256 d), pm_status := ps_applied\<rparr>) s)
              \<lparr>w_pending := setDelete (pap_operation_id d) (w_pending s)\<rparr>))"

definition fileMatches :: "promotion_file \<Rightarrow> bundle_entry \<Rightarrow> bool" where
  "fileMatches file entry \<longleftrightarrow> pf_bytes file = pe_bytes entry \<and>
     promotionKindName (pf_kind file) = bundleKindName (pe_kind entry) \<and> pf_mode file = pe_mode entry \<and>
     pf_path file = pe_path entry \<and> Some (pf_post_sha256 file) = pe_postSha256 entry \<and> pf_pre_sha256 file = pe_preSha256 entry"

definition changeMatches :: "promotion_bundle \<Rightarrow> promotion_change \<Rightarrow> bool" where
  "changeMatches bundle d \<longleftrightarrow> (let source = pch_source d in
     pb_bundleSha256 bundle = pso_bundle_sha256 source \<and> pb_attemptId bundle = pso_attempt_id source \<and>
     pb_nodeId bundle = pso_node_id source \<and> pb_workspaceId bundle = pso_workspace_id source \<and>
     exactGraphRef (pb_graph bundle) (pso_graph source)) \<and>
     length (pch_files d) = length (pb_entries bundle) \<and> list_all (\<lambda>(f, e). fileMatches f e) (zip (pch_files d) (pb_entries bundle))"

definition proposalSeq :: "string \<Rightarrow> worktree_event \<Rightarrow> nat option" where
  "proposalSeq proposalEventId c = (case wdata c of
     Some (PromotionProposed _ _ _) \<Rightarrow>
       if scope c = SessionScope \<and> eventId c = proposalEventId then Some (sessionSeq c) else None
   | _ \<Rightarrow> None)"

definition approvalSeq :: "string \<Rightarrow> worktree_event \<Rightarrow> nat option" where
  "approvalSeq bundleSha256 c = (case wdata c of
     Some (PromotionApproved _ d) \<Rightarrow>
       if scope c = SessionScope \<and> pad_bundle_sha256 d = bundleSha256 then Some (sessionSeq c) else None
   | _ \<Rightarrow> None)"

definition requestSeq :: "string \<Rightarrow> string \<Rightarrow> worktree_event \<Rightarrow> nat option" where
  "requestSeq operationId bundleSha256 c = (case wdata c of
     Some (PromotionRequested _ d) \<Rightarrow>
       if scope c = SessionScope \<and> prq_operation_id d = operationId \<and> prq_bundle_sha256 d = bundleSha256
       then Some (sessionSeq c) else None
   | _ \<Rightarrow> None)"

text \<open>The chain of the proposal, approval and request events that a Goal change names.\<close>

definition originChain :: "worktree_event list \<Rightarrow> worktree_event \<Rightarrow> promotion_source \<Rightarrow> promotion \<Rightarrow> bool" where
  "originChain events event source pr =
     (let byEventId = (\<lambda>i. find (\<lambda>c. eventId c = i) events) in
      case (Option.bind (byEventId (pso_proposal_event_id source)) (proposalSeq (pm_proposalEventId pr)),
            Option.bind (byEventId (pso_approval_event_id source)) (approvalSeq (pb_bundleSha256 (pm_bundle pr))),
            Option.bind (byEventId (pso_request_event_id source))
              (requestSeq (pso_operation_id source) (pb_bundleSha256 (pm_bundle pr)))) of
        (Some proposal, Some approval, Some request) \<Rightarrow>
          request < sessionSeq event \<and> approval < request \<and> proposal < approval
      | _ \<Rightarrow> False)"

definition onGoalChange :: "worktree_event list \<Rightarrow> worktree_event \<Rightarrow> promotion_change \<Rightarrow> wt_state \<Rightarrow> wt_result" where
  "onGoalChange events event d s = (case requestedPromotion s (pso_operation_id (pch_source d)) of
     None \<Rightarrow> wfail
   | Some (k, pr) \<Rightarrow>
       if pm_status pr \<noteq> ps_requested \<or> pm_goalChangeEventId pr \<noteq> None \<or> \<not> changeMatches (pm_bundle pr) d then wfail
       else if \<not> originChain events event (pch_source d) pr then wfail
       else Inr (setProposal k (pr\<lparr>pm_goalChangeEventId := Some (eventId event)\<rparr>) s))"

section \<open>Origin verifications\<close>

definition onVerificationApproved ::
  "worktree_event \<Rightarrow> graph_ref \<Rightarrow> verification_target \<Rightarrow> string \<Rightarrow> wt_state \<Rightarrow> wt_result" where
  "onVerificationApproved event g t approvalRequestId s = (case requestedPromotion s (vt_promotion_operation_id t) of
     None \<Rightarrow> wfail
   | Some (_, pr) \<Rightarrow>
       if pm_status pr \<noteq> ps_applied \<or> pb_bundleSha256 (pm_bundle pr) \<noteq> vt_bundle_sha256 t \<or>
          pb_workspaceId (pm_bundle pr) \<noteq> vt_workspace_id t \<or>
          pm_originSourceSnapshotSha256 pr \<noteq> Some (vt_origin_source_snapshot_sha256 t) \<or>
          \<not> exactGraphRef (pb_graph (pm_bundle pr)) g \<or> map_of (w_originVerifications s) (vt_verification_id t) \<noteq> None
       then wfail
       else Inr (setVerification (vt_verification_id t)
              \<lparr>ov_target = t, ov_approvalRequestId = approvalRequestId, ov_approvedEventId = eventId event,
               ov_completedEventId = None, ov_receiptArtifactId = None, ov_receiptSha256 = None, ov_requestedEventId = None,
               ov_status = ov_approved\<rparr> s))"

text \<open>The comparison of the target fields; the verification is found by \<^verbatim>\<open>verification_id\<close>.\<close>

definition sameTarget :: "verification_target \<Rightarrow> verification_target \<Rightarrow> bool" where
  "sameTarget a b \<longleftrightarrow> vt_action_sha256 a = vt_action_sha256 b \<and> vt_command_sha256 a = vt_command_sha256 b \<and>
     vt_bundle_sha256 a = vt_bundle_sha256 b \<and> vt_promotion_operation_id a = vt_promotion_operation_id b \<and>
     vt_origin_source_snapshot_sha256 a = vt_origin_source_snapshot_sha256 b \<and> vt_workspace_id a = vt_workspace_id b \<and>
     vt_verification_node_id a = vt_verification_node_id b"

definition onVerificationRequested :: "worktree_event \<Rightarrow> verification_target \<Rightarrow> string \<Rightarrow> wt_state \<Rightarrow> wt_result" where
  "onVerificationRequested event t approvalRequestId s = (case map_of (w_originVerifications s) (vt_verification_id t) of
     None \<Rightarrow> wfail
   | Some v \<Rightarrow>
       if ov_status v \<noteq> ov_approved \<or> ov_approvalRequestId v \<noteq> approvalRequestId \<or> \<not> sameTarget (ov_target v) t \<or>
          vt_verification_id t \<in> set (w_pending s)
       then wfail
       else Inr ((setVerification (vt_verification_id t)
              (v\<lparr>ov_requestedEventId := Some (eventId event), ov_status := ov_requested\<rparr>) s)
              \<lparr>w_pending := setAdd (vt_verification_id t) (w_pending s)\<rparr>))"

definition passedExactly :: "verification_completed_data \<Rightarrow> bool" where
  "passedExactly d \<longleftrightarrow> vc_cleanup_verified d \<and> vc_exit_code d = Some 0 \<and> vc_termination d = vtm_exit \<and>
     vc_before_source_state_sha256 d = vt_origin_source_snapshot_sha256 (vc_target d) \<and>
     vc_after_source_state_sha256 d = vt_origin_source_snapshot_sha256 (vc_target d)"

definition onVerificationCompleted :: "worktree_event \<Rightarrow> verification_completed_data \<Rightarrow> wt_state \<Rightarrow> wt_result" where
  "onVerificationCompleted event d s =
     (let i = vt_verification_id (vc_target d) in case map_of (w_originVerifications s) i of
        None \<Rightarrow> wfail
      | Some v \<Rightarrow>
          if ov_status v \<noteq> ov_requested \<or> \<not> sameTarget (ov_target v) (vc_target d) \<or>
             (vc_status d = vo_passed \<and> \<not> passedExactly d)
          then wfail
          else Inr ((setVerification i
                 (v\<lparr>ov_completedEventId := Some (eventId event), ov_receiptArtifactId := Some (vc_receipt_artifact_id d),
                    ov_receiptSha256 := Some (vc_receipt_sha256 d), ov_status := OvCompleted (vc_status d)\<rparr>) s)
                 \<lparr>w_pending := (if vc_status d \<noteq> vo_reconciliation_required then setDelete i (w_pending s) else w_pending s)\<rparr>))"

section \<open>Cleanup and reconciliation\<close>

definition onCleanupRequested :: "string \<Rightarrow> string \<Rightarrow> wt_state \<Rightarrow> wt_result" where
  "onCleanupRequested operationId workspaceId s = (case map_of (w_workspaces s) workspaceId of
     None \<Rightarrow> wfail
   | Some workspace \<Rightarrow>
       if mw_activeAttemptId workspace \<noteq> None \<or> operationId \<in> set (w_pending s) then wfail
       else Inr (s\<lparr>w_pending := setAdd operationId (w_pending s)\<rparr>))"

definition onCleanupCompleted :: "string \<Rightarrow> cleanup_outcome \<Rightarrow> string \<Rightarrow> wt_state \<Rightarrow> wt_result" where
  "onCleanupCompleted operationId status workspaceId s = (case map_of (w_workspaces s) workspaceId of
     None \<Rightarrow> wfail
   | Some workspace \<Rightarrow>
       if operationId \<notin> set (w_pending s) then wfail
       else Inr ((setWorkspace workspaceId (workspace\<lparr>mw_status := (case status of
                cleanup_archived \<Rightarrow> ws_archived | cleanup_removed \<Rightarrow> ws_removed | cleanup_retained \<Rightarrow> mw_status workspace)\<rparr>) s)
              \<lparr>w_pending := setDelete operationId (w_pending s)\<rparr>))"

definition onWorktreeReconciled :: "reconciled_observation \<Rightarrow> string \<Rightarrow> string \<Rightarrow> wt_state \<Rightarrow> wt_result" where
  "onWorktreeReconciled observed operationId workspaceId s =
     (if observed = not_applied \<or> observed = applied_exact then Inr (s\<lparr>w_pending := setDelete operationId (w_pending s)\<rparr>)
      else Inr ((case map_of (w_workspaces s) workspaceId of
               None \<Rightarrow> s
             | Some workspace \<Rightarrow> setWorkspace workspaceId (workspace\<lparr>mw_status := ws_reconciliation_required\<rparr>) s)
             \<lparr>w_pending := setAdd operationId (w_pending s)\<rparr>))"

section \<open>The projector\<close>

definition onWorktreeEvent :: "worktree_event list \<Rightarrow> worktree_event \<Rightarrow> worktree_data \<Rightarrow> wt_state \<Rightarrow> wt_result" where
  "onWorktreeEvent events event d s = (case d of
     AllocationPrepared _ v \<Rightarrow> onPrepared event v s
   | AllocationApproved g v \<Rightarrow> onAllocationApproved g v s
   | CreateRequested g v \<Rightarrow> onCreateRequested g v s
   | WorktreeCreated g identity operationId \<Rightarrow> onCreated g identity operationId s
   | BaselineSeeded g baseline workspaceId \<Rightarrow> onSeeded events event g baseline workspaceId s
   | LeaseAcquired g v \<Rightarrow> onLeased g v s
   | LeaseReleased _ v terminalEventId \<Rightarrow> onLeaseReleased events v terminalEventId s
   | SnapshotAccepted _ v \<Rightarrow> onSnapshot v s
   | PromotionProposed g bundle bundleSha256 \<Rightarrow> onPromotionProposed event g bundle bundleSha256 s
   | PromotionApproved _ v \<Rightarrow> onPromotionApproved v s
   | PromotionRequested _ v \<Rightarrow> onPromotionRequested v s
   | PromotionApplied _ v \<Rightarrow> onPromotionApplied event v s
   | GoalChangeRecorded v \<Rightarrow> onGoalChange events event v s
   | OriginVerificationApproved g t approvalRequestId \<Rightarrow> onVerificationApproved event g t approvalRequestId s
   | OriginVerificationRequested _ t approvalRequestId \<Rightarrow> onVerificationRequested event t approvalRequestId s
   | OriginVerificationCompleted _ v \<Rightarrow> onVerificationCompleted event v s
   | CleanupRequested _ operationId workspaceId \<Rightarrow> onCleanupRequested operationId workspaceId s
   | CleanupCompleted _ operationId status workspaceId \<Rightarrow> onCleanupCompleted operationId status workspaceId s
   | WorktreeReconciled _ observed operationId workspaceId \<Rightarrow> onWorktreeReconciled observed operationId workspaceId s)"

definition worktreeStep :: "worktree_event list \<Rightarrow> wt_state \<Rightarrow> worktree_event \<Rightarrow> wt_result" where
  "worktreeStep events s event =
     (let s' = s\<lparr>w_lastSessionSeq := max (w_lastSessionSeq s) (sessionSeq event)\<rparr> in
      if scope event \<noteq> SessionScope then Inr s'
      else case wdata event of None \<Rightarrow> Inr s' | Some d \<Rightarrow> onWorktreeEvent events event d s')"

record worktree_projection =
  wp_lastSessionSeq :: nat
  wp_originVerifications :: "origin_verification list"
  wp_pendingOperationIds :: "string list"
  wp_promotions :: "promotion list"
  wp_workspaces :: "managed_workspace list"

definition wtProjection :: "wt_state \<Rightarrow> worktree_projection" where
  "wtProjection s = \<lparr>wp_lastSessionSeq = w_lastSessionSeq s, wp_originVerifications = map snd (w_originVerifications s),
     wp_pendingOperationIds = sortIds (w_pending s), wp_promotions = map snd (w_proposals s),
     wp_workspaces = map snd (w_workspaces s)\<rparr>"

definition projectWorktrees :: "worktree_event list \<Rightarrow> worktree_error_code + worktree_projection" where
  "projectWorktrees events = ebind (efold (worktreeStep events) wt_init events) (\<lambda>s. Inr (wtProjection s))"

end
