(* ===== verification/WorktreeInvariants.thy ===== *)
theory WorktreeInvariants
  imports WorktreeProjector
begin

text \<open>
  What an accepted log of worktree events has behind each object of the projection: the events
  that led a workspace, a promotion or an origin verification to its state, in their order.

  \<open>happens es i P\<close> says that event \<open>i\<close> of the log is session-scoped and its payload satisfies
  \<open>P\<close>.  A history is a chain of such positions; it only grows with the log, so each case of the
  projector extends one history by its own event and leaves the others.
\<close>

section \<open>Events of a log\<close>

definition happens :: "worktree_event list \<Rightarrow> nat \<Rightarrow> (worktree_event \<Rightarrow> worktree_data \<Rightarrow> bool) \<Rightarrow> bool" where
  "happens es i P \<longleftrightarrow> i < length es \<and> scope (es ! i) = SessionScope \<and>
     (case wdata (es ! i) of None \<Rightarrow> False | Some d \<Rightarrow> P (es ! i) d)"

lemma happens_append: "happens es i P \<Longrightarrow> happens (es @ fs) i P"
  by (auto simp: happens_def nth_append split: option.splits)

lemma happens_less: "happens es i P \<Longrightarrow> i < length es"
  by (simp add: happens_def)

lemma happens_last: "scope e = SessionScope \<Longrightarrow> wdata e = Some d \<Longrightarrow> P e d \<Longrightarrow> happens (es @ [e]) (length es) P"
  by (simp add: happens_def)

lemma happens_mono: "happens es i P \<Longrightarrow> (\<And>e d. P e d \<Longrightarrow> Q e d) \<Longrightarrow> happens es i Q"
  by (auto simp: happens_def split: option.splits)

section \<open>The history of a promotion\<close>

definition isSnapshotOf :: "string \<Rightarrow> string \<Rightarrow> worktree_event \<Rightarrow> worktree_data \<Rightarrow> bool" where
  "isSnapshotOf workspaceId sha e d \<longleftrightarrow> (case d of
     SnapshotAccepted _ v \<Rightarrow> sad_workspace_id v = workspaceId \<and> sad_snapshot_sha256 v = sha | _ \<Rightarrow> False)"

definition isProposalOf :: "promotion \<Rightarrow> worktree_event \<Rightarrow> worktree_data \<Rightarrow> bool" where
  "isProposalOf pr e d \<longleftrightarrow> (case d of
     PromotionProposed _ bundle sha \<Rightarrow> bundle = pm_bundle pr \<and> sha = pb_bundleSha256 bundle \<and> eventId e = pm_proposalEventId pr
   | _ \<Rightarrow> False)"

definition isApprovalOf :: "promotion \<Rightarrow> worktree_event \<Rightarrow> worktree_data \<Rightarrow> bool" where
  "isApprovalOf pr e d \<longleftrightarrow> (case d of
     PromotionApproved _ v \<Rightarrow> pad_bundle_sha256 v = pb_bundleSha256 (pm_bundle pr) \<and>
       pad_target_snapshot_sha256 v = pb_targetSnapshotSha256 (pm_bundle pr) \<and>
       pm_approvalRequestId pr = Some (pad_approval_request_id v)
   | _ \<Rightarrow> False)"

definition isRequestOf :: "promotion \<Rightarrow> worktree_event \<Rightarrow> worktree_data \<Rightarrow> bool" where
  "isRequestOf pr e d \<longleftrightarrow> (case d of
     PromotionRequested _ v \<Rightarrow> prq_bundle_sha256 v = pb_bundleSha256 (pm_bundle pr) \<and>
       prq_target_snapshot_sha256 v = pb_targetSnapshotSha256 (pm_bundle pr) \<and>
       pm_approvalRequestId pr = Some (prq_approval_request_id v) \<and> pm_operationId pr = Some (prq_operation_id v)
   | _ \<Rightarrow> False)"

definition isChangeOf :: "promotion \<Rightarrow> worktree_event \<Rightarrow> worktree_data \<Rightarrow> bool" where
  "isChangeOf pr e d \<longleftrightarrow> (case d of
     GoalChangeRecorded v \<Rightarrow> changeMatches (pm_bundle pr) v \<and> pm_operationId pr = Some (pso_operation_id (pch_source v)) \<and>
       pm_goalChangeEventId pr = Some (eventId e)
   | _ \<Rightarrow> False)"

definition isApplicationOf :: "promotion \<Rightarrow> worktree_event \<Rightarrow> worktree_data \<Rightarrow> bool" where
  "isApplicationOf pr e d \<longleftrightarrow> (case d of
     PromotionApplied _ v \<Rightarrow> pap_bundle_sha256 v = pb_bundleSha256 (pm_bundle pr) \<and>
       pm_operationId pr = Some (pap_operation_id v) \<and> pap_changed_paths v = map pe_path (pb_entries (pm_bundle pr)) \<and>
       pm_appliedEventId pr = Some (eventId e) \<and>
       pm_originSourceSnapshotSha256 pr = Some (pap_origin_source_snapshot_sha256 v) \<and>
       pm_resultSnapshotSha256 pr = Some (pap_result_snapshot_sha256 v)
   | _ \<Rightarrow> False)"

lemmas promotion_events = isProposalOf_def isApprovalOf_def isRequestOf_def isChangeOf_def isApplicationOf_def

text \<open>
  The five stages, each after the one before.  \<open>promotionStage n\<close> says that the first \<open>n\<close> of the
  events approval, request, Goal change and application have happened, in that order, after
  the proposal, which itself came after the snapshot of its bundle was accepted.
\<close>

definition proposedAt :: "worktree_event list \<Rightarrow> promotion \<Rightarrow> nat \<Rightarrow> bool" where
  "proposedAt es pr i \<longleftrightarrow> happens es i (isProposalOf pr) \<and>
     (\<exists>h<i. happens es h (isSnapshotOf (pb_workspaceId (pm_bundle pr)) (pb_workspaceSnapshotSha256 (pm_bundle pr))))"

definition approvedAt :: "worktree_event list \<Rightarrow> promotion \<Rightarrow> nat \<Rightarrow> bool" where
  "approvedAt es pr i \<longleftrightarrow> happens es i (isApprovalOf pr) \<and> (\<exists>h<i. proposedAt es pr h)"

definition requestedAt :: "worktree_event list \<Rightarrow> promotion \<Rightarrow> nat \<Rightarrow> bool" where
  "requestedAt es pr i \<longleftrightarrow> happens es i (isRequestOf pr) \<and> (\<exists>h<i. approvedAt es pr h)"

definition recordedAt :: "worktree_event list \<Rightarrow> promotion \<Rightarrow> nat \<Rightarrow> bool" where
  "recordedAt es pr i \<longleftrightarrow> happens es i (isChangeOf pr) \<and> (\<exists>h<i. requestedAt es pr h)"

definition appliedAt :: "worktree_event list \<Rightarrow> promotion \<Rightarrow> nat \<Rightarrow> bool" where
  "appliedAt es pr i \<longleftrightarrow> happens es i (isApplicationOf pr) \<and> (\<exists>h<i. recordedAt es pr h)"

definition promotionHistory :: "worktree_event list \<Rightarrow> promotion \<Rightarrow> bool" where
  "promotionHistory es pr \<longleftrightarrow> (case pm_status pr of
     ps_proposed \<Rightarrow> pm_goalChangeEventId pr = None \<and> (\<exists>i. proposedAt es pr i)
   | ps_approved \<Rightarrow> pm_goalChangeEventId pr = None \<and> (\<exists>i. approvedAt es pr i)
   | ps_requested \<Rightarrow> (case pm_goalChangeEventId pr of None \<Rightarrow> \<exists>i. requestedAt es pr i | Some _ \<Rightarrow> \<exists>i. recordedAt es pr i)
   | ps_applied \<Rightarrow> \<exists>i. appliedAt es pr i)"

lemma proposedAt_append: "proposedAt es pr i \<Longrightarrow> proposedAt (es @ fs) pr i"
  by (auto simp: proposedAt_def intro: happens_append)

lemma approvedAt_append: "approvedAt es pr i \<Longrightarrow> approvedAt (es @ fs) pr i"
  by (auto simp: approvedAt_def intro: happens_append proposedAt_append)

lemma requestedAt_append: "requestedAt es pr i \<Longrightarrow> requestedAt (es @ fs) pr i"
  by (auto simp: requestedAt_def intro: happens_append approvedAt_append)

lemma recordedAt_append: "recordedAt es pr i \<Longrightarrow> recordedAt (es @ fs) pr i"
  by (auto simp: recordedAt_def intro: happens_append requestedAt_append)

lemma appliedAt_append: "appliedAt es pr i \<Longrightarrow> appliedAt (es @ fs) pr i"
  by (auto simp: appliedAt_def intro: happens_append recordedAt_append)

lemma promotionHistory_append: "promotionHistory es pr \<Longrightarrow> promotionHistory (es @ fs) pr"
  by (auto simp: promotionHistory_def split: promotion_status.splits option.splits
      intro: proposedAt_append approvedAt_append requestedAt_append recordedAt_append appliedAt_append)

text \<open>A stage does not depend on the fields that later stages set.\<close>

lemma proposedAt_cong:
  "pm_bundle pr' = pm_bundle pr \<Longrightarrow> pm_proposalEventId pr' = pm_proposalEventId pr \<Longrightarrow> proposedAt es pr' i = proposedAt es pr i"
  by (simp add: proposedAt_def isProposalOf_def [abs_def])

lemma approvedAt_cong:
  assumes "pm_bundle pr' = pm_bundle pr" "pm_proposalEventId pr' = pm_proposalEventId pr"
    "pm_approvalRequestId pr' = pm_approvalRequestId pr"
  shows "approvedAt es pr' i = approvedAt es pr i"
  using proposedAt_cong [OF assms(1,2)] assms by (simp add: approvedAt_def isApprovalOf_def [abs_def])

lemma requestedAt_cong:
  assumes "pm_bundle pr' = pm_bundle pr" "pm_proposalEventId pr' = pm_proposalEventId pr"
    "pm_approvalRequestId pr' = pm_approvalRequestId pr" "pm_operationId pr' = pm_operationId pr"
  shows "requestedAt es pr' i = requestedAt es pr i"
  using approvedAt_cong [OF assms(1-3)] assms by (simp add: requestedAt_def isRequestOf_def [abs_def])

lemma recordedAt_cong:
  assumes "pm_bundle pr' = pm_bundle pr" "pm_proposalEventId pr' = pm_proposalEventId pr"
    "pm_approvalRequestId pr' = pm_approvalRequestId pr" "pm_operationId pr' = pm_operationId pr"
    "pm_goalChangeEventId pr' = pm_goalChangeEventId pr"
  shows "recordedAt es pr' i = recordedAt es pr i"
  using requestedAt_cong [OF assms(1-4)] assms by (simp add: recordedAt_def isChangeOf_def [abs_def])

lemma stage_less:
  "proposedAt es pr i \<Longrightarrow> i < length es" "approvedAt es pr i \<Longrightarrow> i < length es"
  "requestedAt es pr i \<Longrightarrow> i < length es" "recordedAt es pr i \<Longrightarrow> i < length es"
  by (auto simp: proposedAt_def approvedAt_def requestedAt_def recordedAt_def dest: happens_less)

section \<open>Promotions and verifications keep their histories\<close>

text \<open>The histories a promotion goes through, one event at a time; \<open>e\<close> is the event read.\<close>

lemma history_approved:
  assumes "promotionHistory es pr" "pm_status pr = ps_proposed"
    and "pr' = pr\<lparr>pm_approvalRequestId := Some a, pm_status := ps_approved\<rparr>"
    and "happens (es @ [e]) (length es) (isApprovalOf pr')"
  shows "promotionHistory (es @ [e]) pr'"
proof -
  from assms(1,2) obtain i where i: "proposedAt es pr i" and g: "pm_goalChangeEventId pr = None"
    by (auto simp: promotionHistory_def)
  from i have "proposedAt (es @ [e]) pr' i"
    using proposedAt_cong [of pr' pr] assms(3) by (simp add: proposedAt_append)
  with i assms(4) have "approvedAt (es @ [e]) pr' (length es)"
    by (auto simp: approvedAt_def dest: stage_less)
  with g assms(3) show ?thesis by (auto simp: promotionHistory_def)
qed

lemma history_requested:
  assumes "promotionHistory es pr" "pm_status pr = ps_approved"
    and "pr' = pr\<lparr>pm_operationId := Some a, pm_status := ps_requested\<rparr>"
    and "happens (es @ [e]) (length es) (isRequestOf pr')"
  shows "promotionHistory (es @ [e]) pr'"
proof -
  from assms(1,2) obtain i where i: "approvedAt es pr i" and g: "pm_goalChangeEventId pr = None"
    by (auto simp: promotionHistory_def)
  from i have "approvedAt (es @ [e]) pr' i"
    using approvedAt_cong [of pr' pr] assms(3) by (simp add: approvedAt_append)
  with i assms(4) have "requestedAt (es @ [e]) pr' (length es)"
    by (auto simp: requestedAt_def dest: stage_less)
  with g assms(3) show ?thesis by (auto simp: promotionHistory_def)
qed

lemma history_recorded:
  assumes "promotionHistory es pr" "pm_status pr = ps_requested" "pm_goalChangeEventId pr = None"
    and "pr' = pr\<lparr>pm_goalChangeEventId := Some a\<rparr>"
    and "happens (es @ [e]) (length es) (isChangeOf pr')"
  shows "promotionHistory (es @ [e]) pr'"
proof -
  from assms(1-3) obtain i where i: "requestedAt es pr i"
    by (auto simp: promotionHistory_def)
  from i have "requestedAt (es @ [e]) pr' i"
    using requestedAt_cong [of pr' pr] assms(4) by (simp add: requestedAt_append)
  with i assms(5) have "recordedAt (es @ [e]) pr' (length es)"
    by (auto simp: recordedAt_def dest: stage_less)
  with assms(2,4) show ?thesis by (auto simp: promotionHistory_def)
qed

lemma history_applied:
  assumes "promotionHistory es pr" "pm_status pr = ps_requested" "pm_goalChangeEventId pr \<noteq> None"
    and "pr' = pr\<lparr>pm_appliedEventId := a, pm_originSourceSnapshotSha256 := b, pm_resultSnapshotSha256 := c, pm_status := ps_applied\<rparr>"
    and "happens (es @ [e]) (length es) (isApplicationOf pr')"
  shows "promotionHistory (es @ [e]) pr'"
proof -
  from assms(1-3) obtain i where i: "recordedAt es pr i"
    by (auto simp: promotionHistory_def)
  from i have "recordedAt (es @ [e]) pr' i"
    using recordedAt_cong [of pr' pr] assms(4) by (simp add: recordedAt_append)
  with i assms(5) have "appliedAt (es @ [e]) pr' (length es)"
    by (auto simp: appliedAt_def dest: stage_less)
  with assms(4) show ?thesis by (auto simp: promotionHistory_def)
qed

section \<open>The history of an origin verification\<close>

definition isVerificationApproval :: "origin_verification \<Rightarrow> worktree_event \<Rightarrow> worktree_data \<Rightarrow> bool" where
  "isVerificationApproval v e d \<longleftrightarrow> (case d of
     OriginVerificationApproved _ t a \<Rightarrow> t = ov_target v \<and> a = ov_approvalRequestId v \<and> eventId e = ov_approvedEventId v
   | _ \<Rightarrow> False)"

definition isVerificationRequest :: "origin_verification \<Rightarrow> worktree_event \<Rightarrow> worktree_data \<Rightarrow> bool" where
  "isVerificationRequest v e d \<longleftrightarrow> (case d of
     OriginVerificationRequested _ t a \<Rightarrow> t = ov_target v \<and> a = ov_approvalRequestId v \<and>
       ov_requestedEventId v = Some (eventId e)
   | _ \<Rightarrow> False)"

definition isVerificationCompletion :: "origin_verification \<Rightarrow> worktree_event \<Rightarrow> worktree_data \<Rightarrow> bool" where
  "isVerificationCompletion v e d \<longleftrightarrow> (case d of
     OriginVerificationCompleted _ c \<Rightarrow> vc_target c = ov_target v \<and> ov_status v = OvCompleted (vc_status c) \<and>
       (vc_status c = vo_passed \<longrightarrow> passedExactly c) \<and> ov_completedEventId v = Some (eventId e) \<and>
       ov_receiptArtifactId v = Some (vc_receipt_artifact_id c) \<and> ov_receiptSha256 v = Some (vc_receipt_sha256 c)
   | _ \<Rightarrow> False)"

text \<open>
  The promotion that a verification is about: it is applied, under the operation the
  verification names, and left the origin in the snapshot that is verified.
\<close>

definition verifiesPromotion :: "verification_target \<Rightarrow> promotion \<Rightarrow> bool" where
  "verifiesPromotion t pr \<longleftrightarrow> pm_status pr = ps_applied \<and> pb_bundleSha256 (pm_bundle pr) = vt_bundle_sha256 t \<and>
     pb_workspaceId (pm_bundle pr) = vt_workspace_id t \<and> pm_operationId pr = Some (vt_promotion_operation_id t) \<and>
     pm_originSourceSnapshotSha256 pr = Some (vt_origin_source_snapshot_sha256 t)"

definition verificationApprovedAt :: "worktree_event list \<Rightarrow> promotion \<Rightarrow> origin_verification \<Rightarrow> nat \<Rightarrow> bool" where
  "verificationApprovedAt es pr v i \<longleftrightarrow> happens es i (isVerificationApproval v) \<and> (\<exists>h<i. appliedAt es pr h)"

definition verificationRequestedAt :: "worktree_event list \<Rightarrow> promotion \<Rightarrow> origin_verification \<Rightarrow> nat \<Rightarrow> bool" where
  "verificationRequestedAt es pr v i \<longleftrightarrow> happens es i (isVerificationRequest v) \<and> (\<exists>h<i. verificationApprovedAt es pr v h)"

definition verificationCompletedAt :: "worktree_event list \<Rightarrow> promotion \<Rightarrow> origin_verification \<Rightarrow> nat \<Rightarrow> bool" where
  "verificationCompletedAt es pr v i \<longleftrightarrow> happens es i (isVerificationCompletion v) \<and> (\<exists>h<i. verificationRequestedAt es pr v h)"

definition verificationHistory :: "worktree_event list \<Rightarrow> promotion \<Rightarrow> origin_verification \<Rightarrow> bool" where
  "verificationHistory es pr v \<longleftrightarrow> (case ov_status v of
     ov_approved \<Rightarrow> \<exists>i. verificationApprovedAt es pr v i
   | ov_requested \<Rightarrow> \<exists>i. verificationRequestedAt es pr v i
   | OvCompleted _ \<Rightarrow> \<exists>i. verificationCompletedAt es pr v i)"

lemma verificationApprovedAt_append: "verificationApprovedAt es pr v i \<Longrightarrow> verificationApprovedAt (es @ fs) pr v i"
  by (auto simp: verificationApprovedAt_def intro: happens_append appliedAt_append)

lemma verificationRequestedAt_append: "verificationRequestedAt es pr v i \<Longrightarrow> verificationRequestedAt (es @ fs) pr v i"
  by (auto simp: verificationRequestedAt_def intro: happens_append verificationApprovedAt_append)

lemma verificationCompletedAt_append: "verificationCompletedAt es pr v i \<Longrightarrow> verificationCompletedAt (es @ fs) pr v i"
  by (auto simp: verificationCompletedAt_def intro: happens_append verificationRequestedAt_append)

lemma verificationHistory_append: "verificationHistory es pr v \<Longrightarrow> verificationHistory (es @ fs) pr v"
  by (auto simp: verificationHistory_def split: origin_verification_status.splits
      intro: verificationApprovedAt_append verificationRequestedAt_append verificationCompletedAt_append)

lemma verificationApprovedAt_cong:
  "ov_target v' = ov_target v \<Longrightarrow> ov_approvalRequestId v' = ov_approvalRequestId v \<Longrightarrow>
   ov_approvedEventId v' = ov_approvedEventId v \<Longrightarrow> verificationApprovedAt es pr v' i = verificationApprovedAt es pr v i"
  by (simp add: verificationApprovedAt_def isVerificationApproval_def [abs_def])

lemma verificationRequestedAt_cong:
  assumes "ov_target v' = ov_target v" "ov_approvalRequestId v' = ov_approvalRequestId v"
    "ov_approvedEventId v' = ov_approvedEventId v" "ov_requestedEventId v' = ov_requestedEventId v"
  shows "verificationRequestedAt es pr v' i = verificationRequestedAt es pr v i"
  using verificationApprovedAt_cong [OF assms(1-3)] assms
  by (simp add: verificationRequestedAt_def isVerificationRequest_def [abs_def])

lemma verification_less:
  "verificationApprovedAt es pr v i \<Longrightarrow> i < length es" "verificationRequestedAt es pr v i \<Longrightarrow> i < length es"
  "appliedAt es pr i \<Longrightarrow> i < length es"
  by (auto simp: verificationApprovedAt_def verificationRequestedAt_def appliedAt_def dest: happens_less)

lemma history_verification_requested:
  assumes "verificationHistory es pr v" "ov_status v = ov_approved"
    and "v' = v\<lparr>ov_requestedEventId := a, ov_status := ov_requested\<rparr>"
    and "happens (es @ [e]) (length es) (isVerificationRequest v')"
  shows "verificationHistory (es @ [e]) pr v'"
proof -
  from assms(1,2) obtain i where i: "verificationApprovedAt es pr v i" by (auto simp: verificationHistory_def)
  from i have "verificationApprovedAt (es @ [e]) pr v' i"
    using verificationApprovedAt_cong [of v' v] assms(3) by (simp add: verificationApprovedAt_append)
  with i assms(4) have "verificationRequestedAt (es @ [e]) pr v' (length es)"
    by (auto simp: verificationRequestedAt_def dest: verification_less)
  with assms(3) show ?thesis by (auto simp: verificationHistory_def)
qed

lemma history_verification_completed:
  assumes "verificationHistory es pr v" "ov_status v = ov_requested"
    and "v' = v\<lparr>ov_completedEventId := a, ov_receiptArtifactId := b, ov_receiptSha256 := c, ov_status := OvCompleted r\<rparr>"
    and "happens (es @ [e]) (length es) (isVerificationCompletion v')"
  shows "verificationHistory (es @ [e]) pr v'"
proof -
  from assms(1,2) obtain i where i: "verificationRequestedAt es pr v i" by (auto simp: verificationHistory_def)
  from i have "verificationRequestedAt (es @ [e]) pr v' i"
    using verificationRequestedAt_cong [of v' v] assms(3) by (simp add: verificationRequestedAt_append)
  with i assms(4) have "verificationCompletedAt (es @ [e]) pr v' (length es)"
    by (auto simp: verificationCompletedAt_def dest: verification_less)
  with assms(3) show ?thesis by (auto simp: verificationHistory_def)
qed

section \<open>The invariant of promotions and verifications\<close>

definition proposalsOk :: "worktree_event list \<Rightarrow> wt_state \<Rightarrow> bool" where
  "proposalsOk es s \<longleftrightarrow> distinct (map fst (w_proposals s)) \<and>
     (\<forall>k pr. map_of (w_proposals s) k = Some pr \<longrightarrow> pb_bundleSha256 (pm_bundle pr) = k \<and> promotionHistory es pr)"

definition referencesOk :: "wt_state \<Rightarrow> bool" where
  "referencesOk s \<longleftrightarrow> (\<forall>i k. w_requestedPromotions s i = Some k \<longrightarrow>
     (\<exists>pr. map_of (w_proposals s) k = Some pr \<and> pm_operationId pr = Some i \<and> pm_status pr \<in> {ps_requested, ps_applied}))"

definition verificationOk :: "worktree_event list \<Rightarrow> wt_state \<Rightarrow> string \<Rightarrow> origin_verification \<Rightarrow> bool" where
  "verificationOk es s i v \<longleftrightarrow> vt_verification_id (ov_target v) = i \<and>
     (\<exists>pr. map_of (w_proposals s) (vt_bundle_sha256 (ov_target v)) = Some pr \<and> verifiesPromotion (ov_target v) pr \<and>
        verificationHistory es pr v)"

definition verificationsOk :: "worktree_event list \<Rightarrow> wt_state \<Rightarrow> bool" where
  "verificationsOk es s \<longleftrightarrow> distinct (map fst (w_originVerifications s)) \<and>
     (\<forall>i v. map_of (w_originVerifications s) i = Some v \<longrightarrow> verificationOk es s i v)"

text \<open>Applied promotions do not change any more, so a verification keeps its promotion.\<close>

lemma verificationOk_mono:
  assumes "verificationOk es s i v"
    and "\<And>k pr. map_of (w_proposals s) k = Some pr \<Longrightarrow> pm_status pr = ps_applied \<Longrightarrow> map_of (w_proposals s') k = Some pr"
  shows "verificationOk (es @ fs) s' i v"
proof -
  from assms(1) obtain pr where pr: "vt_verification_id (ov_target v) = i"
      "map_of (w_proposals s) (vt_bundle_sha256 (ov_target v)) = Some pr" "verifiesPromotion (ov_target v) pr"
      "verificationHistory es pr v"
    unfolding verificationOk_def by blast
  from assms(2) [OF pr(2)] pr(3) have "map_of (w_proposals s') (vt_bundle_sha256 (ov_target v)) = Some pr"
    by (simp add: verifiesPromotion_def)
  with pr(1,3) verificationHistory_append [OF pr(4)] show ?thesis unfolding verificationOk_def by blast
qed

lemma verificationsOk_mono:
  assumes "verificationsOk es s" "w_originVerifications s' = w_originVerifications s"
    and "\<And>k pr. map_of (w_proposals s) k = Some pr \<Longrightarrow> pm_status pr = ps_applied \<Longrightarrow> map_of (w_proposals s') k = Some pr"
  shows "verificationsOk (es @ fs) s'"
  using assms(1,2) verificationOk_mono [of es s _ _ s' fs, OF _ assms(3)] by (auto simp: verificationsOk_def)

definition promotionInv :: "worktree_event list \<Rightarrow> wt_state \<Rightarrow> bool" where
  "promotionInv es s \<longleftrightarrow> proposalsOk es s \<and> referencesOk s \<and> verificationsOk es s"

lemma promotionInv_frame:
  assumes "promotionInv es s" "w_proposals s' = w_proposals s" "w_requestedPromotions s' = w_requestedPromotions s"
    "w_originVerifications s' = w_originVerifications s"
  shows "promotionInv (es @ fs) s'"
proof -
  have "proposalsOk (es @ fs) s'"
    using assms by (auto simp: promotionInv_def proposalsOk_def intro: promotionHistory_append)
  moreover have "referencesOk s'"
    using assms by (simp add: promotionInv_def referencesOk_def)
  moreover have "verificationsOk (es @ fs) s'"
    using assms verificationsOk_mono [of es s s'] by (simp add: promotionInv_def)
  ultimately show ?thesis by (simp add: promotionInv_def)
qed

text \<open>An update of one promotion that is not applied yet.\<close>

lemma promotionInv_update:
  assumes inv: "promotionInv es s" and pr: "map_of (w_proposals s) k = Some pr" "pm_status pr \<noteq> ps_applied"
    and pr': "pm_bundle pr' = pm_bundle pr" "promotionHistory (es @ [e]) pr'"
    and s': "w_proposals s' = AList.update k pr' (w_proposals s)" "w_originVerifications s' = w_originVerifications s"
    and refs: "referencesOk s'"
  shows "promotionInv (es @ [e]) s'"
proof -
  have "proposalsOk (es @ [e]) s'"
    using inv pr(1) pr' s'(1)
    by (auto simp: promotionInv_def proposalsOk_def distinct_update intro: promotionHistory_append split: if_splits)
  moreover have "verificationsOk (es @ [e]) s'"
    by (rule verificationsOk_mono [of es s]) (use inv pr s' in \<open>auto simp: promotionInv_def\<close>)
  ultimately show ?thesis using refs by (simp add: promotionInv_def)
qed

lemma referencesOk_update:
  assumes "referencesOk s" "map_of (w_proposals s) k = Some pr"
    and "pm_operationId pr' = pm_operationId pr" "pm_status pr' \<in> {ps_requested, ps_applied}"
    and "w_proposals s' = AList.update k pr' (w_proposals s)" "w_requestedPromotions s' = w_requestedPromotions s"
  shows "referencesOk s'"
  using assms unfolding referencesOk_def by (auto, fastforce+)

lemma unreferenced:
  assumes "referencesOk s" "map_of (w_proposals s) k = Some pr" "pm_status pr \<in> {ps_proposed, ps_approved}"
  shows "w_requestedPromotions s i \<noteq> Some k"
  using assms unfolding referencesOk_def by force

lemma requestedPromotion_Some:
  "requestedPromotion s i = Some (k, pr) \<longleftrightarrow> w_requestedPromotions s i = Some k \<and> map_of (w_proposals s) k = Some pr"
  by (auto simp: requestedPromotion_def bind_eq_Some_conv)

lemma promotionInv_step_proposed:
  assumes inv: "promotionInv es s" and e: "scope e = SessionScope" "wdata e = Some (PromotionProposed g b h)"
    and step: "onPromotionProposed e g b h s = Inr s'"
    and snap: "\<And>w sn. map_of (w_workspaces s) (pb_workspaceId b) = Some w \<Longrightarrow> mw_lastSnapshot w = Some sn \<Longrightarrow>
      \<exists>i<length es. happens es i (isSnapshotOf (pb_workspaceId b) (sn_sha256 sn))"
  shows "promotionInv (es @ [e]) s'"
proof -
  from step obtain w sn where w: "map_of (w_workspaces s) (pb_workspaceId b) = Some w" "mw_lastSnapshot w = Some sn"
      "sn_sha256 sn = pb_workspaceSnapshotSha256 b" "pb_bundleSha256 b = h" "map_of (w_proposals s) h = None"
      and s': "w_proposals s' = AList.update h
         \<lparr>pm_appliedEventId = None, pm_approvalRequestId = None, pm_bundle = b, pm_goalChangeEventId = None,
          pm_operationId = None, pm_originSourceSnapshotSha256 = None, pm_proposalEventId = eventId e,
          pm_resultSnapshotSha256 = None, pm_status = ps_proposed\<rparr> (w_proposals s)"
        "w_requestedPromotions s' = w_requestedPromotions s" "w_originVerifications s' = w_originVerifications s"
    by (auto simp: onPromotionProposed_def setProposal_def wfail_def split: option.splits if_splits)
  let ?pr = "\<lparr>pm_appliedEventId = None, pm_approvalRequestId = None, pm_bundle = b, pm_goalChangeEventId = None,
          pm_operationId = None, pm_originSourceSnapshotSha256 = None, pm_proposalEventId = eventId e,
          pm_resultSnapshotSha256 = None, pm_status = ps_proposed\<rparr>"
  from snap [OF w(1,2)] obtain i where "i < length es" "happens es i (isSnapshotOf (pb_workspaceId b) (pb_workspaceSnapshotSha256 b))"
    using w(3) by auto
  moreover have "happens (es @ [e]) (length es) (isProposalOf ?pr)"
    using e w(4) by (auto intro!: happens_last simp: isProposalOf_def)
  ultimately have "proposedAt (es @ [e]) ?pr (length es)"
    by (auto simp: proposedAt_def intro: happens_append)
  then have h: "promotionHistory (es @ [e]) ?pr" by (auto simp: promotionHistory_def)
  have "proposalsOk (es @ [e]) s'"
    using inv w(4) h s'(1)
    by (auto simp: promotionInv_def proposalsOk_def distinct_update intro: promotionHistory_append split: if_splits)
  moreover have "referencesOk s'"
    using inv w(5) s' by (auto simp: promotionInv_def referencesOk_def) (metis option.distinct(1))
  moreover have "verificationsOk (es @ [e]) s'"
    by (rule verificationsOk_mono [of es s]) (use inv w(5) s' in \<open>auto simp: promotionInv_def\<close>)
  ultimately show ?thesis by (simp add: promotionInv_def)
qed

lemma promotionInv_step_approved:
  assumes inv: "promotionInv es s" and e: "scope e = SessionScope" "wdata e = Some (PromotionApproved g d)"
    and step: "onPromotionApproved d s = Inr s'"
  shows "promotionInv (es @ [e]) s'"
proof -
  let ?k = "pad_bundle_sha256 d"
  let ?f = "\<lambda>pr. pr\<lparr>pm_approvalRequestId := Some (pad_approval_request_id d), pm_status := ps_approved\<rparr>"
  from step obtain pr where pr: "map_of (w_proposals s) ?k = Some pr" "pm_status pr = ps_proposed"
      "pb_targetSnapshotSha256 (pm_bundle pr) = pad_target_snapshot_sha256 d"
      and s': "s' = setProposal ?k (?f pr) s"
    by (auto simp: onPromotionApproved_def wfail_def split: option.splits if_splits)
  from inv pr(1) have k: "pb_bundleSha256 (pm_bundle pr) = ?k" "promotionHistory es pr"
    by (auto simp: promotionInv_def proposalsOk_def)
  have h: "promotionHistory (es @ [e]) (?f pr)"
    by (rule history_approved [OF k(2) pr(2) refl]) (use e k(1) pr(3) in \<open>auto intro!: happens_last simp: isApprovalOf_def\<close>)
  have "referencesOk s'"
    using inv unreferenced [of s ?k pr] pr(1,2) s' by (auto simp: promotionInv_def referencesOk_def setProposal_def)
  then show ?thesis
    by (rule promotionInv_update [OF inv pr(1) _ _ h, rotated -1]) (simp_all add: s' setProposal_def pr(2))
qed

lemma promotionInv_step_requested:
  assumes inv: "promotionInv es s" and e: "scope e = SessionScope" "wdata e = Some (PromotionRequested g d)"
    and step: "onPromotionRequested d s = Inr s'"
  shows "promotionInv (es @ [e]) s'"
proof -
  let ?k = "prq_bundle_sha256 d"
  let ?f = "\<lambda>pr. pr\<lparr>pm_operationId := Some (prq_operation_id d), pm_status := ps_requested\<rparr>"
  from step obtain pr where pr: "map_of (w_proposals s) ?k = Some pr" "pm_status pr = ps_approved"
      "pm_approvalRequestId pr = Some (prq_approval_request_id d)"
      "pb_targetSnapshotSha256 (pm_bundle pr) = prq_target_snapshot_sha256 d"
      and s': "w_proposals s' = AList.update ?k (?f pr) (w_proposals s)" "w_originVerifications s' = w_originVerifications s"
        "w_requestedPromotions s' = (w_requestedPromotions s)(prq_operation_id d \<mapsto> ?k)"
    by (auto simp: onPromotionRequested_def wfail_def setProposal_def split: option.splits if_splits)
  from inv pr(1) have k: "pb_bundleSha256 (pm_bundle pr) = ?k" "promotionHistory es pr"
    by (auto simp: promotionInv_def proposalsOk_def)
  have h: "promotionHistory (es @ [e]) (?f pr)"
    by (rule history_requested [OF k(2) pr(2) refl]) (use e k(1) pr(3,4) in \<open>auto intro!: happens_last simp: isRequestOf_def\<close>)
  have "referencesOk s'"
    using inv unreferenced [of s ?k pr] pr(1,2) s' by (auto simp: promotionInv_def referencesOk_def)
  then show ?thesis
    by (rule promotionInv_update [OF inv pr(1) _ _ h, rotated -1]) (simp_all add: s' pr(2))
qed

lemma zip_paths:
  "length ps = length es \<Longrightarrow> \<not> list_ex (\<lambda>(p, e). p \<noteq> f e) (zip ps es) \<Longrightarrow> ps = map f es"
  by (induction ps es rule: list_induct2) auto

lemma promotionInv_step_applied:
  assumes inv: "promotionInv es s" and e: "scope e = SessionScope" "wdata e = Some (PromotionApplied g d)"
    and step: "onPromotionApplied e d s = Inr s'"
  shows "promotionInv (es @ [e]) s'"
proof -
  let ?f = "\<lambda>pr. pr\<lparr>pm_appliedEventId := Some (eventId e), pm_originSourceSnapshotSha256 := Some (pap_origin_source_snapshot_sha256 d),
       pm_resultSnapshotSha256 := Some (pap_result_snapshot_sha256 d), pm_status := ps_applied\<rparr>"
  from step obtain k pr where pr: "w_requestedPromotions s (pap_operation_id d) = Some k" "map_of (w_proposals s) k = Some pr"
      "pm_status pr = ps_requested" "pm_goalChangeEventId pr \<noteq> None" "pb_bundleSha256 (pm_bundle pr) = pap_bundle_sha256 d"
      and paths: "length (pap_changed_paths d) = length (pb_entries (pm_bundle pr))"
        "\<not> list_ex (\<lambda>(path, entry). path \<noteq> pe_path entry) (zip (pap_changed_paths d) (pb_entries (pm_bundle pr)))"
      and s': "w_proposals s' = AList.update k (?f pr) (w_proposals s)" "w_originVerifications s' = w_originVerifications s"
        "w_requestedPromotions s' = w_requestedPromotions s"
    by (auto simp: onPromotionApplied_def wfail_def setProposal_def requestedPromotion_Some split: option.splits if_splits)
  from inv have refs: "referencesOk s" by (simp add: promotionInv_def)
  from refs pr(1,2) have op: "pm_operationId pr = Some (pap_operation_id d)" by (force simp: referencesOk_def)
  from inv pr(2) have k: "promotionHistory es pr" by (auto simp: promotionInv_def proposalsOk_def)
  have h: "promotionHistory (es @ [e]) (?f pr)"
    by (rule history_applied [OF k pr(3,4) refl])
      (use e op pr(5) zip_paths [OF paths] in \<open>auto intro!: happens_last simp: isApplicationOf_def\<close>)
  have "referencesOk s'" by (rule referencesOk_update [OF refs pr(2) _ _ s'(1,3)]) simp_all
  then show ?thesis
    by (rule promotionInv_update [OF inv pr(2) _ _ h, rotated -1]) (simp_all add: s' pr(3))
qed

lemma promotionInv_step_change:
  assumes inv: "promotionInv es s" and e: "scope e = SessionScope" "wdata e = Some (GoalChangeRecorded d)"
    and step: "onGoalChange events e d s = Inr s'"
  shows "promotionInv (es @ [e]) s'"
proof -
  let ?f = "\<lambda>pr. pr\<lparr>pm_goalChangeEventId := Some (eventId e)\<rparr>"
  from step obtain k pr where pr: "w_requestedPromotions s (pso_operation_id (pch_source d)) = Some k"
      "map_of (w_proposals s) k = Some pr" "pm_status pr = ps_requested" "pm_goalChangeEventId pr = None"
      "changeMatches (pm_bundle pr) d" and s': "s' = setProposal k (?f pr) s"
    by (auto simp: onGoalChange_def wfail_def requestedPromotion_Some split: option.splits if_splits)
  from inv have refs: "referencesOk s" by (simp add: promotionInv_def)
  from refs pr(1,2) have op: "pm_operationId pr = Some (pso_operation_id (pch_source d))" by (force simp: referencesOk_def)
  from inv pr(2) have k: "promotionHistory es pr" by (auto simp: promotionInv_def proposalsOk_def)
  have h: "promotionHistory (es @ [e]) (?f pr)"
    by (rule history_recorded [OF k pr(3,4) refl]) (use e op pr(5) in \<open>auto intro!: happens_last simp: isChangeOf_def\<close>)
  have "referencesOk s'"
    by (rule referencesOk_update [OF refs pr(2), of "?f pr"]) (simp_all add: s' setProposal_def pr(3))
  then show ?thesis
    by (rule promotionInv_update [OF inv pr(2) _ _ h, rotated -1]) (simp_all add: s' setProposal_def pr(3))
qed

lemma sameTarget_eq:
  "sameTarget a b \<Longrightarrow> vt_verification_id a = vt_verification_id b \<Longrightarrow> a = b"
  by (cases a, cases b) (simp add: sameTarget_def)

lemma promotionInv_verification:
  assumes "promotionInv es s" "verificationOk (es @ [e]) s' i v"
    and "w_proposals s' = w_proposals s" "w_requestedPromotions s' = w_requestedPromotions s"
    and "w_originVerifications s' = AList.update i v (w_originVerifications s)"
  shows "promotionInv (es @ [e]) s'"
proof -
  from assms(1,3,4) have "proposalsOk (es @ [e]) s' \<and> referencesOk s'"
    by (auto simp: promotionInv_def proposalsOk_def referencesOk_def intro: promotionHistory_append)
  moreover have "verificationsOk (es @ [e]) s'"
    using assms(1,2,3,5) verificationOk_mono [of es s _ _ s' "[e]"]
    by (auto simp: promotionInv_def verificationsOk_def distinct_update split: if_splits)
  ultimately show ?thesis by (simp add: promotionInv_def)
qed

lemma promotionInv_step_verification_approved:
  assumes inv: "promotionInv es s" and e: "scope e = SessionScope" "wdata e = Some (OriginVerificationApproved g t a)"
    and step: "onVerificationApproved e g t a s = Inr s'"
  shows "promotionInv (es @ [e]) s'"
proof -
  let ?v = "\<lparr>ov_target = t, ov_approvalRequestId = a, ov_approvedEventId = eventId e,
     ov_completedEventId = None, ov_receiptArtifactId = None, ov_receiptSha256 = None, ov_requestedEventId = None,
     ov_status = ov_approved\<rparr>"
  from step obtain k pr where pr: "w_requestedPromotions s (vt_promotion_operation_id t) = Some k"
      "map_of (w_proposals s) k = Some pr" "pm_status pr = ps_applied" "pb_bundleSha256 (pm_bundle pr) = vt_bundle_sha256 t"
      "pb_workspaceId (pm_bundle pr) = vt_workspace_id t" "pm_originSourceSnapshotSha256 pr = Some (vt_origin_source_snapshot_sha256 t)"
      and s': "s' = setVerification (vt_verification_id t) ?v s"
    by (auto simp: onVerificationApproved_def wfail_def requestedPromotion_Some split: option.splits if_splits)
  from inv pr(2) have k: "pb_bundleSha256 (pm_bundle pr) = k" "promotionHistory es pr"
    by (auto simp: promotionInv_def proposalsOk_def)
  from inv pr(1,2) have "pm_operationId pr = Some (vt_promotion_operation_id t)"
    by (force simp: promotionInv_def referencesOk_def)
  with pr have v: "verifiesPromotion t pr" by (simp add: verifiesPromotion_def)
  from k(2) pr(3) obtain i where i: "appliedAt es pr i" by (auto simp: promotionHistory_def)
  have "happens (es @ [e]) (length es) (isVerificationApproval ?v)"
    using e by (auto intro!: happens_last simp: isVerificationApproval_def)
  with i have "verificationApprovedAt (es @ [e]) pr ?v (length es)"
    by (auto simp: verificationApprovedAt_def intro: appliedAt_append dest: verification_less)
  then have "verificationHistory (es @ [e]) pr ?v" by (auto simp: verificationHistory_def)
  with v pr(2,4) k(1) have ok: "verificationOk (es @ [e]) s' (vt_verification_id t) ?v"
    unfolding verificationOk_def by (auto simp: s' setVerification_def)
  have same: "w_proposals s' = w_proposals s" "w_requestedPromotions s' = w_requestedPromotions s"
    "w_originVerifications s' = AList.update (vt_verification_id t) ?v (w_originVerifications s)"
    by (simp_all add: s' setVerification_def)
  from inv ok same show ?thesis by (rule promotionInv_verification)
qed

lemma promotionInv_step_verification_requested:
  assumes inv: "promotionInv es s" and e: "scope e = SessionScope" "wdata e = Some (OriginVerificationRequested g t a)"
    and step: "onVerificationRequested e t a s = Inr s'"
  shows "promotionInv (es @ [e]) s'"
proof -
  let ?i = "vt_verification_id t" and ?f = "\<lambda>v. v\<lparr>ov_requestedEventId := Some (eventId e), ov_status := ov_requested\<rparr>"
  from step obtain v where v: "map_of (w_originVerifications s) ?i = Some v" "ov_status v = ov_approved"
      "ov_approvalRequestId v = a" "sameTarget (ov_target v) t"
      and same: "w_proposals s' = w_proposals s" "w_requestedPromotions s' = w_requestedPromotions s"
        "w_originVerifications s' = AList.update ?i (?f v) (w_originVerifications s)"
    by (auto simp: onVerificationRequested_def wfail_def setVerification_def split: option.splits if_splits)
  from inv v(1) have old: "verificationOk es s ?i v" by (auto simp: promotionInv_def verificationsOk_def)
  then have t: "ov_target v = t" using sameTarget_eq [OF v(4)] by (simp add: verificationOk_def)
  have "happens (es @ [e]) (length es) (isVerificationRequest (?f v))"
    using e t v(3) by (auto intro!: happens_last simp: isVerificationRequest_def)
  from history_verification_requested [OF _ v(2) refl this] old
  have "verificationOk (es @ [e]) s' ?i (?f v)" unfolding verificationOk_def same(1) by auto
  from inv this same show ?thesis by (rule promotionInv_verification)
qed

lemma promotionInv_step_verification_completed:
  assumes inv: "promotionInv es s" and e: "scope e = SessionScope" "wdata e = Some (OriginVerificationCompleted g d)"
    and step: "onVerificationCompleted e d s = Inr s'"
  shows "promotionInv (es @ [e]) s'"
proof -
  let ?i = "vt_verification_id (vc_target d)"
  let ?f = "\<lambda>v. v\<lparr>ov_completedEventId := Some (eventId e), ov_receiptArtifactId := Some (vc_receipt_artifact_id d),
                    ov_receiptSha256 := Some (vc_receipt_sha256 d), ov_status := OvCompleted (vc_status d)\<rparr>"
  from step obtain v where v: "map_of (w_originVerifications s) ?i = Some v" "ov_status v = ov_requested"
      "sameTarget (ov_target v) (vc_target d)" "vc_status d = vo_passed \<longrightarrow> passedExactly d"
      and same: "w_proposals s' = w_proposals s" "w_requestedPromotions s' = w_requestedPromotions s"
        "w_originVerifications s' = AList.update ?i (?f v) (w_originVerifications s)"
    by (auto simp: onVerificationCompleted_def wfail_def setVerification_def Let_def split: option.splits if_splits)
  from inv v(1) have old: "verificationOk es s ?i v" by (auto simp: promotionInv_def verificationsOk_def)
  then have t: "ov_target v = vc_target d" using sameTarget_eq [OF v(3)] by (simp add: verificationOk_def)
  have "happens (es @ [e]) (length es) (isVerificationCompletion (?f v))"
    using e t v(4) by (auto intro!: happens_last simp: isVerificationCompletion_def)
  from history_verification_completed [OF _ v(2) refl this] old
  have "verificationOk (es @ [e]) s' ?i (?f v)" unfolding verificationOk_def same(1) by auto
  from inv this same show ?thesis by (rule promotionInv_verification)
qed

section \<open>Workspaces and their accepted snapshots\<close>

definition snapshotsOk :: "worktree_event list \<Rightarrow> wt_state \<Rightarrow> bool" where
  "snapshotsOk es s \<longleftrightarrow> (\<forall>k w sn. map_of (w_workspaces s) k = Some w \<longrightarrow> mw_lastSnapshot w = Some sn \<longrightarrow>
     (\<exists>i. happens es i (isSnapshotOf k (sn_sha256 sn))))"

end
