(* ===== verification/WorktreeHistories.thy ===== *)
theory WorktreeHistories
  imports WorktreeInvariants
begin

text \<open>
  The invariant of the worktree projector as a whole: the frame of each case, the allocation
  behind each workspace, the holder of each lease and the pending operations, the last two
  against reference definitions over the log alone.
\<close>

lemmas worktree_cases = onPrepared_def onAllocationApproved_def onCreateRequested_def onCreated_def onSeeded_def
  onLeased_def onSnapshot_def onLeaseReleased_def onPromotionProposed_def onPromotionApproved_def onPromotionRequested_def
  onPromotionApplied_def onGoalChange_def onVerificationApproved_def onVerificationRequested_def
  onVerificationCompleted_def onCleanupRequested_def onCleanupCompleted_def onWorktreeReconciled_def

lemmas worktree_sets = setWorkspace_def setProposal_def setVerification_def wfail_def

text \<open>What no other case touches.\<close>

lemma promotions_frame:
  assumes "onWorktreeEvent events e d s = Inr s'"
    and "\<forall>g b h. d \<noteq> PromotionProposed g b h" "\<forall>g v. d \<noteq> PromotionApproved g v" "\<forall>g v. d \<noteq> PromotionRequested g v"
      "\<forall>g v. d \<noteq> PromotionApplied g v" "\<forall>v. d \<noteq> GoalChangeRecorded v"
  shows "w_proposals s' = w_proposals s \<and> w_requestedPromotions s' = w_requestedPromotions s"
  using assms
  by (cases d) (auto simp: onWorktreeEvent_def worktree_cases worktree_sets Let_def split: option.splits if_splits prod.splits)

lemma verifications_frame:
  assumes "onWorktreeEvent events e d s = Inr s'"
    and "\<forall>g t a. d \<noteq> OriginVerificationApproved g t a" "\<forall>g t a. d \<noteq> OriginVerificationRequested g t a"
      "\<forall>g v. d \<noteq> OriginVerificationCompleted g v"
  shows "w_originVerifications s' = w_originVerifications s"
  using assms
  by (cases d) (auto simp: onWorktreeEvent_def worktree_cases worktree_sets Let_def split: option.splits if_splits prod.splits)

lemma allocation_frame:
  assumes "onWorktreeEvent events e d s = Inr s'"
    and "\<forall>g v. d \<noteq> AllocationPrepared g v" "\<forall>g v. d \<noteq> AllocationApproved g v" "\<forall>g v. d \<noteq> CreateRequested g v"
  shows "w_prepared s' = w_prepared s \<and> w_approvedPlans s' = w_approvedPlans s \<and> w_requestedCreates s' = w_requestedCreates s"
  using assms
  by (cases d) (auto simp: onWorktreeEvent_def worktree_cases worktree_sets Let_def split: option.splits if_splits prod.splits)

text \<open>A workspace after an event: freshly seeded, or the one before with its lease, snapshot or status set.\<close>

lemma workspace_step:
  assumes "onWorktreeEvent events e d s = Inr s'" "map_of (w_workspaces s') k = Some w'"
    and "\<forall>g b. d \<noteq> BaselineSeeded g b k"
  obtains w where "map_of (w_workspaces s) k = Some w" "mw_baseline w' = mw_baseline w" "mw_identity w' = mw_identity w"
    "mw_nodeIds w' = mw_nodeIds w" "mw_operationId w' = mw_operationId w" "mw_plan w' = mw_plan w"
    "mw_lastSnapshot w' = mw_lastSnapshot w \<or> (\<exists>g v. d = SnapshotAccepted g v \<and> sad_workspace_id v = k \<and>
       map_option sn_sha256 (mw_lastSnapshot w') = Some (sad_snapshot_sha256 v))"
  using assms
  by (cases d) (auto simp: onWorktreeEvent_def worktree_cases worktree_sets Let_def split: option.splits if_splits prod.splits)

section \<open>The holder of a lease\<close>

definition leaseStep :: "string \<Rightarrow> worktree_event \<Rightarrow> string option \<Rightarrow> string option" where
  "leaseStep k e holder = (if scope e \<noteq> SessionScope then holder else case wdata e of
     Some (BaselineSeeded _ _ workspaceId) \<Rightarrow> if workspaceId = k then None else holder
   | Some (LeaseAcquired _ v) \<Rightarrow> if ld_workspace_id v = k then Some (ld_attempt_id v) else holder
   | Some (LeaseReleased _ v _) \<Rightarrow> if ld_workspace_id v = k then None else holder
   | _ \<Rightarrow> holder)"

definition leaseHolder :: "string \<Rightarrow> worktree_event list \<Rightarrow> string option" where
  "leaseHolder k es = fold (leaseStep k) es None"

definition activeAttempt :: "wt_state \<Rightarrow> string \<Rightarrow> string option" where
  "activeAttempt s k = Option.bind (map_of (w_workspaces s) k) mw_activeAttemptId"

lemma activeAttempt_event:
  assumes "onWorktreeEvent events e d s = Inr s'" "scope e = SessionScope" "wdata e = Some d"
  shows "activeAttempt s' k = leaseStep k e (activeAttempt s k)"
  using assms
  by (cases d) (auto simp: activeAttempt_def leaseStep_def onWorktreeEvent_def worktree_cases worktree_sets Let_def
      split: option.splits if_splits prod.splits)

lemma worktreeStep_cases:
  assumes "worktreeStep events s e = Inr s'"
  obtains (skip) "s' = s\<lparr>w_lastSessionSeq := max (w_lastSessionSeq s) (sessionSeq e)\<rparr>" "scope e \<noteq> SessionScope \<or> wdata e = None"
  | (event) d where "scope e = SessionScope" "wdata e = Some d"
      "onWorktreeEvent events e d (s\<lparr>w_lastSessionSeq := max (w_lastSessionSeq s) (sessionSeq e)\<rparr>) = Inr s'"
  using assms by (auto simp: worktreeStep_def Let_def split: if_splits option.splits)

section \<open>The allocation of a workspace\<close>

definition isPreparation :: "string \<Rightarrow> allocation_plan \<Rightarrow> worktree_event \<Rightarrow> worktree_data \<Rightarrow> bool" where
  "isPreparation h plan e d \<longleftrightarrow> (case d of
     AllocationPrepared _ v \<Rightarrow> pd_allocation_plan_sha256 v = h \<and> pd_allocation_plan v = plan | _ \<Rightarrow> False)"

definition isAllocationApproval :: "string \<Rightarrow> allocation_plan \<Rightarrow> worktree_event \<Rightarrow> worktree_data \<Rightarrow> bool" where
  "isAllocationApproval h plan e d \<longleftrightarrow> (case d of
     AllocationApproved g v \<Rightarrow> aad_allocation_plan_sha256 v = h \<and> aad_workspace_id v = alp_workspaceId plan \<and>
       exactGraphRef (alp_graph plan) g
   | _ \<Rightarrow> False)"

definition isCreateRequest :: "string \<Rightarrow> allocation_plan \<Rightarrow> worktree_event \<Rightarrow> worktree_data \<Rightarrow> bool" where
  "isCreateRequest h plan e d \<longleftrightarrow> (case d of
     CreateRequested g v \<Rightarrow> crd_allocation_plan_sha256 v = h \<and> crd_operation_id v = alp_operationId plan \<and>
       crd_workspace_id v = alp_workspaceId plan \<and> exactGraphRef (alp_graph plan) g
   | _ \<Rightarrow> False)"

definition isCreation :: "worktree_identity \<Rightarrow> string \<Rightarrow> worktree_event \<Rightarrow> worktree_data \<Rightarrow> bool" where
  "isCreation identity operationId e d \<longleftrightarrow> (case d of
     WorktreeCreated _ i op \<Rightarrow> i = identity \<and> op = operationId | _ \<Rightarrow> False)"

definition isSeeding :: "string \<Rightarrow> baseline_manifest \<Rightarrow> worktree_event \<Rightarrow> worktree_data \<Rightarrow> bool" where
  "isSeeding k baseline e d \<longleftrightarrow> (case d of BaselineSeeded _ b workspaceId \<Rightarrow> b = baseline \<and> workspaceId = k | _ \<Rightarrow> False)"

definition planApprovedAt :: "worktree_event list \<Rightarrow> string \<Rightarrow> allocation_plan \<Rightarrow> nat \<Rightarrow> bool" where
  "planApprovedAt es h plan i \<longleftrightarrow> happens es i (isAllocationApproval h plan) \<and> (\<exists>j<i. happens es j (isPreparation h plan))"

definition createRequestedAt :: "worktree_event list \<Rightarrow> string \<Rightarrow> allocation_plan \<Rightarrow> nat \<Rightarrow> bool" where
  "createRequestedAt es h plan i \<longleftrightarrow> happens es i (isCreateRequest h plan) \<and> (\<exists>j<i. planApprovedAt es h plan j)"

definition seededAt :: "worktree_event list \<Rightarrow> string \<Rightarrow> managed_workspace \<Rightarrow> nat \<Rightarrow> bool" where
  "seededAt es k w i \<longleftrightarrow> happens es i (isSeeding k (mw_baseline w)) \<and>
     (\<exists>h. \<exists>j<i. createRequestedAt es h (mw_plan w) j) \<and>
     (\<exists>c<i. happens es c (isCreation (mw_identity w) (mw_operationId w)))"

definition workspaceOk :: "worktree_event list \<Rightarrow> string \<Rightarrow> managed_workspace \<Rightarrow> bool" where
  "workspaceOk es k w \<longleftrightarrow> (\<exists>i. seededAt es k w i) \<and> wi_workspaceId (mw_identity w) = k \<and>
     mw_nodeIds w = alp_nodeIds (mw_plan w) \<and> mw_operationId w = alp_operationId (mw_plan w) \<and>
     bm_manifestSha256 (mw_baseline w) = alp_baselineManifestSha256 (mw_plan w) \<and>
     bm_originStatusSha256 (mw_baseline w) = alp_originStatusSha256 (mw_plan w)"

lemma planApprovedAt_append: "planApprovedAt es h plan i \<Longrightarrow> planApprovedAt (es @ fs) h plan i"
  by (auto simp: planApprovedAt_def intro: happens_append)

lemma createRequestedAt_append: "createRequestedAt es h plan i \<Longrightarrow> createRequestedAt (es @ fs) h plan i"
  by (auto simp: createRequestedAt_def intro: happens_append planApprovedAt_append)

lemma seededAt_append: "seededAt es k w i \<Longrightarrow> seededAt (es @ fs) k w i"
  by (auto simp: seededAt_def intro: happens_append createRequestedAt_append)

lemma workspaceOk_append: "workspaceOk es k w \<Longrightarrow> workspaceOk (es @ fs) k w"
  by (auto simp: workspaceOk_def intro: seededAt_append)

lemma workspaceOk_cong:
  "mw_baseline w' = mw_baseline w \<Longrightarrow> mw_identity w' = mw_identity w \<Longrightarrow> mw_nodeIds w' = mw_nodeIds w \<Longrightarrow>
   mw_operationId w' = mw_operationId w \<Longrightarrow> mw_plan w' = mw_plan w \<Longrightarrow> workspaceOk es k w' = workspaceOk es k w"
  by (simp add: workspaceOk_def seededAt_def)

text \<open>What the log holds of plans, of their approvals and of the requests to create their worktrees.\<close>

definition plansOk :: "worktree_event list \<Rightarrow> wt_state \<Rightarrow> bool" where
  "plansOk es s \<longleftrightarrow>
     (\<forall>h c plan. w_prepared s h = Some (c, plan) \<longrightarrow> (\<exists>i. happens es i (isPreparation h plan))) \<and>
     (\<forall>h a. w_approvedPlans s h = Some a \<longrightarrow> (\<exists>c plan i. w_prepared s h = Some (c, plan) \<and> planApprovedAt es h plan i)) \<and>
     (\<forall>i r. w_requestedCreates s i = Some r \<longrightarrow> (\<exists>c plan j. w_prepared s (cq_planSha256 r) = Some (c, plan) \<and>
        alp_operationId plan = i \<and> createRequestedAt es (cq_planSha256 r) plan j))"

definition workspacesOk :: "worktree_event list \<Rightarrow> wt_state \<Rightarrow> bool" where
  "workspacesOk es s \<longleftrightarrow> distinct (map fst (w_workspaces s)) \<and>
     (\<forall>k w. map_of (w_workspaces s) k = Some w \<longrightarrow> workspaceOk es k w)"

lemma plansOk_frame:
  assumes "plansOk es s" "w_prepared s' = w_prepared s" "w_approvedPlans s' = w_approvedPlans s"
    "w_requestedCreates s' = w_requestedCreates s"
  shows "plansOk (es @ fs) s'"
  using assms unfolding plansOk_def by (simp, meson happens_append planApprovedAt_append createRequestedAt_append)

lemma happens_position: "happens es i P \<Longrightarrow> i < length es \<and> happens (es @ fs) i P"
  by (simp add: happens_less happens_append)

lemma planApprovedAt_less: "planApprovedAt es h plan i \<Longrightarrow> i < length es"
  by (auto simp: planApprovedAt_def dest: happens_less)

lemma createRequestedAt_less: "createRequestedAt es h plan i \<Longrightarrow> i < length es"
  by (auto simp: createRequestedAt_def dest: happens_less)

lemma plansOk_prepared:
  assumes "plansOk es s" "scope e = SessionScope" "wdata e = Some (AllocationPrepared g v)" "onPrepared e v s = Inr s'"
  shows "plansOk (es @ [e]) s'"
proof -
  let ?h = "pd_allocation_plan_sha256 v" and ?p = "pd_allocation_plan v"
  from assms(4) have new: "w_prepared s ?h = None" and s': "s' = s\<lparr>w_prepared := (w_prepared s)(?h \<mapsto> (eventId e, ?p))\<rparr>"
    by (cases "w_prepared s ?h"; force simp: onPrepared_def wfail_def)+
  have here: "happens (es @ [e]) (length es) (isPreparation ?h ?p)"
    using assms(2,3) by (auto intro!: happens_last simp: isPreparation_def)
  have old: "plansOk (es @ [e]) s" by (rule plansOk_frame [OF assms(1)]) simp_all
  have keep: "w_prepared s h = Some x \<Longrightarrow> w_prepared s' h = Some x" for h x using new s' by auto
  show ?thesis unfolding plansOk_def
  proof (intro conjI allI impI)
    fix h c plan assume "w_prepared s' h = Some (c, plan)"
    then show "\<exists>i. happens (es @ [e]) i (isPreparation h plan)"
      using here old by (cases "h = ?h") (auto simp: s' plansOk_def)
  next
    fix h a assume "w_approvedPlans s' h = Some a"
    then have "w_approvedPlans s h = Some a" by (simp add: s')
    with old keep show "\<exists>c plan i. w_prepared s' h = Some (c, plan) \<and> planApprovedAt (es @ [e]) h plan i"
      unfolding plansOk_def by blast
  next
    fix i r assume "w_requestedCreates s' i = Some r"
    then have "w_requestedCreates s i = Some r" by (simp add: s')
    with old keep show "\<exists>c plan j. w_prepared s' (cq_planSha256 r) = Some (c, plan) \<and> alp_operationId plan = i \<and>
        createRequestedAt (es @ [e]) (cq_planSha256 r) plan j"
      unfolding plansOk_def by blast
  qed
qed

lemma plansOk_approved:
  assumes "plansOk es s" "scope e = SessionScope" "wdata e = Some (AllocationApproved g v)" "onAllocationApproved g v s = Inr s'"
  shows "plansOk (es @ [e]) s'"
proof -
  let ?h = "aad_allocation_plan_sha256 v"
  from assms(4) obtain c plan where p: "w_prepared s ?h = Some (c, plan)" "alp_workspaceId plan = aad_workspace_id v"
      "exactGraphRef (alp_graph plan) g"
      and s': "s' = s\<lparr>w_approvedPlans := (w_approvedPlans s)(?h \<mapsto> aad_approval_request_id v)\<rparr>"
    by (auto simp: onAllocationApproved_def wfail_def split: option.splits if_splits)
  from assms(1) p(1) obtain i where "happens es i (isPreparation ?h plan)" unfolding plansOk_def by blast
  moreover have "happens (es @ [e]) (length es) (isAllocationApproval ?h plan)"
    using assms(2,3) p by (auto intro!: happens_last simp: isAllocationApproval_def)
  ultimately have "planApprovedAt (es @ [e]) ?h plan (length es)"
    unfolding planApprovedAt_def using happens_position by blast
  moreover have "plansOk (es @ [e]) s" by (rule plansOk_frame [OF assms(1)]) simp_all
  ultimately show ?thesis using p(1) unfolding plansOk_def by (auto simp: s')
qed

lemma plansOk_requested:
  assumes "plansOk es s" "scope e = SessionScope" "wdata e = Some (CreateRequested g v)" "onCreateRequested g v s = Inr s'"
  shows "plansOk (es @ [e]) s'"
proof -
  let ?h = "crd_allocation_plan_sha256 v"
  from assms(4) obtain c plan a where p: "w_prepared s ?h = Some (c, plan)" "w_approvedPlans s ?h = Some a"
      "alp_operationId plan = crd_operation_id v" "alp_workspaceId plan = crd_workspace_id v" "exactGraphRef (alp_graph plan) g"
      and s': "w_prepared s' = w_prepared s" "w_approvedPlans s' = w_approvedPlans s"
        "w_requestedCreates s' = (w_requestedCreates s)(crd_operation_id v \<mapsto>
           \<lparr>cq_planSha256 = ?h, cq_workspaceId = crd_workspace_id v\<rparr>)"
    by (auto simp: onCreateRequested_def wfail_def split: option.splits if_splits)
  from assms(1) p(1,2) obtain i where i: "planApprovedAt es ?h plan i" by (fastforce simp: plansOk_def)
  have "happens (es @ [e]) (length es) (isCreateRequest ?h plan)"
    using assms(2,3) p by (auto intro!: happens_last simp: isCreateRequest_def)
  with i have "createRequestedAt (es @ [e]) ?h plan (length es)"
    unfolding createRequestedAt_def using planApprovedAt_less planApprovedAt_append by blast
  moreover have "plansOk (es @ [e]) s" by (rule plansOk_frame [OF assms(1)]) simp_all
  ultimately show ?thesis using p(1,3) unfolding plansOk_def by (auto simp: s')
qed

lemma workspacesOk_seeded:
  assumes ok: "workspacesOk es s" "plansOk es s" and e: "scope e = SessionScope" "wdata e = Some (BaselineSeeded g b k)"
    and step: "onSeeded events e g b k s = Inr s'"
    and created: "\<And>identity i. lastCreated events (sessionSeq e) k = Some (identity, i) \<Longrightarrow>
      wi_workspaceId identity = k \<and> (\<exists>c. happens es c (isCreation identity i))"
  shows "workspacesOk (es @ [e]) s'"
proof -
  from step obtain identity i r plan where c: "lastCreated events (sessionSeq e) k = Some (identity, i)"
      "planOf s i = Some (r, plan)" "bm_manifestSha256 b = alp_baselineManifestSha256 plan"
      "bm_originStatusSha256 b = alp_originStatusSha256 plan" and
      s': "w_workspaces s' = AList.update k \<lparr>mw_activeAttemptId = None, mw_baseline = b, mw_identity = identity, mw_lastSnapshot = None,
                    mw_nodeIds = alp_nodeIds plan, mw_operationId = i, mw_plan = plan, mw_status = ws_retained_clean\<rparr> (w_workspaces s)"
    by (auto simp: onSeeded_def worktree_sets split: option.splits if_splits)
  let ?w = "\<lparr>mw_activeAttemptId = None, mw_baseline = b, mw_identity = identity, mw_lastSnapshot = None,
                    mw_nodeIds = alp_nodeIds plan, mw_operationId = i, mw_plan = plan, mw_status = ws_retained_clean\<rparr>"
  from c(2) obtain a where r: "w_requestedCreates s i = Some r" "w_prepared s (cq_planSha256 r) = Some (a, plan)"
    by (auto simp: planOf_def bind_eq_Some_conv)
  from ok(2) r obtain j where j: "createRequestedAt es (cq_planSha256 r) plan j" "alp_operationId plan = i"
    by (fastforce simp: plansOk_def)
  from created [OF c(1)] obtain l where l: "wi_workspaceId identity = k" "happens es l (isCreation identity i)" by blast
  have "happens (es @ [e]) (length es) (isSeeding k (mw_baseline ?w))"
    using e by (auto intro!: happens_last simp: isSeeding_def)
  moreover have "createRequestedAt (es @ [e]) (cq_planSha256 r) (mw_plan ?w) j" "j < length es"
    using j createRequestedAt_append createRequestedAt_less by auto
  moreover have "happens (es @ [e]) l (isCreation (mw_identity ?w) (mw_operationId ?w))" "l < length es"
    using l happens_position [of es l] by auto
  ultimately have "seededAt (es @ [e]) k ?w (length es)" unfolding seededAt_def by blast
  then have "workspaceOk (es @ [e]) k ?w" using c j(2) l(1) by (auto simp: workspaceOk_def)
  with ok(1) show ?thesis
    by (auto simp: workspacesOk_def s' distinct_update intro: workspaceOk_append split: if_splits)
qed

section \<open>All invariants together\<close>

definition wtInv :: "worktree_event list \<Rightarrow> wt_state \<Rightarrow> bool" where
  "wtInv es s \<longleftrightarrow> plansOk es s \<and> workspacesOk es s \<and> snapshotsOk es s \<and> promotionInv es s \<and>
     (\<forall>k. activeAttempt s k = leaseHolder k es)"

definition numbered :: "worktree_event list \<Rightarrow> bool" where
  "numbered events \<longleftrightarrow> map sessionSeq events = [1..<Suc (length events)]"

lemma numbered_nth: "numbered events \<Longrightarrow> n < length events \<Longrightarrow> sessionSeq (events ! n) = Suc n"
  using nth_map [of n events sessionSeq] nth_upt [of 1 n "Suc (length events)"] by (simp add: numbered_def del: upt_Suc)

text \<open>The creation a baseline refers to is among the events read before.\<close>

lemma lastCreated_before:
  assumes "numbered events" "events = es @ e # fs" "lastCreated events (sessionSeq e) k = Some (identity, i)"
  shows "wi_workspaceId identity = k \<and> (\<exists>c. happens es c (isCreation identity i))"
proof -
  from assms(3) obtain c where c: "c \<in> set events" "createdBefore (sessionSeq e) k c = Some (identity, i)"
    by (auto simp: lastCreated_def bind_eq_Some_conv dest: find_eq_Some)
  then obtain n where n: "n < length events" "events ! n = c" by (auto simp: in_set_conv_nth)
  from c(2) have c': "sessionSeq c < sessionSeq e" "scope c = SessionScope" "wi_workspaceId identity = k"
      "\<exists>g. wdata c = Some (WorktreeCreated g identity i)"
    by (auto simp: createdBefore_def split: option.splits worktree_data.splits if_splits)
  have "sessionSeq e = Suc (length es)" using numbered_nth [OF assms(1), of "length es"] assms(2) by simp
  with c'(1) numbered_nth [OF assms(1) n(1)] n(2) have "n < length es" by simp
  with n(2) assms(2) c'(2,4) have "happens es n (isCreation identity i)"
    by (auto simp: happens_def isCreation_def nth_append)
  with c'(3) show ?thesis by blast
qed

lemma snapshotsOk_D:
  assumes "snapshotsOk es s" "map_of (w_workspaces s) k = Some w" "mw_lastSnapshot w = Some sn"
  obtains i where "i < length es" "happens es i (isSnapshotOf k (sn_sha256 sn))"
  using assms happens_less unfolding snapshotsOk_def by blast

lemma promotionInv_step:
  assumes "promotionInv es s" "snapshotsOk es s" "scope e = SessionScope" "wdata e = Some d" "onWorktreeEvent events e d s = Inr s'"
  shows "promotionInv (es @ [e]) s'"
proof (cases d)
  case (PromotionProposed g b h)
  with assms show ?thesis using promotionInv_step_proposed [of es s e g b h s'] snapshotsOk_D [OF assms(2)]
    by (simp add: onWorktreeEvent_def) blast
next
  case (PromotionApproved g v)
  with assms show ?thesis using promotionInv_step_approved [of es s e g v] by (simp add: onWorktreeEvent_def)
next
  case (PromotionRequested g v)
  with assms show ?thesis using promotionInv_step_requested [of es s e g v] by (simp add: onWorktreeEvent_def)
next
  case (PromotionApplied g v)
  with assms show ?thesis using promotionInv_step_applied [of es s e g v] by (simp add: onWorktreeEvent_def)
next
  case (GoalChangeRecorded v)
  with assms show ?thesis using promotionInv_step_change [of es s e v] by (simp add: onWorktreeEvent_def)
next
  case (OriginVerificationApproved g t a)
  with assms show ?thesis using promotionInv_step_verification_approved [of es s e g t a] by (simp add: onWorktreeEvent_def)
next
  case (OriginVerificationRequested g t a)
  with assms show ?thesis using promotionInv_step_verification_requested [of es s e g t a] by (simp add: onWorktreeEvent_def)
next
  case (OriginVerificationCompleted g v)
  with assms show ?thesis using promotionInv_step_verification_completed [of es s e g v] by (simp add: onWorktreeEvent_def)
qed (use assms promotions_frame [OF assms(5)] verifications_frame [OF assms(5)] in \<open>simp_all add: promotionInv_frame\<close>)

lemma plansOk_step:
  assumes "plansOk es s" "scope e = SessionScope" "wdata e = Some d" "onWorktreeEvent events e d s = Inr s'"
  shows "plansOk (es @ [e]) s'"
proof (cases d)
  case (AllocationPrepared g v)
  with assms show ?thesis using plansOk_prepared [of es s e g v] by (simp add: onWorktreeEvent_def)
next
  case (AllocationApproved g v)
  with assms show ?thesis using plansOk_approved [of es s e g v] by (simp add: onWorktreeEvent_def)
next
  case (CreateRequested g v)
  with assms show ?thesis using plansOk_requested [of es s e g v] by (simp add: onWorktreeEvent_def)
qed (use assms allocation_frame [OF assms(4)] in \<open>simp_all add: plansOk_frame\<close>)

lemma workspaces_keys:
  assumes "onWorktreeEvent events e d s = Inr s'" "distinct (map fst (w_workspaces s))"
  shows "distinct (map fst (w_workspaces s'))"
  using assms
  by (cases d) (auto simp: onWorktreeEvent_def worktree_cases worktree_sets Let_def distinct_update
      split: option.splits if_splits prod.splits)

lemma workspacesOk_step:
  assumes "workspacesOk es s" "plansOk es s" "scope e = SessionScope" "wdata e = Some d" "onWorktreeEvent events e d s = Inr s'"
    and "\<And>k identity i. lastCreated events (sessionSeq e) k = Some (identity, i) \<Longrightarrow>
      wi_workspaceId identity = k \<and> (\<exists>c. happens es c (isCreation identity i))"
  shows "workspacesOk (es @ [e]) s'"
proof (cases "\<exists>g b k. d = BaselineSeeded g b k")
  case True
  then obtain g b k where d: "d = BaselineSeeded g b k" by blast
  show ?thesis by (rule workspacesOk_seeded [of es s e g b k events]) (use assms d in \<open>simp_all add: onWorktreeEvent_def\<close>)
next
  case False
  have "workspaceOk (es @ [e]) k w'" if "map_of (w_workspaces s') k = Some w'" for k w'
  proof -
    from workspace_step [OF assms(5) that] False obtain w where w: "map_of (w_workspaces s) k = Some w"
        "mw_baseline w' = mw_baseline w" "mw_identity w' = mw_identity w" "mw_nodeIds w' = mw_nodeIds w"
        "mw_operationId w' = mw_operationId w" "mw_plan w' = mw_plan w" by metis
    from assms(1) w(1) have "workspaceOk es k w" by (auto simp: workspacesOk_def)
    then show ?thesis using workspaceOk_cong [OF w(2-6)] workspaceOk_append by blast
  qed
  then show ?thesis using assms(1) workspaces_keys [OF assms(5)] by (simp add: workspacesOk_def del: map_of_eq_Some_iff)
qed

lemma seeded_snapshot:
  "onWorktreeEvent events e (BaselineSeeded g b k) s = Inr s' \<Longrightarrow> map_of (w_workspaces s') k = Some w \<Longrightarrow> mw_lastSnapshot w = None"
  by (auto simp: onWorktreeEvent_def onSeeded_def worktree_sets split: option.splits if_splits)

lemma snapshotsOk_step:
  assumes "snapshotsOk es s" "scope e = SessionScope" "wdata e = Some d" "onWorktreeEvent events e d s = Inr s'"
  shows "snapshotsOk (es @ [e]) s'"
  unfolding snapshotsOk_def
proof (intro allI impI)
  fix k w' sn assume w': "map_of (w_workspaces s') k = Some w'" "mw_lastSnapshot w' = Some sn"
  with seeded_snapshot assms(4) have "\<forall>g b. d \<noteq> BaselineSeeded g b k" by fastforce
  from workspace_step [OF assms(4) w'(1) this] obtain w where w: "map_of (w_workspaces s) k = Some w"
      and sn: "mw_lastSnapshot w' = mw_lastSnapshot w \<or> (\<exists>g v. d = SnapshotAccepted g v \<and> sad_workspace_id v = k \<and>
       map_option sn_sha256 (mw_lastSnapshot w') = Some (sad_snapshot_sha256 v))" by metis
  from sn show "\<exists>i. happens (es @ [e]) i (isSnapshotOf k (sn_sha256 sn))"
  proof
    assume "mw_lastSnapshot w' = mw_lastSnapshot w"
    then show ?thesis using snapshotsOk_D [OF assms(1) w, of sn] w'(2) happens_append by metis
  next
    assume "\<exists>g v. d = SnapshotAccepted g v \<and> sad_workspace_id v = k \<and>
       map_option sn_sha256 (mw_lastSnapshot w') = Some (sad_snapshot_sha256 v)"
    with assms(2,3) w'(2) have "happens (es @ [e]) (length es) (isSnapshotOf k (sn_sha256 sn))"
      by (auto intro!: happens_last simp: isSnapshotOf_def)
    then show ?thesis by blast
  qed
qed

lemma leaseHolder_snoc: "leaseHolder k (es @ [e]) = leaseStep k e (leaseHolder k es)"
  by (simp add: leaseHolder_def)

lemma wtInv_append:
  assumes "wtInv es s" "s' = s\<lparr>w_lastSessionSeq := n\<rparr>" and "\<And>k. leaseHolder k (es @ fs) = leaseHolder k es"
  shows "wtInv (es @ fs) s'"
proof -
  have "plansOk (es @ fs) s'" "promotionInv (es @ fs) s'"
    using plansOk_frame [of es s s' fs] promotionInv_frame [of es s s' fs] assms(1,2) by (simp_all add: wtInv_def)
  moreover have "workspacesOk (es @ fs) s'"
    using assms(1,2) by (auto simp: wtInv_def workspacesOk_def intro: workspaceOk_append)
  moreover have "snapshotsOk (es @ fs) s'"
  proof -
    have "snapshotsOk es s" "w_workspaces s' = w_workspaces s" using assms(1,2) by (simp_all add: wtInv_def)
    then show ?thesis unfolding snapshotsOk_def by (metis happens_append)
  qed
  moreover have "activeAttempt s' k = leaseHolder k (es @ fs)" for k
    using assms by (simp add: wtInv_def activeAttempt_def)
  ultimately show ?thesis by (simp add: wtInv_def)
qed

lemma wtInv_step:
  assumes inv: "wtInv es s" and step: "worktreeStep events s e = Inr s'" and log: "numbered events" "events = es @ e # fs"
  shows "wtInv (es @ [e]) s'"
  using step
proof (cases rule: worktreeStep_cases)
  case skip
  then show ?thesis
    by (intro wtInv_append [OF inv]) (auto simp: leaseHolder_snoc leaseStep_def)
next
  case (event d)
  let ?s = "s\<lparr>w_lastSessionSeq := max (w_lastSessionSeq s) (sessionSeq e)\<rparr>"
  have ok: "wtInv es ?s" using wtInv_append [OF inv refl, of "[]"] by simp
  from ok have "plansOk (es @ [e]) s'" unfolding wtInv_def by (elim conjE) (rule plansOk_step [OF _ event])
  moreover from ok have "workspacesOk (es @ [e]) s'" unfolding wtInv_def
    by (elim conjE) (rule workspacesOk_step [OF _ _ event lastCreated_before [OF log]])
  moreover from ok have "snapshotsOk (es @ [e]) s'" unfolding wtInv_def by (elim conjE) (rule snapshotsOk_step [OF _ event])
  moreover from ok have "promotionInv (es @ [e]) s'" unfolding wtInv_def by (elim conjE) (rule promotionInv_step [OF _ _ event])
  moreover from ok have "activeAttempt s' k = leaseHolder k (es @ [e])" for k
    unfolding wtInv_def leaseHolder_snoc activeAttempt_event [OF event(3,1,2)] by simp
  ultimately show ?thesis unfolding wtInv_def by blast
qed

definition wtLogInv :: "worktree_event list \<Rightarrow> worktree_event list \<Rightarrow> wt_state \<Rightarrow> bool" where
  "wtLogInv events es s \<longleftrightarrow> (numbered events \<and> (\<exists>fs. events = es @ fs) \<longrightarrow> wtInv es s)"

interpretation wt: log_projector "worktreeStep events" wt_init "wtLogInv events" for events
proof
  show "wtLogInv events [] wt_init"
    by (auto simp: wtLogInv_def wtInv_def wt_init_def plansOk_def workspacesOk_def snapshotsOk_def promotionInv_def proposalsOk_def
        referencesOk_def verificationsOk_def activeAttempt_def leaseHolder_def)
next
  fix es s e s' assume "wtLogInv events es s" "worktreeStep events s e = Inr s'"
  then show "wtLogInv events (es @ [e]) s'" using wtInv_step [of es s events e s'] by (auto simp: wtLogInv_def)
qed

lemma projectWorktrees_inv:
  assumes "projectWorktrees events = Inr w" "numbered events"
  obtains s where "efold (worktreeStep events) wt_init events = Inr s" "w = wtProjection s" "wtInv events s"
proof -
  from assms(1) obtain s where s: "efold (worktreeStep events) wt_init events = Inr s" "w = wtProjection s"
    by (auto simp: projectWorktrees_def err_simps)
  with wt.log_run [OF s(1)] assms(2) have "wtInv events s" by (simp add: wtLogInv_def)
  with s that show thesis by blast
qed

section \<open>Leases exclude each other\<close>

definition acquires :: "string \<Rightarrow> string \<Rightarrow> worktree_event \<Rightarrow> bool" where
  "acquires k a e \<longleftrightarrow> scope e = SessionScope \<and> (case wdata e of
     Some (LeaseAcquired _ v) \<Rightarrow> ld_workspace_id v = k \<and> ld_attempt_id v = a | _ \<Rightarrow> False)"

definition releases :: "string \<Rightarrow> string \<Rightarrow> worktree_event \<Rightarrow> bool" where
  "releases k a e \<longleftrightarrow> scope e = SessionScope \<and> (case wdata e of
     Some (LeaseReleased _ v _) \<Rightarrow> ld_workspace_id v = k \<and> ld_attempt_id v = a | _ \<Rightarrow> False)"

definition seeds :: "string \<Rightarrow> worktree_event \<Rightarrow> bool" where
  "seeds k e \<longleftrightarrow> scope e = SessionScope \<and> (case wdata e of Some (BaselineSeeded _ _ workspaceId) \<Rightarrow> workspaceId = k | _ \<Rightarrow> False)"

text \<open>An accepted event finds the lease as it needs it.\<close>

lemma lease_guards:
  assumes "worktreeStep events s e = Inr s'"
  shows "acquires k a e \<Longrightarrow> activeAttempt s k = None"
    and "activeAttempt s k = Some b \<Longrightarrow> leaseStep k e (Some b) = Some b \<or> releases k b e \<or> seeds k e"
  using assms
  by (auto simp: worktreeStep_def onWorktreeEvent_def acquires_def releases_def seeds_def leaseStep_def activeAttempt_def
      onLeased_def onLeaseReleased_def onSeeded_def worktree_sets Let_def
      split: if_splits option.splits worktree_data.splits)

lemma worktree_prefix:
  assumes "efold (worktreeStep events) wt_init events = Inr t" "numbered events" "n < length events"
  obtains s s' where "wtInv (take n events) s" "worktreeStep events s (events ! n) = Inr s'"
proof -
  have split: "events = take n events @ events ! n # drop (Suc n) events" using id_take_nth_drop [OF assms(3)] .
  with assms(1) have "efold (worktreeStep events) wt_init (take n events @ events ! n # drop (Suc n) events) = Inr t" by simp
  from wt.log_prefix [OF this] obtain s where s: "wtLogInv events (take n events) s"
      "efold (worktreeStep events) s (events ! n # drop (Suc n) events) = Inr t" by blast
  from s(1) assms(2) split have "wtInv (take n events) s" unfolding wtLogInv_def by blast
  moreover from s(2) obtain s' where "worktreeStep events s (events ! n) = Inr s'" by (auto simp: err_simps)
  ultimately show thesis by (rule that)
qed

lemma lease_kept:
  assumes run: "efold (worktreeStep events) wt_init events = Inr t" "numbered events"
    and i: "acquires k a (events ! i)" "i < j" "j \<le> length events"
    and free: "\<forall>l. i < l \<and> l < j \<longrightarrow> \<not> releases k a (events ! l) \<and> \<not> seeds k (events ! l)"
  shows "leaseHolder k (take j events) = Some a"
  using i(2,3) free
proof (induction j rule: less_induct)
  case (less j)
  from less.prems obtain m where m: "j = Suc m" "i \<le> m" "m < length events" by (cases j) auto
  have snoc: "take j events = take m events @ [events ! m]" using m by (simp add: take_Suc_conv_app_nth)
  show ?case
  proof (cases "m = i")
    case True
    with i(1) snoc show ?thesis
      by (auto simp: leaseHolder_snoc acquires_def leaseStep_def split: option.splits worktree_data.splits)
  next
    case False
    with m less.IH [of m] less.prems(3) have holder: "leaseHolder k (take m events) = Some a" by simp
    from worktree_prefix [OF run m(3)] obtain s s' where "wtInv (take m events) s" "worktreeStep events s (events ! m) = Inr s'" .
    with holder lease_guards(2) [of events s "events ! m" s' k a] less.prems(3) m False show ?thesis
      unfolding snoc leaseHolder_snoc by (auto simp: wtInv_def)
  qed
qed

section \<open>Pending operations\<close>

definition opens :: "worktree_event \<Rightarrow> string \<Rightarrow> bool" where
  "opens e i \<longleftrightarrow> scope e = SessionScope \<and> (case wdata e of
     Some (CreateRequested _ v) \<Rightarrow> crd_operation_id v = i
   | Some (PromotionRequested _ v) \<Rightarrow> prq_operation_id v = i
   | Some (OriginVerificationRequested _ t _) \<Rightarrow> vt_verification_id t = i
   | Some (CleanupRequested _ op _) \<Rightarrow> op = i
   | Some (WorktreeReconciled _ observed op _) \<Rightarrow> op = i \<and> observed \<in> {applied_divergent, observed_not_known}
   | _ \<Rightarrow> False)"

definition closes :: "worktree_event list \<Rightarrow> worktree_event \<Rightarrow> string \<Rightarrow> bool" where
  "closes events e i \<longleftrightarrow> scope e = SessionScope \<and> (case wdata e of
     Some (BaselineSeeded _ _ k) \<Rightarrow> map_option snd (lastCreated events (sessionSeq e) k) = Some i
   | Some (PromotionApplied _ v) \<Rightarrow> pap_operation_id v = i
   | Some (OriginVerificationCompleted _ v) \<Rightarrow> vt_verification_id (vc_target v) = i \<and> vc_status v \<noteq> vo_reconciliation_required
   | Some (CleanupCompleted _ op _ _) \<Rightarrow> op = i
   | Some (WorktreeReconciled _ observed op _) \<Rightarrow> op = i \<and> observed \<in> {applied_exact, not_applied}
   | _ \<Rightarrow> False)"

lemma pending_step:
  assumes "worktreeStep events s e = Inr s'"
  shows "i \<in> set (w_pending s') \<longleftrightarrow> opens e i \<or> (i \<in> set (w_pending s) \<and> \<not> closes events e i)"
  using assms
proof (cases rule: worktreeStep_cases)
  case skip
  then show ?thesis by (auto simp: opens_def closes_def)
next
  case (event d)
  moreover have "x \<noteq> not_applied \<Longrightarrow> x \<noteq> applied_exact \<Longrightarrow> x \<noteq> observed_not_known \<Longrightarrow> x = applied_divergent" for x
    by (cases x) simp_all
  ultimately show ?thesis
    by (cases d) (auto simp: opens_def closes_def onWorktreeEvent_def worktree_cases worktree_sets Let_def set_ops
        split: option.splits if_splits prod.splits)
qed

lemma pending_distinct_step:
  assumes "worktreeStep events s e = Inr s'" "distinct (w_pending s)"
  shows "distinct (w_pending s')"
  using assms(1)
proof (cases rule: worktreeStep_cases)
  case skip
  then show ?thesis using assms(2) by simp
next
  case (event d)
  then show ?thesis using assms(2)
    by (cases d) (auto simp: onWorktreeEvent_def worktree_cases worktree_sets Let_def distinct_ops
        split: option.splits if_splits prod.splits)
qed

text \<open>The operations open after a list of events, as the log shows them.\<close>

definition openAfter :: "worktree_event list \<Rightarrow> worktree_event list \<Rightarrow> string \<Rightarrow> bool" where
  "openAfter events es i \<longleftrightarrow> (\<exists>n<length es. opens (es ! n) i \<and> (\<forall>m. n < m \<and> m < length es \<longrightarrow> \<not> closes events (es ! m) i))"

lemma openAfter_snoc: "openAfter events (es @ [e]) i \<longleftrightarrow> opens e i \<or> (openAfter events es i \<and> \<not> closes events e i)"
  (is "?l \<longleftrightarrow> ?r")
proof
  assume ?l
  then obtain n where n: "n < Suc (length es)" "opens ((es @ [e]) ! n) i"
      "\<forall>m. n < m \<and> m < Suc (length es) \<longrightarrow> \<not> closes events ((es @ [e]) ! m) i" by (auto simp: openAfter_def)
  show ?r
  proof (cases "n = length es")
    case False
    with n(1) have "n < length es" by simp
    then have "openAfter events es i" using n(2,3) unfolding openAfter_def by (metis less_Suc_eq nth_append)
    moreover have "\<not> closes events e i" using n(3) \<open>n < length es\<close> by (metis lessI nth_append_length)
    ultimately show ?thesis by blast
  qed (use n(2) in simp)
next
  assume ?r
  then show ?l
  proof
    assume "opens e i"
    then show ?l unfolding openAfter_def by (intro exI [of _ "length es"]) auto
  next
    assume "openAfter events es i \<and> \<not> closes events e i"
    then show ?l unfolding openAfter_def by (force simp: nth_append less_Suc_eq)
  qed
qed

definition pendingInv :: "worktree_event list \<Rightarrow> worktree_event list \<Rightarrow> wt_state \<Rightarrow> bool" where
  "pendingInv events es s \<longleftrightarrow> distinct (w_pending s) \<and> (\<forall>i. i \<in> set (w_pending s) \<longleftrightarrow> openAfter events es i)"

interpretation pending: log_projector "worktreeStep events" wt_init "pendingInv events" for events
proof
  show "pendingInv events [] wt_init" by (simp add: pendingInv_def wt_init_def openAfter_def)
next
  fix es s e s' assume "pendingInv events es s" "worktreeStep events s e = Inr s'"
  then show "pendingInv events (es @ [e]) s'"
    unfolding pendingInv_def openAfter_snoc by (simp add: pending_step pending_distinct_step)
qed

end
