(* ===== verification/DemoWorktree.thy ===== *)
theory DemoWorktree
  imports WorktreeHistories
begin

text \<open>
  A concrete session with a managed worktree: it is allocated, created and seeded, leased for an
  attempt whose snapshot is accepted, its bundle is proposed, approved, requested, recorded and
  applied, and the origin is verified; then a cleanup is requested and a second attempt leases
  the workspace.
\<close>

definition wtRef :: graph_ref where
  "wtRef = \<lparr>gr_graph_id = ''u'', gr_graph_revision = 1, gr_graph_sha256 = ''h''\<rparr>"

definition wtPlan :: allocation_plan where
  "wtPlan = \<lparr>alp_baseCommit = ''c'', alp_baselineManifestSha256 = ''m'', alp_dirtyOverlaySha256 = None, alp_graph = wtRef,
     alp_managedRelativeRef = js ''r'', alp_nodeIds = [''a''], alp_operationId = ''o1'', alp_originStatusSha256 = ''s'',
     alp_repository = \<lparr>ri_baseCommit = ''c'', ri_gitCommonDirSha256 = ''d'', ri_objectFormat = format_sha1,
       ri_originRootSha256 = ''t'', ri_repositoryId = ''R''\<rparr>,
     alp_repositoryRulesSha256 = ''l'', alp_requestedBytes = 1, alp_requestedFiles = 1, alp_workspaceId = ''w''\<rparr>"

definition wtIdentity :: worktree_identity where
  "wtIdentity = \<lparr>wi_allocationPlanSha256 = ''p'', wi_baseCommit = ''c'', wi_graphId = ''u'', wi_managedPathSha256 = ''q'',
     wi_managedRelativeRef = js ''r'', wi_repositoryId = ''R'', wi_sourceNodeId = ''a'', wi_workspaceId = ''w''\<rparr>"

definition wtBaseline :: baseline_manifest where
  "wtBaseline = \<lparr>bm_baseCommit = ''c'', bm_entries = [], bm_manifestSha256 = ''m'', bm_originStatusSha256 = ''s'', bm_totalBytes = 0\<rparr>"

definition wtBundle :: promotion_bundle where
  "wtBundle = \<lparr>pb_attemptId = ''x1'', pb_baselineManifestSha256 = ''m'', pb_bundleSha256 = ''b'',
     pb_entries = [\<lparr>pe_bytes = 1, pe_kind = bundle_add, pe_mode = mode_100644, pe_path = js ''f'', pe_postSha256 = Some ''y'',
       pe_preSha256 = None\<rparr>],
     pb_graph = wtRef, pb_nodeId = ''a'', pb_targetSnapshotSha256 = ''g'', pb_totalBytes = 1, pb_workspaceId = ''w'',
     pb_workspaceSnapshotSha256 = ''n''\<rparr>"

definition wtChange :: promotion_change where
  "wtChange = \<lparr>pch_files = [\<lparr>pf_bytes = 1, pf_kind = promotion_add, pf_mode = mode_100644, pf_path = js ''f'', pf_post_sha256 = ''y'',
       pf_pre_sha256 = None\<rparr>],
     pch_goal_id = ''g'', pch_goal_revision = 1,
     pch_source = \<lparr>pso_approval_event_id = ''e11'', pso_attempt_id = ''x1'', pso_bundle_sha256 = ''b'', pso_graph = wtRef,
       pso_node_id = ''a'', pso_operation_id = ''o2'', pso_proposal_event_id = ''e10'', pso_request_event_id = ''e12'',
       pso_workspace_id = ''w''\<rparr>\<rparr>"

definition wtVerification :: verification_target where
  "wtVerification = \<lparr>vt_action_sha256 = ''ac'', vt_bundle_sha256 = ''b'', vt_command_sha256 = ''co'',
     vt_origin_source_snapshot_sha256 = ''os'', vt_promotion_operation_id = ''o2'', vt_verification_id = ''v'',
     vt_verification_node_id = ''n'', vt_workspace_id = ''w''\<rparr>"

definition wtEvent :: "nat \<Rightarrow> string \<Rightarrow> event_data \<Rightarrow> worktree_data option \<Rightarrow> worktree_event" where
  "wtEvent n i d x = \<lparr>eventId = i, sessionId = ''s'', sessionSeq = n, sourceSchemaVersion = 2, scope = SessionScope, edata = d, wdata = x\<rparr>"

definition wtOf :: "nat \<Rightarrow> string \<Rightarrow> worktree_data \<Rightarrow> worktree_event" where
  "wtOf n i x = wtEvent n i (OtherEvent ''worktree'') (Some x)"

definition wtLease :: "string \<Rightarrow> lease_data" where
  "wtLease a = \<lparr>ld_attempt_id = a, ld_node_id = ''a'', ld_workspace_id = ''w''\<rparr>"

definition wtLog :: "worktree_event list" where
  "wtLog =
    [wtOf 1 ''e1'' (AllocationPrepared wtRef \<lparr>pd_allocation_plan = wtPlan, pd_allocation_plan_sha256 = ''p''\<rparr>),
     wtOf 2 ''e2'' (AllocationApproved wtRef \<lparr>aad_allocation_plan_sha256 = ''p'', aad_approval_request_id = ''q1'', aad_workspace_id = ''w''\<rparr>),
     wtOf 3 ''e3'' (CreateRequested wtRef \<lparr>crd_allocation_plan_sha256 = ''p'', crd_operation_id = ''o1'', crd_workspace_id = ''w''\<rparr>),
     wtOf 4 ''e4'' (WorktreeCreated wtRef wtIdentity ''o1''),
     wtOf 5 ''e5'' (BaselineSeeded wtRef wtBaseline ''w''),
     wtOf 6 ''e6'' (LeaseAcquired wtRef (wtLease ''x1'')),
     wtOf 7 ''e7'' (SnapshotAccepted wtRef \<lparr>sad_attempt_id = ''x1'', sad_changed_bytes = 1, sad_changed_files = 1, sad_node_id = ''a'',
        sad_snapshot_sha256 = ''n'', sad_workspace_id = ''w''\<rparr>),
     wtEvent 8 ''e8'' (TaskNodeAttemptTerminal wtRef \<lparr>atd_attempt_id = ''x1'', atd_budget = \<lparr>attempts = 1, durationMs = 0, modelSteps = 1,
        commandExecutions = 0, commandOutputBytes = 0, changedFiles = 0, changedBytes = 0, artifactBytes = 0, reportedTokens = None\<rparr>,
        atd_node_id = ''a'', atd_terminal = at_succeeded, atd_usage_completeness = usage_complete\<rparr>) None,
     wtOf 9 ''e9'' (LeaseReleased wtRef (wtLease ''x1'') ''e8''),
     wtOf 10 ''e10'' (PromotionProposed wtRef wtBundle ''b''),
     wtOf 11 ''e11'' (PromotionApproved wtRef \<lparr>pad_approval_request_id = ''q2'', pad_bundle_sha256 = ''b'', pad_target_snapshot_sha256 = ''g''\<rparr>),
     wtOf 12 ''e12'' (PromotionRequested wtRef \<lparr>prq_approval_request_id = ''q2'', prq_bundle_sha256 = ''b'', prq_operation_id = ''o2'',
        prq_target_snapshot_sha256 = ''g''\<rparr>),
     wtOf 13 ''e13'' (GoalChangeRecorded wtChange),
     wtOf 14 ''e14'' (PromotionApplied wtRef \<lparr>pap_bundle_sha256 = ''b'', pap_changed_paths = [js ''f''], pap_operation_id = ''o2'',
        pap_origin_source_snapshot_sha256 = ''os'', pap_result_snapshot_sha256 = ''rs''\<rparr>),
     wtOf 15 ''e15'' (OriginVerificationApproved wtRef wtVerification ''q3''),
     wtOf 16 ''e16'' (OriginVerificationRequested wtRef wtVerification ''q3''),
     wtOf 17 ''e17'' (OriginVerificationCompleted wtRef \<lparr>vc_target = wtVerification, vc_after_source_state_sha256 = ''os'',
        vc_before_source_state_sha256 = ''os'', vc_cleanup_verified = True, vc_exit_code = Some 0, vc_receipt_artifact_id = ''ra'',
        vc_receipt_sha256 = ''r'', vc_status = vo_passed, vc_termination = vtm_exit\<rparr>),
     wtOf 18 ''e18'' (CleanupRequested wtRef ''o3'' ''w''),
     wtOf 19 ''e19'' (LeaseAcquired wtRef (wtLease ''x2''))]"

lemmas wt_data = wtOf_def wtEvent_def wtLease_def wtRef_def wtPlan_def wtIdentity_def wtBaseline_def wtBundle_def wtChange_def
  wtVerification_def

lemma wtLog_length: "length wtLog = 19"
  by (simp add: wtLog_def)

lemma wtLog_numbered: "numbered wtLog"
  by (simp add: numbered_def wtLog_length del: upt_Suc) (simp add: wtLog_def wtOf_def wtEvent_def upt_rec)

lemma wtLog_checked: "assertDecodedStoredEventInvariants (map stored_event.truncate wtLog) \<noteq> Inl c"
  by (simp add: wtLog_def wtOf_def wtEvent_def assertDecodedStoredEventInvariants_def stored_event.defs checkEvent_def log_init_def Let_def)

lemma wtLog_created: "lastCreated wtLog 5 ''w'' = Some (wtIdentity, ''o1'')"
  by (simp add: wtLog_def lastCreated_def createdBefore_def wtOf_def wtEvent_def wtIdentity_def)

lemma wtLog_terminal: "find (\<lambda>c. eventId c = ''e8'') wtLog = Some (wtLog ! 7)" "isAttemptTerminal (edata (wtLog ! 7))"
  by (simp_all add: wtLog_def wtOf_def wtEvent_def)

lemma wtLog_chain:
  "find (\<lambda>c. eventId c = ''e10'') wtLog = Some (wtLog ! 9)" "find (\<lambda>c. eventId c = ''e11'') wtLog = Some (wtLog ! 10)"
  "find (\<lambda>c. eventId c = ''e12'') wtLog = Some (wtLog ! 11)"
  by (simp_all add: wtLog_def wtOf_def wtEvent_def)

text \<open>The state after the log; what the cases read of the whole log is given as hypotheses.\<close>

definition wtPromotion :: promotion where
  "wtPromotion = \<lparr>pm_appliedEventId = Some ''e14'', pm_approvalRequestId = Some ''q2'', pm_bundle = wtBundle,
     pm_goalChangeEventId = Some ''e13'', pm_operationId = Some ''o2'', pm_originSourceSnapshotSha256 = Some ''os'',
     pm_proposalEventId = ''e10'', pm_resultSnapshotSha256 = Some ''rs'', pm_status = ps_applied\<rparr>"

definition wtVerified :: origin_verification where
  "wtVerified = \<lparr>ov_target = wtVerification, ov_approvalRequestId = ''q3'', ov_approvedEventId = ''e15'',
     ov_completedEventId = Some ''e17'', ov_receiptArtifactId = Some ''ra'', ov_receiptSha256 = Some ''r'',
     ov_requestedEventId = Some ''e16'', ov_status = OvCompleted vo_passed\<rparr>"

definition wtWorkspace :: managed_workspace where
  "wtWorkspace = \<lparr>mw_activeAttemptId = Some ''x2'', mw_baseline = wtBaseline, mw_identity = wtIdentity,
     mw_lastSnapshot = Some \<lparr>sn_attemptId = ''x1'', sn_changedBytes = 1, sn_changedFiles = 1, sn_nodeId = ''a'', sn_sha256 = ''n''\<rparr>,
     mw_nodeIds = [''a''], mw_operationId = ''o1'', mw_plan = wtPlan, mw_status = ws_active\<rparr>"

definition wtView :: worktree_projection where
  "wtView = \<lparr>wp_lastSessionSeq = 19, wp_originVerifications = [wtVerified], wp_pendingOperationIds = [''o3''],
     wp_promotions = [wtPromotion], wp_workspaces = [wtWorkspace]\<rparr>"

lemmas wt_eval = worktreeStep_def onWorktreeEvent_def worktree_cases worktree_sets planOf_def requestedPromotion_def
  exactGraphRef_def setAdd_def setDelete_def fileMatches_def changeMatches_def sameTarget_def passedExactly_def Let_def

lemma wtLog_run:
  assumes "lastCreated events 5 ''w'' = Some (wtIdentity, ''o1'')" "find (\<lambda>c. eventId c = ''e8'') events = Some c"
    "isAttemptTerminal (edata c)" "originChain events (wtOf 13 ''e13'' (GoalChangeRecorded wtChange)) (pch_source wtChange)
      (wtPromotion\<lparr>pm_appliedEventId := None, pm_goalChangeEventId := None, pm_originSourceSnapshotSha256 := None,
        pm_resultSnapshotSha256 := None, pm_status := ps_requested\<rparr>)"
  shows "ebind (efold (worktreeStep events) wt_init wtLog) (\<lambda>s. Inr (wtProjection s)) = Inr wtView"
  using assms
  by (simp add: wtLog_def wt_init_def wt_eval wt_data wtProjection_def wtView_def wtPromotion_def wtVerified_def wtWorkspace_def sortIds_def)

lemma wtLog_origin: "originChain wtLog (wtOf 13 ''e13'' (GoalChangeRecorded wtChange)) (pch_source wtChange)
      (wtPromotion\<lparr>pm_appliedEventId := None, pm_goalChangeEventId := None, pm_originSourceSnapshotSha256 := None,
        pm_resultSnapshotSha256 := None, pm_status := ps_requested\<rparr>)"
proof -
  have "pso_proposal_event_id (pch_source wtChange) = ''e10''" "pso_approval_event_id (pch_source wtChange) = ''e11''"
    "pso_request_event_id (pch_source wtChange) = ''e12''" "pso_operation_id (pch_source wtChange) = ''o2''"
    by (simp_all add: wtChange_def)
  moreover have "proposalSeq ''e10'' (wtLog ! 9) = Some 10" "approvalSeq ''b'' (wtLog ! 10) = Some 11"
    "requestSeq ''o2'' ''b'' (wtLog ! 11) = Some 12"
    by (simp_all add: wtLog_def wtOf_def wtEvent_def proposalSeq_def approvalSeq_def requestSeq_def)
  ultimately show ?thesis
    by (simp add: originChain_def Let_def wtLog_chain wtPromotion_def) (simp add: wtBundle_def wtOf_def wtEvent_def)
qed

lemma wtLog_projected: "projectWorktrees wtLog = Inr wtView"
  unfolding projectWorktrees_def by (rule wtLog_run [OF wtLog_created wtLog_terminal wtLog_origin])

end
