(* ===== verification/WorktreeProperties.thy ===== *)
theory WorktreeProperties
  imports DemoWorktree
begin

text \<open>
  What the worktree projector promises of a session whose log the checker accepted: nothing is
  written back to the user's repository without an approval of exactly that bundle, a
  verification that passed stands on it, every workspace was allocated by an approved plan, a
  workspace has one holder at a time, and the pending operations are exactly those the log leaves
  open.
\<close>

definition checkedLog :: "worktree_event list \<Rightarrow> bool" where
  "checkedLog events \<longleftrightarrow> \<not> isl (assertDecodedStoredEventInvariants (map stored_event.truncate events))"

lemma checkedLog_numbered:
  assumes "checkedLog events"
  shows "numbered events"
proof -
  have seq: "sessionSeq (stored_event.truncate e) = sessionSeq e" for e :: worktree_event by (simp add: stored_event.defs)
  from assms obtain ls where "assertDecodedStoredEventInvariants (map stored_event.truncate events) = Inr ls"
    by (auto simp: checkedLog_def isl_def) (metis sum.exhaust)
  from accepted_logWf [OF this] show ?thesis by (simp add: logWf_def numbered_def seq comp_def)
qed

lemma wtLog_checkedLog: "checkedLog wtLog"
  using wtLog_checked by (auto simp: checkedLog_def isl_def)

text \<open>What the invariant says of the objects of the projection.\<close>

lemma projected_promotion:
  assumes "checkedLog events" "projectWorktrees events = Inr w" "pr \<in> set (wp_promotions w)"
  shows "promotionHistory events pr"
proof -
  from projectWorktrees_inv [OF assms(2) checkedLog_numbered [OF assms(1)]] obtain s where
    s: "w = wtProjection s" "wtInv events s" by blast
  with assms(3) show ?thesis by (auto simp: wtProjection_def wtInv_def promotionInv_def proposalsOk_def)
qed

lemma projected_verification:
  assumes "checkedLog events" "projectWorktrees events = Inr w" "v \<in> set (wp_originVerifications w)"
  obtains pr where "pr \<in> set (wp_promotions w)" "verifiesPromotion (ov_target v) pr" "verificationHistory events pr v"
proof -
  from projectWorktrees_inv [OF assms(2) checkedLog_numbered [OF assms(1)]] obtain s where
    s: "w = wtProjection s" "wtInv events s" by blast
  with assms(3) have "\<exists>i. verificationOk events s i v"
    by (auto simp: wtProjection_def wtInv_def promotionInv_def verificationsOk_def) blast
  then obtain pr where "map_of (w_proposals s) (vt_bundle_sha256 (ov_target v)) = Some pr" "verifiesPromotion (ov_target v) pr"
      "verificationHistory events pr v" by (auto simp: verificationOk_def)
  with s(1) that show thesis by (force simp: wtProjection_def dest: map_of_SomeD)
qed

lemma projected_workspace:
  assumes "checkedLog events" "projectWorktrees events = Inr w" "x \<in> set (wp_workspaces w)"
  shows "workspaceOk events (wi_workspaceId (mw_identity x)) x"
    and "mw_activeAttemptId x = leaseHolder (wi_workspaceId (mw_identity x)) events"
proof -
  from projectWorktrees_inv [OF assms(2) checkedLog_numbered [OF assms(1)]] obtain s where
    s: "w = wtProjection s" "wtInv events s" by blast
  with assms(3) obtain k where k: "map_of (w_workspaces s) k = Some x" "workspaceOk events k x"
    by (auto simp: wtProjection_def wtInv_def workspacesOk_def)
  from k(2) have "wi_workspaceId (mw_identity x) = k" by (simp add: workspaceOk_def)
  with k s(2) show "workspaceOk events (wi_workspaceId (mw_identity x)) x"
    "mw_activeAttemptId x = leaseHolder (wi_workspaceId (mw_identity x)) events"
    by (auto simp: wtInv_def activeAttempt_def dest: spec [of _ k])
qed

text \<open>
  C7: A promotion that the projection shows as applied to the user's repository went through these
  events of the log, in this order: a snapshot of its workspace with the hash of its bundle was
  accepted, the bundle was proposed, it was approved for exactly its hash and target, the application
  was requested under that approval, the Goal change was recorded with exactly its files, and the
  application reported exactly its paths.
\<close>

theorem applied_promotion_authorised:
  assumes "checkedLog events" "projectWorktrees events = Inr w" "pr \<in> set (wp_promotions w)" "pm_status pr = ps_applied"
  shows "\<exists>a b c d e f. a < b \<and> b < c \<and> c < d \<and> d < e \<and> e < f \<and>
    happens events a (isSnapshotOf (pb_workspaceId (pm_bundle pr)) (pb_workspaceSnapshotSha256 (pm_bundle pr))) \<and>
    happens events b (isProposalOf pr) \<and> happens events c (isApprovalOf pr) \<and> happens events d (isRequestOf pr) \<and>
    happens events e (isChangeOf pr) \<and> happens events f (isApplicationOf pr)"
proof -
  from projected_promotion [OF assms(1-3)] assms(4) obtain f where "appliedAt events pr f"
    by (auto simp: promotionHistory_def)
  then show ?thesis
    unfolding appliedAt_def recordedAt_def requestedAt_def approvedAt_def proposedAt_def by blast
qed

theorem applied_promotion_authorised_witness:
  "checkedLog wtLog \<and> (\<exists>c d f. c < d \<and> d < f \<and> happens wtLog c (isApprovalOf wtPromotion) \<and>
     happens wtLog d (isRequestOf wtPromotion) \<and> happens wtLog f (isApplicationOf wtPromotion))"
proof -
  have "wtPromotion \<in> set (wp_promotions wtView)" "pm_status wtPromotion = ps_applied"
    by (simp_all add: wtView_def wtPromotion_def)
  from applied_promotion_authorised [OF wtLog_checkedLog wtLog_projected this] wtLog_checkedLog
  show ?thesis by (meson less_trans)
qed

text \<open>
  C8: An origin verification that the projection shows as passed is about a promotion the projection
  shows as applied, under the operation and with the resulting source snapshot that it names.  After
  that application the log has its approval, its request under the same approval and its completion,
  which reported exit code 0, a verified cleanup and that same source snapshot before and after.
\<close>

theorem passed_verification_sound:
  assumes "checkedLog events" "projectWorktrees events = Inr w" "v \<in> set (wp_originVerifications w)"
    "ov_status v = OvCompleted vo_passed"
  shows "\<exists>pr\<in>set (wp_promotions w). verifiesPromotion (ov_target v) pr \<and> (\<exists>a b c d. a < b \<and> b < c \<and> c < d \<and>
    happens events a (isApplicationOf pr) \<and> happens events b (isVerificationApproval v) \<and>
    happens events c (isVerificationRequest v) \<and>
    happens events d (\<lambda>e x. case x of OriginVerificationCompleted _ r \<Rightarrow> vc_target r = ov_target v \<and>
      vc_exit_code r = Some 0 \<and> vc_termination r = vtm_exit \<and> vc_cleanup_verified r \<and>
      vc_before_source_state_sha256 r = vt_origin_source_snapshot_sha256 (ov_target v) \<and>
      vc_after_source_state_sha256 r = vt_origin_source_snapshot_sha256 (ov_target v) | _ \<Rightarrow> False))"
proof -
  from projected_verification [OF assms(1-3)] obtain pr where
    pr: "pr \<in> set (wp_promotions w)" "verifiesPromotion (ov_target v) pr" "verificationHistory events pr v" .
  from pr(3) assms(4) obtain d where "verificationCompletedAt events pr v d" by (auto simp: verificationHistory_def)
  then obtain a b c where h: "a < b" "b < c" "c < d" "happens events a (isApplicationOf pr)"
      "happens events b (isVerificationApproval v)" "happens events c (isVerificationRequest v)"
      "happens events d (isVerificationCompletion v)"
    unfolding verificationCompletedAt_def verificationRequestedAt_def verificationApprovedAt_def appliedAt_def by blast
  have "happens events d (\<lambda>e x. case x of OriginVerificationCompleted _ r \<Rightarrow> vc_target r = ov_target v \<and>
      vc_exit_code r = Some 0 \<and> vc_termination r = vtm_exit \<and> vc_cleanup_verified r \<and>
      vc_before_source_state_sha256 r = vt_origin_source_snapshot_sha256 (ov_target v) \<and>
      vc_after_source_state_sha256 r = vt_origin_source_snapshot_sha256 (ov_target v) | _ \<Rightarrow> False)"
    using h(7) assms(4)
    by (elim happens_mono) (auto simp: isVerificationCompletion_def passedExactly_def split: worktree_data.splits)
  with h pr show ?thesis by blast
qed

theorem passed_verification_sound_witness:
  "wtVerified \<in> set (wp_originVerifications wtView) \<and> (\<exists>pr\<in>set (wp_promotions wtView). pm_status pr = ps_applied \<and>
     (\<exists>a b. a < b \<and> happens wtLog a (isApplicationOf pr) \<and> happens wtLog b (isVerificationApproval wtVerified)))"
proof -
  have v: "wtVerified \<in> set (wp_originVerifications wtView)" "ov_status wtVerified = OvCompleted vo_passed"
    by (simp_all add: wtView_def wtVerified_def)
  from passed_verification_sound [OF wtLog_checkedLog wtLog_projected this] v(1)
  show ?thesis unfolding verifiesPromotion_def by blast
qed

text \<open>
  C10: Every workspace of the projection stands on an allocation plan: the plan was prepared, then
  approved, then its creation was requested, then the baseline was seeded, all for the same plan hash,
  and before that the worktree was reported as created under the plan's operation.  The workspace
  serves the nodes of the plan and its baseline has the hash the plan names.
\<close>

theorem workspace_allocated:
  assumes "checkedLog events" "projectWorktrees events = Inr w" "x \<in> set (wp_workspaces w)"
  shows "mw_nodeIds x = alp_nodeIds (mw_plan x) \<and> mw_operationId x = alp_operationId (mw_plan x) \<and>
    bm_manifestSha256 (mw_baseline x) = alp_baselineManifestSha256 (mw_plan x) \<and>
    (\<exists>h a b c d m. a < b \<and> b < c \<and> c < d \<and> m < d \<and> happens events a (isPreparation h (mw_plan x)) \<and>
      happens events b (isAllocationApproval h (mw_plan x)) \<and> happens events c (isCreateRequest h (mw_plan x)) \<and>
      happens events m (isCreation (mw_identity x) (mw_operationId x)) \<and>
      happens events d (isSeeding (wi_workspaceId (mw_identity x)) (mw_baseline x)))"
  using projected_workspace(1) [OF assms]
  unfolding workspaceOk_def seededAt_def createRequestedAt_def planApprovedAt_def by blast

theorem workspace_allocated_witness:
  "wtWorkspace \<in> set (wp_workspaces wtView) \<and> (\<exists>h b c. b < c \<and> happens wtLog b (isAllocationApproval h wtPlan) \<and>
     happens wtLog c (isCreateRequest h wtPlan))"
proof -
  have x: "wtWorkspace \<in> set (wp_workspaces wtView)" "mw_plan wtWorkspace = wtPlan"
    by (simp_all add: wtView_def wtWorkspace_def)
  from workspace_allocated [OF wtLog_checkedLog wtLog_projected x(1)] x show ?thesis by auto
qed

text \<open>
  C9: A workspace has one holder at a time.  The attempt the projection shows as active is the one the
  log shows as the holder of the lease, and of two lease acquisitions of one workspace, between the
  first and the second, the log releases the lease of the first attempt, naming the end of an
  attempt, or seeds the workspace anew.
\<close>

theorem lease_exclusive:
  assumes "checkedLog events" "projectWorktrees events = Inr w"
  shows "(\<forall>x\<in>set (wp_workspaces w). mw_activeAttemptId x = leaseHolder (wi_workspaceId (mw_identity x)) events) \<and>
    (\<forall>k a b i j. i < j \<longrightarrow> j < length events \<longrightarrow> acquires k a (events ! i) \<longrightarrow> acquires k b (events ! j) \<longrightarrow>
      (\<exists>l. i < l \<and> l < j \<and> (releases k a (events ! l) \<or> seeds k (events ! l))))"
proof (intro conjI ballI allI impI)
  fix x assume "x \<in> set (wp_workspaces w)"
  from projected_workspace(2) [OF assms this]
  show "mw_activeAttemptId x = leaseHolder (wi_workspaceId (mw_identity x)) events" .
next
  fix k a b i j assume i: "i < j" "j < length events" "acquires k a (events ! i)" "acquires k b (events ! j)"
  from projectWorktrees_inv [OF assms(2) checkedLog_numbered [OF assms(1)]] obtain t where
    run: "efold (worktreeStep events) wt_init events = Inr t" by blast
  show "\<exists>l. i < l \<and> l < j \<and> (releases k a (events ! l) \<or> seeds k (events ! l))"
  proof (rule ccontr)
    assume no: "\<not> ?thesis"
    have kept: "leaseHolder k (take j events) = Some a"
      by (rule lease_kept [OF run checkedLog_numbered [OF assms(1)] i(3,1)]) (use i(2) no in auto)
    from worktree_prefix [OF run checkedLog_numbered [OF assms(1)] i(2)] obtain s s' where
      "wtInv (take j events) s" "worktreeStep events s (events ! j) = Inr s'" .
    with kept lease_guards(1) [of events s "events ! j" s' k b] i(4) show False by (simp add: wtInv_def)
  qed
qed

theorem lease_exclusive_witness:
  "acquires ''w'' ''x1'' (wtLog ! 5) \<and> acquires ''w'' ''x2'' (wtLog ! 18) \<and>
   (\<exists>l. 5 < l \<and> l < 18 \<and> (releases ''w'' ''x1'' (wtLog ! l) \<or> seeds ''w'' (wtLog ! l)))"
proof -
  have a: "acquires ''w'' ''x1'' (wtLog ! 5)" "acquires ''w'' ''x2'' (wtLog ! 18)"
    by (simp_all add: wtLog_def acquires_def wtOf_def wtEvent_def wtLease_def)
  have less: "(5::nat) < 18" "18 < length wtLog" by (simp_all add: wtLog_length)
  from lease_exclusive [OF wtLog_checkedLog wtLog_projected] less a
  have "\<exists>l. 5 < l \<and> l < 18 \<and> (releases ''w'' ''x1'' (wtLog ! l) \<or> seeds ''w'' (wtLog ! l))" by blast
  with a show ?thesis by blast
qed

text \<open>
  Two things the cases of the projector leave open: a baseline may be seeded again while an attempt
  holds the lease, which frees the workspace, and the event that a release names may be the end of
  any attempt.
\<close>

lemma seeded_again_frees_lease:
  assumes "lastCreated events (sessionSeq e) k = Some (identity, i)" "planOf s i = Some (r, plan)"
    "bm_manifestSha256 b = alp_baselineManifestSha256 plan" "bm_originStatusSha256 b = alp_originStatusSha256 plan"
    "exactGraphRef (alp_graph plan) g" "activeAttempt s k = Some a"
  shows "\<exists>s'. onSeeded events e g b k s = Inr s' \<and> activeAttempt s' k = None"
  using assms by (simp add: onSeeded_def setWorkspace_def activeAttempt_def)

lemma release_names_any_attempt:
  assumes "find (\<lambda>c. eventId c = t) events = Some c" "edata c = TaskNodeAttemptTerminal g x" "atd_attempt_id x \<noteq> ld_attempt_id v"
    "activeAttempt s (ld_workspace_id v) = Some (ld_attempt_id v)"
  shows "\<exists>s'. onLeaseReleased events v t s = Inr s' \<and> activeAttempt s' (ld_workspace_id v) = None"
  using assms by (auto simp: onLeaseReleased_def setWorkspace_def activeAttempt_def bind_eq_Some_conv)

text \<open>
  C11: The pending operations are a sorted list without repetitions of exactly the operations which
  the log leaves open: some event opened it (a request to create, promote, verify or clean up, or a
  reconciliation that found a divergent or unknown effect) and no later event closed it.
\<close>

theorem pending_operations_exact:
  assumes "projectWorktrees events = Inr w"
  shows "distinct (wp_pendingOperationIds w) \<and> sorted (map js (wp_pendingOperationIds w)) \<and>
    (\<forall>i. i \<in> set (wp_pendingOperationIds w) \<longleftrightarrow> (\<exists>n<length events. opens (events ! n) i \<and>
       (\<forall>m. n < m \<and> m < length events \<longrightarrow> \<not> closes events (events ! m) i)))"
proof -
  from assms obtain s where s: "efold (worktreeStep events) wt_init events = Inr s" "w = wtProjection s"
    by (auto simp: projectWorktrees_def err_simps)
  from pending.log_run [OF s(1)] show ?thesis
    by (simp add: s(2) wtProjection_def sortIds_def pendingInv_def openAfter_def)
qed

theorem pending_operations_exact_witness:
  "projectWorktrees wtLog = Inr wtView \<and> opens (wtLog ! 17) ''o3'' \<and> (\<exists>n<length wtLog. opens (wtLog ! n) ''o3'' \<and>
     (\<forall>m. n < m \<and> m < length wtLog \<longrightarrow> \<not> closes wtLog (wtLog ! m) ''o3''))"
proof -
  have "opens (wtLog ! 17) ''o3''" by (simp add: wtLog_def opens_def wtOf_def wtEvent_def)
  moreover have "''o3'' \<in> set (wp_pendingOperationIds wtView)" by (simp add: wtView_def)
  ultimately show ?thesis using pending_operations_exact [OF wtLog_projected] wtLog_projected by blast
qed

end
