(* ===== verification/Spec2Isabelle.thy ===== *)
theory Spec2Isabelle
  imports TaskStateProperties ContentProperties TaskGraphProperties TaskExecutionProperties
    DelegationProperties CompletionProperties TaskSchedulerProperties WorktreeProperties
begin

text \<open>
  Born Agent: the durable task state of a coding agent, verified.

  The program records everything it does as events of a session log and derives its state by
  projecting that log.  An event is appended only after every projector has accepted the log with it
  (\<^verbatim>\<open>src/src/sessions/v2-session-writer.ts\<close>), so what holds of every accepted log holds of every
  session.  The development models the content the events carry, the projectors, the writer where
  they meet, and the clients that decide what to append: the task scheduler, the delegation
  scheduler, the control plane and the completion policies.

  \<^bold>\<open>The parts and their theories\<close>

  \<^item> \<open>Prelude\<close>: throwing operations, folds over event logs and the locales \<open>log_projector\<close>,
    \<open>projector\<close> and \<open>projector_evolution\<close> which state once what every projector has: an
    invariant kept by each accepted event holds after every accepted log, and a relation kept by each
    event holds between a log and its extensions.
  \<^item> \<open>JsText\<close>, \<open>CanonicalJson\<close>, \<open>CapabilityId\<close>: UTF-16 strings and the stored-text
    schema, canonical JSON (the bytes every content hash is taken over), capability identities.
  \<^item> \<open>TaskGraphSchema\<close>, \<open>TaskGraphTopology\<close>: Task Graph revisions, their schema,
    normalisation and identity (\<^verbatim>\<open>src/src/task-graph/\<close>); the depth computation against the longest
    dependency chain, and the worktree lineage, a recursion that may not end
    (\<open>partial_function\<close>).
  \<^item> \<open>StoredEvents\<close>: the events of the log and the checker of a whole log
    (\<^verbatim>\<open>src/src/events/event-decoder-registry.ts\<close>).
  \<^item> \<open>PlanEvidence\<close>: Plan content, identity, and which events prove progress
    (\<^verbatim>\<open>src/src/plans/\<close>).
  \<^item> \<open>TaskStateMachine\<close>, \<open>TaskStateInvariants\<close>, \<open>TaskStateEvidence\<close>,
    \<open>TaskStateProperties\<close>: Goals and Plans, the projector of
    \<^verbatim>\<open>src/src/coordination/task-state-machine.ts\<close>.
  \<^item> \<open>TaskGraphProjector\<close>, \<open>TaskGraphLifecycle\<close>, \<open>TaskGraphProperties\<close>: the life
    of Task Graph revisions, \<^verbatim>\<open>src/src/task-graph/task-graph-projector.ts\<close>, against the abstract
    state machine \<open>lifecycle\<close>.
  \<^item> \<open>TaskBudget\<close>, \<open>TaskExecution\<close>, \<open>TaskExecutionInvariants\<close>,
    \<open>TaskExecutionHistory\<close>, \<open>TaskExecutionView\<close>, \<open>TaskExecutionProperties\<close>: the
    execution of an approved Graph, its budget ledger and its ready queue,
    \<^verbatim>\<open>src/src/scheduling/\<close>.
  \<^item> \<open>SessionWriter\<close>, \<open>TaskScheduler\<close>, \<open>TaskSchedulerProperties\<close>: the session as a
    state with exceptions, the scheduler that drives a Graph and the user's control plane over it,
    \<^verbatim>\<open>deterministic-task-scheduler.ts\<close> and \<^verbatim>\<open>task-execution-control-plane.ts\<close>.  The locale
    \<open>session_contract\<close> states what every client of the writer keeps.
  \<^item> \<open>DelegationSchema\<close>, \<open>DelegationProjector\<close>, \<open>DelegationLifecycle\<close>,
    \<open>DelegationInvariants\<close>: work handed to child agents, its content, its projector and the step
    relation \<open>dgStep\<close> the projector refines; \<open>DelegationLedger\<close>, \<open>DelegationScheduler\<close>:
    the budget ledger, conflict claims, admission and retry of children; \<open>DelegationProperties\<close>:
    what they promise (\<^verbatim>\<open>src/src/delegation/\<close>).
  \<^item> \<open>WorktreeSchema\<close>, \<open>WorktreeProjector\<close>: managed worktrees, in which attempts work, and the
    promotion of their changes to the user's repository (\<^verbatim>\<open>src/src/worktrees/\<close>);
    \<open>WorktreeInvariants\<close>, \<open>WorktreeHistories\<close>: the chain of events behind each workspace, promotion
    and origin verification, the holder of a lease and the pending operations as functions of the log;
    \<open>WorktreeProperties\<close>: what follows for the projection.
  \<^item> \<open>CompletionPolicy\<close>, \<open>CompletionProperties\<close>: when a task may be reported as finished
    (\<^verbatim>\<open>src/src/completion/\<close>), a policy over the verification evidence of a run, and one around it
    over the projections of Goals, Plans and delegations.
  \<^item> \<open>DemoSession\<close>, \<open>DemoGraph\<close>, \<open>DemoExecution\<close>, \<open>DemoDelegation\<close>, \<open>DemoWorktree\<close>: concrete inputs on
    which the theorems are applied.
  \<^item> \<open>ContentProperties\<close>: the theorems about content and logs.

  \<^bold>\<open>What is shown\<close>

  Of Goals and Plans: which is active, that history is append-only, and that nothing is shown as
  completed without recorded, successful evidence.  Of Graphs: exactly which are accepted, that they
  have no cycle, that none runs without an approval of exactly its content, that attempts respect
  dependencies, budgets and order, and that completion means every node succeeded.  Of the scheduler:
  that its run ends.  Of delegations: that a child runs only under a recorded approval, that actors,
  claims, attempts and budgets stay within bounds, and that a completed barrier stands on accepted
  work.  Of worktrees: that nothing reaches the user's repository without an approval of exactly that
  bundle, that a passed verification is about an applied promotion, that a workspace has one holder
  at a time, and which operations are pending.  Of completion: the exact conditions of acceptance, and what acceptance implies across the
  projections.  Of identities: that content hashes do not depend on the order of lists, and parse and
  print of capability ids.

  \<^bold>\<open>Conventions\<close>

  References between mutable objects are indexes into the list that owns them, so aliasing is
  that of the program.  A thrown error is a value of the left summand; an operation on the session
  also returns the session it leaves, since what was appended before an error stays.  Integers the
  program checks to be safe integers are unbounded here, with the bound in the schema.  What the
  program takes from its platform (UUID syntax, SHA-256, locale collation and case folding) is the
  record \<open>platform\<close>, an argument of the definitions; a collation is given by its sort key.

  Fuel: the scheduler's loop has the guard of 96 rounds of the source, and its exhaustion is the
  error \<open>GuardExhausted\<close>.  \<open>visitsRoot\<close> follows dependencies with as much fuel as there are
  nodes, which a path without cycles never exhausts.

  \<^bold>\<open>Not modelled\<close>

  The agent loop, the command line and the terminal interface, the durable file store, model back
  ends, sandboxing and the processes of children: they are input, output and orchestration around
  the state modelled here.  In the session of \<open>SessionWriter\<close> the projectors of worktrees, background jobs
  and Goal changes are the parameter \<open>otherChecks\<close>: its events carry no payload of theirs; the executor of attempts and the store of receipts are
  parameters of the scheduler.
\<close>

end
